(* ===== verification/Mpd_Prelude.thy ===== *)
theory Mpd_Prelude
  imports Main "HOL-Library.Word"
begin

unbundle bit_operations_syntax

text \<open>
  Shared vocabulary of the development: the machine integers of the C code as words of
  their width, network byte order (\<open>htons\<close>, \<open>htonl\<close> and their inverses as lists of
  octets), bit sets held in 32-bit words (the \<open>Enable\<close>/\<open>Enabled\<close> macros and the
  \<open>peer_reject\<close> masks use them), and the collections of lemmas the component
  theories hand to the simplifier.
\<close>

section \<open>Machine integers\<close>

type_synonym byte = "8 word"
type_synonym u16 = "16 word"
type_synonym u32 = "32 word"
type_synonym short = "16 word"

text \<open>A C \<open>short\<close> is a 16-bit word read as two's complement.\<close>

definition short_of_int :: "int \<Rightarrow> short" where
  "short_of_int i = word_of_int i"

lemma short_gt0_dec:
  assumes "0 <s (w :: short)"
  shows "sint (w - 1) = sint w - 1"
proof -
  have lo: "0 < sint w" using assms by (simp add: word_sless_alt)
  have hi: "sint w < 2 ^ 15" using sint_lt [of w] by simp
  have "sint (w - 1) = signed_take_bit 15 (sint w - 1)"
    by (simp add: sint_word_ariths)
  also have "\<dots> = sint w - 1"
    using lo hi by (intro signed_take_bit_int_eq_self) auto
  finally show ?thesis .
qed

lemma short_not_gt0: "\<not> (0 <s (w :: short)) \<longleftrightarrow> w \<le>s 0"
  by (simp add: word_sless_alt word_sle_eq not_less)

lemma unat_of_nat_small:
  "n < 2 ^ LENGTH('a) \<Longrightarrow> unat (of_nat n :: 'a::len word) = n"
  by (simp add: unsigned_of_nat take_bit_nat_eq_self)

section \<open>Network byte order\<close>

definition be16 :: "u16 \<Rightarrow> byte list" where
  "be16 w = [ucast (drop_bit 8 w), ucast w]"

definition of_be16 :: "byte \<Rightarrow> byte \<Rightarrow> u16" where
  "of_be16 a b = push_bit 8 (ucast a) OR ucast b"

definition be32 :: "u32 \<Rightarrow> byte list" where
  "be32 w = [ucast (drop_bit 24 w), ucast (drop_bit 16 w), ucast (drop_bit 8 w), ucast w]"

definition of_be32 :: "byte \<Rightarrow> byte \<Rightarrow> byte \<Rightarrow> byte \<Rightarrow> u32" where
  "of_be32 a b c d =
     push_bit 24 (ucast a) OR push_bit 16 (ucast b) OR push_bit 8 (ucast c) OR ucast d"

lemma byte_bit_ge [simp]: "8 \<le> n \<Longrightarrow> \<not> bit (b :: byte) n"
  using bit_imp_le_length [of b n] by auto

lemma length_be16 [simp]: "length (be16 w) = 2"
  by (simp add: be16_def)

lemma length_be32 [simp]: "length (be32 w) = 4"
  by (simp add: be32_def)

lemma of_be16_be16 [simp]: "of_be16 (ucast (drop_bit 8 w)) (ucast w) = (w :: u16)"
  unfolding of_be16_def
  by (rule bit_word_eqI) (auto simp: bit_simps not_less)

lemma of_be32_be32 [simp]:
  "of_be32 (ucast (drop_bit 24 w)) (ucast (drop_bit 16 w)) (ucast (drop_bit 8 w)) (ucast w)
     = (w :: u32)"
proof (rule bit_word_eqI)
  fix n :: nat
  assume "n < LENGTH(32)"
  then have "n < 32" by simp
  then consider "n < 8" | "8 \<le> n" "n < 16" | "16 \<le> n" "n < 24" | "24 \<le> n" "n < 32"
    by linarith
  then show "bit (of_be32 (ucast (drop_bit 24 w)) (ucast (drop_bit 16 w))
      (ucast (drop_bit 8 w)) (ucast w)) n = bit w n"
    by cases (auto simp: of_be32_def bit_simps)
qed

lemma be16_of_be16 [simp]: "be16 (of_be16 a b) = [a, b]"
  unfolding be16_def of_be16_def
  by (auto intro!: bit_word_eqI simp: bit_simps)

lemma be32_of_be32 [simp]: "be32 (of_be32 a b c d) = [a, b, c, d]"
  unfolding be32_def of_be32_def
  by (auto intro!: bit_word_eqI simp: bit_simps)

lemma unat_of_be16: "unat (of_be16 a b) = 256 * unat a + unat b"
proof -
  have ub: "unat a < 256" "unat b < 256"
    using unsigned_less [of a] unsigned_less [of b] by simp_all
  have "of_be16 a b = push_bit 8 (ucast a) + ucast b"
    unfolding of_be16_def
    by (subst disjunctive_add_eq_or)
      (auto intro!: bit_word_eqI simp: bit_simps)
  also have "unat \<dots> = (unat a * 256 + unat b) mod 65536"
    using ub by (simp add: unat_word_ariths push_bit_eq_mult unsigned_ucast_eq take_bit_eq_mod)
  also have "\<dots> = unat a * 256 + unat b"
    using ub by simp
  finally show ?thesis by simp
qed

text \<open>Reading fields out of an octet string; \<open>None\<close> where the C code would read past it.\<close>

fun get16 :: "byte list \<Rightarrow> u16 option" where
  "get16 (a # b # _) = Some (of_be16 a b)"
| "get16 _ = None"

fun get32 :: "byte list \<Rightarrow> u32 option" where
  "get32 (a # b # c # d # _) = Some (of_be32 a b c d)"
| "get32 _ = None"

lemma get16_be16 [simp]: "get16 (be16 w @ xs) = Some w"
  by (simp add: be16_def)

lemma get32_be32 [simp]: "get32 (be32 w @ xs) = Some w"
  by (simp add: be32_def)

lemma get16_Some_iff: "(\<exists>w. get16 xs = Some w) \<longleftrightarrow> 2 \<le> length xs"
  by (cases xs rule: get16.cases) auto

lemma get32_Some_iff: "(\<exists>w. get32 xs = Some w) \<longleftrightarrow> 4 \<le> length xs"
  by (cases xs rule: get32.cases) auto

section \<open>Bit sets in 32-bit words\<close>

text \<open>\<open>(1 << x)\<close>, \<open>m |= (1 << x)\<close>, \<open>m &= ~(1 << x)\<close> and \<open>(m & (1 << x)) != 0\<close>.\<close>

definition mask_set :: "u32 \<Rightarrow> nat \<Rightarrow> u32" where
  "mask_set m x = m OR push_bit x 1"

definition mask_clear :: "u32 \<Rightarrow> nat \<Rightarrow> u32" where
  "mask_clear m x = m AND NOT (push_bit x 1)"

definition mask_test :: "u32 \<Rightarrow> nat \<Rightarrow> bool" where
  "mask_test m x \<longleftrightarrow> m AND push_bit x 1 \<noteq> 0"

lemma mask_test_bit: "mask_test m x \<longleftrightarrow> bit m x"
proof -
  have "m AND push_bit x 1 = (if bit m x then push_bit x 1 else 0)"
    by (rule bit_word_eqI) (auto simp: bit_simps)
  moreover have "push_bit x (1 :: u32) \<noteq> 0" if "bit m x"
  proof -
    have "x < 32" using that bit_imp_le_length [of m x] by simp
    then have "bit (push_bit x (1 :: u32)) x" by (simp add: bit_simps)
    then show ?thesis by (metis bit_0_eq bot_apply bot_bool_def)
  qed
  ultimately show ?thesis by (auto simp: mask_test_def)
qed

lemma mask_test_set [simp]: "x < 32 \<Longrightarrow> mask_test (mask_set m y) x \<longleftrightarrow> x = y \<or> mask_test m x"
  by (auto simp: mask_test_bit mask_set_def bit_simps)

lemma mask_test_clear [simp]: "mask_test (mask_clear m y) x \<longleftrightarrow> x \<noteq> y \<and> mask_test m x"
  using bit_imp_le_length [of m x] by (auto simp: mask_test_bit mask_clear_def bit_simps)

lemma mask_test_0 [simp]: "\<not> mask_test 0 x"
  by (simp add: mask_test_bit)

section \<open>Lemma collections\<close>

text \<open>Unfolding rules of the protocol automaton's small helpers.\<close>
named_theorems fsm_defs

text \<open>Frame facts: which fields an operation leaves alone.\<close>
named_theorems frame

text \<open>Facts about the callback contracts.\<close>
named_theorems callback

end
