(* ===== verification/Mbuf.thy ===== *)
theory Mbuf
  imports Mpd_Prelude
begin

text \<open>
  Packet buffers (\<open>src/src/mbuf.c\<close>). An mbuf is one allocated region with a window
  \<open>mb_offset .. mb_offset + mb_cnt\<close> of live octets inside it; a NULL \<open>Mbuf\<close> is \<open>None\<close>.
  Every operation is written with its pointer arithmetic: a read or write outside the region,
  and a failed \<open>assert\<close>, is the result \<open>None\<close> of the outer \<open>option\<close>. The contents
  of freshly allocated memory are an argument \<open>fill\<close>, since the allocator does not clear
  it. The second half shows that no operation leaves its region and that on the live octets
  the operations are the list operations the rest of the development uses (\<open>data\<close> is the
  abstraction), and packages this as the interface \<open>octet_buffer\<close>.
\<close>

section \<open>The buffer and its memory\<close>

record mbuf =
  mb_mem :: "byte list"
  mb_offset :: int
  mb_cnt :: int

abbreviation "msize bp \<equiv> int (length (mb_mem bp))"

definition mem_read :: "byte list \<Rightarrow> int \<Rightarrow> int \<Rightarrow> byte list option" where
  "mem_read m off n =
     (if 0 \<le> off \<and> 0 \<le> n \<and> off + n \<le> int (length m)
      then Some (take (nat n) (drop (nat off) m)) else None)"

definition mem_write :: "byte list \<Rightarrow> int \<Rightarrow> byte list \<Rightarrow> byte list option" where
  "mem_write m off xs =
     (if 0 \<le> off \<and> off + int (length xs) \<le> int (length m)
      then Some (take (nat off) m @ xs @ drop (nat off + length xs) m) else None)"

text \<open>\<open>sizeof(struct mpdmbuf)\<close>: three \<open>int\<close> fields.\<close>

definition mb_hdr :: int where
  "mb_hdr = 12"

definition mb_osize :: "int \<Rightarrow> int" where
  "mb_osize sz =
     (if sz = 0 then 64 - mb_hdr
      else if sz < 512 then ((sz - 1) div 32 + 1) * 64 - mb_hdr
      else ((sz - 1) div 64 + 1) * 64 + 512 - mb_hdr)"

definition mballoc :: "(nat \<Rightarrow> byte) \<Rightarrow> int \<Rightarrow> mbuf option" where
  "mballoc fill sz =
     (if 0 \<le> sz
      then Some \<lparr>mb_mem = map fill [0..<nat (mb_osize sz)],
                 mb_offset = (mb_osize sz - sz) div 2, mb_cnt = 0\<rparr>
      else None)"

section \<open>Operations\<close>

definition MBLEN :: "mbuf option \<Rightarrow> int" where
  "MBLEN bp = (case bp of None \<Rightarrow> 0 | Some b \<Rightarrow> mb_cnt b)"

definition mbread :: "mbuf option \<Rightarrow> int \<Rightarrow> (mbuf option \<times> byte list) option" where
  "mbread bp n =
     (if n < 0 then None
      else case bp of
        None \<Rightarrow> Some (None, [])
      | Some b \<Rightarrow>
          (let nread = (if n > mb_cnt b then mb_cnt b else n) in
           case mem_read (mb_mem b) (mb_offset b) nread of
             None \<Rightarrow> None
           | Some xs \<Rightarrow>
               (let b' = b\<lparr>mb_offset := mb_offset b + nread, mb_cnt := mb_cnt b - nread\<rparr> in
                Some (if mb_cnt b' = 0 then None else Some b', xs))))"

definition mbcopy :: "mbuf option \<Rightarrow> int \<Rightarrow> int \<Rightarrow> byte list option" where
  "mbcopy bp off n =
     (if off < 0 \<or> n < 0 then None
      else case bp of
        None \<Rightarrow> Some []
      | Some b \<Rightarrow>
          (if off \<ge> mb_cnt b then Some []
           else mem_read (mb_mem b) (mb_offset b + off)
                  (if n > mb_cnt b - off then mb_cnt b - off else n)))"

text \<open>Making room for \<open>pre\<close> octets before and \<open>e\<close> octets after the window: a new
  region, the old one with its window moved, or the old one as it is.\<close>

definition mb_room :: "(nat \<Rightarrow> byte) \<Rightarrow> mbuf \<Rightarrow> int \<Rightarrow> int \<Rightarrow> mbuf option" where
  "mb_room fill b pre e =
     (if pre + mb_cnt b + e > msize b then
        (case mballoc fill (pre + mb_cnt b + e) of
           None \<Rightarrow> None
         | Some nb \<Rightarrow>
             (case mem_read (mb_mem b) (mb_offset b) (mb_cnt b) of
                None \<Rightarrow> None
              | Some old \<Rightarrow>
                  (case mem_write (mb_mem nb) (mb_offset nb + pre) old of
                     None \<Rightarrow> None
                   | Some m \<Rightarrow> Some (nb\<lparr>mb_mem := m, mb_cnt := mb_cnt b\<rparr>))))
      else if pre > mb_offset b \<or> mb_offset b + mb_cnt b + e > msize b then
        (let noff = (msize b - (pre + mb_cnt b + e)) div 2 in
         case mem_read (mb_mem b) (mb_offset b) (mb_cnt b) of
           None \<Rightarrow> None
         | Some old \<Rightarrow>
             (case mem_write (mb_mem b) (noff + pre) old of
                None \<Rightarrow> None
              | Some m \<Rightarrow> Some (b\<lparr>mb_mem := m, mb_offset := noff\<rparr>)))
      else Some (b\<lparr>mb_offset := mb_offset b - pre\<rparr>))"

definition mbcopyback ::
    "(nat \<Rightarrow> byte) \<Rightarrow> mbuf option \<Rightarrow> int \<Rightarrow> byte list \<Rightarrow> mbuf option option" where
  "mbcopyback fill bp off xs =
     (let n = int (length xs) in
      case bp of
        None \<Rightarrow>
          (let off = (if off < 0 then 0 else off) in
           case mballoc fill (off + n) of
             None \<Rightarrow> None
           | Some nb \<Rightarrow>
               (case mem_write (mb_mem nb) (mb_offset nb + off) xs of
                  None \<Rightarrow> None
                | Some m \<Rightarrow> Some (Some (nb\<lparr>mb_mem := m, mb_cnt := off + n\<rparr>))))
      | Some b \<Rightarrow>
          (let pre = (if off > 0 then 0 else - off);
               e = (if off + n > mb_cnt b then off + n - mb_cnt b else 0) in
           case mb_room fill b pre e of
             None \<Rightarrow> None
           | Some b1 \<Rightarrow>
               (case mem_write (mb_mem b1) (mb_offset b1 + off + pre) xs of
                  None \<Rightarrow> None
                | Some m \<Rightarrow> Some (Some (b1\<lparr>mb_mem := m, mb_cnt := pre + mb_cnt b1 + e\<rparr>)))))"

definition mbtrunc :: "mbuf option \<Rightarrow> int \<Rightarrow> mbuf option option" where
  "mbtrunc bp mx =
     (if mx < 0 then None
      else case bp of
        None \<Rightarrow> Some None
      | Some b \<Rightarrow> Some (Some (if mb_cnt b > mx then b\<lparr>mb_cnt := mx\<rparr> else b)))"

definition mbadj :: "mbuf option \<Rightarrow> int \<Rightarrow> mbuf option" where
  "mbadj bp n =
     (case bp of
        None \<Rightarrow> None
      | Some b \<Rightarrow>
          Some (if n \<ge> 0
                then (if mb_cnt b > n then b\<lparr>mb_cnt := mb_cnt b - n, mb_offset := mb_offset b + n\<rparr>
                      else b\<lparr>mb_cnt := 0\<rparr>)
                else (if mb_cnt b > - n then b\<lparr>mb_cnt := mb_cnt b - (- n)\<rparr> else b\<lparr>mb_cnt := 0\<rparr>)))"

text \<open>\<open>mbsplit\<close> returns the new tail; the first part stays in \<open>bp\<close>. The result pairs
  the returned mbuf with the new contents of \<open>bp\<close>.\<close>

definition mbsplit ::
    "(nat \<Rightarrow> byte) \<Rightarrow> mbuf option \<Rightarrow> int \<Rightarrow> (mbuf option \<times> mbuf option) option" where
  "mbsplit fill bp n =
     (if n < 0 then None
      else case bp of
        None \<Rightarrow> Some (None, None)
      | Some b \<Rightarrow>
          (if mb_cnt b \<le> n then Some (None, Some b)
           else
             (case mballoc fill (mb_cnt b - n) of
                None \<Rightarrow> None
              | Some nb \<Rightarrow>
                  (case mem_read (mb_mem b) (mb_offset b + n) (mb_cnt b - n) of
                     None \<Rightarrow> None
                   | Some xs \<Rightarrow>
                       (case mem_write (mb_mem nb) (mb_offset nb) xs of
                          None \<Rightarrow> None
                        | Some m \<Rightarrow>
                            Some (Some (nb\<lparr>mb_mem := m, mb_cnt := mb_cnt b - n\<rparr>),
                                  Some (b\<lparr>mb_cnt := n\<rparr>)))))))"

section \<open>The live octets\<close>

definition mbuf_ok :: "mbuf \<Rightarrow> bool" where
  "mbuf_ok b \<longleftrightarrow> 0 \<le> mb_offset b \<and> 0 \<le> mb_cnt b \<and> mb_offset b + mb_cnt b \<le> msize b"

definition mb_ok :: "mbuf option \<Rightarrow> bool" where
  "mb_ok bp = (case bp of None \<Rightarrow> True | Some b \<Rightarrow> mbuf_ok b)"

definition mbuf_data :: "mbuf \<Rightarrow> byte list" where
  "mbuf_data b = take (nat (mb_cnt b)) (drop (nat (mb_offset b)) (mb_mem b))"

definition mb_data :: "mbuf option \<Rightarrow> byte list" where
  "mb_data bp = (case bp of None \<Rightarrow> [] | Some b \<Rightarrow> mbuf_data b)"

lemma mb_simps [simp]:
  "mb_ok None" "mb_ok (Some b) = mbuf_ok b" "mb_data None = []" "mb_data (Some b) = mbuf_data b"
  by (simp_all add: mb_ok_def mb_data_def)

lemma length_mbuf_data: "mbuf_ok b \<Longrightarrow> int (length (mbuf_data b)) = mb_cnt b"
  by (auto simp: mbuf_ok_def mbuf_data_def min_def)

lemma MBLEN_data: "mb_ok bp \<Longrightarrow> MBLEN bp = int (length (mb_data bp))"
  by (cases bp) (simp_all add: MBLEN_def length_mbuf_data)

lemma mem_read_window:
  assumes "mbuf_ok b" "0 \<le> off" "0 \<le> n" "off + n \<le> mb_cnt b"
  shows "mem_read (mb_mem b) (mb_offset b + off) n = Some (take (nat n) (drop (nat off) (mbuf_data b)))"
proof -
  have "nat (mb_offset b + off) = nat (mb_offset b) + nat off"
    using assms by (simp add: mbuf_ok_def nat_add_distrib)
  moreover have "nat n \<le> nat (mb_cnt b) - nat off" using assms by linarith
  ultimately show ?thesis
    using assms
    by (simp add: mem_read_def mbuf_ok_def mbuf_data_def drop_take min_def add.commute)
qed

lemma mem_write_window:
  assumes "0 \<le> off" "off + int (length xs) \<le> int (length m)"
  shows "\<exists>m'. mem_write m off xs = Some m' \<and> length m' = length m \<and>
           take (nat off) m' = take (nat off) m \<and>
           take (length xs) (drop (nat off) m') = xs \<and>
           drop (nat off + length xs) m' = drop (nat off + length xs) m"
  using assms by (auto simp: mem_write_def)

lemma mb_osize_ge: "0 \<le> sz \<Longrightarrow> sz \<le> mb_osize sz"
proof -
  assume sz: "0 \<le> sz"
  have "sz - 1 = 32 * ((sz - 1) div 32) + (sz - 1) mod 32" "(sz - 1) mod 32 < 32"
    "sz - 1 = 64 * ((sz - 1) div 64) + (sz - 1) mod 64" "(sz - 1) mod 64 < 64"
    by simp_all
  moreover have "0 \<le> (sz - 1) div 32" "0 \<le> (sz - 1) div 64" if "sz \<noteq> 0"
    using sz that by (simp_all add: pos_imp_zdiv_nonneg_iff)
  ultimately show ?thesis
    using sz unfolding mb_osize_def mb_hdr_def by (simp split: if_split; linarith)
qed

lemma mballoc_ok:
  assumes "0 \<le> sz"
  shows "\<exists>b. mballoc fill sz = Some b \<and> mb_cnt b = 0 \<and> 0 \<le> mb_offset b \<and> mb_offset b + sz \<le> msize b"
  using mb_osize_ge [OF assms] assms by (auto simp: mballoc_def)

text \<open>Reading consumes the octets from the front; a fully consumed buffer becomes NULL.\<close>

lemma mbread_refines:
  assumes "mb_ok bp" "0 \<le> n"
  shows "\<exists>bp'. mbread bp n = Some (bp', take (nat n) (mb_data bp)) \<and> mb_ok bp' \<and>
           mb_data bp' = drop (nat n) (mb_data bp)"
proof (cases bp)
  case None
  with assms show ?thesis by (simp add: mbread_def)
next
  case (Some b)
  define k where "k = (if n > mb_cnt b then mb_cnt b else n)"
  have ok: "mbuf_ok b" using assms Some by simp
  have k: "0 \<le> k" "k \<le> mb_cnt b" using ok assms by (auto simp: k_def mbuf_ok_def)
  have rd: "mem_read (mb_mem b) (mb_offset b) k = Some (take (nat k) (mbuf_data b))"
    using mem_read_window [OF ok, of 0 k] k by simp
  have tk: "take (nat k) (mbuf_data b) = take (nat n) (mbuf_data b)"
    and dk: "drop (nat k) (mbuf_data b) = drop (nat n) (mbuf_data b)"
    using length_mbuf_data [OF ok] assms by (auto simp: k_def)
  let ?b = "b\<lparr>mb_offset := mb_offset b + k, mb_cnt := mb_cnt b - k\<rparr>"
  have ok': "mbuf_ok ?b" using ok k by (auto simp: mbuf_ok_def)
  have dat: "mbuf_data ?b = drop (nat k) (mbuf_data b)"
    using ok k by (simp add: mbuf_data_def mbuf_ok_def drop_take nat_add_distrib nat_diff_distrib add.commute)
  have eq: "mbread bp n = Some (if mb_cnt b - k = 0 then None else Some ?b, take (nat k) (mbuf_data b))"
    using assms rd unfolding mbread_def Some option.case k_def [symmetric] Let_def by simp
  have "drop (nat n) (mbuf_data b) = []" if "mb_cnt b - k = 0"
    using that dk length_mbuf_data [OF ok] by simp
  then show ?thesis
    unfolding eq using Some ok' dat tk dk by auto
qed

lemma mbtrunc_refines:
  assumes "mb_ok bp" "0 \<le> n"
  shows "\<exists>bp'. mbtrunc bp n = Some bp' \<and> mb_ok bp' \<and> mb_data bp' = take (nat n) (mb_data bp)"
proof (cases bp)
  case (Some b)
  with assms have ok: "mbuf_ok b" by simp
  show ?thesis
  proof (cases "mb_cnt b > n")
    case True
    then show ?thesis
      using Some assms ok by (auto simp: mbtrunc_def mbuf_ok_def mbuf_data_def min_def)
  next
    case False
    then have "length (mbuf_data b) \<le> nat n" using length_mbuf_data [OF ok] by linarith
    with False show ?thesis
      using Some assms ok by (auto simp: mbtrunc_def)
  qed
qed (use assms in \<open>simp add: mbtrunc_def\<close>)

text \<open>
  Writing back: the octets from \<open>off\<close> on are replaced, the buffer grows at either end as
  needed, whichever of the three ways of making room the code takes. A region is described by
  its split into what lies before the window, the room in front, the live octets and the rest.
\<close>

lemma mem_write_split:
  assumes "0 \<le> o1" "0 \<le> pre" "mem_write m (o1 + pre) D = Some m1"
  obtains A P R where "m1 = A @ P @ D @ R" "int (length A) = o1" "int (length P) = pre"
    "length m1 = length m"
proof -
  obtain a p where a: "o1 = int a" "pre = int p"
    using assms by (metis nonneg_int_cases)
  have b: "a + p + length D \<le> length m"
    and m1: "m1 = take (a + p) m @ D @ drop (a + p + length D) m"
    using assms by (auto simp: mem_write_def a nat_int_add split: if_splits)
  show ?thesis
  proof (rule that)
    show "m1 = take a m @ take p (drop a m) @ D @ drop (a + p + length D) m"
      using m1 by (simp add: take_add)
  qed (use a b m1 in auto)
qed

lemma overwrite_window:
  assumes "k \<le> length D" "k + length xs \<le> length D + length R"
  shows "mem_write (A @ D @ R) (int (length A + k)) xs
           = Some (A @ take k D @ xs @ drop (k + length xs) (D @ R))"
    and "take (max (length D) (k + length xs))
             (drop (length A) (A @ take k D @ xs @ drop (k + length xs) (D @ R)))
           = take k D @ xs @ drop (k + length xs) D"
proof -
  let ?m = "A @ take k D @ xs @ drop (k + length xs) (D @ R)"
  show "mem_write (A @ D @ R) (int (length A + k)) xs = Some ?m"
    using assms by (simp add: mem_write_def nat_int_add add.assoc)
  have "take (length D - (k + length xs)) (drop (k + length xs) (D @ R)) = drop (k + length xs) D"
    using assms by (simp add: take_append)
  then show "take (max (length D) (k + length xs)) (drop (length A) ?m)
           = take k D @ xs @ drop (k + length xs) D"
    using assms by (simp add: max_def min_def split: if_splits) linarith
qed

lemma mbcopyback_finish:
  assumes m: "m = A @ P @ D @ R" and o1: "int (length A) = o1" and pre: "int (length P) = pre"
    and c: "int (length D) = c" and off: "off \<le> c" "0 \<le> off + int (length xs)"
    and pre_def: "pre = (if off > 0 then 0 else - off)"
    and e_def: "e = (if off + int (length xs) > c then off + int (length xs) - c else 0)"
    and room: "o1 + pre + c + e \<le> int (length m)"
  shows "\<exists>m'. mem_write m (o1 + off + pre) xs = Some m' \<and> length m' = length m \<and>
           take (nat (pre + c + e)) (drop (nat o1) m')
             = take (nat off) D @ xs @ drop (nat (off + int (length xs))) D"
proof (cases "off > 0")
  case True
  then obtain k where k: "off = int k" by (metis nonneg_int_cases less_imp_le)
  have P: "P = []" using True pre pre_def by simp
  have "k \<le> length D" using off c k by simp
  moreover have "k + length xs \<le> length D + length R"
    using room c o1 True k P by (auto simp: m e_def pre_def split: if_splits)
  moreover have "nat (pre + c + e) = max (length D) (k + length xs)"
    using c True k unfolding e_def pre_def by (auto simp: max_def)
  moreover have "nat (off + int (length xs)) = k + length xs" using k by simp
  moreover have "o1 + off + pre = int (length A + k)" using True k o1 by (simp add: pre_def)
  ultimately show ?thesis
    using overwrite_window [of k D xs R A] m P k o1 by auto
next
  case False
  then have pq: "off = - int (length P)" using pre pre_def by simp
  then have n: "length P \<le> length xs" using off by simp
  have "length xs \<le> length (P @ D) + length R"
    using room c o1 pre pq by (auto simp: m e_def split: if_splits)
  moreover have "nat (pre + c + e) = max (length (P @ D)) (length xs)"
    using c pq pre n unfolding e_def by (auto simp: max_def)
  moreover have "nat (off + int (length xs)) = length xs - length P" using pq n by simp
  moreover have "o1 + off + pre = int (length A)" using pq o1 pre by simp
  ultimately show ?thesis
    using overwrite_window [of 0 "P @ D" xs R A] m pq o1 n by auto
qed

lemma mb_room_ok:
  assumes ok: "mbuf_ok b" and pre: "0 \<le> pre" and e: "0 \<le> e"
  shows "\<exists>b1 A P R. mb_room fill b pre e = Some b1 \<and> mb_mem b1 = A @ P @ mbuf_data b @ R \<and>
           int (length A) = mb_offset b1 \<and> int (length P) = pre \<and> mb_cnt b1 = mb_cnt b \<and>
           mb_offset b1 + pre + mb_cnt b + e \<le> msize b1"
proof -
  let ?D = "mbuf_data b"
  have lD: "int (length ?D) = mb_cnt b" using length_mbuf_data [OF ok] .
  have rd: "mem_read (mb_mem b) (mb_offset b) (mb_cnt b) = Some ?D"
    using ok by (simp add: mem_read_def mbuf_ok_def mbuf_data_def)
  consider "pre + mb_cnt b + e > msize b"
    | "pre + mb_cnt b + e \<le> msize b" "pre > mb_offset b \<or> mb_offset b + mb_cnt b + e > msize b"
    | "pre + mb_cnt b + e \<le> msize b" "pre \<le> mb_offset b" "mb_offset b + mb_cnt b + e \<le> msize b"
    by linarith
  then show ?thesis
  proof cases
    case 1
    have "0 \<le> pre + mb_cnt b + e" using pre e ok by (simp add: mbuf_ok_def)
    then obtain nb where nb: "mballoc fill (pre + mb_cnt b + e) = Some nb" "0 \<le> mb_offset nb"
        "mb_offset nb + (pre + mb_cnt b + e) \<le> msize nb"
      using mballoc_ok by blast
    have "mb_offset nb + pre + int (length ?D) \<le> msize nb" using nb(3) e lD by linarith
    then obtain m where wr: "mem_write (mb_mem nb) (mb_offset nb + pre) ?D = Some m"
      using nb(2) pre by (simp add: mem_write_def)
    from wr nb(2) pre obtain A P R where "m = A @ P @ ?D @ R" "int (length A) = mb_offset nb"
        "int (length P) = pre" "length m = length (mb_mem nb)"
      by (metis mem_write_split)
    with 1 nb rd wr show ?thesis by (auto simp: mb_room_def)
  next
    case 2
    let ?noff = "(msize b - (pre + mb_cnt b + e)) div 2"
    have no: "0 \<le> ?noff" "?noff + (pre + mb_cnt b + e) \<le> msize b" using 2(1) by auto
    have "?noff + pre + int (length ?D) \<le> msize b" using no e lD by linarith
    then obtain m where wr: "mem_write (mb_mem b) (?noff + pre) ?D = Some m"
      using no pre by (simp add: mem_write_def)
    obtain A P R where "m = A @ P @ ?D @ R" "int (length A) = ?noff"
        "int (length P) = pre" "length m = length (mb_mem b)"
      using mem_write_split [OF no(1) pre wr] by blast
    moreover have "mb_room fill b pre e = Some (b\<lparr>mb_mem := m, mb_offset := ?noff\<rparr>)"
      using 2 rd wr by (simp add: mb_room_def Let_def)
    ultimately show ?thesis using no by (intro exI [of _ "b\<lparr>mb_mem := m, mb_offset := ?noff\<rparr>"]) auto
  next
    case 3
    obtain p where p: "pre = int p" using pre by (metis nonneg_int_cases)
    define o1 where "o1 = nat (mb_offset b - pre)"
    have o1: "int o1 = mb_offset b - pre" "nat (mb_offset b) = o1 + p"
      using 3 p by (simp_all add: o1_def)
    have "mb_mem b = take o1 (mb_mem b) @ take p (drop o1 (mb_mem b)) @ ?D
            @ drop (nat (mb_cnt b)) (drop (o1 + p) (mb_mem b))"
      unfolding mbuf_data_def o1(2)
      by (metis add.commute append_take_drop_id drop_drop)
    moreover have "length (take o1 (mb_mem b)) = o1" "length (take p (drop o1 (mb_mem b))) = p"
      using ok o1 p unfolding mbuf_ok_def by auto
    ultimately show ?thesis
      using 3 o1 p by (fastforce simp: mb_room_def)
  qed
qed

lemma mbcopyback_refines:
  assumes ok: "mb_ok bp" and lo: "0 \<le> off + int (length xs)"
    and hi: "off \<le> int (length (mb_data bp))"
  shows "\<exists>b. mbcopyback fill bp off xs = Some (Some b) \<and> mbuf_ok b \<and>
           mbuf_data b = take (nat off) (mb_data bp) @ xs
             @ drop (nat (off + int (length xs))) (mb_data bp)"
proof (cases bp)
  case None
  then have off: "(if off < 0 then 0 else off) = 0" using hi by auto
  obtain nb where nb: "mballoc fill (int (length xs)) = Some nb" "0 \<le> mb_offset nb"
      "mb_offset nb + int (length xs) \<le> msize nb"
    using mballoc_ok [of "int (length xs)" fill] by auto
  then obtain m where wr: "mem_write (mb_mem nb) (mb_offset nb) xs = Some m" "length m = length (mb_mem nb)"
      "take (length xs) (drop (nat (mb_offset nb)) m) = xs"
    using mem_write_window [of "mb_offset nb" xs "mb_mem nb"] by auto
  have "mbcopyback fill bp off xs = Some (Some (nb\<lparr>mb_mem := m, mb_cnt := int (length xs)\<rparr>))"
    using None off nb wr unfolding mbcopyback_def by (simp add: Let_def)
  with None nb wr show ?thesis by (simp add: mbuf_ok_def mbuf_data_def)
next
  case (Some b)
  let ?D = "mbuf_data b"
  define pre where "pre = (if off > 0 then 0 else - off)"
  define e where "e = (if off + int (length xs) > mb_cnt b then off + int (length xs) - mb_cnt b else 0)"
  have okb: "mbuf_ok b" using ok Some by simp
  have lD: "int (length ?D) = mb_cnt b" using length_mbuf_data [OF okb] .
  obtain b1 A P R where r: "mb_room fill b pre e = Some b1" "mb_mem b1 = A @ P @ ?D @ R"
      "int (length A) = mb_offset b1" "int (length P) = pre" "mb_cnt b1 = mb_cnt b"
      "mb_offset b1 + pre + mb_cnt b + e \<le> msize b1"
  proof -
    have "0 \<le> pre" "0 \<le> e" by (auto simp: pre_def e_def)
    from mb_room_ok [OF okb this, of fill] show ?thesis using that by blast
  qed
  obtain m where m: "mem_write (mb_mem b1) (mb_offset b1 + off + pre) xs = Some m"
      "length m = length (mb_mem b1)"
      "take (nat (pre + mb_cnt b + e)) (drop (nat (mb_offset b1)) m)
         = take (nat off) ?D @ xs @ drop (nat (off + int (length xs))) ?D"
    using mbcopyback_finish [OF r(2,3,4) lD _ lo pre_def e_def r(6)] hi Some lD by auto
  have eq: "mbcopyback fill bp off xs
      = Some (Some (b1\<lparr>mb_mem := m, mb_cnt := pre + mb_cnt b1 + e\<rparr>))"
    using r(1) m(1) unfolding mbcopyback_def Some option.case Let_def pre_def [symmetric] e_def [symmetric]
    by simp
  have "0 \<le> mb_offset b1" using r(3) by linarith
  moreover have "0 \<le> pre + mb_cnt b + e"
    using okb by (simp add: mbuf_ok_def pre_def e_def)
  ultimately show ?thesis
    using eq m r Some by (simp add: mbuf_ok_def mbuf_data_def)
qed

lemma mbsplit_refines:
  assumes ok: "mb_ok bp" and n: "0 \<le> n"
  shows "\<exists>nb bp'. mbsplit fill bp n = Some (nb, bp') \<and> mb_ok nb \<and> mb_ok bp' \<and>
           mb_data bp' = take (nat n) (mb_data bp) \<and> mb_data nb = drop (nat n) (mb_data bp)"
proof (cases bp)
  case None
  then show ?thesis using n by (simp add: mbsplit_def)
next
  case (Some b)
  have okb: "mbuf_ok b" using ok Some by simp
  have lD: "int (length (mbuf_data b)) = mb_cnt b" using length_mbuf_data [OF okb] .
  show ?thesis
  proof (cases "mb_cnt b \<le> n")
    case True
    then have "length (mbuf_data b) \<le> nat n" using lD by linarith
    with True Some n okb show ?thesis by (simp add: mbsplit_def)
  next
    case False
    let ?T = "drop (nat n) (mbuf_data b)"
    have lT: "int (length ?T) = mb_cnt b - n" using False n lD by simp
    obtain nb where nb: "mballoc fill (mb_cnt b - n) = Some nb" "0 \<le> mb_offset nb"
        "mb_offset nb + (mb_cnt b - n) \<le> msize nb"
      using mballoc_ok [of "mb_cnt b - n" fill] False by auto
    have rd: "mem_read (mb_mem b) (mb_offset b + n) (mb_cnt b - n) = Some ?T"
      using mem_read_window [OF okb, of n "mb_cnt b - n"] False n lD by simp
    obtain m where wr: "mem_write (mb_mem nb) (mb_offset nb) ?T = Some m"
        "length m = length (mb_mem nb)" "take (length ?T) (drop (nat (mb_offset nb)) m) = ?T"
      using mem_write_window [of "mb_offset nb" ?T "mb_mem nb"] nb lT by auto
    have "mbuf_data (nb\<lparr>mb_mem := m, mb_cnt := mb_cnt b - n\<rparr>) = ?T"
      using wr lT by (simp add: mbuf_data_def) (metis nat_int)
    moreover have "mbuf_data (b\<lparr>mb_cnt := n\<rparr>) = take (nat n) (mbuf_data b)"
      using False by (simp add: mbuf_data_def min_def)
    ultimately show ?thesis
      using False Some n okb nb rd wr by (simp add: mbsplit_def mbuf_ok_def)
  qed
qed

lemma mbadj_refines:
  assumes ok: "mb_ok bp"
  shows "mb_ok (mbadj bp n)"
    and "mb_data (mbadj bp n) = (if n \<ge> 0 then drop (nat n) (mb_data bp)
           else take (length (mb_data bp) - nat (- n)) (mb_data bp))"
proof -
  show "mb_ok (mbadj bp n)"
    using ok by (cases bp) (auto simp: mbadj_def mbuf_ok_def)
  show "mb_data (mbadj bp n) = (if n \<ge> 0 then drop (nat n) (mb_data bp)
           else take (length (mb_data bp) - nat (- n)) (mb_data bp))"
  proof (cases bp)
    case (Some b)
    then have okb: "mbuf_ok b" and lD: "int (length (mbuf_data b)) = mb_cnt b"
      using ok length_mbuf_data by auto
    have "nat (mb_offset b + n) = nat (mb_offset b) + nat n" if "n \<ge> 0"
      using that okb by (simp add: mbuf_ok_def nat_add_distrib)
    moreover have "length (mbuf_data b) = nat (mb_cnt b)" using lD by linarith
    moreover have "nat (mb_cnt b + n) = nat (mb_cnt b) - nat (- n)" if "n < 0"
      using that by linarith
    ultimately show ?thesis
      using Some okb
      by (auto simp: mbadj_def mbuf_data_def drop_take nat_diff_distrib' add.commute min_def
          nat_le_eq_zle mbuf_ok_def split: if_splits)
  qed (simp add: mbadj_def)
qed

lemma mbcopy_refines:
  assumes ok: "mb_ok bp" and "0 \<le> off" "0 \<le> n"
  shows "mbcopy bp off n = Some (take (nat n) (drop (nat off) (mb_data bp)))"
proof (cases bp)
  case (Some b)
  then have okb: "mbuf_ok b" and lD: "int (length (mbuf_data b)) = mb_cnt b"
    using ok length_mbuf_data by auto
  show ?thesis
  proof (cases "off \<ge> mb_cnt b")
    case True
    then have "length (mbuf_data b) \<le> nat off" using lD by linarith
    with True Some assms show ?thesis by (simp add: mbcopy_def)
  next
    case False
    let ?k = "if n > mb_cnt b - off then mb_cnt b - off else n"
    have "take (nat ?k) (drop (nat off) (mbuf_data b)) = take (nat n) (drop (nat off) (mbuf_data b))"
      using lD False assms by (auto simp: nat_diff_distrib')
    moreover have "mem_read (mb_mem b) (mb_offset b + off) ?k
        = Some (take (nat ?k) (drop (nat off) (mbuf_data b)))"
      using mem_read_window [OF okb, of off ?k] False assms by auto
    ultimately show ?thesis
      using Some assms False unfolding mbcopy_def by simp
  qed
qed (use assms in \<open>simp add: mbcopy_def\<close>)

section \<open>The buffer interface\<close>

text \<open>
  What the protocol code relies on: \<open>push\<close> puts a header in front (\<open>mbcopyback\<close> with a
  negative offset), \<open>pull\<close> takes one off (\<open>mbread\<close>) and \<open>cut\<close> drops trailing
  padding (\<open>mbtrunc\<close>). The laws say that none of them fails and what each does to the
  live octets; they are proved for the code's buffers below.
\<close>

locale octet_buffer =
  fixes dat :: "'b \<Rightarrow> byte list"
    and inv :: "'b \<Rightarrow> bool"
    and push :: "byte list \<Rightarrow> 'b \<Rightarrow> 'b option"
    and pull :: "nat \<Rightarrow> 'b \<Rightarrow> ('b \<times> byte list) option"
    and cut :: "nat \<Rightarrow> 'b \<Rightarrow> 'b option"
  assumes push_law: "inv b \<Longrightarrow> \<exists>b'. push h b = Some b' \<and> inv b' \<and> dat b' = h @ dat b"
    and pull_law: "inv b \<Longrightarrow>
      \<exists>b'. pull n b = Some (b', take n (dat b)) \<and> inv b' \<and> dat b' = drop n (dat b)"
    and cut_law: "inv b \<Longrightarrow> \<exists>b'. cut n b = Some b' \<and> inv b' \<and> dat b' = take n (dat b)"
begin

text \<open>Sending then receiving: the header pushed on is the header pulled off, and the padding a
  lower layer added is cut away again.\<close>

lemma push_pull:
  assumes "inv b"
  shows "\<exists>b1 b2. push h b = Some b1 \<and> pull (length h) b1 = Some (b2, h) \<and> inv b2 \<and> dat b2 = dat b"
proof -
  obtain b1 where b1: "push h b = Some b1" "inv b1" "dat b1 = h @ dat b"
    using push_law [OF assms] by blast
  obtain b2 where "pull (length h) b1 = Some (b2, take (length h) (dat b1))" "inv b2"
      "dat b2 = drop (length h) (dat b1)"
    using pull_law [OF b1(2)] by blast
  with b1 show ?thesis by auto
qed

lemma pull_cut_padding:
  assumes "inv b" "dat b = h @ p @ pad"
  shows "\<exists>b1 b2. pull (length h) b = Some (b1, h) \<and> cut (length p) b1 = Some b2 \<and>
           inv b2 \<and> dat b2 = p"
proof -
  obtain b1 where b1: "pull (length h) b = Some (b1, take (length h) (dat b))" "inv b1"
      "dat b1 = drop (length h) (dat b)"
    using pull_law [OF assms(1)] by blast
  obtain b2 where "cut (length p) b1 = Some b2" "inv b2" "dat b2 = take (length p) (dat b1)"
    using cut_law [OF b1(2)] by blast
  with b1 assms(2) show ?thesis by auto
qed

end

definition mb_push :: "(nat \<Rightarrow> byte) \<Rightarrow> byte list \<Rightarrow> mbuf option \<Rightarrow> mbuf option option" where
  "mb_push fill h bp = mbcopyback fill bp (- int (length h)) h"

lemma mb_push_refines:
  assumes "mb_ok bp"
  shows "\<exists>b. mb_push fill h bp = Some (Some b) \<and> mbuf_ok b \<and> mbuf_data b = h @ mb_data bp"
  using mbcopyback_refines [OF assms, of "- int (length h)" h fill]
  by (simp add: mb_push_def)

interpretation mb: octet_buffer mb_data mb_ok "mb_push fill" "\<lambda>n bp. mbread bp (int n)"
    "\<lambda>n bp. mbtrunc bp (int n)" for fill
proof unfold_locales
  fix b :: "mbuf option" and h :: "byte list" and n :: nat
  assume ok: "mb_ok b"
  show "\<exists>b'. mb_push fill h b = Some b' \<and> mb_ok b' \<and> mb_data b' = h @ mb_data b"
    using mb_push_refines [OF ok, of fill h] by fastforce
  show "\<exists>b'. mbread b (int n) = Some (b', take n (mb_data b)) \<and> mb_ok b' \<and>
          mb_data b' = drop n (mb_data b)"
    using mbread_refines [OF ok, of "int n"] by simp
  show "\<exists>b'. mbtrunc b (int n) = Some b' \<and> mb_ok b' \<and> mb_data b' = take n (mb_data b)"
    using mbtrunc_refines [OF ok, of "int n"] by simp
qed

section \<open>Packets as values\<close>

text \<open>
  The automaton theories pass packets as values: \<open>None\<close> for a NULL mbuf, otherwise its live
  octets. The three operations they use are those of the interface above, and the next lemmas
  say that running the code's operations on the buffers gives exactly these values.
\<close>

type_synonym pkt = "byte list option"

definition pk_data :: "pkt \<Rightarrow> byte list" where
  "pk_data p = (case p of None \<Rightarrow> [] | Some xs \<Rightarrow> xs)"

definition pk_read :: "nat \<Rightarrow> pkt \<Rightarrow> pkt \<times> byte list" where
  "pk_read n p = (case p of
     None \<Rightarrow> (None, [])
   | Some xs \<Rightarrow> (if drop n xs = [] then None else Some (drop n xs), take n xs))"

definition pk_trunc :: "nat \<Rightarrow> pkt \<Rightarrow> pkt" where
  "pk_trunc n p = map_option (take n) p"

definition pk_push :: "byte list \<Rightarrow> pkt \<Rightarrow> pkt" where
  "pk_push h p = Some (h @ pk_data p)"

definition pk_of :: "mbuf option \<Rightarrow> pkt" where
  "pk_of bp = map_option mbuf_data bp"

lemma pk_data_simps [simp]: "pk_data None = []" "pk_data (Some xs) = xs"
  by (simp_all add: pk_data_def)

lemma pk_data_of: "pk_data (pk_of bp) = mb_data bp"
  by (cases bp) (simp_all add: pk_of_def)

lemma snd_pk_read [simp]: "snd (pk_read n p) = take n (pk_data p)"
  and pk_data_read [simp]: "pk_data (fst (pk_read n p)) = drop n (pk_data p)"
  by (cases p; simp add: pk_read_def)+

lemma pk_data_push [simp]: "pk_data (pk_push h p) = h @ pk_data p"
  by (simp add: pk_push_def)

lemma mbread_pk:
  assumes "mb_ok bp"
  shows "\<exists>bp'. mbread bp (int n) = Some (bp', snd (pk_read n (pk_of bp))) \<and> mb_ok bp' \<and>
           pk_of bp' = fst (pk_read n (pk_of bp))"
proof -
  obtain bp' where r: "mbread bp (int n) = Some (bp', take n (mb_data bp))" "mb_ok bp'"
      "mb_data bp' = drop n (mb_data bp)"
    using mbread_refines [OF assms, of "int n"] by auto
  have "pk_of bp' = fst (pk_read n (pk_of bp))"
  proof (cases bp)
    case None
    with r(1) show ?thesis by (simp add: mbread_def pk_of_def pk_read_def)
  next
    case (Some b)
    have "bp' = None \<longleftrightarrow> drop n (mbuf_data b) = []"
    proof -
      have "mb_cnt b1 \<noteq> 0" if "bp' = Some b1" for b1
        using r(1) that Some by (auto simp: mbread_def Let_def split: option.splits if_splits)
      then show ?thesis
        using r(2,3) Some by (cases bp') (auto dest: length_mbuf_data)
    qed
    then show ?thesis
      using r(3) Some by (cases bp') (auto simp: pk_of_def pk_read_def)
  qed
  with r show ?thesis by (simp add: pk_data_of)
qed

lemma mbtrunc_pk:
  assumes "mb_ok bp"
  shows "\<exists>bp'. mbtrunc bp (int n) = Some bp' \<and> mb_ok bp' \<and> pk_of bp' = pk_trunc n (pk_of bp)"
  using mbtrunc_refines [OF assms, of "int n"] assms
  by (cases bp) (auto simp: mbtrunc_def pk_of_def pk_trunc_def)

lemma mb_push_pk:
  assumes "mb_ok bp"
  shows "\<exists>bp'. mb_push fill h bp = Some bp' \<and> mb_ok bp' \<and> pk_of bp' = pk_push h (pk_of bp)"
  using mb_push_refines [OF assms, of fill h]
  by (auto simp: pk_of_def pk_push_def pk_data_of [symmetric])

end
