(* ===== verification/Timer.thy ===== *)
theory Timer
  imports Mpd_Prelude
begin

text \<open>
  Timers (\<open>src/src/timer.c\<close> over \<open>src/src/event.c\<close>). A timer is its event registration,
  its load and its handler; the registration itself is the event library's, of which only
  "registered or not" and "one shot or recurring" matter here. Starting a timer that was never
  initialised fails the \<open>assert (timer->func)\<close>: that is the result \<open>None\<close>. Registration
  with the event library is taken to succeed.
\<close>

record ppp_timer =
  t_event :: bool      \<comment> \<open>\<open>EventIsRegistered (&timer->event)\<close>\<close>
  t_recurring :: bool  \<comment> \<open>registered with \<open>EVENT_RECURRING\<close>\<close>
  t_load :: int        \<comment> \<open>milliseconds\<close>
  t_func :: bool       \<comment> \<open>\<open>timer->func\<close> is set\<close>

definition SECONDS :: int where
  "SECONDS = 1000"

definition timer_zero :: ppp_timer where
  "timer_zero = \<lparr>t_event = False, t_recurring = False, t_load = 0, t_func = False\<rparr>"

definition TimerInit2 :: "int \<Rightarrow> ppp_timer \<Rightarrow> ppp_timer" where
  "TimerInit2 load t = timer_zero\<lparr>t_load := (if load \<ge> 0 then load else 0), t_func := True\<rparr>"

definition TimerStart2 :: "ppp_timer \<Rightarrow> ppp_timer option" where
  "TimerStart2 t =
     (if t_func t then Some (t\<lparr>t_event := True, t_recurring := False\<rparr>) else None)"

definition TimerStartRecurring2 :: "ppp_timer \<Rightarrow> ppp_timer option" where
  "TimerStartRecurring2 t =
     (if t_func t then Some (t\<lparr>t_event := True, t_recurring := True\<rparr>) else None)"

definition TimerStop2 :: "ppp_timer \<Rightarrow> ppp_timer" where
  "TimerStop2 t = (if t_event t then t\<lparr>t_event := False\<rparr> else t)"

definition TimerStarted :: "ppp_timer \<Rightarrow> bool" where
  "TimerStarted t = t_event t"

text \<open>What the event loop does before it calls the handler: a one-shot registration is gone.\<close>

definition timer_fired :: "ppp_timer \<Rightarrow> ppp_timer" where
  "timer_fired t = (if t_recurring t then t else t\<lparr>t_event := False\<rparr>)"

lemma TimerStarted_simps [simp]:
  "\<not> TimerStarted (TimerStop2 t)" "\<not> TimerStarted timer_zero" "\<not> TimerStarted (TimerInit2 n t)"
  by (simp_all add: TimerStarted_def TimerStop2_def timer_zero_def TimerInit2_def)

lemma t_func_simps [simp]:
  "t_func (TimerStop2 t) = t_func t" "t_func (TimerInit2 n t)" "t_func (timer_fired t) = t_func t"
  by (simp_all add: TimerStop2_def TimerInit2_def timer_fired_def)

lemma TimerStart2_Some [simp]:
  "t_func t \<Longrightarrow> \<exists>t'. TimerStart2 t = Some t' \<and> TimerStarted t' \<and> t_func t' \<and> \<not> t_recurring t'"
  by (simp add: TimerStart2_def TimerStarted_def)

end
