(* ===== verification/Fsm.thy ===== *)
theory Fsm
  imports Mpd_Prelude Mbuf Timer
begin

unbundle bit_operations_syntax

text \<open>
  The PPP option-negotiation automaton (\<open>src/src/fsm.c\<close>, \<open>src/src/fsm.h\<close>), which LCP,
  IPCP, IPV6CP, CCP and ECP all run. Types and fields first, then the operations in the order of
  the source. A protocol is a \<open>fsmtype\<close>: its number, its accepted codes and its callbacks,
  each an \<open>option\<close> where the source tests the pointer for NULL. A callback gets the whole
  automaton, as it does in C, so it may change anything in it; \<open>f_arg\<close> is what \<open>fp->arg\<close>
  points to (a link or a bundle) and the fields \<open>arg_*\<close> of the type are the reads
  the source makes through the cast \<open>(Link)fp->arg\<close> or \<open>(Bund)fp->arg\<close>.

  Frames written to the netgraph node and the calls made through the type descriptor are appended
  to the trace \<open>f_trace\<close>; \<open>f_aborted\<close> is set where an \<open>assert\<close> fails. The three
  option buffers are global in the source (\<open>gAckBuf\<close> and its size, and so on) and belong to the
  automaton being run, since a packet is handled in one step. Log output is left out.
\<close>

section \<open>States, codes and failures\<close>

datatype fsm_state =
  ST_INITIAL | ST_STARTING | ST_CLOSED | ST_STOPPED | ST_CLOSING | ST_STOPPING
| ST_REQSENT | ST_ACKRCVD | ST_ACKSENT | ST_OPENED

datatype mode = MODE_REQ | MODE_NAK | MODE_REJ | MODE_NOP

datatype fsmfail =
  FAIL_NEGOT_FAILURE | FAIL_RECD_BADMAGIC | FAIL_RECD_CODEREJ | FAIL_RECD_PROTREJ
| FAIL_WAS_PROTREJ | FAIL_ECHO_TIMEOUT | FAIL_CANT_ENCRYPT

text \<open>The \<open>CODE_*\<close> constants; they index the dispatch table \<open>FsmCodes\<close>.\<close>

abbreviation (input) "CODE_VENDOR \<equiv> (0 :: byte)"
abbreviation (input) "CODE_CONFIGREQ \<equiv> (1 :: byte)"
abbreviation (input) "CODE_CONFIGACK \<equiv> (2 :: byte)"
abbreviation (input) "CODE_CONFIGNAK \<equiv> (3 :: byte)"
abbreviation (input) "CODE_CONFIGREJ \<equiv> (4 :: byte)"
abbreviation (input) "CODE_TERMREQ \<equiv> (5 :: byte)"
abbreviation (input) "CODE_TERMACK \<equiv> (6 :: byte)"
abbreviation (input) "CODE_CODEREJ \<equiv> (7 :: byte)"
abbreviation (input) "CODE_PROTOREJ \<equiv> (8 :: byte)"
abbreviation (input) "CODE_ECHOREQ \<equiv> (9 :: byte)"
abbreviation (input) "CODE_ECHOREP \<equiv> (10 :: byte)"
abbreviation (input) "CODE_DISCREQ \<equiv> (11 :: byte)"
abbreviation (input) "CODE_IDENT \<equiv> (12 :: byte)"
abbreviation (input) "CODE_TIMEREM \<equiv> (13 :: byte)"
abbreviation (input) "CODE_RESETREQ \<equiv> (14 :: byte)"
abbreviation (input) "CODE_RESETACK \<equiv> (15 :: byte)"

definition NUM_FSM_CODES :: nat where
  "NUM_FSM_CODES = 16"

record fsmconf =
  maxconfig :: short
  maxterminate :: short
  maxfailure :: short
  echo_int :: short
  echo_max :: short
  check_magic :: bool
  conf_passive :: bool

text \<open>One configuration option: type, length octet and the \<open>len - 2\<close> octets of its data.\<close>

record fsmoption =
  opt_type :: byte
  opt_len :: byte
  opt_data :: "byte list"

record fsmoptinfo =
  oi_name :: string
  oi_type :: byte
  oi_minLen :: byte
  oi_maxLen :: byte
  oi_supported :: bool

text \<open>Observable effects, in the order they happen.\<close>

datatype fsm_event =
  EvFrame bool u16 "byte list"   \<comment> \<open>link layer?, protocol, octets of the control packet\<close>
| EvState fsm_state fsm_state
| EvConfigure | EvUnConfigure
| EvLayerUp | EvLayerDown | EvLayerStart | EvLayerFinish
| EvFailure fsmfail
| EvPeerDisc                     \<comment> \<open>\<open>RecordLinkUpDownReason (..., STR_PEER_DISC, ...)\<close>\<close>

record 'a fsm =
  f_arg :: 'a
  f_conf :: fsmconf
  f_state :: fsm_state
  f_reqid :: byte
  f_rejid :: byte
  f_echoid :: byte
  f_restart :: short
  f_failure :: short
  f_config :: short
  f_quietCount :: short
  f_timer :: ppp_timer
  f_echoTimer :: ppp_timer
  f_idleStats :: u32             \<comment> \<open>\<open>idleStats.recvFrames\<close>\<close>
  f_ackBuf :: "byte list"        \<comment> \<open>\<open>gAckBuf[0 .. gAckSize)\<close>\<close>
  f_nakBuf :: "byte list"
  f_rejBuf :: "byte list"
  f_uninit :: "byte list"        \<comment> \<open>what an uninitialised 4-octet local variable holds\<close>
  f_trace :: "fsm_event list"
  f_aborted :: bool

record 'a fsmtype =
  ty_name :: string
  ty_proto :: u16
  ty_known_codes :: u16
  ty_link_layer :: bool
  NewState :: "('a fsm \<Rightarrow> fsm_state \<Rightarrow> fsm_state \<Rightarrow> 'a fsm) option"
  LayerUp :: "('a fsm \<Rightarrow> 'a fsm) option"
  LayerDown :: "('a fsm \<Rightarrow> 'a fsm) option"
  LayerStart :: "('a fsm \<Rightarrow> 'a fsm) option"
  LayerFinish :: "('a fsm \<Rightarrow> 'a fsm) option"
  BuildConfigReq :: "'a fsm \<Rightarrow> 'a fsm \<times> byte list"
  DecodeConfig :: "'a fsm \<Rightarrow> fsmoption list \<Rightarrow> mode \<Rightarrow> 'a fsm"
  Configure :: "('a fsm \<Rightarrow> 'a fsm) option"
  UnConfigure :: "('a fsm \<Rightarrow> 'a fsm) option"
  SendTerminateReq :: "('a fsm \<Rightarrow> 'a fsm) option"
  SendTerminateAck :: "('a fsm \<Rightarrow> 'a fsm) option"
  RecvCodeRej :: "('a fsm \<Rightarrow> byte \<Rightarrow> pkt \<Rightarrow> 'a fsm \<times> bool) option"
  RecvProtoRej :: "('a fsm \<Rightarrow> u16 \<Rightarrow> pkt \<Rightarrow> 'a fsm \<times> bool) option"
  Failure :: "('a fsm \<Rightarrow> fsmfail \<Rightarrow> 'a fsm) option"
  RecvResetReq :: "('a fsm \<Rightarrow> byte \<Rightarrow> pkt \<Rightarrow> 'a fsm) option"
  RecvResetAck :: "('a fsm \<Rightarrow> byte \<Rightarrow> pkt \<Rightarrow> 'a fsm) option"
  RecvIdent :: "('a fsm \<Rightarrow> pkt \<Rightarrow> 'a fsm) option"
  RecvDiscReq :: "('a fsm \<Rightarrow> pkt \<Rightarrow> 'a fsm) option"
  RecvTimeRemain :: "('a fsm \<Rightarrow> pkt \<Rightarrow> 'a fsm) option"
  RecvVendor :: "('a fsm \<Rightarrow> pkt \<Rightarrow> 'a fsm) option"
  arg_retry_timeout :: "'a \<Rightarrow> short"
  arg_want_magic :: "'a \<Rightarrow> u32"
  arg_peer_magic :: "'a \<Rightarrow> u32"
  arg_has_bund :: "'a \<Rightarrow> bool"
  arg_recvFrames :: "'a \<Rightarrow> u32 option"   \<comment> \<open>\<open>NgFuncGetStats\<close>; \<open>None\<close> when the query fails\<close>

definition emit :: "fsm_event \<Rightarrow> 'a fsm \<Rightarrow> 'a fsm" where
  "emit e f = f\<lparr>f_trace := f_trace f @ [e]\<rparr>"

definition fsm_abort :: "'a fsm \<Rightarrow> 'a fsm" where
  "fsm_abort f = f\<lparr>f_aborted := True\<rparr>"

text \<open>\<open>if (fp->type->X) ( *fp->type->X)(fp)\<close>\<close>

definition call0 :: "('a fsm \<Rightarrow> 'a fsm) option \<Rightarrow> 'a fsm \<Rightarrow> 'a fsm" where
  "call0 cb f = (case cb of None \<Rightarrow> f | Some c \<Rightarrow> c f)"

definition fsm_TimerStart :: "'a fsm \<Rightarrow> 'a fsm" where
  "fsm_TimerStart f =
     (case TimerStart2 (f_timer f) of None \<Rightarrow> fsm_abort f | Some t \<Rightarrow> f\<lparr>f_timer := t\<rparr>)"

definition fsm_echo_start :: "'a fsm \<Rightarrow> 'a fsm" where
  "fsm_echo_start f =
     (case TimerStartRecurring2 (f_echoTimer f) of
        None \<Rightarrow> fsm_abort f | Some t \<Rightarrow> f\<lparr>f_echoTimer := t\<rparr>)"

section \<open>Initialisation\<close>

definition FSM_MAXCONFIG :: short where "FSM_MAXCONFIG = 10"
definition FSM_MAXTERMINATE :: short where "FSM_MAXTERMINATE = 2"
definition FSM_MAXFAILURE :: short where "FSM_MAXFAILURE = 5"
definition FSM_MAX_OPTS :: nat where "FSM_MAX_OPTS = 100"
definition FSM_BUFFER_SIZE :: nat where "FSM_BUFFER_SIZE = 256"

text \<open>\<open>memset\<close> to zero, then the defaults; the global buffers start empty.\<close>

definition FsmInit :: "byte list \<Rightarrow> 'a \<Rightarrow> 'a fsm" where
  "FsmInit junk a =
     \<lparr>f_arg = a,
      f_conf = \<lparr>maxconfig = FSM_MAXCONFIG, maxterminate = FSM_MAXTERMINATE,
                maxfailure = FSM_MAXFAILURE, echo_int = 0, echo_max = 0,
                check_magic = False, conf_passive = False\<rparr>,
      f_state = ST_INITIAL, f_reqid = 1, f_rejid = 1, f_echoid = 1,
      f_restart = 0, f_failure = 0, f_config = 0, f_quietCount = 0,
      f_timer = timer_zero, f_echoTimer = timer_zero, f_idleStats = 0,
      f_ackBuf = [], f_nakBuf = [], f_rejBuf = [], f_uninit = junk,
      f_trace = [], f_aborted = False\<rparr>"

definition FsmInst :: "'a fsm \<Rightarrow> 'a \<Rightarrow> 'a fsm" where
  "FsmInst fpt a = fpt\<lparr>f_arg := a\<rparr>"

section \<open>Changing state\<close>

definition FsmNewState :: "'a fsmtype \<Rightarrow> fsm_state \<Rightarrow> 'a fsm \<Rightarrow> 'a fsm" where
  "FsmNewState ty new f =
     (let old = f_state f;
          f = emit (EvState old new) f;
          f = (case NewState ty of None \<Rightarrow> f | Some c \<Rightarrow> c f old new);
          f = f\<lparr>f_state := new\<rparr>;
          f = (if new \<in> {ST_INITIAL, ST_STARTING, ST_CLOSED, ST_STOPPED} \<or> new = ST_OPENED
               then f\<lparr>f_timer := TimerStop2 (f_timer f)\<rparr> else f);
          f = (if old = ST_OPENED then f\<lparr>f_echoTimer := TimerStop2 (f_echoTimer f)\<rparr> else f)
      in if new = ST_OPENED \<and> echo_int (f_conf f) \<noteq> 0
         then fsm_echo_start
                (f\<lparr>f_quietCount := 0, f_idleStats := 0,
                   f_echoTimer :=
                     TimerInit2 (sint (echo_int (f_conf f)) * SECONDS) (f_echoTimer f)\<rparr>)
         else f)"

section \<open>Sending\<close>

text \<open>The packet header: code, id, length of header and payload (a \<open>u_short\<close>).\<close>

definition fsm_header :: "byte \<Rightarrow> byte \<Rightarrow> nat \<Rightarrow> byte list" where
  "fsm_header code i n = [code, i] @ be16 (of_nat (4 + n))"

definition FsmOutputMbuf :: "'a fsmtype \<Rightarrow> byte \<Rightarrow> byte \<Rightarrow> pkt \<Rightarrow> 'a fsm \<Rightarrow> 'a fsm" where
  "FsmOutputMbuf ty code i payload f =
     (let bp = pk_push (fsm_header code i (length (pk_data payload))) payload in
      emit (EvFrame (ty_link_layer ty) (ty_proto ty) (pk_data bp)) f)"

definition FsmOutput :: "'a fsmtype \<Rightarrow> byte \<Rightarrow> byte \<Rightarrow> byte list \<Rightarrow> 'a fsm \<Rightarrow> 'a fsm" where
  "FsmOutput ty code i xs f =
     FsmOutputMbuf ty code i (if length xs > 0 then Some xs else None) f"

section \<open>The layer callbacks\<close>

definition FsmLayerUp :: "'a fsmtype \<Rightarrow> 'a fsm \<Rightarrow> 'a fsm" where
  "FsmLayerUp ty f = call0 (LayerUp ty) (emit EvLayerUp f)"

definition FsmLayerDown :: "'a fsmtype \<Rightarrow> 'a fsm \<Rightarrow> 'a fsm" where
  "FsmLayerDown ty f = call0 (LayerDown ty) (emit EvLayerDown f)"

definition FsmLayerStart :: "'a fsmtype \<Rightarrow> 'a fsm \<Rightarrow> 'a fsm" where
  "FsmLayerStart ty f = call0 (LayerStart ty) (emit EvLayerStart f)"

definition FsmLayerFinish :: "'a fsmtype \<Rightarrow> 'a fsm \<Rightarrow> 'a fsm" where
  "FsmLayerFinish ty f = call0 (LayerFinish ty) (emit EvLayerFinish f)"

definition fsm_Configure :: "'a fsmtype \<Rightarrow> 'a fsm \<Rightarrow> 'a fsm" where
  "fsm_Configure ty f = (case Configure ty of None \<Rightarrow> f | Some c \<Rightarrow> c (emit EvConfigure f))"

definition fsm_UnConfigure :: "'a fsmtype \<Rightarrow> 'a fsm \<Rightarrow> 'a fsm" where
  "fsm_UnConfigure ty f =
     (case UnConfigure ty of None \<Rightarrow> f | Some c \<Rightarrow> c (emit EvUnConfigure f))"

section \<open>Configuration options\<close>

text \<open>\<open>FsmConfValue\<close> with \<open>len = -2\<close> and \<open>len = -4\<close> converts the value to network order; the
  callers here pass the octets (\<open>be16\<close>, \<open>be32\<close>), so one definition covers the three cases.\<close>

definition FsmConfValue :: "byte \<Rightarrow> byte list \<Rightarrow> byte list" where
  "FsmConfValue ty bytes = [ty, of_nat (length bytes + 2)] @ bytes"

fun FsmExtractOptions :: "nat \<Rightarrow> byte list \<Rightarrow> fsmoption list" where
  "FsmExtractOptions 0 data = []"
| "FsmExtractOptions (Suc mx) (t # l # rest) =
     (if unat l < 2 \<or> unat l > length (t # l # rest) then []
      else \<lparr>opt_type = t, opt_len = l, opt_data = take (unat l - 2) rest\<rparr>
             # FsmExtractOptions mx (drop (unat l - 2) rest))"
| "FsmExtractOptions (Suc mx) data = []"

definition FsmFindOptInfo :: "fsmoptinfo list \<Rightarrow> byte \<Rightarrow> fsmoptinfo option" where
  "FsmFindOptInfo lst t = find (\<lambda>oi. oi_type oi = t) lst"

definition FsmDecodeBuffer :: "'a fsmtype \<Rightarrow> byte list \<Rightarrow> mode \<Rightarrow> 'a fsm \<Rightarrow> 'a fsm" where
  "FsmDecodeBuffer ty buf md f =
     (let f = (if md = MODE_REQ then f\<lparr>f_ackBuf := [], f_nakBuf := [], f_rejBuf := []\<rparr> else f)
      in DecodeConfig ty f (FsmExtractOptions FSM_MAX_OPTS buf) md)"

text \<open>Appending an option to one of the three buffers: nothing happens when it does not fit.\<close>

definition opt_bytes :: "fsmoption \<Rightarrow> byte list" where
  "opt_bytes opt = [opt_type opt, opt_len opt] @ take (unat (opt_len opt) - 2) (opt_data opt)"

definition FsmAck :: "fsmoption \<Rightarrow> 'a fsm \<Rightarrow> 'a fsm" where
  "FsmAck opt f =
     (if length (f_ackBuf f) + unat (opt_len opt) > FSM_BUFFER_SIZE then f
      else f\<lparr>f_ackBuf := f_ackBuf f @ opt_bytes opt\<rparr>)"

definition FsmNak :: "fsmoption \<Rightarrow> 'a fsm \<Rightarrow> 'a fsm" where
  "FsmNak opt f =
     (if length (f_nakBuf f) + unat (opt_len opt) > FSM_BUFFER_SIZE then f
      else f\<lparr>f_nakBuf := f_nakBuf f @ opt_bytes opt\<rparr>)"

definition FsmRej :: "fsmoption \<Rightarrow> 'a fsm \<Rightarrow> 'a fsm" where
  "FsmRej opt f =
     (if length (f_rejBuf f) + unat (opt_len opt) > FSM_BUFFER_SIZE then f
      else f\<lparr>f_rejBuf := f_rejBuf f @ opt_bytes opt\<rparr>)"

section \<open>Counters and the send functions\<close>

definition FsmInitRestartCounter :: "'a fsmtype \<Rightarrow> short \<Rightarrow> 'a fsm \<Rightarrow> 'a fsm" where
  "FsmInitRestartCounter ty value f =
     f\<lparr>f_timer := TimerInit2 (sint (arg_retry_timeout ty (f_arg f)) * SECONDS)
                               (TimerStop2 (f_timer f)),
       f_restart := value\<rparr>"

definition FsmInitMaxFailure :: "short \<Rightarrow> 'a fsm \<Rightarrow> 'a fsm" where
  "FsmInitMaxFailure value f = f\<lparr>f_failure := value\<rparr>"

definition FsmInitMaxConfig :: "short \<Rightarrow> 'a fsm \<Rightarrow> 'a fsm" where
  "FsmInitMaxConfig value f = f\<lparr>f_config := value\<rparr>"

definition FsmSendConfigReq :: "'a fsmtype \<Rightarrow> 'a fsm \<Rightarrow> 'a fsm" where
  "FsmSendConfigReq ty f =
     (let (f, req) = BuildConfigReq ty f;
          f = FsmDecodeBuffer ty req MODE_NOP f;
          f = FsmOutput ty CODE_CONFIGREQ (f_reqid f) req (f\<lparr>f_reqid := f_reqid f + 1\<rparr>);
          f = fsm_TimerStart f
      in f\<lparr>f_restart := f_restart f - 1, f_config := f_config f - 1\<rparr>)"

definition FsmSendTerminateReq :: "'a fsmtype \<Rightarrow> 'a fsm \<Rightarrow> 'a fsm" where
  "FsmSendTerminateReq ty f =
     (let f = FsmOutput ty CODE_TERMREQ (f_reqid f) [] (f\<lparr>f_reqid := f_reqid f + 1\<rparr>);
          f = call0 (SendTerminateReq ty) f;
          f = fsm_TimerStart f
      in f\<lparr>f_restart := f_restart f - 1\<rparr>)"

definition FsmSendTerminateAck :: "'a fsmtype \<Rightarrow> 'a fsm \<Rightarrow> 'a fsm" where
  "FsmSendTerminateAck ty f =
     (let f = FsmOutput ty CODE_TERMACK (f_reqid f) [] (f\<lparr>f_reqid := f_reqid f + 1\<rparr>)
      in call0 (SendTerminateAck ty) f)"

definition FsmSendConfigAck :: "'a fsmtype \<Rightarrow> byte \<Rightarrow> byte list \<Rightarrow> 'a fsm \<Rightarrow> 'a fsm" where
  "FsmSendConfigAck ty i opts f =
     FsmOutput ty CODE_CONFIGACK i opts (FsmDecodeBuffer ty opts MODE_NOP f)"

definition FsmSendConfigRej :: "'a fsmtype \<Rightarrow> byte \<Rightarrow> byte list \<Rightarrow> 'a fsm \<Rightarrow> 'a fsm" where
  "FsmSendConfigRej ty i opts f =
     (let f = FsmOutput ty CODE_CONFIGREJ i opts (FsmDecodeBuffer ty opts MODE_NOP f)
      in f\<lparr>f_failure := f_failure f - 1\<rparr>)"

definition FsmSendConfigNak :: "'a fsmtype \<Rightarrow> byte \<Rightarrow> byte list \<Rightarrow> 'a fsm \<Rightarrow> 'a fsm" where
  "FsmSendConfigNak ty i opts f =
     (let f = FsmOutput ty CODE_CONFIGNAK i opts (FsmDecodeBuffer ty opts MODE_NOP f)
      in f\<lparr>f_failure := f_failure f - 1\<rparr>)"

section \<open>The administrative events\<close>

definition FsmOpen :: "'a fsmtype \<Rightarrow> 'a fsm \<Rightarrow> 'a fsm" where
  "FsmOpen ty f = (case f_state f of
     ST_INITIAL \<Rightarrow> FsmLayerStart ty (FsmNewState ty ST_STARTING f)
   | ST_CLOSED \<Rightarrow>
       (let f = fsm_Configure ty f;
            f = FsmNewState ty ST_REQSENT f;
            f = FsmLayerStart ty f;
            f = FsmInitRestartCounter ty (maxconfig (f_conf f)) f;
            f = FsmInitMaxFailure (maxfailure (f_conf f)) f;
            f = FsmInitMaxConfig (maxconfig (f_conf f)) f
        in FsmSendConfigReq ty f)
   | ST_CLOSING \<Rightarrow> FsmNewState ty ST_STOPPING f
   | _ \<Rightarrow> f)"

definition FsmUp :: "'a fsmtype \<Rightarrow> 'a fsm \<Rightarrow> 'a fsm" where
  "FsmUp ty f = (case f_state f of
     ST_INITIAL \<Rightarrow> FsmNewState ty ST_CLOSED f
   | ST_STARTING \<Rightarrow>
       (let f = fsm_Configure ty f;
            f = FsmNewState ty ST_REQSENT f;
            f = FsmInitRestartCounter ty (maxconfig (f_conf f)) f;
            f = FsmInitMaxFailure (maxfailure (f_conf f)) f;
            f = FsmInitMaxConfig (maxconfig (f_conf f)) f
        in FsmSendConfigReq ty f)
   | _ \<Rightarrow> f)"

definition FsmDown :: "'a fsmtype \<Rightarrow> 'a fsm \<Rightarrow> 'a fsm" where
  "FsmDown ty f = (case f_state f of
     ST_CLOSING \<Rightarrow> FsmNewState ty ST_INITIAL (FsmLayerFinish ty f)
   | ST_CLOSED \<Rightarrow> FsmNewState ty ST_INITIAL f
   | ST_STOPPED \<Rightarrow> FsmLayerStart ty (FsmNewState ty ST_STARTING f)
   | ST_STOPPING \<Rightarrow> fsm_UnConfigure ty (FsmNewState ty ST_STARTING f)
   | ST_REQSENT \<Rightarrow> fsm_UnConfigure ty (FsmNewState ty ST_STARTING f)
   | ST_ACKRCVD \<Rightarrow> fsm_UnConfigure ty (FsmNewState ty ST_STARTING f)
   | ST_ACKSENT \<Rightarrow> fsm_UnConfigure ty (FsmNewState ty ST_STARTING f)
   | ST_OPENED \<Rightarrow>
       fsm_UnConfigure ty (FsmLayerDown ty (FsmNewState ty ST_STARTING f))
   | _ \<Rightarrow> f)"

definition FsmClose :: "'a fsmtype \<Rightarrow> 'a fsm \<Rightarrow> 'a fsm" where
  "FsmClose ty f =
     (let term = (\<lambda>f.
            let f = FsmNewState ty ST_CLOSING f;
                f = FsmInitRestartCounter ty (maxterminate (f_conf f)) f
            in FsmSendTerminateReq ty f)
      in case f_state f of
     ST_STARTING \<Rightarrow> FsmLayerFinish ty (FsmNewState ty ST_INITIAL f)
   | ST_STOPPED \<Rightarrow> FsmNewState ty ST_CLOSED f
   | ST_STOPPING \<Rightarrow> FsmNewState ty ST_CLOSING f
   | ST_OPENED \<Rightarrow> fsm_UnConfigure ty (FsmLayerDown ty (term f))
   | ST_REQSENT \<Rightarrow> fsm_UnConfigure ty (term f)
   | ST_ACKRCVD \<Rightarrow> fsm_UnConfigure ty (term f)
   | ST_ACKSENT \<Rightarrow> fsm_UnConfigure ty (term f)
   | _ \<Rightarrow> f)"

definition FsmFailure :: "'a fsmtype \<Rightarrow> fsmfail \<Rightarrow> 'a fsm \<Rightarrow> 'a fsm" where
  "FsmFailure ty reason f =
     (let f = (case Failure ty of None \<Rightarrow> emit (EvFailure reason) f
                                | Some c \<Rightarrow> c (emit (EvFailure reason) f) reason);
          stop = (\<lambda>f.
            let f = FsmNewState ty ST_STOPPED f;
                f = (if \<not> conf_passive (f_conf f) then FsmLayerFinish ty f else f)
            in fsm_UnConfigure ty f)
      in case f_state f of
     ST_CLOSING \<Rightarrow> FsmLayerFinish ty (FsmNewState ty ST_CLOSED f)
   | ST_CLOSED \<Rightarrow> FsmLayerFinish ty f
   | ST_STOPPING \<Rightarrow> FsmLayerFinish ty (FsmNewState ty ST_STOPPED f)
   | ST_ACKRCVD \<Rightarrow> stop f
   | ST_ACKSENT \<Rightarrow> stop f
   | ST_REQSENT \<Rightarrow> stop f
   | ST_OPENED \<Rightarrow>
       (let f = FsmNewState ty ST_STOPPING f;
            f = FsmInitRestartCounter ty (maxterminate (f_conf f)) f;
            f = FsmSendTerminateReq ty f
        in fsm_UnConfigure ty (FsmLayerDown ty f))
   | ST_STOPPED \<Rightarrow> (if \<not> conf_passive (f_conf f) then FsmLayerFinish ty f else f)
   | _ \<Rightarrow> f)"

definition FsmTimeout :: "'a fsmtype \<Rightarrow> 'a fsm \<Rightarrow> 'a fsm" where
  "FsmTimeout ty f =
     (if 0 <s f_restart f then
        (case f_state f of
           ST_CLOSING \<Rightarrow> FsmSendTerminateReq ty f
         | ST_STOPPING \<Rightarrow> FsmSendTerminateReq ty f
         | ST_REQSENT \<Rightarrow> FsmSendConfigReq ty f
         | ST_ACKSENT \<Rightarrow> FsmSendConfigReq ty f
         | ST_ACKRCVD \<Rightarrow> FsmSendConfigReq ty (FsmNewState ty ST_REQSENT f)
         | _ \<Rightarrow> f)
      else
        (case f_state f of
           ST_CLOSING \<Rightarrow> FsmLayerFinish ty (FsmNewState ty ST_CLOSED f)
         | ST_STOPPING \<Rightarrow> FsmLayerFinish ty (FsmNewState ty ST_STOPPED f)
         | ST_REQSENT \<Rightarrow> FsmFailure ty FAIL_NEGOT_FAILURE f
         | ST_ACKSENT \<Rightarrow> FsmFailure ty FAIL_NEGOT_FAILURE f
         | ST_ACKRCVD \<Rightarrow> FsmFailure ty FAIL_NEGOT_FAILURE f
         | _ \<Rightarrow> f))"

section \<open>Receiving: configuration packets\<close>

text \<open>The last switch of \<open>FsmRecvConfigReq\<close>.\<close>

definition rcr_next :: "'a fsmtype \<Rightarrow> bool \<Rightarrow> 'a fsm \<Rightarrow> 'a fsm" where
  "rcr_next ty fullyAcked f = (case f_state f of
     ST_STOPPED \<Rightarrow> FsmNewState ty (if fullyAcked then ST_ACKSENT else ST_REQSENT) f
   | ST_OPENED \<Rightarrow> FsmNewState ty (if fullyAcked then ST_ACKSENT else ST_REQSENT) f
   | ST_REQSENT \<Rightarrow> (if fullyAcked then FsmNewState ty ST_ACKSENT f else f)
   | ST_ACKRCVD \<Rightarrow>
       (if fullyAcked then FsmLayerUp ty (FsmNewState ty ST_OPENED f) else f)
   | ST_ACKSENT \<Rightarrow> (if \<not> fullyAcked then FsmNewState ty ST_REQSENT f else f)
   | _ \<Rightarrow> f)"

text \<open>Everything after the easy cases: decode, answer, move on.\<close>

definition rcr_process :: "'a fsmtype \<Rightarrow> byte \<Rightarrow> pkt \<Rightarrow> 'a fsm \<Rightarrow> 'a fsm" where
  "rcr_process ty i bp f =
     (let f = FsmDecodeBuffer ty (pk_data bp) MODE_REQ f;
          f = (case f_state f of
                 ST_OPENED \<Rightarrow> FsmSendConfigReq ty (FsmLayerDown ty f)
               | ST_STOPPED \<Rightarrow>
                   (let f = FsmLayerStart ty f;
                        f = FsmInitRestartCounter ty (maxconfig (f_conf f)) f;
                        f = FsmInitMaxFailure (maxfailure (f_conf f)) f;
                        f = FsmInitMaxConfig (maxconfig (f_conf f)) f
                    in FsmSendConfigReq ty f)
               | _ \<Rightarrow> f)
      in if f_nakBuf f = [] \<and> f_rejBuf f = []
         then rcr_next ty True (FsmSendConfigAck ty i (f_ackBuf f) f)
         else if f_failure f \<le>s 0 then FsmFailure ty FAIL_NEGOT_FAILURE f
         else rcr_next ty False
                (if f_rejBuf f \<noteq> [] then FsmSendConfigRej ty i (f_rejBuf f) f
                 else FsmSendConfigNak ty i (f_nakBuf f) f))"

definition FsmRecvConfigReq :: "'a fsmtype \<Rightarrow> byte \<Rightarrow> pkt \<Rightarrow> 'a fsm \<Rightarrow> 'a fsm" where
  "FsmRecvConfigReq ty i bp f = (case f_state f of
     ST_INITIAL \<Rightarrow> f
   | ST_STARTING \<Rightarrow> f
   | ST_CLOSED \<Rightarrow> FsmSendTerminateAck ty f
   | ST_STOPPED \<Rightarrow> rcr_process ty i bp (fsm_Configure ty f)
   | ST_CLOSING \<Rightarrow> f
   | ST_STOPPING \<Rightarrow> f
   | _ \<Rightarrow> rcr_process ty i bp f)"

definition FsmRecvConfigAck :: "'a fsmtype \<Rightarrow> byte \<Rightarrow> pkt \<Rightarrow> 'a fsm \<Rightarrow> 'a fsm" where
  "FsmRecvConfigAck ty i bp f =
     (if i \<noteq> f_reqid f - 1 then f
      else
        (let f = FsmDecodeBuffer ty (pk_data bp) MODE_NOP f;
             init = (\<lambda>f.
               let f = FsmInitRestartCounter ty (maxconfig (f_conf f)) f;
                   f = FsmInitMaxFailure (maxfailure (f_conf f)) f
               in FsmInitMaxConfig (maxconfig (f_conf f)) f)
         in case f_state f of
              ST_CLOSED \<Rightarrow> FsmSendTerminateAck ty f
            | ST_STOPPED \<Rightarrow> FsmSendTerminateAck ty f
            | ST_REQSENT \<Rightarrow> fsm_TimerStart (init (FsmNewState ty ST_ACKRCVD f))
            | ST_ACKRCVD \<Rightarrow> FsmSendConfigReq ty (FsmNewState ty ST_REQSENT f)
            | ST_ACKSENT \<Rightarrow> FsmLayerUp ty (init (FsmNewState ty ST_OPENED f))
            | ST_OPENED \<Rightarrow>
                FsmSendConfigReq ty (FsmLayerDown ty (FsmNewState ty ST_REQSENT f))
            | _ \<Rightarrow> f))"

definition FsmRecvConfigNak :: "'a fsmtype \<Rightarrow> byte \<Rightarrow> pkt \<Rightarrow> 'a fsm \<Rightarrow> 'a fsm" where
  "FsmRecvConfigNak ty i bp f =
     (if i \<noteq> f_reqid f - 1 then f
      else case f_state f of
        ST_INITIAL \<Rightarrow> f
      | ST_STARTING \<Rightarrow> f
      | ST_CLOSED \<Rightarrow> FsmSendTerminateAck ty f
      | ST_STOPPED \<Rightarrow> FsmSendTerminateAck ty f
      | ST_CLOSING \<Rightarrow> f
      | ST_STOPPING \<Rightarrow> f
      | _ \<Rightarrow>
          (let f = FsmDecodeBuffer ty (pk_data bp) MODE_NAK f;
               again = (\<lambda>f. FsmSendConfigReq ty
                               (FsmInitRestartCounter ty (maxconfig (f_conf f)) f))
           in if f_config f \<le>s 0 then FsmFailure ty FAIL_NEGOT_FAILURE f
              else case f_state f of
                ST_REQSENT \<Rightarrow> again f
              | ST_ACKSENT \<Rightarrow> again f
              | ST_OPENED \<Rightarrow>
                  FsmSendConfigReq ty (FsmNewState ty ST_REQSENT (FsmLayerDown ty f))
              | ST_ACKRCVD \<Rightarrow> FsmSendConfigReq ty (FsmNewState ty ST_REQSENT f)
              | _ \<Rightarrow> f))"

definition FsmRecvConfigRej :: "'a fsmtype \<Rightarrow> byte \<Rightarrow> pkt \<Rightarrow> 'a fsm \<Rightarrow> 'a fsm" where
  "FsmRecvConfigRej ty i bp f =
     (if i \<noteq> f_reqid f - 1 then f
      else case f_state f of
        ST_INITIAL \<Rightarrow> f
      | ST_STARTING \<Rightarrow> f
      | ST_CLOSED \<Rightarrow> FsmSendTerminateAck ty f
      | ST_STOPPED \<Rightarrow> FsmSendTerminateAck ty f
      | ST_CLOSING \<Rightarrow> f
      | ST_STOPPING \<Rightarrow> f
      | _ \<Rightarrow>
          (let f = FsmDecodeBuffer ty (pk_data bp) MODE_REJ f;
               again = (\<lambda>f. FsmSendConfigReq ty
                               (FsmInitRestartCounter ty (maxconfig (f_conf f)) f))
           in if f_config f \<le>s 0 then FsmFailure ty FAIL_NEGOT_FAILURE f
              else case f_state f of
                ST_REQSENT \<Rightarrow> again f
              | ST_ACKSENT \<Rightarrow> again f
              | ST_OPENED \<Rightarrow>
                  FsmSendConfigReq ty (FsmLayerDown ty (FsmNewState ty ST_REQSENT f))
              | ST_ACKRCVD \<Rightarrow> FsmSendConfigReq ty (FsmNewState ty ST_REQSENT f)
              | _ \<Rightarrow> f))"

section \<open>Receiving: termination and rejection\<close>

definition FsmRecvTermReq :: "'a fsmtype \<Rightarrow> 'a fsm \<Rightarrow> 'a fsm" where
  "FsmRecvTermReq ty f =
     (let f = (if ty_link_layer ty then emit EvPeerDisc f else f) in
      case f_state f of
        ST_INITIAL \<Rightarrow> f
      | ST_STARTING \<Rightarrow> f
      | ST_ACKRCVD \<Rightarrow> FsmSendTerminateAck ty (FsmNewState ty ST_REQSENT f)
      | ST_ACKSENT \<Rightarrow> FsmSendTerminateAck ty (FsmNewState ty ST_REQSENT f)
      | ST_OPENED \<Rightarrow>
          (let f = FsmNewState ty ST_STOPPING f;
               f = FsmSendTerminateAck ty f;
               f = FsmLayerDown ty f;
               f = FsmInitRestartCounter ty 0 f;
               f = fsm_TimerStart f
           in fsm_UnConfigure ty f)
      | _ \<Rightarrow> FsmSendTerminateAck ty f)"

definition FsmRecvTermAck :: "'a fsmtype \<Rightarrow> 'a fsm \<Rightarrow> 'a fsm" where
  "FsmRecvTermAck ty f = (case f_state f of
     ST_CLOSING \<Rightarrow> FsmLayerFinish ty (FsmNewState ty ST_CLOSED f)
   | ST_STOPPING \<Rightarrow> FsmLayerFinish ty (FsmNewState ty ST_STOPPED f)
   | ST_ACKRCVD \<Rightarrow> FsmNewState ty ST_REQSENT f
   | ST_OPENED \<Rightarrow> FsmSendConfigReq ty (FsmLayerDown ty (FsmNewState ty ST_REQSENT f))
   | _ \<Rightarrow> f)"

definition FsmRecvRxjPlus :: "'a fsmtype \<Rightarrow> 'a fsm \<Rightarrow> 'a fsm" where
  "FsmRecvRxjPlus ty f =
     (if f_state f = ST_ACKRCVD then FsmNewState ty ST_REQSENT f else f)"

text \<open>The codes whose rejection is fatal when the protocol does not decide itself.\<close>

definition coderej_fatal :: "byte \<Rightarrow> bool" where
  "coderej_fatal code \<longleftrightarrow> code \<in> {CODE_CONFIGREQ, CODE_CONFIGACK, CODE_CONFIGNAK,
     CODE_CONFIGREJ, CODE_TERMREQ, CODE_TERMACK, CODE_CODEREJ, CODE_PROTOREJ,
     CODE_ECHOREQ, CODE_ECHOREP, CODE_RESETREQ, CODE_RESETACK}"

definition FsmRecvCodeRej :: "'a fsmtype \<Rightarrow> pkt \<Rightarrow> 'a fsm \<Rightarrow> 'a fsm" where
  "FsmRecvCodeRej ty bp f =
     (let (bp, cs) = pk_read 1 bp;
          code = (case cs of [] \<Rightarrow> 0 | c # _ \<Rightarrow> c);
          (f, fatal) = (case RecvCodeRej ty of
                          Some c \<Rightarrow> c f code bp
                        | None \<Rightarrow> (f, coderej_fatal code))
      in if fatal then FsmFailure ty FAIL_RECD_CODEREJ f else FsmRecvRxjPlus ty f)"

definition FsmRecvProtoRej :: "'a fsmtype \<Rightarrow> pkt \<Rightarrow> 'a fsm \<Rightarrow> 'a fsm" where
  "FsmRecvProtoRej ty bp f =
     (let (bp, ps) = pk_read 2 bp;
          proto = (case ps of [] \<Rightarrow> 0 | [a] \<Rightarrow> of_be16 a 0 | a # b # _ \<Rightarrow> of_be16 a b);
          (f, fatal) = (case RecvProtoRej ty of
                          Some c \<Rightarrow> if f_state f = ST_OPENED then c f proto bp else (f, False)
                        | None \<Rightarrow> (f, False))
      in if fatal then FsmFailure ty FAIL_RECD_PROTREJ f else FsmRecvRxjPlus ty f)"

section \<open>Magic numbers, echo and the informational codes\<close>

definition PROT_LINK_LAYER :: "u16 \<Rightarrow> bool" where
  "PROT_LINK_LAYER p \<longleftrightarrow> p AND 0xC000 = 0xC000"

text \<open>The first four octets are read over an uninitialised variable: what a short packet does
  not supply comes from \<open>f_uninit\<close>.\<close>

definition FsmCheckMagic :: "'a fsmtype \<Rightarrow> pkt \<Rightarrow> 'a fsm \<Rightarrow> 'a fsm \<times> pkt" where
  "FsmCheckMagic ty bp f =
     (let (bp, ms) = pk_read 4 bp;
          peer_magic = (case get32 (ms @ drop (length ms) (f_uninit f)) of
                          None \<Rightarrow> 0 | Some m \<Rightarrow> m);
          ought = (if PROT_LINK_LAYER (ty_proto ty) then arg_peer_magic ty (f_arg f) else 0)
      in (if check_magic (f_conf f) \<and> peer_magic \<noteq> 0 \<and> peer_magic \<noteq> ought
          then FsmFailure ty FAIL_RECD_BADMAGIC f else f, bp))"

definition FsmSendEchoReq :: "'a fsmtype \<Rightarrow> pkt \<Rightarrow> 'a fsm \<Rightarrow> 'a fsm" where
  "FsmSendEchoReq ty payload f =
     (if f_state f \<noteq> ST_OPENED then f
      else FsmOutputMbuf ty CODE_ECHOREQ (f_echoid f)
             (pk_push (be32 (arg_want_magic ty (f_arg f))) payload)
             (f\<lparr>f_echoid := f_echoid f + 1\<rparr>))"

definition FsmSendIdent :: "'a fsmtype \<Rightarrow> byte list \<Rightarrow> 'a fsm \<Rightarrow> 'a fsm" where
  "FsmSendIdent ty ident f =
     (let magic = (if f_state f \<noteq> ST_OPENED then 0 else arg_want_magic ty (f_arg f))
      in FsmOutputMbuf ty CODE_IDENT (f_echoid f) (Some (be32 magic @ ident @ [0]))
           (f\<lparr>f_echoid := f_echoid f + 1\<rparr>))"

definition FsmSendTimeRemaining :: "'a fsmtype \<Rightarrow> u32 \<Rightarrow> 'a fsm \<Rightarrow> 'a fsm" where
  "FsmSendTimeRemaining ty seconds f =
     (let magic = (if f_state f \<noteq> ST_OPENED then 0 else arg_want_magic ty (f_arg f))
      in FsmOutputMbuf ty CODE_TIMEREM (f_echoid f) (Some (be32 magic @ be32 seconds))
           (f\<lparr>f_echoid := f_echoid f + 1\<rparr>))"

definition FsmRecvEchoReq :: "'a fsmtype \<Rightarrow> byte \<Rightarrow> pkt \<Rightarrow> 'a fsm \<Rightarrow> 'a fsm" where
  "FsmRecvEchoReq ty i bp f =
     (let (f, bp) = FsmCheckMagic ty bp f in
      if f_state f \<noteq> ST_OPENED then f
      else FsmOutputMbuf ty CODE_ECHOREP i (pk_push (be32 (arg_want_magic ty (f_arg f))) bp) f)"

definition FsmRecvEchoRep :: "'a fsmtype \<Rightarrow> pkt \<Rightarrow> 'a fsm \<Rightarrow> 'a fsm" where
  "FsmRecvEchoRep ty bp f = fst (FsmCheckMagic ty bp f)"

definition call_pkt :: "('a fsm \<Rightarrow> pkt \<Rightarrow> 'a fsm) option \<Rightarrow> 'a fsm \<times> pkt \<Rightarrow> 'a fsm" where
  "call_pkt cb fb = (case cb of None \<Rightarrow> fst fb | Some c \<Rightarrow> c (fst fb) (snd fb))"

definition FsmRecvDiscReq :: "'a fsmtype \<Rightarrow> pkt \<Rightarrow> 'a fsm \<Rightarrow> 'a fsm" where
  "FsmRecvDiscReq ty bp f = call_pkt (RecvDiscReq ty) (FsmCheckMagic ty bp f)"

definition FsmRecvIdent :: "'a fsmtype \<Rightarrow> pkt \<Rightarrow> 'a fsm \<Rightarrow> 'a fsm" where
  "FsmRecvIdent ty bp f = call_pkt (RecvIdent ty) (FsmCheckMagic ty bp f)"

definition FsmRecvVendor :: "'a fsmtype \<Rightarrow> pkt \<Rightarrow> 'a fsm \<Rightarrow> 'a fsm" where
  "FsmRecvVendor ty bp f = call_pkt (RecvVendor ty) (FsmCheckMagic ty bp f)"

definition FsmRecvTimeRemain :: "'a fsmtype \<Rightarrow> pkt \<Rightarrow> 'a fsm \<Rightarrow> 'a fsm" where
  "FsmRecvTimeRemain ty bp f = call_pkt (RecvTimeRemain ty) (FsmCheckMagic ty bp f)"

definition FsmRecvResetReq :: "'a fsmtype \<Rightarrow> byte \<Rightarrow> pkt \<Rightarrow> 'a fsm \<Rightarrow> 'a fsm" where
  "FsmRecvResetReq ty i bp f = (case RecvResetReq ty of None \<Rightarrow> f | Some c \<Rightarrow> c f i bp)"

definition FsmRecvResetAck :: "'a fsmtype \<Rightarrow> byte \<Rightarrow> pkt \<Rightarrow> 'a fsm \<Rightarrow> 'a fsm" where
  "FsmRecvResetAck ty i bp f = (case RecvResetAck ty of None \<Rightarrow> f | Some c \<Rightarrow> c f i bp)"

text \<open>The keep-alive timer. Nothing can be said of the link without a bundle.\<close>

definition FsmEchoTimeout :: "'a fsmtype \<Rightarrow> 'a fsm \<Rightarrow> 'a fsm" where
  "FsmEchoTimeout ty f =
     (if \<not> arg_has_bund ty (f_arg f) then f
      else
        (let old = f_idleStats f;
             f = (case arg_recvFrames ty (f_arg f) of
                    None \<Rightarrow> f | Some n \<Rightarrow> f\<lparr>f_idleStats := n\<rparr>);
             f = (if f_idleStats f > old then f\<lparr>f_quietCount := 0\<rparr>
                  else f\<lparr>f_quietCount := f_quietCount f + 1\<rparr>)
         in if f_quietCount f = 0 then f
            else if f_quietCount f \<noteq> 1
                    \<and> sint (f_quietCount f) * sint (echo_int (f_conf f)) \<ge> sint (echo_max (f_conf f))
            then FsmFailure ty FAIL_ECHO_TIMEOUT
                   (f\<lparr>f_echoTimer := TimerStop2 (f_echoTimer f)\<rparr>)
            else FsmSendEchoReq ty None f))"

section \<open>Input\<close>

definition known_code :: "'a fsmtype \<Rightarrow> byte \<Rightarrow> bool" where
  "known_code ty code \<longleftrightarrow> unat code < NUM_FSM_CODES \<and> bit (ty_known_codes ty) (unat code)"

text \<open>\<open>FsmCodes[code].action\<close>\<close>

definition fsm_action :: "'a fsmtype \<Rightarrow> byte \<Rightarrow> byte \<Rightarrow> pkt \<Rightarrow> 'a fsm \<Rightarrow> 'a fsm" where
  "fsm_action ty code i bp f =
     (if code = CODE_VENDOR then FsmRecvVendor ty bp f
      else if code = CODE_CONFIGREQ then FsmRecvConfigReq ty i bp f
      else if code = CODE_CONFIGACK then FsmRecvConfigAck ty i bp f
      else if code = CODE_CONFIGNAK then FsmRecvConfigNak ty i bp f
      else if code = CODE_CONFIGREJ then FsmRecvConfigRej ty i bp f
      else if code = CODE_TERMREQ then FsmRecvTermReq ty f
      else if code = CODE_TERMACK then FsmRecvTermAck ty f
      else if code = CODE_CODEREJ then FsmRecvCodeRej ty bp f
      else if code = CODE_PROTOREJ then FsmRecvProtoRej ty bp f
      else if code = CODE_ECHOREQ then FsmRecvEchoReq ty i bp f
      else if code = CODE_ECHOREP then FsmRecvEchoRep ty bp f
      else if code = CODE_DISCREQ then FsmRecvDiscReq ty bp f
      else if code = CODE_IDENT then FsmRecvIdent ty bp f
      else if code = CODE_TIMEREM then FsmRecvTimeRemain ty bp f
      else if code = CODE_RESETREQ then FsmRecvResetReq ty i bp f
      else FsmRecvResetAck ty i bp f)"

text \<open>The octets of an incoming frame up to the dispatch: runt frames and frames whose length
  field does not fit are dropped (\<open>None\<close>), padding is cut off.\<close>

definition fsm_decap :: "pkt \<Rightarrow> (byte \<times> byte \<times> pkt) option" where
  "fsm_decap bp =
     (if length (pk_data bp) < 4 then None
      else
        (let recd_len = length (pk_data bp);
             (bp, hdr) = pk_read 4 bp;
             len = unat (of_be16 (hdr ! 2) (hdr ! 3))
         in if len < 4 \<or> len > recd_len then None
            else Some (hdr ! 0, hdr ! 1, if len < recd_len then pk_trunc (len - 4) bp else bp)))"

definition FsmInput :: "'a fsmtype \<Rightarrow> pkt \<Rightarrow> 'a fsm \<Rightarrow> 'a fsm" where
  "FsmInput ty bp f =
     (case fsm_decap bp of
        None \<Rightarrow> f
      | Some (code, i, bp) \<Rightarrow>
          if \<not> known_code ty code
          then FsmOutputMbuf ty CODE_CODEREJ (f_rejid f) bp (f\<lparr>f_rejid := f_rejid f + 1\<rparr>)
          else fsm_action ty code i bp f)"

section \<open>Names\<close>

definition FsmCodeName :: "int \<Rightarrow> string" where
  "FsmCodeName code =
     (if 0 \<le> code \<and> code < int NUM_FSM_CODES
      then [''Vendor Packet'', ''Configure Request'', ''Configure Ack'', ''Configure Nak'',
            ''Configure Reject'', ''Terminate Request'', ''Terminate Ack'', ''Code Reject'',
            ''Protocol Reject'', ''Echo Request'', ''Echo Reply'', ''Discard Request'',
            ''Ident'', ''Time Remain'', ''Reset Request'', ''Reset Ack''] ! nat code
      else ''UNKNOWN'')"

fun FsmStateName :: "fsm_state \<Rightarrow> string" where
  "FsmStateName ST_INITIAL = ''Initial''"
| "FsmStateName ST_STARTING = ''Starting''"
| "FsmStateName ST_CLOSED = ''Closed''"
| "FsmStateName ST_STOPPED = ''Stopped''"
| "FsmStateName ST_CLOSING = ''Closing''"
| "FsmStateName ST_STOPPING = ''Stopping''"
| "FsmStateName ST_REQSENT = ''Req-Sent''"
| "FsmStateName ST_ACKRCVD = ''Ack-Rcvd''"
| "FsmStateName ST_ACKSENT = ''Ack-Sent''"
| "FsmStateName ST_OPENED = ''Opened''"

end
