(* ===== verification/Fsm_Codec.thy ===== *)
theory Fsm_Codec
  imports Fsm
begin

text \<open>
  Facts about the wire format of the automaton that hold whatever protocol runs on it: control
  packets and configuration options are read back as they were written, reading never invents
  octets, and the three option buffers never exceed their 256 octets.
\<close>

section \<open>Options\<close>

definition opt_ok :: "fsmoption \<Rightarrow> bool" where
  "opt_ok opt \<longleftrightarrow> 2 \<le> unat (opt_len opt) \<and> length (opt_data opt) = unat (opt_len opt) - 2"

definition opts_bytes :: "fsmoption list \<Rightarrow> byte list" where
  "opts_bytes opts = concat (map opt_bytes opts)"

lemma opts_bytes_simps [simp]:
  "opts_bytes [] = []" "opts_bytes (o1 # os) = opt_bytes o1 @ opts_bytes os"
  "opts_bytes (os @ os') = opts_bytes os @ opts_bytes os'"
  by (simp_all add: opts_bytes_def)

lemma opt_ok_bytes: "opt_ok opt \<Longrightarrow> opt_bytes opt = opt_type opt # opt_len opt # opt_data opt"
  by (simp add: opt_ok_def opt_bytes_def)

lemma length_opt_bytes: "opt_ok opt \<Longrightarrow> length (opt_bytes opt) = unat (opt_len opt)"
  by (simp add: opt_ok_bytes) (auto simp: opt_ok_def)

lemma length_opt_bytes_pos: "opt_bytes opt \<noteq> []"
  by (simp add: opt_bytes_def)

lemma extract_step:
  assumes "opt_ok opt"
  shows "FsmExtractOptions (Suc n) (opt_bytes opt @ rest) = opt # FsmExtractOptions n rest"
  using assms by (simp add: opt_ok_bytes) (simp add: opt_ok_def)

lemma extract_opts_bytes:
  assumes "list_all opt_ok opts" "length opts \<le> n"
  shows "FsmExtractOptions n (opts_bytes opts @ rest)
           = opts @ FsmExtractOptions (n - length opts) rest"
  using assms
proof (induction opts arbitrary: n)
  case (Cons opt opts)
  then obtain m where m: "n = Suc m" by (cases n) auto
  with Cons show ?case by (simp add: extract_step del: FsmExtractOptions.simps)
qed simp

lemma extract_Nil [simp]: "FsmExtractOptions n [] = []"
  by (cases n) simp_all

lemma extract_ok: "list_all opt_ok (FsmExtractOptions n data)"
  by (induction n data rule: FsmExtractOptions.induct)
    (auto simp: opt_ok_def not_less min_def)

lemma extract_prefix: "\<exists>rest. data = opts_bytes (FsmExtractOptions n data) @ rest"
proof (induction n data rule: FsmExtractOptions.induct)
  case (2 mx t l rest)
  show ?case
  proof (cases "unat l < 2 \<or> unat l > length (t # l # rest)")
    case False
    with 2 obtain r where
      r: "drop (unat l - 2) rest = opts_bytes (FsmExtractOptions mx (drop (unat l - 2) rest)) @ r"
      by blast
    have "rest = take (unat l - 2) rest @ drop (unat l - 2) rest" by simp
    with r have "rest = take (unat l - 2) rest
        @ opts_bytes (FsmExtractOptions mx (drop (unat l - 2) rest)) @ r"
      by metis
    with False show ?thesis by (auto simp: opt_bytes_def)
  qed auto
qed auto

lemma extract_length: "length (FsmExtractOptions n data) \<le> n"
  by (induction n data rule: FsmExtractOptions.induct) auto

lemma conf_value_opt:
  assumes "length bytes \<le> 253"
  shows "FsmConfValue ty bytes
           = opt_bytes \<lparr>opt_type = ty, opt_len = of_nat (length bytes + 2), opt_data = bytes\<rparr>"
    and "opt_ok \<lparr>opt_type = ty, opt_len = of_nat (length bytes + 2), opt_data = bytes\<rparr>"
proof -
  have "unat (of_nat (length bytes + 2) :: byte) = length bytes + 2"
    using assms by (intro unat_of_nat_small) simp
  then show "FsmConfValue ty bytes
           = opt_bytes \<lparr>opt_type = ty, opt_len = of_nat (length bytes + 2), opt_data = bytes\<rparr>"
    and "opt_ok \<lparr>opt_type = ty, opt_len = of_nat (length bytes + 2), opt_data = bytes\<rparr>"
    by (simp_all add: FsmConfValue_def opt_bytes_def opt_ok_def)
qed

section \<open>The option buffers\<close>

definition bufs_ok :: "'a fsm \<Rightarrow> bool" where
  "bufs_ok f \<longleftrightarrow> length (f_ackBuf f) \<le> FSM_BUFFER_SIZE \<and> length (f_nakBuf f) \<le> FSM_BUFFER_SIZE
     \<and> length (f_rejBuf f) \<le> FSM_BUFFER_SIZE"

lemma bufs_ok_add:
  assumes "bufs_ok f" "opt_ok opt"
  shows "bufs_ok (FsmAck opt f)" "bufs_ok (FsmNak opt f)" "bufs_ok (FsmRej opt f)"
  using assms length_opt_bytes [OF assms(2)]
  by (auto simp: bufs_ok_def FsmAck_def FsmNak_def FsmRej_def)

section \<open>Control packets\<close>

text \<open>What one end writes the other end reads, padding and all.\<close>

lemma decap_Cons:
  "fsm_decap (Some (c0 # c1 # c2 # c3 # xs)) =
     (if unat (of_be16 c2 c3) < 4 \<or> unat (of_be16 c2 c3) > length xs + 4 then None
      else Some (c0, c1, if xs = [] then None else Some (take (unat (of_be16 c2 c3) - 4) xs)))"
  by (auto simp: fsm_decap_def pk_read_def pk_trunc_def Let_def)

lemma decap_short: "length (pk_data bp) < 4 \<Longrightarrow> fsm_decap bp = None"
  by (simp add: fsm_decap_def)

lemma four_octets:
  assumes "\<not> length (pk_data bp) < 4"
  obtains c0 c1 c2 c3 xs where "bp = Some (c0 # c1 # c2 # c3 # xs)"
proof -
  from assms have "4 \<le> length (pk_data bp)" by simp
  then show ?thesis
    using that by (cases bp) (auto simp: numeral_eq_Suc Suc_le_length_iff)
qed

lemma decap_header:
  assumes "length p + 4 < 65536"
  shows "fsm_decap (Some (fsm_header code i (length p) @ p @ pad))
           = Some (code, i, if p = [] \<and> pad = [] then None else Some p)"
proof -
  have "unat (of_nat (4 + length p) :: u16) = 4 + length p"
    using assms by (intro unat_of_nat_small) simp
  then show ?thesis
    by (auto simp: fsm_header_def be16_def decap_Cons)
qed

lemma decap_payload:
  assumes "fsm_decap bp = Some (code, i, p)"
  shows "\<exists>a b pad. pk_data bp = [code, i, a, b] @ pk_data p @ pad
           \<and> unat (of_be16 a b) = length (pk_data p) + 4"
proof -
  have "\<not> length (pk_data bp) < 4" using assms by (auto simp: fsm_decap_def)
  then obtain c0 c1 c2 c3 xs where bp: "bp = Some (c0 # c1 # c2 # c3 # xs)"
    by (rule four_octets)
  let ?len = "unat (of_be16 c2 c3)"
  have c: "c0 = code" "c1 = i" "4 \<le> ?len" "?len \<le> length xs + 4"
    and p: "pk_data p = take (?len - 4) xs"
    using assms bp by (auto simp: decap_Cons split: if_splits)
  show ?thesis
    using bp c p by (intro exI [of _ c2] exI [of _ c3] exI [of _ "drop (?len - 4) xs"]) auto
qed

end
