(* ===== verification/Fsm_Control.thy ===== *)
theory Fsm_Control
  imports Fsm_Codec
begin

text \<open>
  What the automaton promises to the protocols that run on it. The interface \<open>fsm_quiet\<close>
  collects the callbacks of a protocol type and their contract: a callback may do what it likes
  with its own state (\<open>f_arg\<close>) and, when decoding a request, with the three option buffers, but
  not with the automaton; that for a Reset-Request may send packets. IPCP, IPV6CP and ECP keep the contract (by
  interpretation); LCP and CCP do not, for a callback of theirs runs their own automaton. Under it
  every operation is shown to make the transition of the RFC's state table \<open>rfc_table\<close>, with its
  layer calls but for the entries listed in \<open>deviation\<close>, the retransmission timer is shown to run
  exactly in the states that wait for the peer, and negotiation with a silent peer to stop.
\<close>

section \<open>The automaton without its client\<close>

definition ctl :: "'a fsm \<Rightarrow> unit fsm" where
  "ctl f = \<lparr>f_arg = (), f_conf = f_conf f, f_state = f_state f, f_reqid = f_reqid f,
     f_rejid = f_rejid f, f_echoid = f_echoid f, f_restart = f_restart f, f_failure = f_failure f,
     f_config = f_config f, f_quietCount = f_quietCount f, f_timer = f_timer f,
     f_echoTimer = f_echoTimer f, f_idleStats = f_idleStats f, f_ackBuf = [], f_nakBuf = [],
     f_rejBuf = [], f_uninit = f_uninit f, f_trace = f_trace f, f_aborted = f_aborted f\<rparr>"

definition bufs :: "'a fsm \<Rightarrow> byte list \<times> byte list \<times> byte list" where
  "bufs f = (f_ackBuf f, f_nakBuf f, f_rejBuf f)"

lemma ctl_fields:
  assumes "ctl g = ctl f"
  shows "f_conf g = f_conf f" "f_state g = f_state f" "f_reqid g = f_reqid f"
    "f_rejid g = f_rejid f" "f_echoid g = f_echoid f" "f_restart g = f_restart f"
    "f_failure g = f_failure f" "f_config g = f_config f" "f_quietCount g = f_quietCount f"
    "f_timer g = f_timer f" "f_echoTimer g = f_echoTimer f" "f_idleStats g = f_idleStats f"
    "f_uninit g = f_uninit f" "f_trace g = f_trace f" "f_aborted g = f_aborted f"
  using assms by (simp_all add: ctl_def)

lemma bufs_fields:
  assumes "bufs g = bufs f"
  shows "f_ackBuf g = f_ackBuf f" "f_nakBuf g = f_nakBuf f" "f_rejBuf g = f_rejBuf f"
  using assms by (simp_all add: bufs_def)

lemma emit_simps [simp]:
  "f_conf (emit e f) = f_conf f" "f_state (emit e f) = f_state f" "f_reqid (emit e f) = f_reqid f"
  "f_rejid (emit e f) = f_rejid f" "f_echoid (emit e f) = f_echoid f"
  "f_restart (emit e f) = f_restart f" "f_failure (emit e f) = f_failure f"
  "f_config (emit e f) = f_config f" "f_quietCount (emit e f) = f_quietCount f"
  "f_timer (emit e f) = f_timer f" "f_echoTimer (emit e f) = f_echoTimer f"
  "f_idleStats (emit e f) = f_idleStats f" "f_uninit (emit e f) = f_uninit f"
  "f_trace (emit e f) = f_trace f @ [e]" "f_aborted (emit e f) = f_aborted f"
  "f_arg (emit e f) = f_arg f" "f_ackBuf (emit e f) = f_ackBuf f"
  "f_nakBuf (emit e f) = f_nakBuf f" "f_rejBuf (emit e f) = f_rejBuf f"
  by (simp_all add: emit_def)

text \<open>The layer calls among the effects.\<close>

fun is_layer :: "fsm_event \<Rightarrow> bool" where
  "is_layer EvLayerUp = True"
| "is_layer EvLayerDown = True"
| "is_layer EvLayerStart = True"
| "is_layer EvLayerFinish = True"
| "is_layer _ = False"

definition layers :: "'a fsm \<Rightarrow> fsm_event list" where
  "layers f = filter is_layer (f_trace f)"

text \<open>What a callback does that only sends packets.\<close>

fun is_frame :: "fsm_event \<Rightarrow> bool" where
  "is_frame (EvFrame _ _ _) = True"
| "is_frame _ = False"

definition sent :: "'a fsm \<Rightarrow> 'a fsm \<Rightarrow> bool" where
  "sent f g \<longleftrightarrow> (\<exists>fr. list_all is_frame fr \<and> ctl g = ctl (f\<lparr>f_trace := f_trace f @ fr\<rparr>))"

lemma sent_ctl: "ctl g = ctl f \<Longrightarrow> sent f g"
  by (auto simp: sent_def ctl_def intro: exI [of _ "[]"])

lemma sent_output: "ctl g = ctl f \<Longrightarrow> sent f (FsmOutputMbuf ty code i bp g)"
  by (auto simp: sent_def ctl_def FsmOutputMbuf_def Let_def emit_def
      intro!: exI [of _ "[EvFrame (ty_link_layer ty) (ty_proto ty) x]" for x])

lemma sentE:
  assumes "sent f g"
  obtains fr where "list_all is_frame fr" "ctl g = ctl (f\<lparr>f_trace := f_trace f @ fr\<rparr>)"
  using assms by (auto simp: sent_def)

section \<open>The state table\<close>

text \<open>
  The events and the table of RFC 1661, section 4.1, for the actions on the layers (tlu, tld, tls,
  tlf), entry by entry as the RFC prints it. Undefined entries leave the state. The passive option
  withholds tlf where the RFC marks the entry "p", which is on TO- only.
\<close>

datatype rfc_event =
  RUp | RDown | ROpen | RClose | TOplus | TOminus | RCRplus | RCRminus | RCA | RCN | RTR | RTA
| RXJplus | RXJminus | RNone

fun rfc_table :: "bool \<Rightarrow> rfc_event \<Rightarrow> fsm_state \<Rightarrow> fsm_state \<times> fsm_event list" where
  "rfc_table p RUp s = (case s of
     ST_INITIAL \<Rightarrow> (ST_CLOSED, []) | ST_STARTING \<Rightarrow> (ST_REQSENT, []) | _ \<Rightarrow> (s, []))"
| "rfc_table p RDown s = (case s of
     ST_CLOSED \<Rightarrow> (ST_INITIAL, [])
   | ST_STOPPED \<Rightarrow> (ST_STARTING, [EvLayerStart])
   | ST_CLOSING \<Rightarrow> (ST_INITIAL, [])
   | ST_OPENED \<Rightarrow> (ST_STARTING, [EvLayerDown])
   | ST_INITIAL \<Rightarrow> (s, []) | ST_STARTING \<Rightarrow> (s, [])
   | _ \<Rightarrow> (ST_STARTING, []))"
| "rfc_table p ROpen s = (case s of
     ST_INITIAL \<Rightarrow> (ST_STARTING, [EvLayerStart])
   | ST_CLOSED \<Rightarrow> (ST_REQSENT, [])
   | ST_CLOSING \<Rightarrow> (ST_STOPPING, [])
   | _ \<Rightarrow> (s, []))"
| "rfc_table p RClose s = (case s of
     ST_STARTING \<Rightarrow> (ST_INITIAL, [EvLayerFinish])
   | ST_STOPPED \<Rightarrow> (ST_CLOSED, [])
   | ST_STOPPING \<Rightarrow> (ST_CLOSING, [])
   | ST_OPENED \<Rightarrow> (ST_CLOSING, [EvLayerDown])
   | ST_REQSENT \<Rightarrow> (ST_CLOSING, []) | ST_ACKRCVD \<Rightarrow> (ST_CLOSING, [])
   | ST_ACKSENT \<Rightarrow> (ST_CLOSING, [])
   | _ \<Rightarrow> (s, []))"
| "rfc_table p TOplus s = (case s of ST_ACKRCVD \<Rightarrow> (ST_REQSENT, []) | _ \<Rightarrow> (s, []))"
| "rfc_table p TOminus s = (case s of
     ST_CLOSING \<Rightarrow> (ST_CLOSED, [EvLayerFinish])
   | ST_STOPPING \<Rightarrow> (ST_STOPPED, [EvLayerFinish])
   | ST_REQSENT \<Rightarrow> (ST_STOPPED, if p then [] else [EvLayerFinish])
   | ST_ACKRCVD \<Rightarrow> (ST_STOPPED, if p then [] else [EvLayerFinish])
   | ST_ACKSENT \<Rightarrow> (ST_STOPPED, if p then [] else [EvLayerFinish])
   | _ \<Rightarrow> (s, []))"
| "rfc_table p RCRplus s = (case s of
     ST_STOPPED \<Rightarrow> (ST_ACKSENT, [])
   | ST_REQSENT \<Rightarrow> (ST_ACKSENT, [])
   | ST_ACKRCVD \<Rightarrow> (ST_OPENED, [EvLayerUp])
   | ST_OPENED \<Rightarrow> (ST_ACKSENT, [EvLayerDown])
   | _ \<Rightarrow> (s, []))"
| "rfc_table p RCRminus s = (case s of
     ST_STOPPED \<Rightarrow> (ST_REQSENT, [])
   | ST_ACKSENT \<Rightarrow> (ST_REQSENT, [])
   | ST_OPENED \<Rightarrow> (ST_REQSENT, [EvLayerDown])
   | _ \<Rightarrow> (s, []))"
| "rfc_table p RCA s = (case s of
     ST_REQSENT \<Rightarrow> (ST_ACKRCVD, [])
   | ST_ACKRCVD \<Rightarrow> (ST_REQSENT, [])
   | ST_ACKSENT \<Rightarrow> (ST_OPENED, [EvLayerUp])
   | ST_OPENED \<Rightarrow> (ST_REQSENT, [EvLayerDown])
   | _ \<Rightarrow> (s, []))"
| "rfc_table p RCN s = (case s of
     ST_ACKRCVD \<Rightarrow> (ST_REQSENT, [])
   | ST_OPENED \<Rightarrow> (ST_REQSENT, [EvLayerDown])
   | _ \<Rightarrow> (s, []))"
| "rfc_table p RTR s = (case s of
     ST_ACKRCVD \<Rightarrow> (ST_REQSENT, []) | ST_ACKSENT \<Rightarrow> (ST_REQSENT, [])
   | ST_OPENED \<Rightarrow> (ST_STOPPING, [EvLayerDown])
   | _ \<Rightarrow> (s, []))"
| "rfc_table p RTA s = (case s of
     ST_CLOSING \<Rightarrow> (ST_CLOSED, [EvLayerFinish])
   | ST_STOPPING \<Rightarrow> (ST_STOPPED, [EvLayerFinish])
   | ST_ACKRCVD \<Rightarrow> (ST_REQSENT, [])
   | ST_OPENED \<Rightarrow> (ST_REQSENT, [EvLayerDown])
   | _ \<Rightarrow> (s, []))"
| "rfc_table p RXJplus s = (case s of ST_ACKRCVD \<Rightarrow> (ST_REQSENT, []) | _ \<Rightarrow> (s, []))"
| "rfc_table p RXJminus s = (case s of
     ST_CLOSED \<Rightarrow> (ST_CLOSED, [EvLayerFinish])
   | ST_STOPPED \<Rightarrow> (ST_STOPPED, [EvLayerFinish])
   | ST_CLOSING \<Rightarrow> (ST_CLOSED, [EvLayerFinish])
   | ST_STOPPING \<Rightarrow> (ST_STOPPED, [EvLayerFinish])
   | ST_REQSENT \<Rightarrow> (ST_STOPPED, [EvLayerFinish])
   | ST_ACKRCVD \<Rightarrow> (ST_STOPPED, [EvLayerFinish])
   | ST_ACKSENT \<Rightarrow> (ST_STOPPED, [EvLayerFinish])
   | ST_OPENED \<Rightarrow> (ST_STOPPING, [EvLayerDown])
   | _ \<Rightarrow> (s, []))"
| "rfc_table p RNone s = (s, [])"

text \<open>
  Where the code's layer calls are not those of the RFC. Three entries carry the comment "Missing in
  RFC 1661": tls on Open in Closed, tls on a Configure-Request in Stopped, tlf on Down in Closing.
  The fourth carries none: with the passive option \<open>FsmFailure\<close> withholds the tlf of RXJ- in
  Stopped, Req-Sent, Ack-Rcvd and Ack-Sent, although it announces the action of the RFC.
\<close>

definition deviation :: "bool \<Rightarrow> rfc_event \<Rightarrow> fsm_state \<Rightarrow> fsm_event list option" where
  "deviation p e s =
     (if e = ROpen \<and> s = ST_CLOSED \<or> e \<in> {RCRplus, RCRminus} \<and> s = ST_STOPPED
      then Some [EvLayerStart]
      else if e = RDown \<and> s = ST_CLOSING then Some [EvLayerFinish]
      else if p \<and> e = RXJminus \<and> s \<in> {ST_STOPPED, ST_REQSENT, ST_ACKRCVD, ST_ACKSENT}
      then Some [] else None)"

definition mpd_layers :: "bool \<Rightarrow> rfc_event \<Rightarrow> fsm_state \<Rightarrow> fsm_event list" where
  "mpd_layers p e s = (case deviation p e s of None \<Rightarrow> snd (rfc_table p e s) | Some ls \<Rightarrow> ls)"

text \<open>One operation of the code is one event of the table: the RFC's move, and the RFC's layer calls
  but for the deviations.\<close>

definition makes :: "rfc_event \<Rightarrow> 'a fsm \<Rightarrow> 'a fsm \<Rightarrow> bool" where
  "makes e f g \<longleftrightarrow>
     f_state g = fst (rfc_table (conf_passive (f_conf f)) e (f_state f)) \<and>
     layers g = layers f @ mpd_layers (conf_passive (f_conf f)) e (f_state f)"

lemmas table_defs = makes_def mpd_layers_def deviation_def

section \<open>The steps of an automaton\<close>

text \<open>
  Everything that can happen to an automaton: the four administrative events, a received
  packet, the two timers (which fire only while registered; a one-shot registration
  is gone when the handler runs), and a fatal failure reported by another component.
\<close>

inductive fsm_step :: "'a fsmtype \<Rightarrow> 'a fsm \<Rightarrow> 'a fsm \<Rightarrow> bool" for ty where
  step_open: "fsm_step ty f (FsmOpen ty f)"
| step_close: "fsm_step ty f (FsmClose ty f)"
| step_up: "fsm_step ty f (FsmUp ty f)"
| step_down: "fsm_step ty f (FsmDown ty f)"
| step_input: "fsm_step ty f (FsmInput ty bp f)"
| step_timeout: "TimerStarted (f_timer f) \<Longrightarrow>
    fsm_step ty f (FsmTimeout ty (f\<lparr>f_timer := timer_fired (f_timer f)\<rparr>))"
| step_echo: "TimerStarted (f_echoTimer f) \<Longrightarrow>
    fsm_step ty f (FsmEchoTimeout ty (f\<lparr>f_echoTimer := timer_fired (f_echoTimer f)\<rparr>))"
| step_failure: "fsm_step ty f (FsmFailure ty reason f)"

inductive fsm_reachable :: "'a fsmtype \<Rightarrow> 'a fsm \<Rightarrow> 'a fsm \<Rightarrow> bool" for ty f0 where
  reach_init: "fsm_reachable ty f0 f0"
| reach_step: "fsm_reachable ty f0 f \<Longrightarrow> fsm_step ty f g \<Longrightarrow> fsm_reachable ty f0 g"

section \<open>The timers\<close>

definition waiting :: "fsm_state \<Rightarrow> bool" where
  "waiting s \<longleftrightarrow> s \<in> {ST_CLOSING, ST_STOPPING, ST_REQSENT, ST_ACKRCVD, ST_ACKSENT}"

text \<open>
  No assertion has failed, the retransmission timer runs exactly in the waiting states, it has a
  handler as soon as it can be started, and the keep-alive timer runs only in Opened.
\<close>

definition timers_ok :: "'a fsm \<Rightarrow> bool" where
  "timers_ok f \<longleftrightarrow>
     \<not> f_aborted f \<and>
     0 <s maxfailure (f_conf f) \<and>
     (TimerStarted (f_timer f) \<longleftrightarrow> waiting (f_state f)) \<and>
     (TimerStarted (f_timer f) \<longrightarrow> \<not> t_recurring (f_timer f)) \<and>
     (f_state f \<notin> {ST_INITIAL, ST_STARTING, ST_CLOSED} \<longrightarrow> t_func (f_timer f)) \<and>
     (TimerStarted (f_echoTimer f) \<longrightarrow> f_state f = ST_OPENED)"

section \<open>The callback contract\<close>

locale fsm_quiet =
  fixes ty :: "'a fsmtype"
  assumes q_NewState: "NewState ty = Some c \<Longrightarrow> ctl (c f s s') = ctl f"
    and q_LayerUp: "ctl (call0 (LayerUp ty) f) = ctl f"
    and q_LayerDown: "ctl (call0 (LayerDown ty) f) = ctl f"
    and q_LayerStart: "ctl (call0 (LayerStart ty) f) = ctl f"
    and q_LayerFinish: "ctl (call0 (LayerFinish ty) f) = ctl f"
    and q_Build: "ctl (fst (BuildConfigReq ty f)) = ctl f"
    and q_Decode: "ctl (DecodeConfig ty f opts md) = ctl f"
    and q_Configure: "Configure ty = Some c1 \<Longrightarrow> ctl (c1 f) = ctl f"
    and q_UnConfigure: "UnConfigure ty = Some c1 \<Longrightarrow> ctl (c1 f) = ctl f"
    and q_TermReq: "ctl (call0 (SendTerminateReq ty) f) = ctl f"
    and q_TermAck: "ctl (call0 (SendTerminateAck ty) f) = ctl f"
    and q_Failure: "Failure ty = Some c2 \<Longrightarrow> ctl (c2 f r) = ctl f"
    and q_CodeRej: "RecvCodeRej ty = Some c3 \<Longrightarrow> ctl (fst (c3 f code bp)) = ctl f"
    and q_ProtoRej: "RecvProtoRej ty = Some c4 \<Longrightarrow> ctl (fst (c4 f p bp)) = ctl f"
    and q_ResetReq: "RecvResetReq ty = Some c5 \<Longrightarrow> sent f (c5 f i bp)"
    and q_ResetAck: "RecvResetAck ty = Some c5 \<Longrightarrow> ctl (c5 f i bp) = ctl f"
    and q_Ident: "RecvIdent ty = Some c6 \<Longrightarrow> ctl (c6 f bp) = ctl f"
    and q_DiscReq: "RecvDiscReq ty = Some c6 \<Longrightarrow> ctl (c6 f bp) = ctl f"
    and q_TimeRemain: "RecvTimeRemain ty = Some c6 \<Longrightarrow> ctl (c6 f bp) = ctl f"
    and q_Vendor: "RecvVendor ty = Some c6 \<Longrightarrow> ctl (c6 f bp) = ctl f"
    and b_LayerDown: "bufs (call0 (LayerDown ty) f) = bufs f"
    and b_LayerStart: "bufs (call0 (LayerStart ty) f) = bufs f"
    and b_Build: "bufs (fst (BuildConfigReq ty f)) = bufs f"
    and b_Decode: "bufs (DecodeConfig ty f opts MODE_NOP) = bufs f"
begin

lemma q_NewState_call: "ctl (case NewState ty of None \<Rightarrow> f | Some c \<Rightarrow> c f s s') = ctl f"
  by (simp add: q_NewState split: option.split)

lemmas quiet_calls [simp] =
  ctl_fields [OF q_NewState_call] ctl_fields [OF q_LayerUp] ctl_fields [OF q_LayerDown]
  ctl_fields [OF q_LayerStart] ctl_fields [OF q_LayerFinish] ctl_fields [OF q_Build]
  ctl_fields [OF q_Decode] ctl_fields [OF q_TermReq] ctl_fields [OF q_TermAck]
  ctl_fields [OF q_Configure] ctl_fields [OF q_UnConfigure] ctl_fields [OF q_Failure]
  ctl_fields [OF q_CodeRej] ctl_fields [OF q_ProtoRej]
  ctl_fields [OF q_ResetAck] ctl_fields [OF q_Ident]
  ctl_fields [OF q_DiscReq] ctl_fields [OF q_TimeRemain] ctl_fields [OF q_Vendor]
  bufs_fields [OF b_LayerDown] bufs_fields [OF b_LayerStart] bufs_fields [OF b_Build]
  bufs_fields [OF b_Decode]

text \<open>The layer calls append themselves to the trace and change nothing else.\<close>

lemma layer_ctl:
  "ctl (FsmLayerUp ty f) = ctl (emit EvLayerUp f)"
  "ctl (FsmLayerDown ty f) = ctl (emit EvLayerDown f)"
  "ctl (FsmLayerStart ty f) = ctl (emit EvLayerStart f)"
  "ctl (FsmLayerFinish ty f) = ctl (emit EvLayerFinish f)"
  by (simp_all add: FsmLayerUp_def FsmLayerDown_def FsmLayerStart_def FsmLayerFinish_def
      q_LayerUp q_LayerDown q_LayerStart q_LayerFinish)

lemma configure_ctl:
  "ctl (fsm_Configure ty f) = ctl (if Configure ty = None then f else emit EvConfigure f)"
  "ctl (fsm_UnConfigure ty f) = ctl (if UnConfigure ty = None then f else emit EvUnConfigure f)"
  by (auto simp: fsm_Configure_def fsm_UnConfigure_def q_Configure q_UnConfigure
      split: option.split)

lemmas quiet_layers [simp] =
  ctl_fields [OF layer_ctl(1)] ctl_fields [OF layer_ctl(2)] ctl_fields [OF layer_ctl(3)]
  ctl_fields [OF layer_ctl(4)] ctl_fields [OF configure_ctl(1)] ctl_fields [OF configure_ctl(2)]

lemma layer_bufs [simp]:
  "f_ackBuf (FsmLayerDown ty f) = f_ackBuf f" "f_nakBuf (FsmLayerDown ty f) = f_nakBuf f"
  "f_rejBuf (FsmLayerDown ty f) = f_rejBuf f" "f_ackBuf (FsmLayerStart ty f) = f_ackBuf f"
  "f_nakBuf (FsmLayerStart ty f) = f_nakBuf f" "f_rejBuf (FsmLayerStart ty f) = f_rejBuf f"
  by (simp_all add: FsmLayerDown_def FsmLayerStart_def)

text \<open>Moving to a state.\<close>

lemma NewState_fields [simp]:
  "f_state (FsmNewState ty s f) = s"
  "f_conf (FsmNewState ty s f) = f_conf f"
  "f_reqid (FsmNewState ty s f) = f_reqid f"
  "f_restart (FsmNewState ty s f) = f_restart f"
  "f_failure (FsmNewState ty s f) = f_failure f"
  "f_config (FsmNewState ty s f) = f_config f"
  "f_trace (FsmNewState ty s f) = f_trace f @ [EvState (f_state f) s]"
  "f_aborted (FsmNewState ty s f) = f_aborted f"
  "f_timer (FsmNewState ty s f) =
     (if waiting s then f_timer f else TimerStop2 (f_timer f))"
proof -
  define stop where "stop g = (if s \<in> {ST_INITIAL, ST_STARTING, ST_CLOSED, ST_STOPPED} \<or> s = ST_OPENED
      then g\<lparr>f_timer := TimerStop2 (f_timer g)\<rparr> else g)" for g :: "'a fsm"
  define unecho where "unecho g = (if f_state f = ST_OPENED
      then g\<lparr>f_echoTimer := TimerStop2 (f_echoTimer g)\<rparr> else g)" for g :: "'a fsm"
  define echo where "echo g = (if s = ST_OPENED \<and> echo_int (f_conf g) \<noteq> 0
       then fsm_echo_start (g\<lparr>f_quietCount := 0, f_idleStats := 0, f_echoTimer :=
              TimerInit2 (sint (echo_int (f_conf g)) * SECONDS) (f_echoTimer g)\<rparr>)
       else g)" for g :: "'a fsm"
  define tail where "tail g = echo (unecho (stop (g\<lparr>f_state := s\<rparr>)))" for g :: "'a fsm"
  have w: "waiting s \<longleftrightarrow> \<not> (s \<in> {ST_INITIAL, ST_STARTING, ST_CLOSED, ST_STOPPED} \<or> s = ST_OPENED)"
    by (cases s) (simp_all add: waiting_def)
  have stop: "f_conf (stop g) = f_conf g" "f_reqid (stop g) = f_reqid g" "f_restart (stop g) =
    f_restart g" "f_failure (stop g) = f_failure g" "f_config (stop g) = f_config g" "f_trace
    (stop g) = f_trace g" "f_aborted (stop g) = f_aborted g" "f_state (stop g) = f_state g"
    "f_timer (stop g) = (if waiting s then f_timer g else TimerStop2 (f_timer g))" for g
    by (simp_all add: stop_def w)
  have unecho: "f_conf (unecho g) = f_conf g" "f_reqid (unecho g) = f_reqid g" "f_restart
    (unecho g) = f_restart g" "f_failure (unecho g) = f_failure g" "f_config (unecho g) =
    f_config g" "f_trace (unecho g) = f_trace g" "f_aborted (unecho g) = f_aborted g" "f_state
    (unecho g) = f_state g" "f_timer (unecho g) = f_timer g" for g
    by (simp_all add: unecho_def)
  have echo: "f_conf (echo g) = f_conf g" "f_reqid (echo g) = f_reqid g" "f_restart (echo g) =
    f_restart g" "f_failure (echo g) = f_failure g" "f_config (echo g) = f_config g" "f_trace
    (echo g) = f_trace g" "f_aborted (echo g) = f_aborted g" "f_state (echo g) = f_state g"
    "f_timer (echo g) = f_timer g" for g
    by (simp_all add: echo_def fsm_echo_start_def TimerStartRecurring2_def)
  note fields = stop unecho echo
  have *: "FsmNewState ty s f = tail (case NewState ty of None \<Rightarrow> emit (EvState (f_state f) s) f
      | Some c \<Rightarrow> c (emit (EvState (f_state f) s) f) (f_state f) s)"
    by (simp only: FsmNewState_def tail_def stop_def unecho_def echo_def Let_def)
  show "f_state (FsmNewState ty s f) = s" "f_conf (FsmNewState ty s f) = f_conf f"
    "f_reqid (FsmNewState ty s f) = f_reqid f" "f_restart (FsmNewState ty s f) = f_restart f"
    "f_failure (FsmNewState ty s f) = f_failure f" "f_config (FsmNewState ty s f) = f_config f"
    "f_trace (FsmNewState ty s f) = f_trace f @ [EvState (f_state f) s]"
    "f_aborted (FsmNewState ty s f) = f_aborted f"
    "f_timer (FsmNewState ty s f) =
       (if waiting s then f_timer f else TimerStop2 (f_timer f))"
    by (simp_all add: * tail_def fields)
qed

lemma NewState_echo [simp]:
  "s \<noteq> ST_OPENED \<Longrightarrow> f_echoTimer (FsmNewState ty s f) =
     (if f_state f = ST_OPENED then TimerStop2 (f_echoTimer f) else f_echoTimer f)"
  by (simp add: FsmNewState_def Let_def)

text \<open>Sending.\<close>

lemma output_fields [simp]:
  "f_state (FsmOutput ty code i xs f) = f_state f"
  "f_conf (FsmOutput ty code i xs f) = f_conf f"
  "f_reqid (FsmOutput ty code i xs f) = f_reqid f"
  "f_restart (FsmOutput ty code i xs f) = f_restart f"
  "f_failure (FsmOutput ty code i xs f) = f_failure f"
  "f_config (FsmOutput ty code i xs f) = f_config f"
  "f_timer (FsmOutput ty code i xs f) = f_timer f"
  "f_echoTimer (FsmOutput ty code i xs f) = f_echoTimer f"
  "f_aborted (FsmOutput ty code i xs f) = f_aborted f"
  "f_nakBuf (FsmOutput ty code i xs f) = f_nakBuf f"
  "f_rejBuf (FsmOutput ty code i xs f) = f_rejBuf f"
  "layers (FsmOutput ty code i xs f) = layers f"
  by (simp_all add: FsmOutput_def FsmOutputMbuf_def layers_def)

lemma outputMbuf_fields [simp]:
  "f_state (FsmOutputMbuf ty code i bp f) = f_state f"
  "f_conf (FsmOutputMbuf ty code i bp f) = f_conf f"
  "f_timer (FsmOutputMbuf ty code i bp f) = f_timer f"
  "f_echoTimer (FsmOutputMbuf ty code i bp f) = f_echoTimer f"
  "f_aborted (FsmOutputMbuf ty code i bp f) = f_aborted f"
  "layers (FsmOutputMbuf ty code i bp f) = layers f"
  by (simp_all add: FsmOutputMbuf_def layers_def)

lemma decode_ctl: "ctl (FsmDecodeBuffer ty buf md f) = ctl f"
  by (simp add: FsmDecodeBuffer_def q_Decode) (simp add: ctl_def)

lemmas quiet_decode [simp] = ctl_fields [OF decode_ctl]

lemma decode_nop_bufs [simp]:
  "f_ackBuf (FsmDecodeBuffer ty buf MODE_NOP f) = f_ackBuf f"
  "f_nakBuf (FsmDecodeBuffer ty buf MODE_NOP f) = f_nakBuf f"
  "f_rejBuf (FsmDecodeBuffer ty buf MODE_NOP f) = f_rejBuf f"
  by (simp_all add: FsmDecodeBuffer_def)

end

text \<open>Facts that do not need the contract.\<close>

lemma layers_update [simp]:
  "layers (f\<lparr>f_reqid := a\<rparr>) = layers f" "layers (f\<lparr>f_restart := b\<rparr>) = layers f"
  "layers (f\<lparr>f_config := c\<rparr>) = layers f" "layers (f\<lparr>f_failure := d\<rparr>) = layers f"
  "layers (f\<lparr>f_timer := t\<rparr>) = layers f" "layers (f\<lparr>f_echoTimer := t\<rparr>) = layers f"
  "layers (f\<lparr>f_echoid := a\<rparr>) = layers f" "layers (f\<lparr>f_rejid := a\<rparr>) = layers f"
  "layers (f\<lparr>f_quietCount := q\<rparr>) = layers f" "layers (f\<lparr>f_idleStats := n\<rparr>) = layers f"
  by (simp_all add: layers_def)

lemma timer_start_fields [simp]:
  "f_state (fsm_TimerStart f) = f_state f" "f_conf (fsm_TimerStart f) = f_conf f"
  "f_reqid (fsm_TimerStart f) = f_reqid f"
  "f_restart (fsm_TimerStart f) = f_restart f" "f_failure (fsm_TimerStart f) = f_failure f"
  "f_config (fsm_TimerStart f) = f_config f" "f_echoTimer (fsm_TimerStart f) = f_echoTimer f"
  "f_nakBuf (fsm_TimerStart f) = f_nakBuf f" "f_rejBuf (fsm_TimerStart f) = f_rejBuf f"
  "f_ackBuf (fsm_TimerStart f) = f_ackBuf f" "f_trace (fsm_TimerStart f) = f_trace f"
  "layers (fsm_TimerStart f) = layers f"
  "t_func (f_timer (fsm_TimerStart f)) = t_func (f_timer f)"
  "f_aborted (fsm_TimerStart f) \<longleftrightarrow> f_aborted f \<or> \<not> t_func (f_timer f)"
  "t_func (f_timer f) \<Longrightarrow> TimerStarted (f_timer (fsm_TimerStart f))"
  "t_func (f_timer f) \<Longrightarrow> \<not> t_recurring (f_timer (fsm_TimerStart f))"
  by (auto simp: fsm_TimerStart_def TimerStart2_def TimerStarted_def fsm_abort_def layers_def)

lemma init_counter_fields [simp]:
  "f_state (FsmInitRestartCounter ty v f) = f_state f"
  "f_conf (FsmInitRestartCounter ty v f) = f_conf f"
  "f_reqid (FsmInitRestartCounter ty v f) = f_reqid f"
  "f_restart (FsmInitRestartCounter ty v f) = v"
  "f_failure (FsmInitRestartCounter ty v f) = f_failure f"
  "f_config (FsmInitRestartCounter ty v f) = f_config f"
  "f_trace (FsmInitRestartCounter ty v f) = f_trace f"
  "f_aborted (FsmInitRestartCounter ty v f) = f_aborted f"
  "f_echoTimer (FsmInitRestartCounter ty v f) = f_echoTimer f"
  "f_nakBuf (FsmInitRestartCounter ty v f) = f_nakBuf f"
  "f_rejBuf (FsmInitRestartCounter ty v f) = f_rejBuf f"
  "layers (FsmInitRestartCounter ty v f) = layers f"
  "t_func (f_timer (FsmInitRestartCounter ty v f))"
  "\<not> TimerStarted (f_timer (FsmInitRestartCounter ty v f))"
  by (simp_all add: FsmInitRestartCounter_def layers_def)

lemma init_max_fields [simp]:
  "f_state (FsmInitMaxFailure v f) = f_state f" "f_state (FsmInitMaxConfig v f) = f_state f"
  "f_conf (FsmInitMaxFailure v f) = f_conf f" "f_conf (FsmInitMaxConfig v f) = f_conf f"
  "f_reqid (FsmInitMaxFailure v f) = f_reqid f" "f_reqid (FsmInitMaxConfig v f) = f_reqid f"
  "f_restart (FsmInitMaxFailure v f) = f_restart f" "f_restart (FsmInitMaxConfig v f) = f_restart f"
  "f_failure (FsmInitMaxFailure v f) = v" "f_failure (FsmInitMaxConfig v f) = f_failure f"
  "f_config (FsmInitMaxFailure v f) = f_config f" "f_config (FsmInitMaxConfig v f) = v"
  "f_timer (FsmInitMaxFailure v f) = f_timer f" "f_timer (FsmInitMaxConfig v f) = f_timer f"
  "f_echoTimer (FsmInitMaxFailure v f) = f_echoTimer f"
  "f_echoTimer (FsmInitMaxConfig v f) = f_echoTimer f"
  "f_aborted (FsmInitMaxFailure v f) = f_aborted f" "f_aborted (FsmInitMaxConfig v f) = f_aborted f"
  "f_nakBuf (FsmInitMaxFailure v f) = f_nakBuf f" "f_nakBuf (FsmInitMaxConfig v f) = f_nakBuf f"
  "f_rejBuf (FsmInitMaxFailure v f) = f_rejBuf f" "f_rejBuf (FsmInitMaxConfig v f) = f_rejBuf f"
  "layers (FsmInitMaxFailure v f) = layers f" "layers (FsmInitMaxConfig v f) = layers f"
  by (simp_all add: FsmInitMaxFailure_def FsmInitMaxConfig_def layers_def)

end
