(* ===== verification/Fsm_Table.thy ===== *)
theory Fsm_Table
  imports Fsm_Control
begin

text \<open>
  The state table. Inside the interface \<open>fsm_quiet\<close> every operation of the automaton is shown to
  make the move of one entry of \<open>rfc_table\<close> and its layer calls, but for the entries of \<open>deviation\<close>; the
  exception,
  a Configure-Request that cannot be answered in Opened once the failure counter has run out, is
  stated as such (the layer is taken down twice).
\<close>

context fsm_quiet
begin

section \<open>What the send functions leave alone\<close>

lemma layers_calls [simp]:
  "layers (FsmLayerUp ty f) = layers f @ [EvLayerUp]"
  "layers (FsmLayerDown ty f) = layers f @ [EvLayerDown]"
  "layers (FsmLayerStart ty f) = layers f @ [EvLayerStart]"
  "layers (FsmLayerFinish ty f) = layers f @ [EvLayerFinish]"
  "layers (fsm_Configure ty f) = layers f" "layers (fsm_UnConfigure ty f) = layers f"
  "layers (FsmNewState ty s f) = layers f"
  "layers (FsmDecodeBuffer ty buf md f) = layers f"
  "layers (fst (BuildConfigReq ty f)) = layers f"
  "layers (call0 (SendTerminateReq ty) f) = layers f"
  "layers (call0 (SendTerminateAck ty) f) = layers f"
  by (simp_all add: layers_def)

lemma send_req_fields [simp]:
  "f_state (FsmSendConfigReq ty f) = f_state f"
  "f_conf (FsmSendConfigReq ty f) = f_conf f"
  "f_reqid (FsmSendConfigReq ty f) = f_reqid f + 1"
  "f_restart (FsmSendConfigReq ty f) = f_restart f - 1"
  "f_config (FsmSendConfigReq ty f) = f_config f - 1"
  "f_failure (FsmSendConfigReq ty f) = f_failure f"
  "f_echoTimer (FsmSendConfigReq ty f) = f_echoTimer f"
  "f_nakBuf (FsmSendConfigReq ty f) = f_nakBuf f"
  "f_rejBuf (FsmSendConfigReq ty f) = f_rejBuf f"
  "layers (FsmSendConfigReq ty f) = layers f"
  "t_func (f_timer (FsmSendConfigReq ty f)) = t_func (f_timer f)"
  "f_aborted (FsmSendConfigReq ty f) \<longleftrightarrow> f_aborted f \<or> \<not> t_func (f_timer f)"
  "t_func (f_timer f) \<Longrightarrow> TimerStarted (f_timer (FsmSendConfigReq ty f))"
  "t_func (f_timer f) \<Longrightarrow> \<not> t_recurring (f_timer (FsmSendConfigReq ty f))"
  by (auto simp: FsmSendConfigReq_def Let_def case_prod_beta)

lemma send_term_fields [simp]:
  "f_state (FsmSendTerminateReq ty f) = f_state f"
  "f_conf (FsmSendTerminateReq ty f) = f_conf f"
  "f_restart (FsmSendTerminateReq ty f) = f_restart f - 1"
  "f_failure (FsmSendTerminateReq ty f) = f_failure f"
  "f_echoTimer (FsmSendTerminateReq ty f) = f_echoTimer f"
  "layers (FsmSendTerminateReq ty f) = layers f"
  "t_func (f_timer (FsmSendTerminateReq ty f)) = t_func (f_timer f)"
  "f_aborted (FsmSendTerminateReq ty f) \<longleftrightarrow> f_aborted f \<or> \<not> t_func (f_timer f)"
  "t_func (f_timer f) \<Longrightarrow> TimerStarted (f_timer (FsmSendTerminateReq ty f))"
  "t_func (f_timer f) \<Longrightarrow> \<not> t_recurring (f_timer (FsmSendTerminateReq ty f))"
  by (auto simp: FsmSendTerminateReq_def Let_def)

lemma send_term_ack_fields [simp]:
  "f_state (FsmSendTerminateAck ty f) = f_state f"
  "f_conf (FsmSendTerminateAck ty f) = f_conf f"
  "f_restart (FsmSendTerminateAck ty f) = f_restart f"
  "f_timer (FsmSendTerminateAck ty f) = f_timer f"
  "f_echoTimer (FsmSendTerminateAck ty f) = f_echoTimer f"
  "f_aborted (FsmSendTerminateAck ty f) = f_aborted f"
  "layers (FsmSendTerminateAck ty f) = layers f"
  by (simp_all add: FsmSendTerminateAck_def Let_def)

lemma send_answer_fields [simp]:
  "f_state (FsmSendConfigAck ty i opts f) = f_state f"
  "f_conf (FsmSendConfigAck ty i opts f) = f_conf f"
  "f_timer (FsmSendConfigAck ty i opts f) = f_timer f"
  "f_echoTimer (FsmSendConfigAck ty i opts f) = f_echoTimer f"
  "f_aborted (FsmSendConfigAck ty i opts f) = f_aborted f"
  "layers (FsmSendConfigAck ty i opts f) = layers f"
  "f_state (FsmSendConfigRej ty i opts f) = f_state f"
  "f_conf (FsmSendConfigRej ty i opts f) = f_conf f"
  "f_timer (FsmSendConfigRej ty i opts f) = f_timer f"
  "f_echoTimer (FsmSendConfigRej ty i opts f) = f_echoTimer f"
  "f_aborted (FsmSendConfigRej ty i opts f) = f_aborted f"
  "layers (FsmSendConfigRej ty i opts f) = layers f"
  "f_failure (FsmSendConfigRej ty i opts f) = f_failure f - 1"
  "f_state (FsmSendConfigNak ty i opts f) = f_state f"
  "f_conf (FsmSendConfigNak ty i opts f) = f_conf f"
  "f_timer (FsmSendConfigNak ty i opts f) = f_timer f"
  "f_echoTimer (FsmSendConfigNak ty i opts f) = f_echoTimer f"
  "f_aborted (FsmSendConfigNak ty i opts f) = f_aborted f"
  "layers (FsmSendConfigNak ty i opts f) = layers f"
  "f_failure (FsmSendConfigNak ty i opts f) = f_failure f - 1"
  by (simp_all add: FsmSendConfigAck_def FsmSendConfigRej_def FsmSendConfigNak_def Let_def)

lemma failure_call [simp]:
  "ctl (case Failure ty of None \<Rightarrow> f | Some c \<Rightarrow> c f r) = ctl f"
  by (simp add: q_Failure split: option.split)

lemmas failure_fields [simp] = ctl_fields [OF failure_call]

lemma layers_failure_call [simp]:
  "layers (case Failure ty of None \<Rightarrow> f | Some c \<Rightarrow> c f r) = layers f"
  by (simp add: layers_def)

lemma layers_emit [simp]: "\<not> is_layer e \<Longrightarrow> layers (emit e f) = layers f"
  by (simp add: layers_def)

section \<open>The administrative events and the timer\<close>

lemma table_Open: "makes ROpen f (FsmOpen ty f)"
  by (cases "f_state f"; simp add: table_defs FsmOpen_def Let_def)

lemma table_Up: "makes RUp f (FsmUp ty f)"
  by (cases "f_state f"; simp add: table_defs FsmUp_def Let_def)

lemma table_Down: "makes RDown f (FsmDown ty f)"
  by (cases "f_state f"; simp add: table_defs FsmDown_def Let_def)

lemma table_Close: "makes RClose f (FsmClose ty f)"
  by (cases "f_state f"; simp add: table_defs FsmClose_def Let_def)

lemma table_Failure: "makes RXJminus f (FsmFailure ty r f)"
  by (cases "f_state f"; simp add: table_defs FsmFailure_def Let_def)

lemma table_Timeout:
  "makes (if 0 <s f_restart f then TOplus else TOminus) f (FsmTimeout ty f)"
  by (cases "f_state f"; simp add: table_defs FsmTimeout_def FsmFailure_def Let_def)

section \<open>Received packets\<close>

lemma table_TermReq: "makes RTR f (FsmRecvTermReq ty f)"
  by (cases "f_state f"; cases "ty_link_layer ty"; simp add: table_defs FsmRecvTermReq_def Let_def)

lemma table_TermAck: "makes RTA f (FsmRecvTermAck ty f)"
  by (cases "f_state f"; simp add: table_defs FsmRecvTermAck_def)

lemma table_RxjPlus: "makes RXJplus f (FsmRecvRxjPlus ty f)"
  by (cases "f_state f"; simp add: table_defs FsmRecvRxjPlus_def)

lemma table_ConfigAck:
  "makes (if i = f_reqid f - 1 then RCA else RNone) f (FsmRecvConfigAck ty i bp f)"
  by (cases "f_state f"; simp add: table_defs FsmRecvConfigAck_def Let_def)

lemma table_ConfigNak:
  "makes (if i \<noteq> f_reqid f - 1 \<or> f_state f \<notin> {ST_REQSENT, ST_ACKRCVD, ST_ACKSENT, ST_OPENED}
          then RNone else if f_config f \<le>s 0 then RXJminus else RCN) f
     (FsmRecvConfigNak ty i bp f)"
  by (cases "f_state f"; simp add: table_defs FsmRecvConfigNak_def FsmFailure_def Let_def)

lemma table_ConfigRej:
  "makes (if i \<noteq> f_reqid f - 1 \<or> f_state f \<notin> {ST_REQSENT, ST_ACKRCVD, ST_ACKSENT, ST_OPENED}
          then RNone else if f_config f \<le>s 0 then RXJminus else RCN) f
     (FsmRecvConfigRej ty i bp f)"
  by (cases "f_state f"; simp add: table_defs FsmRecvConfigRej_def FsmFailure_def Let_def)

lemma makes_ctl:
  assumes "makes e g h" "ctl g = ctl f"
  shows "makes e f h"
  using assms(1) ctl_fields [OF assms(2)] by (simp add: makes_def layers_def)

lemma fatal_or_plus:
  assumes "ctl (fst gb) = ctl f"
  shows "\<exists>e \<in> {RXJplus, RXJminus}. makes e f
           (if snd gb then FsmFailure ty r (fst gb) else FsmRecvRxjPlus ty (fst gb))"
  using makes_ctl [OF table_Failure assms] makes_ctl [OF table_RxjPlus assms] by simp

lemma table_CodeRej: "\<exists>e \<in> {RXJplus, RXJminus}. makes e f (FsmRecvCodeRej ty bp f)"
  unfolding FsmRecvCodeRej_def Let_def case_prod_beta
  by (rule fatal_or_plus) (simp add: q_CodeRej split: option.split)

lemma table_ProtoRej: "\<exists>e \<in> {RXJplus, RXJminus}. makes e f (FsmRecvProtoRej ty bp f)"
  unfolding FsmRecvProtoRej_def Let_def case_prod_beta
  by (rule fatal_or_plus) (simp add: q_ProtoRej split: option.split)

lemma check_magic_cases:
  "fst (FsmCheckMagic ty bp f) = f \<or>
   fst (FsmCheckMagic ty bp f) = FsmFailure ty FAIL_RECD_BADMAGIC f"
  by (simp add: FsmCheckMagic_def Let_def case_prod_beta)

end

section \<open>Configure-Requests\<close>

text \<open>The event a Configure-Request stands for: none where it is ignored or answered by a
  Terminate-Ack, otherwise good or bad by what decoding leaves in the Nak and Reject buffers.\<close>

definition rcr_decoded :: "'a fsmtype \<Rightarrow> pkt \<Rightarrow> 'a fsm \<Rightarrow> 'a fsm" where
  "rcr_decoded ty bp f =
     FsmDecodeBuffer ty (pk_data bp) MODE_REQ
       (if f_state f = ST_STOPPED then fsm_Configure ty f else f)"

definition rcr_event :: "'a fsmtype \<Rightarrow> pkt \<Rightarrow> 'a fsm \<Rightarrow> rfc_event" where
  "rcr_event ty bp f =
     (if f_state f \<in> {ST_INITIAL, ST_STARTING, ST_CLOSED, ST_CLOSING, ST_STOPPING} then RNone
      else if f_nakBuf (rcr_decoded ty bp f) = [] \<and> f_rejBuf (rcr_decoded ty bp f) = []
      then RCRplus
      else if (if f_state f = ST_STOPPED then maxfailure (f_conf f) else f_failure f) \<le>s 0
      then RXJminus else RCRminus)"

context fsm_quiet
begin

lemma rcr_decoded_fields:
  "f_state f \<noteq> ST_STOPPED \<Longrightarrow> rcr_decoded ty bp f = FsmDecodeBuffer ty (pk_data bp) MODE_REQ f"
  "f_state f = ST_STOPPED \<Longrightarrow>
     rcr_decoded ty bp f = FsmDecodeBuffer ty (pk_data bp) MODE_REQ (fsm_Configure ty f)"
  by (simp_all add: rcr_decoded_def)

lemma table_ConfigReq:
  assumes "0 <s maxfailure (f_conf f)" "f_state f = ST_OPENED \<Longrightarrow> rcr_event ty bp f \<noteq> RXJminus"
  shows "makes (rcr_event ty bp f) f (FsmRecvConfigReq ty i bp f)"
proof -
  have mf: "\<not> maxfailure (f_conf f) \<le>s 0" using assms(1) short_not_gt0 by blast
  note defs = table_defs rcr_event_def FsmRecvConfigReq_def rcr_process_def rcr_next_def
    rcr_decoded_fields Let_def
  show ?thesis
    using assms mf
    by (cases "f_state f"; cases "f_nakBuf (rcr_decoded ty bp f) = [] \<and> f_rejBuf (rcr_decoded ty bp f) = []")
      (auto simp: defs FsmFailure_def split: if_splits)
qed

lemma table_ConfigReq_worn_out:
  assumes "f_state f = ST_OPENED" "rcr_event ty bp f = RXJminus"
  shows "f_state (FsmRecvConfigReq ty i bp f) = ST_STOPPING"
    and "layers (FsmRecvConfigReq ty i bp f) = layers f @ [EvLayerDown, EvLayerDown]"
  using assms
  by (auto simp: rcr_event_def FsmRecvConfigReq_def rcr_process_def
      rcr_decoded_fields FsmFailure_def Let_def split: if_splits)

end

end
