(* ===== verification/Fsm_Timers.thy ===== *)
theory Fsm_Timers
  imports Fsm_Table
begin

text \<open>
  The timers of the automaton. Every operation keeps \<open>timers_ok\<close> (so no assertion in
  \<open>timer.c\<close> fails, the retransmission timer runs exactly in the five waiting states, and
  keep-alives are sent in Opened only), whatever the order in which operations, packets and
  timeouts arrive. With a silent peer the timeouts end the negotiation: the restart counter bounds
  their number.
\<close>

lemma timers_ok_ctl:
  assumes "ctl g = ctl f"
  shows "timers_ok g = timers_ok f"
  using ctl_fields [OF assms] by (simp add: timers_ok_def)

lemma timers_ok_sent:
  assumes "sent f g"
  shows "timers_ok g = timers_ok f"
proof -
  from assms obtain fr where "ctl g = ctl (f\<lparr>f_trace := f_trace f @ fr\<rparr>)" by (rule sentE)
  then have "timers_ok g = timers_ok (f\<lparr>f_trace := f_trace f @ fr\<rparr>)" by (rule timers_ok_ctl)
  then show ?thesis by (simp add: timers_ok_def)
qed

text \<open>The timer as the answers to a Configure-Request need it.\<close>

definition armed :: "'a fsm \<Rightarrow> bool" where
  "armed f \<longleftrightarrow> \<not> f_aborted f \<and> 0 <s maxfailure (f_conf f) \<and> TimerStarted (f_timer f) \<and>
     \<not> t_recurring (f_timer f) \<and> t_func (f_timer f) \<and>
     (TimerStarted (f_echoTimer f) \<longrightarrow> f_state f = ST_OPENED)"

context fsm_quiet
begin

lemmas timers_defs = timers_ok_def waiting_def Let_def

lemma timers_Open: "timers_ok f \<Longrightarrow> timers_ok (FsmOpen ty f)"
  by (cases "f_state f"; simp add: timers_defs FsmOpen_def)

lemma timers_Up: "timers_ok f \<Longrightarrow> timers_ok (FsmUp ty f)"
  by (cases "f_state f"; simp add: timers_defs FsmUp_def)

lemma timers_Down: "timers_ok f \<Longrightarrow> timers_ok (FsmDown ty f)"
  by (cases "f_state f"; simp add: timers_defs FsmDown_def)

lemma timers_Close: "timers_ok f \<Longrightarrow> timers_ok (FsmClose ty f)"
  by (cases "f_state f"; simp add: timers_defs FsmClose_def)

lemma timers_Failure: "timers_ok f \<Longrightarrow> timers_ok (FsmFailure ty r f)"
  by (cases "f_state f"; simp add: timers_defs FsmFailure_def)

lemma timers_Timeout:
  assumes "timers_ok f" "TimerStarted (f_timer f)"
  shows "timers_ok (FsmTimeout ty (f\<lparr>f_timer := timer_fired (f_timer f)\<rparr>))"
proof -
  have "\<not> TimerStarted (timer_fired (f_timer f))"
    using assms by (simp add: timers_ok_def timer_fired_def TimerStarted_def)
  then show ?thesis
    using assms
    by (cases "f_state f"; simp add: timers_defs FsmTimeout_def FsmFailure_def)
qed

lemma timers_TermReq: "timers_ok f \<Longrightarrow> timers_ok (FsmRecvTermReq ty f)"
  by (cases "f_state f"; cases "ty_link_layer ty"; simp add: timers_defs FsmRecvTermReq_def)

lemma timers_TermAck: "timers_ok f \<Longrightarrow> timers_ok (FsmRecvTermAck ty f)"
  by (cases "f_state f"; simp add: timers_defs FsmRecvTermAck_def)

lemma timers_RxjPlus: "timers_ok f \<Longrightarrow> timers_ok (FsmRecvRxjPlus ty f)"
  by (cases "f_state f"; simp add: timers_defs FsmRecvRxjPlus_def)

lemma timers_ConfigAck: "timers_ok f \<Longrightarrow> timers_ok (FsmRecvConfigAck ty i bp f)"
  by (cases "f_state f"; simp add: timers_defs FsmRecvConfigAck_def)

lemma timers_ConfigNak: "timers_ok f \<Longrightarrow> timers_ok (FsmRecvConfigNak ty i bp f)"
  by (cases "f_state f"; simp add: timers_defs FsmRecvConfigNak_def FsmFailure_def)

lemma timers_ConfigRej: "timers_ok f \<Longrightarrow> timers_ok (FsmRecvConfigRej ty i bp f)"
  by (cases "f_state f"; simp add: timers_defs FsmRecvConfigRej_def FsmFailure_def)

text \<open>A Configure-Request is answered with the retransmission timer armed.\<close>

lemma armed_next:
  assumes "armed f" "f_state f \<in> {ST_STOPPED, ST_OPENED, ST_REQSENT, ST_ACKRCVD, ST_ACKSENT}"
  shows "timers_ok (rcr_next ty b f)"
  using assms
  by (cases b; cases "f_state f"; simp add: armed_def timers_defs rcr_next_def)

lemma armed_Failure:
  assumes "armed f" "f_state f \<in> {ST_OPENED, ST_REQSENT, ST_ACKRCVD, ST_ACKSENT}"
  shows "timers_ok (FsmFailure ty r f)"
  using assms by (cases "f_state f"; simp add: armed_def timers_defs FsmFailure_def)

lemma armed_sends [simp]:
  "armed (FsmSendConfigAck ty i opts f) = armed f"
  "armed (FsmSendConfigRej ty i opts f) = armed f"
  "armed (FsmSendConfigNak ty i opts f) = armed f"
  "armed (FsmDecodeBuffer ty buf md f) = armed f"
  by (simp_all add: armed_def)

lemma armed_SendConfigReq:
  "armed (FsmSendConfigReq ty f) \<longleftrightarrow>
     \<not> f_aborted f \<and> 0 <s maxfailure (f_conf f) \<and> t_func (f_timer f) \<and>
     (TimerStarted (f_echoTimer f) \<longrightarrow> f_state f = ST_OPENED)"
  by (auto simp: armed_def)

lemma timers_rcr_process:
  assumes "timers_ok f" "f_state f \<in> {ST_STOPPED, ST_OPENED, ST_REQSENT, ST_ACKRCVD, ST_ACKSENT}"
  shows "timers_ok (rcr_process ty i bp f)"
proof -
  define d where "d = FsmDecodeBuffer ty (pk_data bp) MODE_REQ f"
  define g where "g = (case f_state d of
                 ST_OPENED \<Rightarrow> FsmSendConfigReq ty (FsmLayerDown ty d)
               | ST_STOPPED \<Rightarrow>
                   (let f = FsmLayerStart ty d;
                        f = FsmInitRestartCounter ty (maxconfig (f_conf f)) f;
                        f = FsmInitMaxFailure (maxfailure (f_conf f)) f;
                        f = FsmInitMaxConfig (maxconfig (f_conf f)) f
                    in FsmSendConfigReq ty f)
               | _ \<Rightarrow> d)"
  have d: "timers_ok d" "f_state d = f_state f"
    using assms timers_ok_ctl [OF decode_ctl, of "pk_data bp" MODE_REQ f] by (simp_all add: d_def)
  have g: "armed g" "f_state g = f_state f" "f_state f = ST_STOPPED \<longrightarrow> 0 <s f_failure g"
    using d assms(2)
    by (cases "f_state d"; simp add: g_def Let_def armed_SendConfigReq; simp add: armed_def timers_defs)+
  have "rcr_process ty i bp f =
      (if f_nakBuf g = [] \<and> f_rejBuf g = []
         then rcr_next ty True (FsmSendConfigAck ty i (f_ackBuf g) g)
         else if f_failure g \<le>s 0 then FsmFailure ty FAIL_NEGOT_FAILURE g
         else rcr_next ty False
                (if f_rejBuf g \<noteq> [] then FsmSendConfigRej ty i (f_rejBuf g) g
                 else FsmSendConfigNak ty i (f_nakBuf g) g))"
    unfolding rcr_process_def Let_def d_def [symmetric]
    by (simp only: g_def Let_def)
  then show ?thesis
    using g assms(2) armed_next armed_Failure short_not_gt0 [of "f_failure g"]
    by (cases "f_state f = ST_STOPPED") simp_all
qed

lemma timers_ConfigReq: "timers_ok f \<Longrightarrow> timers_ok (FsmRecvConfigReq ty i bp f)"
  using timers_rcr_process [of f i bp] timers_rcr_process [of "fsm_Configure ty f" i bp]
    timers_ok_ctl [OF configure_ctl(1), of f]
  by (cases "f_state f") (simp_all add: FsmRecvConfigReq_def timers_ok_def split: if_splits)

lemma timers_fatal_or_plus:
  assumes "timers_ok f" "ctl (fst gb) = ctl f"
  shows "timers_ok (if snd gb then FsmFailure ty r (fst gb) else FsmRecvRxjPlus ty (fst gb))"
proof -
  have "timers_ok (fst gb)" using assms timers_ok_ctl by blast
  then show ?thesis by (simp add: timers_Failure timers_RxjPlus)
qed

lemma timers_CodeRej: "timers_ok f \<Longrightarrow> timers_ok (FsmRecvCodeRej ty bp f)"
  unfolding FsmRecvCodeRej_def Let_def case_prod_beta
  by (rule timers_fatal_or_plus, assumption) (simp add: q_CodeRej split: option.split)

lemma timers_ProtoRej: "timers_ok f \<Longrightarrow> timers_ok (FsmRecvProtoRej ty bp f)"
  unfolding FsmRecvProtoRej_def Let_def case_prod_beta
  by (rule timers_fatal_or_plus, assumption) (simp add: q_ProtoRej split: option.split)

lemma timers_CheckMagic: "timers_ok f \<Longrightarrow> timers_ok (fst (FsmCheckMagic ty bp f))"
  by (rule disjE [OF check_magic_cases [of bp f]]) (simp_all add: timers_Failure)

lemma timers_outputMbuf [simp]:
  "timers_ok (FsmOutputMbuf ty code i bp f) = timers_ok f"
  "timers_ok (f\<lparr>f_echoid := e\<rparr>) = timers_ok f" "timers_ok (f\<lparr>f_rejid := e\<rparr>) = timers_ok f"
  by (simp_all add: timers_ok_def)

lemma timers_EchoReq: "timers_ok f \<Longrightarrow> timers_ok (FsmRecvEchoReq ty i bp f)"
  using timers_CheckMagic [of f bp]
  by (simp add: FsmRecvEchoReq_def Let_def case_prod_beta)

lemma timers_EchoRep: "timers_ok f \<Longrightarrow> timers_ok (FsmRecvEchoRep ty bp f)"
  by (simp add: FsmRecvEchoRep_def timers_CheckMagic)

lemma timers_call_pkt:
  assumes "timers_ok f" "\<And>c g b. cb = Some c \<Longrightarrow> ctl (c g b) = ctl g"
  shows "timers_ok (call_pkt cb (FsmCheckMagic ty bp f))"
  using timers_CheckMagic [OF assms(1)] timers_ok_ctl [OF assms(2)]
  by (cases cb) (simp_all add: call_pkt_def)

lemma timers_informational:
  assumes "timers_ok f"
  shows "timers_ok (FsmRecvDiscReq ty bp f)" "timers_ok (FsmRecvIdent ty bp f)"
    "timers_ok (FsmRecvVendor ty bp f)" "timers_ok (FsmRecvTimeRemain ty bp f)"
  unfolding FsmRecvDiscReq_def FsmRecvIdent_def FsmRecvVendor_def FsmRecvTimeRemain_def
  by (rule timers_call_pkt [OF assms], erule q_DiscReq q_Ident q_Vendor q_TimeRemain)+

lemma timers_Reset:
  assumes "timers_ok f"
  shows "timers_ok (FsmRecvResetReq ty i bp f)" "timers_ok (FsmRecvResetAck ty i bp f)"
proof -
  show "timers_ok (FsmRecvResetReq ty i bp f)"
    using assms timers_ok_sent [OF q_ResetReq]
    by (cases "RecvResetReq ty") (simp_all add: FsmRecvResetReq_def)
  show "timers_ok (FsmRecvResetAck ty i bp f)"
    using assms timers_ok_ctl [OF q_ResetAck]
    by (cases "RecvResetAck ty") (simp_all add: FsmRecvResetAck_def)
qed

lemmas timers_packets = timers_TermReq timers_TermAck timers_ConfigAck timers_ConfigNak
  timers_ConfigRej timers_ConfigReq timers_CodeRej timers_ProtoRej timers_EchoReq timers_EchoRep
  timers_informational timers_Reset

lemma timers_action: "timers_ok f \<Longrightarrow> timers_ok (fsm_action ty code i bp f)"
  by (simp add: fsm_action_def timers_packets)

lemma timers_Input: "timers_ok f \<Longrightarrow> timers_ok (FsmInput ty bp f)"
  by (auto simp: FsmInput_def timers_action split: option.split)

lemma timers_echo_update [simp]:
  "\<not> TimerStarted t \<Longrightarrow> timers_ok f \<Longrightarrow> timers_ok (f\<lparr>f_echoTimer := t\<rparr>)"
  "timers_ok (f\<lparr>f_quietCount := q\<rparr>) = timers_ok f" "timers_ok (f\<lparr>f_idleStats := n\<rparr>) = timers_ok f"
  by (simp_all add: timers_ok_def)

lemma timers_EchoTimeout: "timers_ok f \<Longrightarrow> timers_ok (FsmEchoTimeout ty f)"
  by (cases "arg_recvFrames ty (f_arg f)")
    (auto simp: FsmEchoTimeout_def Let_def FsmSendEchoReq_def timers_Failure)

lemma timers_step: "fsm_step ty f g \<Longrightarrow> timers_ok f \<Longrightarrow> timers_ok g"
proof (induction rule: fsm_step.induct)
  case (step_echo f)
  then have "timers_ok (f\<lparr>f_echoTimer := timer_fired (f_echoTimer f)\<rparr>)"
    by (simp add: timers_ok_def timer_fired_def TimerStarted_def)
  then show ?case by (rule timers_EchoTimeout)
qed (simp_all add: timers_Open timers_Close timers_Up timers_Down timers_Input timers_Timeout
      timers_Failure)

lemma timers_reachable: "fsm_reachable ty f0 f \<Longrightarrow> timers_ok f0 \<Longrightarrow> timers_ok f"
  by (induction rule: fsm_reachable.induct) (auto dest: timers_step)

end

section \<open>A silent peer\<close>

text \<open>Nothing but the retransmission timer, \<open>n\<close> times.\<close>

definition timer_tick :: "'a fsmtype \<Rightarrow> 'a fsm \<Rightarrow> 'a fsm" where
  "timer_tick ty f =
     (if TimerStarted (f_timer f)
      then FsmTimeout ty (f\<lparr>f_timer := timer_fired (f_timer f)\<rparr>) else f)"

primrec silence :: "'a fsmtype \<Rightarrow> nat \<Rightarrow> 'a fsm \<Rightarrow> 'a fsm" where
  "silence ty 0 f = f"
| "silence ty (Suc n) f = silence ty n (timer_tick ty f)"

text \<open>Where giving up leads.\<close>

definition gives_up :: "fsm_state \<Rightarrow> fsm_state" where
  "gives_up s = (if s = ST_CLOSING then ST_CLOSED else if waiting s then ST_STOPPED else s)"

definition gives_up_layers :: "bool \<Rightarrow> fsm_state \<Rightarrow> fsm_event list" where
  "gives_up_layers passv s =
     (if s \<in> {ST_CLOSING, ST_STOPPING} \<or> waiting s \<and> \<not> passv then [EvLayerFinish] else [])"

context fsm_quiet
begin

lemma tick_quiet: "\<not> waiting (f_state f) \<Longrightarrow> timers_ok f \<Longrightarrow> timer_tick ty f = f"
  by (simp add: timer_tick_def timers_ok_def)

lemma tick_retransmits:
  assumes "timers_ok f" "waiting (f_state f)" "0 <s f_restart f"
  shows "waiting (f_state (timer_tick ty f))"
    "gives_up (f_state (timer_tick ty f)) = gives_up (f_state f)"
    "f_state (timer_tick ty f) \<in> {ST_CLOSING, ST_STOPPING} \<longleftrightarrow>
       f_state f \<in> {ST_CLOSING, ST_STOPPING}"
    "sint (f_restart (timer_tick ty f)) = sint (f_restart f) - 1"
    "layers (timer_tick ty f) = layers f"
    "f_conf (timer_tick ty f) = f_conf f"
  using assms short_gt0_dec [OF assms(3)]
  by (cases "f_state f"; simp add: timer_tick_def timers_ok_def waiting_def FsmTimeout_def
      gives_up_def)+

lemma tick_gives_up:
  assumes "timers_ok f" "waiting (f_state f)" "\<not> 0 <s f_restart f"
  shows "f_state (timer_tick ty f) = gives_up (f_state f)"
    "layers (timer_tick ty f) = layers f @ gives_up_layers (conf_passive (f_conf f)) (f_state f)"
  using assms
  by (cases "f_state f"; simp add: timer_tick_def timers_ok_def waiting_def FsmTimeout_def
      FsmFailure_def Let_def gives_up_def gives_up_layers_def)+

lemma tick_timers_ok: "timers_ok f \<Longrightarrow> timers_ok (timer_tick ty f)"
  by (simp add: timer_tick_def timers_Timeout)

lemma silence_idle: "\<not> waiting (f_state f) \<Longrightarrow> timers_ok f \<Longrightarrow> silence ty n f = f"
  by (induction n) (simp_all add: tick_quiet)

lemma silence_ends:
  assumes "timers_ok f" "waiting (f_state f)" "nat (sint (f_restart f)) < n"
  shows "f_state (silence ty n f) = gives_up (f_state f) \<and>
    layers (silence ty n f) = layers f @ gives_up_layers (conf_passive (f_conf f)) (f_state f)"
  using assms
proof (induction n arbitrary: f)
  case (Suc n)
  show ?case
  proof (cases "0 <s f_restart f")
    case True
    note t = tick_retransmits [OF Suc.prems(1,2) True]
    have "0 < sint (f_restart f)" using True by (simp add: word_sless_alt)
    then have "nat (sint (f_restart (timer_tick ty f))) < n" using t(4) Suc.prems(3) by simp
    with Suc.IH [OF tick_timers_ok [OF Suc.prems(1)] t(1)] t Suc.prems(2) show ?thesis
      by (auto simp: gives_up_layers_def)
  next
    case False
    note t = tick_gives_up [OF Suc.prems(1,2) False]
    have "\<not> waiting (f_state (timer_tick ty f))"
      by (simp add: t gives_up_def waiting_def)
    then show ?thesis
      using t silence_idle [OF _ tick_timers_ok [OF Suc.prems(1)]] by simp
  qed
qed simp

end

lemma timers_init:
  "0 <s maxfailure c \<Longrightarrow> timers_ok ((FsmInit junk a)\<lparr>f_conf := c\<rparr>)"
  by (simp add: timers_ok_def FsmInit_def waiting_def)

end
