(* ===== verification/Fsm_Layers.thy ===== *)
theory Fsm_Layers
  imports Fsm_Timers
begin

text \<open>
  Two disciplines the clients of the automaton rely on, for every order of events: the upper layer
  is up exactly while the automaton is in Opened (and never told so twice), and the protocol is
  configured exactly while the automaton negotiates or is open (and never configured twice). Both
  are stated on the trace of calls. The converses fail, as the source has it: the layer may be
  taken down twice, and a protocol may be unconfigured twice.
\<close>

section \<open>Reading the trace\<close>

text \<open>Whether the layer is up after a trace; \<open>None\<close> once it was brought up twice.\<close>

fun up_after :: "bool \<Rightarrow> fsm_event list \<Rightarrow> bool option" where
  "up_after u [] = Some u"
| "up_after u (e # es) =
     (if e = EvLayerUp then if u then None else up_after True es
      else if e = EvLayerDown then up_after False es
      else up_after u es)"

text \<open>Likewise for \<open>Configure\<close> and \<open>UnConfigure\<close>.\<close>

fun conf_after :: "bool \<Rightarrow> fsm_event list \<Rightarrow> bool option" where
  "conf_after c [] = Some c"
| "conf_after c (e # es) =
     (if e = EvConfigure then if c then None else conf_after True es
      else if e = EvUnConfigure then conf_after False es
      else conf_after c es)"

lemma up_after_append:
  "up_after u (xs @ ys) = (case up_after u xs of None \<Rightarrow> None | Some v \<Rightarrow> up_after v ys)"
  by (induction xs arbitrary: u) auto

lemma conf_after_append:
  "conf_after u (xs @ ys) = (case conf_after u xs of None \<Rightarrow> None | Some v \<Rightarrow> conf_after v ys)"
  by (induction xs arbitrary: u) auto

lemma up_after_filter: "up_after u (filter is_layer es) = up_after u es"
  by (induction es arbitrary: u) auto

definition layer_up :: "'a fsm \<Rightarrow> bool option" where
  "layer_up f = up_after False (f_trace f)"

definition conf_done :: "'a fsm \<Rightarrow> bool option" where
  "conf_done f = conf_after False (f_trace f)"

definition negotiating :: "fsm_state \<Rightarrow> bool" where
  "negotiating s \<longleftrightarrow> s \<in> {ST_REQSENT, ST_ACKRCVD, ST_ACKSENT, ST_OPENED}"

lemma layer_up_layers: "layer_up f = up_after False (layers f)"
  by (simp add: layer_up_def layers_def up_after_filter)

section \<open>The layer is up in Opened\<close>

definition layer_ok :: "'a fsm \<Rightarrow> bool" where
  "layer_ok f \<longleftrightarrow> 0 <s maxfailure (f_conf f) \<and> layer_up f = Some (f_state f = ST_OPENED)"

lemma layer_ok_makes:
  assumes "makes e f g" "layer_ok f" "f_conf g = f_conf f"
  shows "layer_ok g"
  using assms
  by (cases e; cases "f_state f"; simp add: table_defs layer_ok_def layer_up_layers up_after_append)

context fsm_quiet
begin

lemma conf_kept [simp]:
  "f_conf (FsmOpen ty f) = f_conf f" "f_conf (FsmUp ty f) = f_conf f"
  "f_conf (FsmDown ty f) = f_conf f" "f_conf (FsmClose ty f) = f_conf f"
  "f_conf (FsmFailure ty r f) = f_conf f" "f_conf (FsmTimeout ty f) = f_conf f"
  "f_conf (FsmRecvTermReq ty f) = f_conf f" "f_conf (FsmRecvTermAck ty f) = f_conf f"
  "f_conf (FsmRecvRxjPlus ty f) = f_conf f" "f_conf (rcr_next ty b f) = f_conf f"
  by (cases "f_state f"; simp add: FsmOpen_def FsmUp_def FsmDown_def FsmClose_def FsmFailure_def
      FsmTimeout_def FsmRecvTermReq_def FsmRecvTermAck_def FsmRecvRxjPlus_def rcr_next_def Let_def)+

lemma conf_kept_packets [simp]:
  "f_conf (FsmRecvConfigAck ty i bp f) = f_conf f"
  "f_conf (FsmRecvConfigNak ty i bp f) = f_conf f"
  "f_conf (FsmRecvConfigRej ty i bp f) = f_conf f"
  "f_conf (FsmRecvCodeRej ty bp f) = f_conf f" "f_conf (FsmRecvProtoRej ty bp f) = f_conf f"
  by (cases "f_state f"; simp add: FsmRecvConfigAck_def FsmRecvConfigNak_def FsmRecvConfigRej_def
      FsmRecvCodeRej_def FsmRecvProtoRej_def Let_def case_prod_beta split: option.split)+

lemma conf_kept_process [simp]: "f_conf (rcr_process ty i bp f) = f_conf f"
  by (cases "f_state f"; simp add: rcr_process_def Let_def)

lemma conf_kept_ConfigReq [simp]: "f_conf (FsmRecvConfigReq ty i bp f) = f_conf f"
  by (cases "f_state f"; simp add: FsmRecvConfigReq_def)

lemma layer_ok_ConfigReq:
  assumes "layer_ok f"
  shows "layer_ok (FsmRecvConfigReq ty i bp f)"
proof (cases "f_state f = ST_OPENED \<and> rcr_event ty bp f = RXJminus")
  case True
  then show ?thesis
    using assms table_ConfigReq_worn_out [of f bp i]
    by (simp add: layer_ok_def layer_up_layers up_after_append)
next
  case False
  then have "makes (rcr_event ty bp f) f (FsmRecvConfigReq ty i bp f)"
    using assms by (intro table_ConfigReq) (auto simp: layer_ok_def)
  then show ?thesis using assms by (rule layer_ok_makes) simp
qed

lemma layer_ok_ctl: "ctl g = ctl f \<Longrightarrow> layer_ok g = layer_ok f"
  using ctl_fields [of g f] by (simp add: layer_ok_def layer_up_def)

lemma layer_ok_sent:
  assumes "sent f g"
  shows "layer_ok g = layer_ok f"
proof -
  from assms obtain fr where fr: "list_all is_frame fr"
    and "ctl g = ctl (f\<lparr>f_trace := f_trace f @ fr\<rparr>)" by (rule sentE)
  then have "layer_ok g = layer_ok (f\<lparr>f_trace := f_trace f @ fr\<rparr>)" by (intro layer_ok_ctl)
  moreover have "filter is_layer fr = []" using fr by (induction fr) (auto elim: is_frame.elims)
  ultimately show ?thesis by (simp add: layer_ok_def layer_up_layers layers_def)
qed

lemma layer_ok_Failure: "layer_ok f \<Longrightarrow> layer_ok (FsmFailure ty r f)"
  by (rule layer_ok_makes [OF table_Failure]) simp_all

lemma layer_ok_CheckMagic: "layer_ok f \<Longrightarrow> layer_ok (fst (FsmCheckMagic ty bp f))"
  by (rule disjE [OF check_magic_cases [of bp f]]) (simp_all add: layer_ok_Failure)

lemma layer_ok_update [simp]:
  "layer_ok (f\<lparr>f_echoid := e\<rparr>) = layer_ok f" "layer_ok (f\<lparr>f_rejid := e\<rparr>) = layer_ok f"
  "layer_ok (f\<lparr>f_quietCount := q\<rparr>) = layer_ok f" "layer_ok (f\<lparr>f_idleStats := n\<rparr>) = layer_ok f"
  "layer_ok (f\<lparr>f_timer := t\<rparr>) = layer_ok f" "layer_ok (f\<lparr>f_echoTimer := t\<rparr>) = layer_ok f"
  "layer_ok (FsmOutputMbuf ty code i bp f) = layer_ok f"
  by (simp_all add: layer_ok_def layer_up_layers)

lemma layer_ok_call_pkt:
  assumes "layer_ok f" "\<And>c g b. cb = Some c \<Longrightarrow> ctl (c g b) = ctl g"
  shows "layer_ok (call_pkt cb (FsmCheckMagic ty bp f))"
  using layer_ok_CheckMagic [OF assms(1)] layer_ok_ctl [OF assms(2)]
  by (cases cb) (simp_all add: call_pkt_def)

lemma layer_ok_informational:
  assumes "layer_ok f"
  shows "layer_ok (FsmRecvDiscReq ty bp f)" "layer_ok (FsmRecvIdent ty bp f)"
    "layer_ok (FsmRecvVendor ty bp f)" "layer_ok (FsmRecvTimeRemain ty bp f)"
  unfolding FsmRecvDiscReq_def FsmRecvIdent_def FsmRecvVendor_def FsmRecvTimeRemain_def
  by (rule layer_ok_call_pkt [OF assms], erule q_DiscReq q_Ident q_Vendor q_TimeRemain)+

lemma layer_ok_Reset:
  assumes "layer_ok f"
  shows "layer_ok (FsmRecvResetReq ty i bp f)" "layer_ok (FsmRecvResetAck ty i bp f)"
proof -
  show "layer_ok (FsmRecvResetReq ty i bp f)"
    using assms layer_ok_sent [OF q_ResetReq]
    by (cases "RecvResetReq ty") (simp_all add: FsmRecvResetReq_def)
  show "layer_ok (FsmRecvResetAck ty i bp f)"
    using assms layer_ok_ctl [OF q_ResetAck]
    by (cases "RecvResetAck ty") (simp_all add: FsmRecvResetAck_def)
qed

lemma layer_ok_action:
  assumes "layer_ok f"
  shows "layer_ok (fsm_action ty code i bp f)"
proof -
  have "layer_ok (FsmRecvEchoReq ty i bp f)" "layer_ok (FsmRecvEchoRep ty bp f)"
    using layer_ok_CheckMagic [OF assms, of bp]
    by (simp_all add: FsmRecvEchoReq_def FsmRecvEchoRep_def Let_def case_prod_beta)
  moreover have "layer_ok (FsmRecvCodeRej ty bp f)" "layer_ok (FsmRecvProtoRej ty bp f)"
    using table_CodeRej [of f bp] table_ProtoRej [of f bp] layer_ok_makes [OF _ assms]
    by (metis conf_kept_packets(4), metis conf_kept_packets(5))
  ultimately show ?thesis
    using assms
    by (simp add: fsm_action_def layer_ok_informational layer_ok_Reset layer_ok_ConfigReq
        layer_ok_makes [OF table_ConfigAck] layer_ok_makes [OF table_ConfigNak]
        layer_ok_makes [OF table_ConfigRej] layer_ok_makes [OF table_TermReq]
        layer_ok_makes [OF table_TermAck])
qed

lemma layer_ok_step: "fsm_step ty f g \<Longrightarrow> layer_ok f \<Longrightarrow> layer_ok g"
proof (induction rule: fsm_step.induct)
  case (step_input f bp)
  then show ?case by (auto simp: FsmInput_def layer_ok_action split: option.split)
next
  case (step_timeout f)
  then show ?case by (intro layer_ok_makes [OF table_Timeout]) simp_all
next
  case (step_echo f)
  then have "layer_ok (f\<lparr>f_echoTimer := timer_fired (f_echoTimer f)\<rparr>)" by simp
  then show ?case
    by (cases "arg_recvFrames ty (f_arg f)")
      (auto simp: FsmEchoTimeout_def Let_def FsmSendEchoReq_def layer_ok_Failure)
qed (simp_all add: layer_ok_makes [OF table_Open] layer_ok_makes [OF table_Close]
      layer_ok_makes [OF table_Up] layer_ok_makes [OF table_Down] layer_ok_Failure)

lemma layer_ok_reachable: "fsm_reachable ty f0 f \<Longrightarrow> layer_ok f0 \<Longrightarrow> layer_ok f"
  by (induction rule: fsm_reachable.induct) (auto dest: layer_ok_step)

end

section \<open>The protocol is configured while it negotiates\<close>

definition conf_ok :: "'a fsm \<Rightarrow> bool" where
  "conf_ok f \<longleftrightarrow> 0 <s maxfailure (f_conf f) \<and> conf_done f = Some (negotiating (f_state f))"

lemma conf_done_update [simp]:
  "conf_done (f\<lparr>f_reqid := a\<rparr>) = conf_done f" "conf_done (f\<lparr>f_restart := b\<rparr>) = conf_done f"
  "conf_done (f\<lparr>f_config := b\<rparr>) = conf_done f" "conf_done (f\<lparr>f_failure := b\<rparr>) = conf_done f"
  "conf_done (f\<lparr>f_timer := t\<rparr>) = conf_done f" "conf_done (f\<lparr>f_echoTimer := t\<rparr>) = conf_done f"
  "conf_done (f\<lparr>f_echoid := a\<rparr>) = conf_done f" "conf_done (f\<lparr>f_rejid := a\<rparr>) = conf_done f"
  "conf_done (f\<lparr>f_quietCount := b\<rparr>) = conf_done f" "conf_done (f\<lparr>f_idleStats := n\<rparr>) = conf_done f"
  "conf_done (fsm_TimerStart f) = conf_done f"
  "conf_done (FsmInitRestartCounter ty v f) = conf_done f"
  "conf_done (FsmInitMaxFailure v f) = conf_done f" "conf_done (FsmInitMaxConfig v f) = conf_done f"
  by (simp_all add: conf_done_def FsmInitMaxFailure_def FsmInitMaxConfig_def)

lemma conf_done_emit [simp]:
  "e \<noteq> EvConfigure \<Longrightarrow> e \<noteq> EvUnConfigure \<Longrightarrow> conf_done (emit e f) = conf_done f"
  by (simp add: conf_done_def conf_after_append split: option.split)

lemma conf_done_FsmOutput [simp]:
  "conf_done (FsmOutputMbuf ty code i bp f) = conf_done f"
  "conf_done (FsmOutput ty code i xs f) = conf_done f"
  by (simp_all add: FsmOutput_def FsmOutputMbuf_def)

lemma conf_done_ctl: "ctl g = ctl f \<Longrightarrow> conf_done g = conf_done f"
  using ctl_fields [of g f] by (simp add: conf_done_def)

lemma conf_ok_ctl: "ctl g = ctl f \<Longrightarrow> conf_ok g = conf_ok f"
  using ctl_fields [of g f] by (simp add: conf_ok_def conf_done_def)

lemma conf_ok_sent:
  assumes "sent f g"
  shows "conf_ok g = conf_ok f"
proof -
  from assms obtain fr where fr: "list_all is_frame fr"
    and "ctl g = ctl (f\<lparr>f_trace := f_trace f @ fr\<rparr>)" by (rule sentE)
  then have "conf_ok g = conf_ok (f\<lparr>f_trace := f_trace f @ fr\<rparr>)" by (intro conf_ok_ctl)
  moreover have "conf_after c fr = Some c" for c
    using fr by (induction fr) (auto elim: is_frame.elims)
  ultimately show ?thesis
    by (simp add: conf_ok_def conf_done_def conf_after_append split: option.split)
qed

context fsm_quiet
begin

lemma conf_done_calls [simp]:
  "conf_done (FsmLayerUp ty f) = conf_done f" "conf_done (FsmLayerDown ty f) = conf_done f"
  "conf_done (FsmLayerStart ty f) = conf_done f" "conf_done (FsmLayerFinish ty f) = conf_done f"
  "conf_done (FsmNewState ty s f) = conf_done f"
  "conf_done (FsmDecodeBuffer ty buf md f) = conf_done f"
  "conf_done (fst (BuildConfigReq ty f)) = conf_done f"
  "conf_done (call0 (SendTerminateReq ty) f) = conf_done f"
  "conf_done (call0 (SendTerminateAck ty) f) = conf_done f"
  "conf_done (case Failure ty of None \<Rightarrow> f | Some c \<Rightarrow> c f r) = conf_done f"
  by (simp_all add: conf_done_def conf_after_append split: option.split)

lemma conf_done_sends [simp]:
  "conf_done (FsmSendConfigReq ty f) = conf_done f"
  "conf_done (FsmSendTerminateReq ty f) = conf_done f"
  "conf_done (FsmSendTerminateAck ty f) = conf_done f"
  "conf_done (FsmSendConfigAck ty i opts f) = conf_done f"
  "conf_done (FsmSendConfigRej ty i opts f) = conf_done f"
  "conf_done (FsmSendConfigNak ty i opts f) = conf_done f"
  by (simp_all add: FsmSendConfigReq_def FsmSendTerminateReq_def FsmSendTerminateAck_def
      FsmSendConfigAck_def FsmSendConfigRej_def FsmSendConfigNak_def Let_def case_prod_beta)

lemma conf_done_next [simp]: "conf_done (rcr_next ty b f) = conf_done f"
  by (cases "f_state f"; simp add: rcr_next_def)

lemmas conf_defs = conf_ok_def negotiating_def Let_def

end

text \<open>A protocol that has both callbacks.\<close>

locale fsm_configured = fsm_quiet ty for ty :: "'a fsmtype" +
  fixes cf uf :: "'a fsm \<Rightarrow> 'a fsm"
  assumes has_Configure [simp]: "Configure ty = Some cf"
    and has_UnConfigure [simp]: "UnConfigure ty = Some uf"
begin

lemma conf_done_Configure [simp]:
  "conf_done f = Some False \<Longrightarrow> conf_done (fsm_Configure ty f) = Some True"
  "conf_done f = Some True \<Longrightarrow> conf_done (fsm_UnConfigure ty f) = Some False"
  "conf_done f = Some False \<Longrightarrow> conf_done (fsm_UnConfigure ty f) = Some False"
  by (auto simp: conf_done_def conf_after_append)

lemma conf_ok_Open: "conf_ok f \<Longrightarrow> conf_ok (FsmOpen ty f)"
  by (cases "f_state f"; simp add: conf_defs FsmOpen_def)

lemma conf_ok_Up: "conf_ok f \<Longrightarrow> conf_ok (FsmUp ty f)"
  by (cases "f_state f"; simp add: conf_defs FsmUp_def)

lemma conf_ok_Down: "conf_ok f \<Longrightarrow> conf_ok (FsmDown ty f)"
  by (cases "f_state f"; simp add: conf_defs FsmDown_def)

lemma conf_ok_Close: "conf_ok f \<Longrightarrow> conf_ok (FsmClose ty f)"
  by (cases "f_state f"; simp add: conf_defs FsmClose_def)

lemma conf_ok_Failure: "conf_ok f \<Longrightarrow> conf_ok (FsmFailure ty r f)"
  by (cases "f_state f"; simp add: conf_defs FsmFailure_def)

lemma conf_ok_Timeout: "conf_ok f \<Longrightarrow> conf_ok (FsmTimeout ty f)"
  by (cases "f_state f"; simp add: conf_defs FsmTimeout_def FsmFailure_def)

lemma conf_ok_TermReq: "conf_ok f \<Longrightarrow> conf_ok (FsmRecvTermReq ty f)"
  by (cases "ty_link_layer ty"; cases "f_state f"; simp add: conf_defs FsmRecvTermReq_def)

lemma conf_ok_TermAck: "conf_ok f \<Longrightarrow> conf_ok (FsmRecvTermAck ty f)"
  by (cases "f_state f"; simp add: conf_defs FsmRecvTermAck_def)

lemma conf_ok_RxjPlus: "conf_ok f \<Longrightarrow> conf_ok (FsmRecvRxjPlus ty f)"
  by (cases "f_state f"; simp add: conf_defs FsmRecvRxjPlus_def)

lemma conf_ok_ConfigAck: "conf_ok f \<Longrightarrow> conf_ok (FsmRecvConfigAck ty i bp f)"
  by (cases "f_state f"; simp add: conf_defs FsmRecvConfigAck_def)

lemma conf_ok_ConfigNak: "conf_ok f \<Longrightarrow> conf_ok (FsmRecvConfigNak ty i bp f)"
  by (cases "f_state f"; simp add: conf_defs FsmRecvConfigNak_def FsmFailure_def)

lemma conf_ok_ConfigRej: "conf_ok f \<Longrightarrow> conf_ok (FsmRecvConfigRej ty i bp f)"
  by (cases "f_state f"; simp add: conf_defs FsmRecvConfigRej_def FsmFailure_def)

lemma conf_ok_process:
  assumes "0 <s maxfailure (f_conf f)" "conf_done f = Some True"
    "f_state f \<in> {ST_STOPPED, ST_OPENED, ST_REQSENT, ST_ACKRCVD, ST_ACKSENT}"
  shows "conf_ok (rcr_process ty i bp f)"
  using assms short_not_gt0 [of "maxfailure (f_conf f)"]
  by (cases "f_state f"; simp add: conf_defs rcr_process_def rcr_next_def FsmFailure_def)

lemma conf_ok_ConfigReq: "conf_ok f \<Longrightarrow> conf_ok (FsmRecvConfigReq ty i bp f)"
  using conf_ok_process [of f i bp] conf_ok_process [of "fsm_Configure ty f" i bp]
  by (cases "f_state f"; simp add: conf_defs FsmRecvConfigReq_def)

lemma conf_ok_fatal_or_plus:
  assumes "conf_ok f" "ctl (fst gb) = ctl f"
  shows "conf_ok (if snd gb then FsmFailure ty r (fst gb) else FsmRecvRxjPlus ty (fst gb))"
proof -
  have "conf_ok (fst gb)" using assms conf_ok_ctl by blast
  then show ?thesis by (simp add: conf_ok_Failure conf_ok_RxjPlus)
qed

lemma conf_ok_CodeRej: "conf_ok f \<Longrightarrow> conf_ok (FsmRecvCodeRej ty bp f)"
  unfolding FsmRecvCodeRej_def Let_def case_prod_beta
  by (rule conf_ok_fatal_or_plus, assumption) (simp add: q_CodeRej split: option.split)

lemma conf_ok_ProtoRej: "conf_ok f \<Longrightarrow> conf_ok (FsmRecvProtoRej ty bp f)"
  unfolding FsmRecvProtoRej_def Let_def case_prod_beta
  by (rule conf_ok_fatal_or_plus, assumption) (simp add: q_ProtoRej split: option.split)

lemma conf_ok_CheckMagic: "conf_ok f \<Longrightarrow> conf_ok (fst (FsmCheckMagic ty bp f))"
  by (rule disjE [OF check_magic_cases [of bp f]]) (simp_all add: conf_ok_Failure)

lemma conf_ok_update [simp]:
  "conf_ok (f\<lparr>f_echoid := e\<rparr>) = conf_ok f" "conf_ok (f\<lparr>f_rejid := e\<rparr>) = conf_ok f"
  "conf_ok (f\<lparr>f_quietCount := q\<rparr>) = conf_ok f" "conf_ok (f\<lparr>f_idleStats := n\<rparr>) = conf_ok f"
  "conf_ok (f\<lparr>f_timer := t\<rparr>) = conf_ok f" "conf_ok (f\<lparr>f_echoTimer := t\<rparr>) = conf_ok f"
  "conf_ok (FsmOutputMbuf ty code i bp f) = conf_ok f"
  by (simp_all add: conf_ok_def)

lemma conf_ok_call_pkt:
  assumes "conf_ok f" "\<And>c g b. cb = Some c \<Longrightarrow> ctl (c g b) = ctl g"
  shows "conf_ok (call_pkt cb (FsmCheckMagic ty bp f))"
  using conf_ok_CheckMagic [OF assms(1)] conf_ok_ctl [OF assms(2)]
  by (cases cb) (simp_all add: call_pkt_def)

lemma conf_ok_informational:
  assumes "conf_ok f"
  shows "conf_ok (FsmRecvDiscReq ty bp f)" "conf_ok (FsmRecvIdent ty bp f)"
    "conf_ok (FsmRecvVendor ty bp f)" "conf_ok (FsmRecvTimeRemain ty bp f)"
  unfolding FsmRecvDiscReq_def FsmRecvIdent_def FsmRecvVendor_def FsmRecvTimeRemain_def
  by (rule conf_ok_call_pkt [OF assms], erule q_DiscReq q_Ident q_Vendor q_TimeRemain)+

lemma conf_ok_Reset:
  assumes "conf_ok f"
  shows "conf_ok (FsmRecvResetReq ty i bp f)" "conf_ok (FsmRecvResetAck ty i bp f)"
proof -
  show "conf_ok (FsmRecvResetReq ty i bp f)"
    using assms conf_ok_sent [OF q_ResetReq]
    by (cases "RecvResetReq ty") (simp_all add: FsmRecvResetReq_def)
  show "conf_ok (FsmRecvResetAck ty i bp f)"
    using assms conf_ok_ctl [OF q_ResetAck]
    by (cases "RecvResetAck ty") (simp_all add: FsmRecvResetAck_def)
qed

lemma conf_ok_Echo:
  assumes "conf_ok f"
  shows "conf_ok (FsmRecvEchoReq ty i bp f)" "conf_ok (FsmRecvEchoRep ty bp f)"
  using conf_ok_CheckMagic [OF assms, of bp]
  by (simp_all add: FsmRecvEchoReq_def FsmRecvEchoRep_def Let_def case_prod_beta)

lemma conf_ok_action: "conf_ok f \<Longrightarrow> conf_ok (fsm_action ty code i bp f)"
  by (simp add: fsm_action_def conf_ok_informational conf_ok_Reset conf_ok_Echo conf_ok_ConfigReq
      conf_ok_ConfigAck conf_ok_ConfigNak conf_ok_ConfigRej conf_ok_TermReq conf_ok_TermAck
      conf_ok_CodeRej conf_ok_ProtoRej)

lemma conf_ok_step: "fsm_step ty f g \<Longrightarrow> conf_ok f \<Longrightarrow> conf_ok g"
proof (induction rule: fsm_step.induct)
  case (step_input f bp)
  then show ?case by (auto simp: FsmInput_def conf_ok_action split: option.split)
next
  case (step_timeout f)
  then show ?case by (intro conf_ok_Timeout) simp
next
  case (step_echo f)
  then have "conf_ok (f\<lparr>f_echoTimer := timer_fired (f_echoTimer f)\<rparr>)" by simp
  then show ?case
    by (cases "arg_recvFrames ty (f_arg f)")
      (auto simp: FsmEchoTimeout_def Let_def FsmSendEchoReq_def conf_ok_Failure)
qed (simp_all add: conf_ok_Open conf_ok_Close conf_ok_Up conf_ok_Down conf_ok_Failure)

lemma conf_ok_reachable: "fsm_reachable ty f0 f \<Longrightarrow> conf_ok f0 \<Longrightarrow> conf_ok f"
  by (induction rule: fsm_reachable.induct) (auto dest: conf_ok_step)

end

end
