(* ===== verification/Fsm_Echo.thy ===== *)
theory Fsm_Echo
  imports Fsm_Timers
begin

text \<open>
  The keep-alive of the automaton: how the recurring echo timer counts the silence of the peer, and
  that a link on which nothing arrives any more is given up after \<open>echo_max\<close> seconds and not
  before. Only LCP sets the intervals; its interpretation of \<open>fsm_stopping\<close> is in \<open>Lcp_Echo\<close>.
\<close>

text \<open>The recurring keep-alive timer, \<open>n\<close> times.\<close>

definition echo_tick :: "'a fsmtype \<Rightarrow> 'a fsm \<Rightarrow> 'a fsm" where
  "echo_tick ty f =
     (if TimerStarted (f_echoTimer f)
      then FsmEchoTimeout ty (f\<lparr>f_echoTimer := timer_fired (f_echoTimer f)\<rparr>) else f)"

primrec echo_ticks :: "'a fsmtype \<Rightarrow> nat \<Rightarrow> 'a fsm \<Rightarrow> 'a fsm" where
  "echo_ticks ty 0 f = f"
| "echo_ticks ty (Suc n) f = echo_tick ty (echo_ticks ty n f)"

text \<open>An open link with keep-alives on which nothing has been received since the last count.\<close>

definition listening :: "'a fsmtype \<Rightarrow> 'a fsm \<Rightarrow> bool" where
  "listening ty f \<longleftrightarrow> f_state f = ST_OPENED \<and> TimerStarted (f_echoTimer f) \<and>
     t_recurring (f_echoTimer f) \<and> arg_has_bund ty (f_arg f) \<and>
     (case arg_recvFrames ty (f_arg f) of None \<Rightarrow> True | Some m \<Rightarrow> m = f_idleStats f)"

lemma short_of_nat: "n < 32768 \<Longrightarrow> sint (of_nat n :: short) = int n"
  by (simp add: signed_of_nat signed_take_bit_int_eq_self)

lemma quiet_Suc:
  assumes "n < 32767"
  shows "(of_nat n + 1 :: short) \<noteq> 0" "(of_nat n + 1 :: short) = 1 \<longleftrightarrow> n = 0"
    "sint (of_nat n + 1 :: short) = int n + 1"
proof -
  have s: "sint (of_nat n + 1 :: short) = int n + 1"
    using short_of_nat [of "Suc n"] assms by (simp add: ac_simps)
  then show "sint (of_nat n + 1 :: short) = int n + 1" .
  show "(of_nat n + 1 :: short) \<noteq> 0" using s by (intro notI) simp
  have "n = 0" if "(of_nat n + 1 :: short) = 1"
    using s unfolding that by simp
  then show "(of_nat n + 1 :: short) = 1 \<longleftrightarrow> n = 0" by auto
qed

text \<open>A quiet tick without the case distinctions that do not arise.\<close>

lemma echo_tick_listening:
  assumes "listening ty f" "f_quietCount f = of_nat n" "n < 32767"
  shows "echo_tick ty f =
    (let g = f\<lparr>f_quietCount := of_nat n + 1\<rparr> in
     if n \<noteq> 0 \<and> sint (echo_max (f_conf f)) \<le> (int n + 1) * sint (echo_int (f_conf f))
     then FsmFailure ty FAIL_ECHO_TIMEOUT (g\<lparr>f_echoTimer := TimerStop2 (f_echoTimer g)\<rparr>)
     else FsmSendEchoReq ty None g)"
proof -
  have "f\<lparr>f_echoTimer := timer_fired (f_echoTimer f)\<rparr> = f"
    using assms(1) by (simp add: listening_def timer_fired_def)
  moreover have "(case arg_recvFrames ty (f_arg f) of None \<Rightarrow> f | Some m \<Rightarrow> f\<lparr>f_idleStats := m\<rparr>) = f"
    using assms(1) by (cases "arg_recvFrames ty (f_arg f)") (simp_all add: listening_def)
  ultimately show ?thesis
    using assms quiet_Suc [OF assms(3)]
    by (auto simp: echo_tick_def FsmEchoTimeout_def Let_def listening_def)
qed

lemma send_echo_fields [simp]:
  "f_state (FsmSendEchoReq ty p f) = f_state f" "f_conf (FsmSendEchoReq ty p f) = f_conf f"
  "f_arg (FsmSendEchoReq ty p f) = f_arg f" "f_idleStats (FsmSendEchoReq ty p f) = f_idleStats f"
  "f_quietCount (FsmSendEchoReq ty p f) = f_quietCount f"
  "f_echoTimer (FsmSendEchoReq ty p f) = f_echoTimer f"
  by (simp_all add: FsmSendEchoReq_def FsmOutputMbuf_def emit_def)

section \<open>Giving up\<close>

text \<open>Whether the \<open>n\<close>-th silent timeout in a row, or an earlier one, fails the automaton: the first
  only counts, and \<open>echo_max\<close> seconds must have been reached.\<close>

definition gives_up_at :: "fsmconf \<Rightarrow> nat \<Rightarrow> bool" where
  "gives_up_at c n \<longleftrightarrow> 1 < n \<and> sint (echo_max c) \<le> int n * sint (echo_int c)"

lemma gives_up_at_Suc:
  "0 \<le> sint (echo_int c) \<Longrightarrow> gives_up_at c n \<Longrightarrow> gives_up_at c (Suc n)"
  by (auto simp: gives_up_at_def distrib_right)

text \<open>What the keep-alive needs of a protocol: a failure in Opened ends in Stopping and starts no
  keep-alive timer. A protocol that leaves the automaton alone is one; so is LCP, which is not.\<close>

locale fsm_stopping =
  fixes ty :: "'a fsmtype"
  assumes failure_stops:
      "f_state f = ST_OPENED \<Longrightarrow> f_state (FsmFailure ty FAIL_ECHO_TIMEOUT f) = ST_STOPPING"
    and failure_echo: "f_state f = ST_OPENED \<Longrightarrow> \<not> TimerStarted (f_echoTimer f) \<Longrightarrow>
      \<not> TimerStarted (f_echoTimer (FsmFailure ty FAIL_ECHO_TIMEOUT f))"
begin

lemma echo_tick_cases:
  assumes "listening ty f" "f_quietCount f = of_nat n" "n < 32767"
  shows "if gives_up_at (f_conf f) (Suc n)
    then \<exists>g. echo_tick ty f = FsmFailure ty FAIL_ECHO_TIMEOUT g \<and> f_state g = ST_OPENED \<and>
      f_arg g = f_arg f \<and> \<not> TimerStarted (f_echoTimer g)
    else listening ty (echo_tick ty f) \<and> f_quietCount (echo_tick ty f) = of_nat (Suc n) \<and>
      f_conf (echo_tick ty f) = f_conf f \<and> f_arg (echo_tick ty f) = f_arg f"
proof (cases "gives_up_at (f_conf f) (Suc n)")
  case True
  then show ?thesis
    using assms(1) unfolding echo_tick_listening [OF assms] Let_def
    by (intro if_P [THEN iffD2] exI [of _ "f\<lparr>f_quietCount := of_nat n + 1,
        f_echoTimer := TimerStop2 (f_echoTimer f)\<rparr>"])
      (auto simp: listening_def gives_up_at_def ac_simps)
next
  case False
  then show ?thesis
    using assms(1) unfolding echo_tick_listening [OF assms] Let_def
    by (cases "arg_recvFrames ty (f_arg f)") (auto simp: listening_def gives_up_at_def ac_simps)
qed

lemma echo_tick_stopped: "\<not> TimerStarted (f_echoTimer f) \<Longrightarrow> echo_tick ty f = f"
  by (simp add: echo_tick_def)

lemma echo_ticks_count:
  assumes "listening ty f" "f_quietCount f = 0" "0 \<le> sint (echo_int (f_conf f))" "n < 32768"
  shows "if gives_up_at (f_conf f) n
    then \<exists>g. echo_ticks ty n f = FsmFailure ty FAIL_ECHO_TIMEOUT g \<and> f_state g = ST_OPENED \<and>
      f_arg g = f_arg f \<and> \<not> TimerStarted (f_echoTimer g)
    else listening ty (echo_ticks ty n f) \<and> f_quietCount (echo_ticks ty n f) = of_nat n \<and>
      f_conf (echo_ticks ty n f) = f_conf f \<and> f_arg (echo_ticks ty n f) = f_arg f"
  using assms(4)
proof (induction n)
  case 0
  then show ?case using assms by (simp add: gives_up_at_def)
next
  case (Suc n)
  show ?case
  proof (cases "gives_up_at (f_conf f) n")
    case True
    then show ?thesis
      using Suc gives_up_at_Suc [OF assms(3) True] failure_echo echo_tick_stopped by auto
  next
    case False
    then show ?thesis using Suc echo_tick_cases [of "echo_ticks ty n f" n]
      by (simp cong: if_cong)
  qed
qed

text \<open>So the \<open>n\<close>-th silent timeout leaves the automaton in Opened until the time is up, and not
  any longer.\<close>

lemma echo_state:
  assumes "listening ty f" "f_quietCount f = 0" "0 \<le> sint (echo_int (f_conf f))" "n < 32768"
  shows "f_state (echo_ticks ty n f) = (if gives_up_at (f_conf f) n then ST_STOPPING else ST_OPENED)"
  using echo_ticks_count [OF assms] failure_stops by (auto simp: listening_def split: if_splits)

end

sublocale fsm_quiet \<subseteq> fsm_stopping
  by unfold_locales (simp_all add: FsmFailure_def Let_def)

end
