(* ===== verification/Fsm_Decode.thy ===== *)
theory Fsm_Decode
  imports Fsm_Layers
begin

text \<open>
  The contract between the automaton and the routines that decode configuration options one by one
  (\<open>IpcpDecodeConfig\<close>, \<open>Ipv6cpDecodeConfig\<close>, \<open>LcpDecodeConfig\<close>): an option of a
  request is answered exactly once, by an Ack, by a Nak of the same type or by a Reject; an option
  of a Nak, a Reject or an Ack writes nothing. From it: the three answer buffers never
  overflow, and a request that is acked is acked as it was.
\<close>

section \<open>The client's state\<close>

definition upd_arg :: "('a \<Rightarrow> 'a) \<Rightarrow> 'a fsm \<Rightarrow> 'a fsm" where
  "upd_arg g f = f\<lparr>f_arg := g (f_arg f)\<rparr>"

lemma ctl_upd_arg [simp]: "ctl (f\<lparr>f_arg := a\<rparr>) = ctl f" "ctl (upd_arg g f) = ctl f"
  by (simp_all add: ctl_def upd_arg_def)

lemma bufs_upd_arg [simp]: "bufs (f\<lparr>f_arg := a\<rparr>) = bufs f" "bufs (upd_arg g f) = bufs f"
  by (simp_all add: bufs_def upd_arg_def)

lemma upd_arg_fields [simp]:
  "f_arg (upd_arg g f) = g (f_arg f)" "f_trace (upd_arg g f) = f_trace f"
  "f_state (upd_arg g f) = f_state f" "f_aborted (upd_arg g f) = f_aborted f"
  "f_ackBuf (upd_arg g f) = f_ackBuf f" "f_nakBuf (upd_arg g f) = f_nakBuf f"
  "f_rejBuf (upd_arg g f) = f_rejBuf f"
  by (simp_all add: upd_arg_def)

section \<open>Answers\<close>

lemma ctl_answers [simp]:
  "ctl (FsmAck opt f) = ctl f" "ctl (FsmNak opt f) = ctl f" "ctl (FsmRej opt f) = ctl f"
  by (simp_all add: ctl_def FsmAck_def FsmNak_def FsmRej_def)

lemma answers_arg [simp]:
  "f_arg (FsmAck opt f) = f_arg f" "f_arg (FsmNak opt f) = f_arg f" "f_arg (FsmRej opt f) = f_arg f"
  by (simp_all add: FsmAck_def FsmNak_def FsmRej_def)

lemma bufs_answers [simp]:
  "bufs (FsmAck opt (f\<lparr>f_arg := a\<rparr>)) = bufs (FsmAck opt f)"
  "bufs (FsmNak opt (f\<lparr>f_arg := a\<rparr>)) = bufs (FsmNak opt f)"
  "bufs (FsmRej opt (f\<lparr>f_arg := a\<rparr>)) = bufs (FsmRej opt f)"
  by (simp_all add: bufs_def FsmAck_def FsmNak_def FsmRej_def)

lemma nak_nonempty: "f_nakBuf (FsmNak opt f) \<noteq> []"
proof -
  have "unat (opt_len opt) < 256" using unsigned_less [of "opt_len opt"] by simp
  then show ?thesis by (auto simp: FsmNak_def FSM_BUFFER_SIZE_def opt_bytes_def)
qed

lemma rej_nonempty: "f_rejBuf (FsmRej opt f) \<noteq> []"
proof -
  have "unat (opt_len opt) < 256" using unsigned_less [of "opt_len opt"] by simp
  then show ?thesis by (auto simp: FsmRej_def FSM_BUFFER_SIZE_def opt_bytes_def)
qed

text \<open>Writing over the value of an option, as \<open>memcpy (opt->data, ...)\<close> does.\<close>

definition opt_set :: "byte list \<Rightarrow> fsmoption \<Rightarrow> fsmoption" where
  "opt_set xs opt = opt\<lparr>opt_data := xs @ drop (length xs) (opt_data opt)\<rparr>"

lemma opt_set_ok: "opt_ok opt \<Longrightarrow> length xs + 2 \<le> unat (opt_len opt) \<Longrightarrow> opt_ok (opt_set xs opt)"
  by (simp add: opt_ok_def opt_set_def)

lemma opt_set_type [simp]: "opt_type (opt_set xs opt) = opt_type opt"
  by (simp add: opt_set_def)

definition answered :: "fsmoption \<Rightarrow> 'a fsm \<Rightarrow> 'a fsm \<Rightarrow> bool" where
  "answered opt f g \<longleftrightarrow> bufs g = bufs (FsmAck opt f) \<or> bufs g = bufs (FsmRej opt f) \<or>
     (\<exists>o'. opt_ok o' \<and> opt_type o' = opt_type opt \<and> bufs g = bufs (FsmNak o' f))"

lemma answeredI [intro, simp]:
  "answered opt f (FsmAck opt f)" "answered opt f (FsmRej opt f)"
  "answered opt f (FsmAck opt (f\<lparr>f_arg := a\<rparr>))" "answered opt f (FsmRej opt (f\<lparr>f_arg := a\<rparr>))"
  by (simp_all add: answered_def)

lemma answered_nak [intro]:
  "opt_ok o' \<Longrightarrow> opt_type o' = opt_type opt \<Longrightarrow> answered opt f (FsmNak o' f)"
  "opt_ok o' \<Longrightarrow> opt_type o' = opt_type opt \<Longrightarrow> answered opt f (FsmNak o' (f\<lparr>f_arg := a\<rparr>))"
  by (auto simp: answered_def)

lemma answered_set [intro]:
  "opt_ok opt \<Longrightarrow> length xs + 2 \<le> unat (opt_len opt) \<Longrightarrow> answered opt f (FsmNak (opt_set xs opt) f)"
  "opt_ok opt \<Longrightarrow> length xs + 2 \<le> unat (opt_len opt) \<Longrightarrow>
     answered opt f (FsmNak (opt_set xs opt) (f\<lparr>f_arg := a\<rparr>))"
  by (simp_all add: answered_nak opt_set_ok)

lemma answered_bufs_ok:
  assumes "answered opt f g" "bufs_ok f" "opt_ok opt"
  shows "bufs_ok g"
proof -
  have "bufs_ok h \<Longrightarrow> bufs g = bufs h \<Longrightarrow> bufs_ok g" for h :: "'a fsm"
    by (simp add: bufs_ok_def bufs_def)
  with assms bufs_ok_add show ?thesis unfolding answered_def by blast
qed

text \<open>An answer that leaves no Nak and no Reject was an Ack.\<close>

lemma answered_no_complaint:
  assumes "answered opt f g" "f_nakBuf g = []" "f_rejBuf g = []"
  shows "bufs g = bufs (FsmAck opt f)" "f_nakBuf f = []" "f_rejBuf f = []"
proof -
  have "bufs g \<noteq> bufs (FsmRej opt f)" "bufs g \<noteq> bufs (FsmNak o' f)" for o'
    using rej_nonempty [of opt f] nak_nonempty [of o' f] assms(2,3) by (auto simp: bufs_def)
  with assms(1) show g: "bufs g = bufs (FsmAck opt f)" by (auto simp: answered_def)
  from g assms(2,3) show "f_nakBuf f = []" "f_rejBuf f = []"
    by (simp_all add: bufs_def FsmAck_def split: if_splits)
qed

section \<open>The common prologue\<close>

text \<open>An unknown or unsupported option or one of bad length is rejected in a request and skipped
  otherwise.\<close>

definition opt_checked ::
  "fsmoptinfo list \<Rightarrow> mode \<Rightarrow> fsmoption \<Rightarrow> ('a fsm \<Rightarrow> 'a fsm) \<Rightarrow> 'a fsm \<Rightarrow> 'a fsm" where
  "opt_checked infos md opt body f =
     (let rej = (if md = MODE_REQ then FsmRej opt f else f) in
      case FsmFindOptInfo infos (opt_type opt) of
        None \<Rightarrow> rej
      | Some oi \<Rightarrow>
          if \<not> oi_supported oi then rej
          else if unat (opt_len opt) < unat (oi_minLen oi) + 2
                  \<or> unat (opt_len opt) > unat (oi_maxLen oi) + 2 then rej
          else body f)"

lemma opt_checked_cases:
  obtains "opt_checked infos md opt body f = (if md = MODE_REQ then FsmRej opt f else f)"
  | oi where "FsmFindOptInfo infos (opt_type opt) = Some oi" "oi_supported oi"
      "unat (oi_minLen oi) + 2 \<le> unat (opt_len opt)" "unat (opt_len opt) \<le> unat (oi_maxLen oi) + 2"
      "opt_checked infos md opt body f = body f"
proof (cases "FsmFindOptInfo infos (opt_type opt)")
  case (Some oi)
  then show ?thesis
    using that by (cases "oi_supported oi \<and> unat (oi_minLen oi) + 2 \<le> unat (opt_len opt)
        \<and> unat (opt_len opt) \<le> unat (oi_maxLen oi) + 2") (auto simp: opt_checked_def Let_def)
qed (auto simp: opt_checked_def intro: that)

section \<open>The contract\<close>

locale option_decoder =
  fixes dec :: "mode \<Rightarrow> 'a fsm \<Rightarrow> fsmoption \<Rightarrow> 'a fsm"
  assumes dec_ctl: "ctl (dec md f opt) = ctl f"
    and dec_quiet: "md \<noteq> MODE_REQ \<Longrightarrow> bufs (dec md f opt) = bufs f"
    and dec_answers: "opt_ok opt \<Longrightarrow> answered opt f (dec MODE_REQ f opt)"
begin

lemma all_ctl: "ctl (foldl (dec md) f opts) = ctl f"
  by (induction opts arbitrary: f) (simp_all add: dec_ctl)

lemma all_quiet: "md \<noteq> MODE_REQ \<Longrightarrow> bufs (foldl (dec md) f opts) = bufs f"
  by (induction opts arbitrary: f) (simp_all add: dec_quiet)

lemma all_bufs_ok:
  "bufs_ok f \<Longrightarrow> list_all opt_ok opts \<Longrightarrow> bufs_ok (foldl (dec MODE_REQ) f opts)"
  by (induction opts arbitrary: f) (simp_all add: answered_bufs_ok [OF dec_answers])

lemma all_grows:
  assumes "list_all opt_ok opts" "f_nakBuf (foldl (dec MODE_REQ) f opts) = []"
    "f_rejBuf (foldl (dec MODE_REQ) f opts) = []"
  shows "f_nakBuf f = [] \<and> f_rejBuf f = []"
  using assms
proof (induction opts arbitrary: f)
  case (Cons opt opts)
  then have "answered opt f (dec MODE_REQ f opt)" by (simp add: dec_answers)
  with Cons.IH [of "dec MODE_REQ f opt"] Cons.prems show ?case
    using answered_no_complaint(2,3) by auto
qed simp

text \<open>What holds of an option that draws no complaint, if its test depends only on a part of the
  client's state that decoding a request does not change, holds of every option of a request that
  draws none.\<close>

lemma accepted:
  assumes side: "\<And>f opt. side (f_arg (dec MODE_REQ f opt)) = side (f_arg f)"
    and one: "\<And>f. f_nakBuf (dec MODE_REQ f opt) = [] \<Longrightarrow> f_rejBuf (dec MODE_REQ f opt) = [] \<Longrightarrow>
      P (side (f_arg f))"
    and opts: "list_all opt_ok opts" "opt \<in> set opts"
    and none: "f_nakBuf (foldl (dec MODE_REQ) f opts) = []"
      "f_rejBuf (foldl (dec MODE_REQ) f opts) = []"
  shows "P (side (f_arg f))"
  using opts none
proof (induction opts arbitrary: f)
  case (Cons o1 opts)
  let ?g = "dec MODE_REQ f o1"
  from Cons.prems have "f_nakBuf ?g = [] \<and> f_rejBuf ?g = []"
    by (intro all_grows [of opts]) simp_all
  then show ?case
    using one [of f] side [of f o1] Cons.IH [of ?g] Cons.prems by (cases "opt = o1") auto
qed simp

text \<open>The Ack echoes the request.\<close>

lemma acked:
  assumes "list_all opt_ok opts" "length (f_ackBuf f @ opts_bytes opts) \<le> FSM_BUFFER_SIZE"
    "f_nakBuf (foldl (dec MODE_REQ) f opts) = []" "f_rejBuf (foldl (dec MODE_REQ) f opts) = []"
  shows "f_ackBuf (foldl (dec MODE_REQ) f opts) = f_ackBuf f @ opts_bytes opts"
  using assms
proof (induction opts arbitrary: f)
  case (Cons opt opts)
  let ?g = "dec MODE_REQ f opt"
  have "f_nakBuf ?g = [] \<and> f_rejBuf ?g = []"
    using Cons.prems by (intro all_grows [of opts]) simp_all
  then have "bufs ?g = bufs (FsmAck opt f)"
    using answered_no_complaint(1) dec_answers Cons.prems(1) by fastforce
  moreover have "f_ackBuf (FsmAck opt f) = f_ackBuf f @ opt_bytes opt"
    using Cons.prems(1,2) by (simp add: FsmAck_def length_opt_bytes)
  ultimately have "f_ackBuf ?g = f_ackBuf f @ opt_bytes opt" by (simp add: bufs_def)
  with Cons show ?case by simp
qed simp

end

text \<open>A protocol whose \<open>DecodeConfig\<close> is such a loop, after a preparation \<open>pre\<close> that leaves the
  buffers alone.\<close>

locale decoding_type = option_decoder dec for dec :: "mode \<Rightarrow> 'a fsm \<Rightarrow> fsmoption \<Rightarrow> 'a fsm" +
  fixes ty :: "'a fsmtype" and pre :: "mode \<Rightarrow> 'a fsm \<Rightarrow> 'a fsm"
  assumes decode_loop: "DecodeConfig ty f opts md = foldl (dec md) (pre md f) opts"
    and pre_bufs: "bufs (pre md f) = bufs f"
begin

abbreviation (input) "fresh f \<equiv> f\<lparr>f_ackBuf := [], f_nakBuf := [], f_rejBuf := []\<rparr>"

lemma decode_buffer:
  "FsmDecodeBuffer ty buf MODE_REQ f =
     foldl (dec MODE_REQ) (pre MODE_REQ (fresh f)) (FsmExtractOptions FSM_MAX_OPTS buf)"
  by (simp add: FsmDecodeBuffer_def decode_loop)

lemma pre_fresh:
  "f_ackBuf (pre md (fresh f)) = []" "f_nakBuf (pre md (fresh f)) = []"
  "f_rejBuf (pre md (fresh f)) = []"
  using pre_bufs [of md "fresh f"] by (simp_all add: bufs_def)

lemma buffers_bounded: "bufs_ok (FsmDecodeBuffer ty buf MODE_REQ f)"
  unfolding decode_buffer
  by (rule all_bufs_ok) (simp_all add: bufs_ok_def pre_fresh extract_ok)

lemma ack_echoes:
  assumes "length buf \<le> FSM_BUFFER_SIZE"
    "f_nakBuf (FsmDecodeBuffer ty buf MODE_REQ f) = []"
    "f_rejBuf (FsmDecodeBuffer ty buf MODE_REQ f) = []"
  shows "f_ackBuf (FsmDecodeBuffer ty buf MODE_REQ f) =
    opts_bytes (FsmExtractOptions FSM_MAX_OPTS buf)"
proof -
  obtain rest where "buf = opts_bytes (FsmExtractOptions FSM_MAX_OPTS buf) @ rest"
    using extract_prefix by blast
  then have "length (opts_bytes (FsmExtractOptions FSM_MAX_OPTS buf)) \<le> length buf"
    by (metis length_append le_add1)
  with assms acked [OF extract_ok, of "pre MODE_REQ (fresh f)" FSM_MAX_OPTS buf] show ?thesis
    by (simp add: decode_buffer pre_fresh)
qed

end

end
