(* ===== verification/Fsm_Phase.thy ===== *)
theory Fsm_Phase
  imports Fsm_Decode
begin

text \<open>
  Protocols whose own state follows the automaton's. \<open>good s a\<close> says that the client's state
  \<open>a\<close> fits the automaton's state \<open>s\<close>. If every callback but \<open>NewState\<close> keeps what is good
  and leaves the automaton's state alone, and \<open>NewState\<close> turns what is good for the old state
  into what is good for the new one, for the moves the automaton makes, then the client's state
  fits after every step and no assertion of the automaton fails. \<open>NewState\<close> itself may do
  anything to the automaton meanwhile, even run it.
\<close>

section \<open>The moves of the automaton\<close>

fun fsm_moves :: "fsm_state \<Rightarrow> fsm_state \<Rightarrow> bool" where
  "fsm_moves ST_INITIAL s = (s \<in> {ST_STARTING, ST_CLOSED})"
| "fsm_moves ST_STARTING s = (s \<in> {ST_INITIAL, ST_REQSENT})"
| "fsm_moves ST_CLOSED s = (s \<in> {ST_INITIAL, ST_REQSENT})"
| "fsm_moves ST_STOPPED s = (s \<in> {ST_STARTING, ST_CLOSED, ST_REQSENT, ST_ACKSENT})"
| "fsm_moves ST_CLOSING s = (s \<in> {ST_INITIAL, ST_STOPPING, ST_CLOSED})"
| "fsm_moves ST_STOPPING s = (s \<in> {ST_STARTING, ST_CLOSING, ST_STOPPED})"
| "fsm_moves ST_REQSENT s = (s \<in> {ST_STARTING, ST_CLOSING, ST_STOPPED, ST_ACKRCVD, ST_ACKSENT})"
| "fsm_moves ST_ACKRCVD s = (s \<in> {ST_STARTING, ST_CLOSING, ST_STOPPED, ST_REQSENT, ST_OPENED})"
| "fsm_moves ST_ACKSENT s = (s \<in> {ST_STARTING, ST_CLOSING, ST_STOPPED, ST_REQSENT, ST_OPENED})"
| "fsm_moves ST_OPENED s = (s \<in> {ST_STARTING, ST_CLOSING, ST_STOPPING, ST_REQSENT, ST_ACKSENT})"

section \<open>Callbacks\<close>

definition primed :: "'a fsm \<Rightarrow> bool" where
  "primed f \<longleftrightarrow> t_func (f_timer f)"

definition harmless :: "(fsm_state \<Rightarrow> 'a \<Rightarrow> bool) \<Rightarrow> ('a fsm \<Rightarrow> 'a fsm) \<Rightarrow> bool" where
  "harmless good c \<longleftrightarrow> (\<forall>f. f_state (c f) = f_state f \<and> f_aborted (c f) = f_aborted f \<and>
     primed (c f) = primed f \<and> (\<forall>s. good s (f_arg f) \<longrightarrow> good s (f_arg (c f))))"

lemma harmlessI:
  assumes "\<And>f. f_state (c f) = f_state f" "\<And>f. f_aborted (c f) = f_aborted f"
    "\<And>f. primed (c f) = primed f" "\<And>f s. good s (f_arg f) \<Longrightarrow> good s (f_arg (c f))"
  shows "harmless good c"
  using assms by (simp add: harmless_def)

lemma harmless_ctl:
  assumes "\<And>f. ctl (c f) = ctl f" "\<And>f s. good s (f_arg f) \<Longrightarrow> good s (f_arg (c f))"
  shows "harmless good c"
  using assms(2) ctl_fields [OF assms(1)] by (simp add: harmless_def primed_def)

lemma harmless_simps [simp]:
  "harmless good (\<lambda>f. f)" "harmless good (call0 None)"
  "harmless good (call0 (Some c)) = harmless good c"
  by (simp_all add: harmless_def call0_def)

lemma primed_update [simp]:
  "primed (f\<lparr>f_arg := a\<rparr>) = primed f" "primed (f\<lparr>f_state := s\<rparr>) = primed f"
  "primed (f\<lparr>f_echoid := a1\<rparr>) = primed f" "primed (f\<lparr>f_reqid := a1\<rparr>) = primed f"
  "primed (f\<lparr>f_rejid := a1\<rparr>) = primed f" "primed (f\<lparr>f_restart := b\<rparr>) = primed f"
  "primed (f\<lparr>f_config := b\<rparr>) = primed f" "primed (f\<lparr>f_failure := b\<rparr>) = primed f"
  "primed (f\<lparr>f_echoTimer := t\<rparr>) = primed f" "primed (f\<lparr>f_conf := c\<rparr>) = primed f"
  "primed (f\<lparr>f_quietCount := b\<rparr>) = primed f" "primed (f\<lparr>f_idleStats := n\<rparr>) = primed f"
  "primed (f\<lparr>f_ackBuf := xs\<rparr>) = primed f" "primed (f\<lparr>f_nakBuf := xs\<rparr>) = primed f"
  "primed (f\<lparr>f_rejBuf := xs\<rparr>) = primed f" "primed (f\<lparr>f_timer := t\<rparr>) = t_func t"
  "primed (emit e f) = primed f" "primed (upd_arg g f) = primed f"
  "primed (FsmInitRestartCounter ty v f)" "primed (FsmInitMaxFailure v f) = primed f"
  "primed (FsmInitMaxConfig v f) = primed f"
  by (simp_all add: primed_def emit_def upd_arg_def FsmInitRestartCounter_def
      FsmInitMaxFailure_def FsmInitMaxConfig_def)

lemma primed_start [simp]:
  "primed (fsm_TimerStart f) = primed f" "f_state (fsm_TimerStart f) = f_state f"
  "f_arg (fsm_TimerStart f) = f_arg f" "primed f \<Longrightarrow> f_aborted (fsm_TimerStart f) = f_aborted f"
  by (simp_all add: fsm_TimerStart_def TimerStart2_def fsm_abort_def primed_def)

lemma echo_started [simp]:
  "primed (fsm_echo_start f) = primed f" "f_state (fsm_echo_start f) = f_state f"
  "f_arg (fsm_echo_start f) = f_arg f"
  "t_func (f_echoTimer f) \<Longrightarrow> f_aborted (fsm_echo_start f) = f_aborted f"
  by (simp_all add: fsm_echo_start_def TimerStartRecurring2_def fsm_abort_def primed_def)

section \<open>The contract\<close>

locale fsm_phased =
  fixes ty :: "'a fsmtype" and good :: "fsm_state \<Rightarrow> 'a \<Rightarrow> bool"
  assumes p_NewState: "\<And>c f s. NewState ty = Some c \<Longrightarrow> good (f_state f) (f_arg f) \<Longrightarrow>
      \<not> f_aborted f \<Longrightarrow> fsm_moves (f_state f) s \<Longrightarrow>
      good s (f_arg (c f (f_state f) s)) \<and> \<not> f_aborted (c f (f_state f) s) \<and>
      (primed f \<longrightarrow> primed (c f (f_state f) s))"
    and p_NoNewState: "NewState ty = None \<Longrightarrow> good s a \<Longrightarrow> fsm_moves s s' \<Longrightarrow> good s' a"
    and h_LayerUp: "harmless good (call0 (LayerUp ty))"
    and h_LayerDown: "harmless good (call0 (LayerDown ty))"
    and h_LayerStart: "harmless good (call0 (LayerStart ty))"
    and h_LayerFinish: "harmless good (call0 (LayerFinish ty))"
    and h_Configure: "harmless good (call0 (Configure ty))"
    and h_UnConfigure: "harmless good (call0 (UnConfigure ty))"
    and h_TermReq: "harmless good (call0 (SendTerminateReq ty))"
    and h_TermAck: "harmless good (call0 (SendTerminateAck ty))"
    and h_Build: "harmless good (\<lambda>f. fst (BuildConfigReq ty f))"
    and h_Decode: "harmless good (\<lambda>f. DecodeConfig ty f opts md)"
    and h_Failure: "Failure ty = Some c2 \<Longrightarrow> harmless good (\<lambda>f. c2 f r)"
    and h_CodeRej: "RecvCodeRej ty = Some c3 \<Longrightarrow> harmless good (\<lambda>f. fst (c3 f code bp))"
    and h_ProtoRej: "RecvProtoRej ty = Some c4 \<Longrightarrow> harmless good (\<lambda>f. fst (c4 f p bp))"
    and h_ResetReq: "RecvResetReq ty = Some c5 \<Longrightarrow> harmless good (\<lambda>f. c5 f i bp)"
    and h_ResetAck: "RecvResetAck ty = Some c5 \<Longrightarrow> harmless good (\<lambda>f. c5 f i bp)"
    and h_Ident: "RecvIdent ty = Some c6 \<Longrightarrow> harmless good (\<lambda>f. c6 f bp)"
    and h_DiscReq: "RecvDiscReq ty = Some c6 \<Longrightarrow> harmless good (\<lambda>f. c6 f bp)"
    and h_TimeRemain: "RecvTimeRemain ty = Some c6 \<Longrightarrow> harmless good (\<lambda>f. c6 f bp)"
    and h_Vendor: "RecvVendor ty = Some c6 \<Longrightarrow> harmless good (\<lambda>f. c6 f bp)"
begin

definition calm :: "'a fsm \<Rightarrow> bool" where
  "calm f \<longleftrightarrow> good (f_state f) (f_arg f) \<and> \<not> f_aborted f"

definition sound :: "'a fsm \<Rightarrow> bool" where
  "sound f \<longleftrightarrow> calm f \<and> (f_state f \<notin> {ST_INITIAL, ST_STARTING, ST_CLOSED} \<longrightarrow> primed f)"

lemma calm_harmless:
  assumes "harmless good c"
  shows "calm f \<Longrightarrow> calm (c f)" "f_state (c f) = f_state f" "primed (c f) = primed f"
  using assms by (auto simp: harmless_def calm_def)

lemma sound_harmless: "harmless good c \<Longrightarrow> sound f \<Longrightarrow> sound (c f)"
  using calm_harmless by (simp add: sound_def)

lemma sound_arg: "sound f \<Longrightarrow> good (f_state f) a \<Longrightarrow> sound (f\<lparr>f_arg := a\<rparr>)"
  by (simp add: sound_def calm_def)

lemma sound_good: "sound f \<Longrightarrow> good (f_state f) (f_arg f) \<and> \<not> f_aborted f"
  by (simp add: sound_def calm_def)

lemma calm_update [simp]:
  "calm (f\<lparr>f_echoid := a1\<rparr>) = calm f" "calm (f\<lparr>f_reqid := a1\<rparr>) = calm f"
  "calm (f\<lparr>f_rejid := a1\<rparr>) = calm f" "calm (f\<lparr>f_restart := b\<rparr>) = calm f"
  "calm (f\<lparr>f_config := b\<rparr>) = calm f" "calm (f\<lparr>f_failure := b\<rparr>) = calm f"
  "calm (f\<lparr>f_echoTimer := t\<rparr>) = calm f" "calm (f\<lparr>f_timer := t\<rparr>) = calm f"
  "calm (f\<lparr>f_quietCount := b\<rparr>) = calm f" "calm (f\<lparr>f_idleStats := n\<rparr>) = calm f"
  "calm (f\<lparr>f_ackBuf := xs\<rparr>) = calm f" "calm (f\<lparr>f_nakBuf := xs\<rparr>) = calm f"
  "calm (f\<lparr>f_rejBuf := xs\<rparr>) = calm f" "calm (emit e f) = calm f"
  "calm (FsmInitRestartCounter ty v f) = calm f" "calm (FsmInitMaxFailure v f) = calm f"
  "calm (FsmInitMaxConfig v f) = calm f" "primed f \<Longrightarrow> calm (fsm_TimerStart f) = calm f"
  by (simp_all add: calm_def emit_def primed_def FsmInitRestartCounter_def FsmInitMaxFailure_def
      FsmInitMaxConfig_def)

lemma counters_state [simp]:
  "f_state (FsmInitRestartCounter ty v f) = f_state f" "f_state (FsmInitMaxFailure v f) = f_state f"
  "f_state (FsmInitMaxConfig v f) = f_state f"
  by (simp_all add: FsmInitRestartCounter_def FsmInitMaxFailure_def FsmInitMaxConfig_def)

lemma phased_calls [simp]:
  "calm f \<Longrightarrow> calm (FsmLayerUp ty f)" "f_state (FsmLayerUp ty f) = f_state f"
  "primed (FsmLayerUp ty f) = primed f"
  "calm f \<Longrightarrow> calm (FsmLayerDown ty f)" "f_state (FsmLayerDown ty f) = f_state f"
  "primed (FsmLayerDown ty f) = primed f"
  "calm f \<Longrightarrow> calm (FsmLayerStart ty f)" "f_state (FsmLayerStart ty f) = f_state f"
  "primed (FsmLayerStart ty f) = primed f"
  "calm f \<Longrightarrow> calm (FsmLayerFinish ty f)" "f_state (FsmLayerFinish ty f) = f_state f"
  "primed (FsmLayerFinish ty f) = primed f"
  unfolding FsmLayerUp_def FsmLayerDown_def FsmLayerStart_def FsmLayerFinish_def
  by (simp_all add: calm_harmless [OF h_LayerUp] calm_harmless [OF h_LayerDown]
      calm_harmless [OF h_LayerStart] calm_harmless [OF h_LayerFinish])

lemma phased_configure [simp]:
  "calm f \<Longrightarrow> calm (fsm_Configure ty f)" "f_state (fsm_Configure ty f) = f_state f"
  "primed (fsm_Configure ty f) = primed f"
  "calm f \<Longrightarrow> calm (fsm_UnConfigure ty f)" "f_state (fsm_UnConfigure ty f) = f_state f"
  "primed (fsm_UnConfigure ty f) = primed f"
  using calm_harmless [OF h_Configure, of "emit EvConfigure f"]
    calm_harmless [OF h_UnConfigure, of "emit EvUnConfigure f"]
  by (simp_all add: fsm_Configure_def fsm_UnConfigure_def call0_def split: option.split_asm option.split)

lemma phased_new_state_state [simp]: "f_state (FsmNewState ty s f) = s"
  by (simp add: FsmNewState_def Let_def)

lemma phased_new_state [simp]:
  assumes "calm f" "fsm_moves (f_state f) s"
  shows "calm (FsmNewState ty s f)" "primed f \<Longrightarrow> primed (FsmNewState ty s f)"
proof -
  let ?f = "emit (EvState (f_state f) s) f"
  let ?g = "case NewState ty of None \<Rightarrow> ?f | Some c \<Rightarrow> c ?f (f_state f) s"
  have g: "good s (f_arg ?g) \<and> \<not> f_aborted ?g \<and> (primed f \<longrightarrow> primed ?g)"
    using assms p_NewState [of _ ?f s] p_NoNewState [of "f_state f" "f_arg f" s]
    by (cases "NewState ty") (simp_all add: calm_def)
  then show "calm (FsmNewState ty s f)" by (auto simp: FsmNewState_def Let_def calm_def)
  assume "primed f"
  with g have "primed ?g" by simp
  then show "primed (FsmNewState ty s f)"
    by (simp add: FsmNewState_def Let_def) (simp add: primed_def)
qed

lemma phased_output [simp]:
  "calm f \<Longrightarrow> calm (FsmOutputMbuf ty code i bp f)"
  "f_state (FsmOutputMbuf ty code i bp f) = f_state f"
  "primed (FsmOutputMbuf ty code i bp f) = primed f"
  "calm f \<Longrightarrow> calm (FsmOutput ty code i xs f)"
  "f_state (FsmOutput ty code i xs f) = f_state f"
  "primed (FsmOutput ty code i xs f) = primed f"
  by (simp_all add: FsmOutput_def FsmOutputMbuf_def)

lemma phased_decode [simp]:
  "calm f \<Longrightarrow> calm (FsmDecodeBuffer ty buf md f)"
  "f_state (FsmDecodeBuffer ty buf md f) = f_state f"
  "primed (FsmDecodeBuffer ty buf md f) = primed f"
  using calm_harmless [OF h_Decode] by (simp_all add: FsmDecodeBuffer_def)

lemma phased_sends [simp]:
  "calm f \<Longrightarrow> primed f \<Longrightarrow> calm (FsmSendConfigReq ty f)"
  "f_state (FsmSendConfigReq ty f) = f_state f" "primed (FsmSendConfigReq ty f) = primed f"
  "calm f \<Longrightarrow> primed f \<Longrightarrow> calm (FsmSendTerminateReq ty f)"
  "f_state (FsmSendTerminateReq ty f) = f_state f" "primed (FsmSendTerminateReq ty f) = primed f"
  "calm f \<Longrightarrow> calm (FsmSendTerminateAck ty f)"
  "f_state (FsmSendTerminateAck ty f) = f_state f" "primed (FsmSendTerminateAck ty f) = primed f"
  "calm f \<Longrightarrow> calm (FsmSendConfigAck ty i opts f)"
  "f_state (FsmSendConfigAck ty i opts f) = f_state f"
  "primed (FsmSendConfigAck ty i opts f) = primed f"
  "calm f \<Longrightarrow> calm (FsmSendConfigRej ty i opts f)"
  "f_state (FsmSendConfigRej ty i opts f) = f_state f"
  "primed (FsmSendConfigRej ty i opts f) = primed f"
  "calm f \<Longrightarrow> calm (FsmSendConfigNak ty i opts f)"
  "f_state (FsmSendConfigNak ty i opts f) = f_state f"
  "primed (FsmSendConfigNak ty i opts f) = primed f"
  using calm_harmless [OF h_Build] calm_harmless [OF h_TermReq] calm_harmless [OF h_TermAck]
  by (simp_all add: FsmSendConfigReq_def FsmSendTerminateReq_def FsmSendTerminateAck_def
      FsmSendConfigAck_def FsmSendConfigRej_def FsmSendConfigNak_def Let_def case_prod_beta)

section \<open>Every operation keeps the fit\<close>

lemma sound_update [simp]:
  "sound (f\<lparr>f_echoid := e\<rparr>) = sound f" "sound (f\<lparr>f_rejid := e\<rparr>) = sound f"
  "sound (f\<lparr>f_quietCount := q\<rparr>) = sound f" "sound (f\<lparr>f_idleStats := n\<rparr>) = sound f"
  "sound (f\<lparr>f_echoTimer := t\<rparr>) = sound f" "sound (emit ev f) = sound f"
  "sound (f\<lparr>f_timer := timer_fired (f_timer f)\<rparr>) = sound f"
  by (simp_all add: sound_def) (simp add: primed_def)

lemma sound_output [simp]: "sound f \<Longrightarrow> sound (FsmOutputMbuf ty code i bp f)"
  by (simp add: sound_def)

lemma sound_Open: "sound f \<Longrightarrow> sound (FsmOpen ty f)"
  by (cases "f_state f"; simp add: sound_def FsmOpen_def Let_def)

lemma sound_Up: "sound f \<Longrightarrow> sound (FsmUp ty f)"
  by (cases "f_state f"; simp add: sound_def FsmUp_def Let_def)

lemma sound_Down: "sound f \<Longrightarrow> sound (FsmDown ty f)"
  by (cases "f_state f"; simp add: sound_def FsmDown_def Let_def)

lemma sound_Close: "sound f \<Longrightarrow> sound (FsmClose ty f)"
  by (cases "f_state f"; simp add: sound_def FsmClose_def Let_def)

lemma phased_failure_call:
  assumes "sound f"
  shows "sound (case Failure ty of None \<Rightarrow> f | Some c \<Rightarrow> c f r)"
    "f_state (case Failure ty of None \<Rightarrow> f | Some c \<Rightarrow> c f r) = f_state f"
  using assms sound_harmless [OF h_Failure] calm_harmless(2) [OF h_Failure]
  by (auto split: option.split)

lemma sound_Failure:
  assumes "sound f"
  shows "sound (FsmFailure ty r f)"
proof -
  let ?f = "emit (EvFailure r) f"
  let ?g = "case Failure ty of None \<Rightarrow> ?f | Some c \<Rightarrow> c ?f r"
  have "sound ?g" using assms phased_failure_call(1) [of ?f r] by simp
  then show ?thesis
    by (cases "f_state ?g"; simp add: sound_def FsmFailure_def Let_def)
qed

lemma sound_Timeout: "sound f \<Longrightarrow> sound (FsmTimeout ty f)"
  using sound_Failure [of f]
  by (cases "f_state f"; simp add: FsmTimeout_def) (simp_all add: sound_def)

lemma sound_TermReq: "sound f \<Longrightarrow> sound (FsmRecvTermReq ty f)"
  by (cases "ty_link_layer ty"; cases "f_state f"; simp add: sound_def FsmRecvTermReq_def Let_def)

lemma sound_TermAck: "sound f \<Longrightarrow> sound (FsmRecvTermAck ty f)"
  by (cases "f_state f"; simp add: sound_def FsmRecvTermAck_def)

lemma sound_RxjPlus: "sound f \<Longrightarrow> sound (FsmRecvRxjPlus ty f)"
  by (cases "f_state f"; simp add: sound_def FsmRecvRxjPlus_def)

lemma sound_ConfigAck: "sound f \<Longrightarrow> sound (FsmRecvConfigAck ty i bp f)"
  by (cases "f_state f"; simp add: sound_def FsmRecvConfigAck_def Let_def)

lemma sound_decode: "sound f \<Longrightarrow> sound (FsmDecodeBuffer ty buf md f)"
  by (simp add: sound_def)

lemma sound_ConfigNak: "sound f \<Longrightarrow> sound (FsmRecvConfigNak ty i bp f)"
  using sound_Failure [OF sound_decode, of f]
  by (cases "f_state f"; simp add: FsmRecvConfigNak_def Let_def) (simp_all add: sound_def)

lemma sound_ConfigRej: "sound f \<Longrightarrow> sound (FsmRecvConfigRej ty i bp f)"
  using sound_Failure [OF sound_decode, of f]
  by (cases "f_state f"; simp add: FsmRecvConfigRej_def Let_def) (simp_all add: sound_def)

lemma sound_next: "sound f \<Longrightarrow> sound (rcr_next ty b f)"
  by (cases "f_state f"; simp add: sound_def rcr_next_def)

lemma sound_answer:
  assumes "sound f"
  shows "sound (FsmSendConfigAck ty i xs f)" "sound (FsmSendConfigRej ty i xs f)"
    "sound (FsmSendConfigNak ty i xs f)"
  using assms by (simp_all add: sound_def)

lemma sound_process:
  assumes "calm f" "primed f" "f_state f \<in> {ST_STOPPED, ST_OPENED, ST_REQSENT, ST_ACKRCVD, ST_ACKSENT}"
  shows "sound (rcr_process ty i bp f)"
proof -
  define f1 where "f1 = FsmDecodeBuffer ty (pk_data bp) MODE_REQ f"
  define f2 where "f2 = (case f_state f1 of
       ST_OPENED \<Rightarrow> FsmSendConfigReq ty (FsmLayerDown ty f1)
     | ST_STOPPED \<Rightarrow>
         (let f = FsmLayerStart ty f1;
              f = FsmInitRestartCounter ty (maxconfig (f_conf f)) f;
              f = FsmInitMaxFailure (maxfailure (f_conf f)) f;
              f = FsmInitMaxConfig (maxconfig (f_conf f)) f
          in FsmSendConfigReq ty f)
     | _ \<Rightarrow> f1)"
  have "sound f2"
    using assms by (cases "f_state f"; simp add: f1_def f2_def sound_def Let_def)
  moreover have "rcr_process ty i bp f =
      (if f_nakBuf f2 = [] \<and> f_rejBuf f2 = []
       then rcr_next ty True (FsmSendConfigAck ty i (f_ackBuf f2) f2)
       else if f_failure f2 \<le>s 0 then FsmFailure ty FAIL_NEGOT_FAILURE f2
       else rcr_next ty False
              (if f_rejBuf f2 \<noteq> [] then FsmSendConfigRej ty i (f_rejBuf f2) f2
               else FsmSendConfigNak ty i (f_nakBuf f2) f2))"
    by (simp only: rcr_process_def Let_def f2_def f1_def)
  ultimately show ?thesis by (simp add: sound_next sound_Failure sound_answer)
qed

lemma sound_ConfigReq: "sound f \<Longrightarrow> sound (FsmRecvConfigReq ty i bp f)"
  using sound_process [of f i bp] sound_process [of "fsm_Configure ty f" i bp]
  by (cases "f_state f"; simp add: FsmRecvConfigReq_def) (simp_all add: sound_def)

lemma sound_fatal_or_plus:
  "sound (fst gb) \<Longrightarrow>
     sound (if snd gb then FsmFailure ty r (fst gb) else FsmRecvRxjPlus ty (fst gb))"
  by (simp add: sound_Failure sound_RxjPlus)

lemma sound_CodeRej: "sound f \<Longrightarrow> sound (FsmRecvCodeRej ty bp f)"
  unfolding FsmRecvCodeRej_def Let_def case_prod_beta
  by (rule sound_fatal_or_plus) (simp add: sound_harmless [OF h_CodeRej] split: option.split)

lemma sound_ProtoRej: "sound f \<Longrightarrow> sound (FsmRecvProtoRej ty bp f)"
  unfolding FsmRecvProtoRej_def Let_def case_prod_beta
  by (rule sound_fatal_or_plus) (simp add: sound_harmless [OF h_ProtoRej] split: option.split)

lemma sound_CheckMagic: "sound f \<Longrightarrow> sound (fst (FsmCheckMagic ty bp f))"
  by (simp add: FsmCheckMagic_def Let_def case_prod_beta sound_Failure)

lemma sound_call_pkt:
  assumes "sound f" "\<And>c b. cb = Some c \<Longrightarrow> harmless good (\<lambda>f. c f b)"
  shows "sound (call_pkt cb (FsmCheckMagic ty bp f))"
  using sound_CheckMagic [OF assms(1)] sound_harmless [OF assms(2)]
  by (cases cb) (simp_all add: call_pkt_def)

lemma sound_informational:
  assumes "sound f"
  shows "sound (FsmRecvDiscReq ty bp f)" "sound (FsmRecvIdent ty bp f)"
    "sound (FsmRecvVendor ty bp f)" "sound (FsmRecvTimeRemain ty bp f)"
  unfolding FsmRecvDiscReq_def FsmRecvIdent_def FsmRecvVendor_def FsmRecvTimeRemain_def
  by (rule sound_call_pkt [OF assms], erule h_DiscReq h_Ident h_Vendor h_TimeRemain)+

lemma sound_Reset:
  assumes "sound f"
  shows "sound (FsmRecvResetReq ty i bp f)" "sound (FsmRecvResetAck ty i bp f)"
  using assms sound_harmless [OF h_ResetReq] sound_harmless [OF h_ResetAck]
  by (auto simp: FsmRecvResetReq_def FsmRecvResetAck_def split: option.split)

lemma sound_Echo:
  assumes "sound f"
  shows "sound (FsmRecvEchoReq ty i bp f)" "sound (FsmRecvEchoRep ty bp f)"
  using sound_CheckMagic [OF assms, of bp]
  by (simp_all add: FsmRecvEchoReq_def FsmRecvEchoRep_def Let_def case_prod_beta)

lemma sound_action: "sound f \<Longrightarrow> sound (fsm_action ty code i bp f)"
  by (simp add: fsm_action_def sound_informational sound_Reset sound_Echo sound_ConfigReq
      sound_ConfigAck sound_ConfigNak sound_ConfigRej sound_TermReq sound_TermAck
      sound_CodeRej sound_ProtoRej)

lemma sound_step: "fsm_step ty f g \<Longrightarrow> sound f \<Longrightarrow> sound g"
proof (induction rule: fsm_step.induct)
  case (step_input f bp)
  then show ?case by (auto simp: FsmInput_def sound_action split: option.split)
next
  case (step_timeout f)
  then show ?case by (intro sound_Timeout) simp
next
  case (step_echo f)
  then have "sound (f\<lparr>f_echoTimer := timer_fired (f_echoTimer f)\<rparr>)" by simp
  then show ?case
    by (cases "arg_recvFrames ty (f_arg f)")
      (auto simp: FsmEchoTimeout_def Let_def FsmSendEchoReq_def sound_Failure)
qed (simp_all add: sound_Open sound_Close sound_Up sound_Down sound_Failure)

lemma sound_reachable: "fsm_reachable ty f0 f \<Longrightarrow> sound f0 \<Longrightarrow> sound f"
  by (induction rule: fsm_reachable.induct) (auto dest: sound_step)

end

section \<open>Callbacks that leave the automaton's state alone\<close>

locale fsm_stable =
  fixes ty :: "'a fsmtype"
  assumes t_LayerDown: "f_state (call0 (LayerDown ty) f) = f_state f"
    and t_LayerStart: "f_state (call0 (LayerStart ty) f) = f_state f"
    and t_LayerFinish: "f_state (call0 (LayerFinish ty) f) = f_state f"
    and t_Configure: "f_state (call0 (Configure ty) f) = f_state f"
    and t_UnConfigure: "f_state (call0 (UnConfigure ty) f) = f_state f"
    and t_TermReq: "f_state (call0 (SendTerminateReq ty) f) = f_state f"
    and t_TermAck: "f_state (call0 (SendTerminateAck ty) f) = f_state f"
    and t_Build: "f_state (fst (BuildConfigReq ty f)) = f_state f"
    and t_Decode: "f_state (DecodeConfig ty f opts md) = f_state f"
    and t_Failure: "Failure ty = Some c2 \<Longrightarrow> f_state (c2 f r) = f_state f"
    and t_CodeRej: "RecvCodeRej ty = Some c3 \<Longrightarrow> f_state (fst (c3 f code bp)) = f_state f"
    and t_ProtoRej: "RecvProtoRej ty = Some c4 \<Longrightarrow> f_state (fst (c4 f p bp)) = f_state f"
    and t_ResetReq: "RecvResetReq ty = Some c5 \<Longrightarrow> f_state (c5 f i bp) = f_state f"
    and t_ResetAck: "RecvResetAck ty = Some c5 \<Longrightarrow> f_state (c5 f i bp) = f_state f"
    and t_Ident: "RecvIdent ty = Some c6 \<Longrightarrow> f_state (c6 f bp) = f_state f"
    and t_DiscReq: "RecvDiscReq ty = Some c6 \<Longrightarrow> f_state (c6 f bp) = f_state f"
    and t_TimeRemain: "RecvTimeRemain ty = Some c6 \<Longrightarrow> f_state (c6 f bp) = f_state f"
    and t_Vendor: "RecvVendor ty = Some c6 \<Longrightarrow> f_state (c6 f bp) = f_state f"
begin

lemma stable_calls [simp]:
  "f_state (FsmLayerDown ty f) = f_state f" "f_state (FsmLayerStart ty f) = f_state f"
  "f_state (FsmLayerFinish ty f) = f_state f" "f_state (FsmDecodeBuffer ty buf md f) = f_state f"
  "f_state (fsm_Configure ty f) = f_state f" "f_state (fsm_UnConfigure ty f) = f_state f"
proof -
  show "f_state (FsmLayerDown ty f) = f_state f" "f_state (FsmLayerStart ty f) = f_state f"
    "f_state (FsmLayerFinish ty f) = f_state f" "f_state (FsmDecodeBuffer ty buf md f) = f_state f"
    by (simp_all add: FsmLayerDown_def FsmLayerStart_def FsmLayerFinish_def FsmDecodeBuffer_def
        t_LayerDown t_LayerStart t_LayerFinish t_Decode)
  show "f_state (fsm_Configure ty f) = f_state f" "f_state (fsm_UnConfigure ty f) = f_state f"
    using t_Configure [of "emit EvConfigure f"] t_UnConfigure [of "emit EvUnConfigure f"]
    by (simp_all add: fsm_Configure_def fsm_UnConfigure_def call0_def split: option.split_asm option.split)
qed

lemma stable_new_state [simp]: "f_state (FsmNewState ty s f) = s"
  by (simp add: FsmNewState_def Let_def)

lemma stable_same [simp]:
  "f_state (FsmOutputMbuf ty' code i bp f) = f_state f" "f_state (FsmOutput ty' code i xs f) = f_state f"
  "f_state (FsmInitRestartCounter ty' v f) = f_state f" "f_state (FsmInitMaxFailure v f) = f_state f"
  "f_state (FsmInitMaxConfig v f) = f_state f"
  by (simp_all add: FsmOutput_def FsmOutputMbuf_def FsmInitRestartCounter_def FsmInitMaxFailure_def
      FsmInitMaxConfig_def)

lemma stable_sends [simp]:
  "f_state (FsmSendConfigReq ty f) = f_state f" "f_state (FsmSendTerminateReq ty f) = f_state f"
  "f_state (FsmSendTerminateAck ty f) = f_state f"
  "f_state (FsmSendConfigAck ty i opts f) = f_state f"
  "f_state (FsmSendConfigRej ty i opts f) = f_state f"
  "f_state (FsmSendConfigNak ty i opts f) = f_state f"
  by (simp_all add: FsmSendConfigReq_def FsmSendTerminateReq_def FsmSendTerminateAck_def
      FsmSendConfigAck_def FsmSendConfigRej_def FsmSendConfigNak_def Let_def case_prod_beta t_Build
      t_TermReq t_TermAck)

end

sublocale fsm_phased \<subseteq> fsm_stable ty
  using h_LayerDown h_LayerStart h_LayerFinish h_Configure h_UnConfigure h_TermReq h_TermAck h_Build
    h_Decode h_Failure h_CodeRej h_ProtoRej h_ResetReq h_ResetAck h_Ident h_DiscReq h_TimeRemain
    h_Vendor
  by unfold_locales (auto simp: harmless_def)

end
