(* ===== verification/Ip.thy ===== *)
theory Ip
  imports Mpd_Prelude
begin

unbundle bit_operations_syntax

text \<open>
  Addresses and address ranges (\<open>src/src/ip.c\<close>). A \<open>u_addr\<close> is a family and the 16
  octets of its union, so reading the IPv4 member of an IPv6 address gives its first four octets,
  as in C. An \<open>in_addr\<close> is the 32-bit number whose network-order octets are stored; the
  one function that compares the stored octets as a host integer (\<open>u_addrcompare\<close>) reads them as
  a little-endian machine does. A shift by a negative amount is undefined in C: such a call has
  the result \<open>None\<close>. The resolver, \<open>inet_pton\<close> and \<open>GetAnyIpAddress\<close> come in through the argument
  \<open>parse\<close> of \<open>ParseRange\<close>.
\<close>

section \<open>Addresses\<close>

type_synonym in_addr = u32

datatype family = AF_UNSPEC | AF_INET | AF_INET6

record u_addr =
  a_family :: family
  a_u :: "byte list"

record u_range =
  r_addr :: u_addr
  r_width :: byte

definition ip4 :: "u_addr \<Rightarrow> in_addr" where
  "ip4 a = (case get32 (a_u a) of None \<Rightarrow> 0 | Some w \<Rightarrow> w)"

definition u_addr_zero :: u_addr where
  "u_addr_zero = \<lparr>a_family = AF_UNSPEC, a_u = replicate 16 0\<rparr>"

definition u_addrclear :: "u_addr \<Rightarrow> u_addr" where
  "u_addrclear a = u_addr_zero"

definition u_rangeclear :: "u_range \<Rightarrow> u_range" where
  "u_rangeclear r = \<lparr>r_addr = u_addr_zero, r_width = 0\<rparr>"

definition in_addrtou_addr :: "in_addr \<Rightarrow> u_addr" where
  "in_addrtou_addr src = u_addr_zero\<lparr>a_family := AF_INET, a_u := be32 src @ replicate 12 0\<rparr>"

definition in6_addrtou_addr :: "byte list \<Rightarrow> u_addr" where
  "in6_addrtou_addr src = u_addr_zero\<lparr>a_family := AF_INET6, a_u := src\<rparr>"

definition u_addrtoin_addr :: "u_addr \<Rightarrow> in_addr" where
  "u_addrtoin_addr src = ip4 src"

definition u_addrtoin6_addr :: "u_addr \<Rightarrow> byte list" where
  "u_addrtoin6_addr src = a_u src"

definition in_addrtou_range :: "in_addr \<Rightarrow> byte \<Rightarrow> u_range" where
  "in_addrtou_range src width = \<lparr>r_addr = in_addrtou_addr src, r_width = width\<rparr>"

definition in6_addrtou_range :: "byte list \<Rightarrow> byte \<Rightarrow> u_range" where
  "in6_addrtou_range src width = \<lparr>r_addr = in6_addrtou_addr src, r_width = width\<rparr>"

definition u_addrempty :: "u_addr \<Rightarrow> bool" where
  "u_addrempty a = (case a_family a of
     AF_INET \<Rightarrow> ip4 a = 0
   | AF_INET6 \<Rightarrow> list_all (\<lambda>b. b = 0) (take 16 (a_u a))
   | AF_UNSPEC \<Rightarrow> True)"

definition u_rangeempty :: "u_range \<Rightarrow> bool" where
  "u_rangeempty r = u_addrempty (r_addr r)"

definition u_rangehost :: "u_range \<Rightarrow> bool" where
  "u_rangehost r = (case a_family (r_addr r) of
     AF_INET \<Rightarrow> r_width r = 32 | AF_INET6 \<Rightarrow> r_width r = 128 | AF_UNSPEC \<Rightarrow> False)"

text \<open>The families are compared by their numbers: 0, 2 and 28.\<close>

fun family_number :: "family \<Rightarrow> nat" where
  "family_number AF_UNSPEC = 0"
| "family_number AF_INET = 2"
| "family_number AF_INET6 = 28"

definition s_addr :: "in_addr \<Rightarrow> u32" where
  "s_addr w = (case be32 w of [a, b, c, d] \<Rightarrow> of_be32 d c b a | _ \<Rightarrow> 0)"

fun bytes_compare :: "byte list \<Rightarrow> byte list \<Rightarrow> int" where
  "bytes_compare (x # xs) (y # ys) =
     (if x < y then -1 else if x > y then 1 else bytes_compare xs ys)"
| "bytes_compare _ _ = 0"

definition u_addrcompare :: "u_addr \<Rightarrow> u_addr \<Rightarrow> int" where
  "u_addrcompare a b =
     (if family_number (a_family a) < family_number (a_family b) then -1
      else if family_number (a_family a) > family_number (a_family b) then 1
      else case a_family a of
        AF_INET \<Rightarrow> (if s_addr (ip4 a) < s_addr (ip4 b) then -1
                    else if s_addr (ip4 a) = s_addr (ip4 b) then 0 else 1)
      | AF_INET6 \<Rightarrow> bytes_compare (take 16 (a_u a)) (take 16 (a_u b))
      | AF_UNSPEC \<Rightarrow> 0)"

definition u_rangecompare :: "u_range \<Rightarrow> u_range \<Rightarrow> int" where
  "u_rangecompare a b =
     (if r_width a < r_width b then -1 else if r_width a > r_width b then 1
      else u_addrcompare (r_addr a) (r_addr b))"

section \<open>Ranges\<close>

text \<open>The IPv6 loop of \<open>IpAddrInRange\<close>, octets \<open>i\<close> on; \<open>n\<close> counts the octets left.\<close>

fun in_range6 :: "nat \<Rightarrow> nat \<Rightarrow> byte \<Rightarrow> byte list \<Rightarrow> byte list \<Rightarrow> bool option" where
  "in_range6 i 0 w rs as = Some True"
| "in_range6 i (Suc n) w rs as =
     (if i * 8 + 7 < unat w then
        (if as ! i \<noteq> rs ! i then Some False else in_range6 (Suc i) n w rs as)
      else if unat w \<noteq> i * 8 \<and> 8 < unat w then None
      else
        (let bmask = (if unat w = i * 8 then 0 else push_bit (8 - unat w) (-1 :: byte)) in
         if as ! i AND bmask \<noteq> rs ! i AND bmask then Some False
         else in_range6 (Suc i) n w rs as))"

definition IpAddrInRange :: "u_range \<Rightarrow> u_addr \<Rightarrow> bool option" where
  "IpAddrInRange rg a =
     (if u_rangeempty rg then Some True
      else if a_family (r_addr rg) \<noteq> a_family a then Some False
      else case a_family (r_addr rg) of
        AF_INET \<Rightarrow>
          (if 32 < r_width rg then None
           else
             (let mask = (if r_width rg \<noteq> 0
                          then push_bit (32 - unat (r_width rg)) (-1 :: u32) else 0)
              in Some (ip4 a AND mask = ip4 (r_addr rg) AND mask)))
      | AF_INET6 \<Rightarrow>
          in_range6 0 ((unat (r_width rg) + 7) div 8) (r_width rg) (a_u (r_addr rg)) (a_u a)
      | AF_UNSPEC \<Rightarrow> Some False)"

section \<open>Masks and widths\<close>

text \<open>The shifting loop, with a bound on its rounds.\<close>

fun leading_ones :: "nat \<Rightarrow> u32 \<Rightarrow> byte \<Rightarrow> byte" where
  "leading_ones 0 m width = width"
| "leading_ones (Suc n) m width =
     (if m AND 0x80000000 \<noteq> 0 then leading_ones n (push_bit 1 m) (width + 1) else width)"

text \<open>33 rounds are enough: a 32-bit word shifted 32 times is zero.\<close>

definition in_addrtowidth :: "in_addr \<Rightarrow> byte" where
  "in_addrtowidth m = leading_ones 33 m 0"

definition widthtoin_addr :: "byte \<Rightarrow> in_addr option" where
  "widthtoin_addr width =
     (if width = 0 \<or> 32 < width then None else Some (push_bit (32 - unat width) 0xFFFFFFFF))"

section \<open>Parsing\<close>

text \<open>\<open>atoi\<close>: an optional sign and the leading digits.\<close>

fun digits_value :: "int \<Rightarrow> string \<Rightarrow> int" where
  "digits_value n (c # cs) =
     (if 48 \<le> (of_char c :: nat) \<and> (of_char c :: nat) \<le> 57
      then digits_value (10 * n + of_char c - 48) cs else n)"
| "digits_value n [] = n"

definition atoi :: "string \<Rightarrow> int" where
  "atoi s = (case dropWhile (\<lambda>c. c \<in> {CHR '' '', CHR 0x09, CHR 0x0A, CHR 0x0B, CHR 0x0C, CHR 0x0D}) s of
     [] \<Rightarrow> 0
   | c # cs \<Rightarrow> if c = CHR ''-'' then - digits_value 0 cs
               else if c = CHR ''+'' then digits_value 0 cs else digits_value 0 (c # cs))"

definition ParseRange :: "(string \<Rightarrow> u_addr option) \<Rightarrow> string \<Rightarrow> u_range option" where
  "ParseRange parse s =
     (let buf = take 63 s;
          name = takeWhile (\<lambda>c. c \<noteq> CHR ''/'') buf;
          wid = drop (length name + 1) buf
      in case parse name of
           None \<Rightarrow> None
         | Some a \<Rightarrow>
             (if wid \<noteq> '''' then
                (let n = atoi wid in
                 if n < 0 \<or> a_family a = AF_INET \<and> 32 < n \<or> a_family a = AF_INET6 \<and> 128 < n
                 then None else Some \<lparr>r_addr = a, r_width = word_of_int n\<rparr>)
              else Some \<lparr>r_addr = a, r_width = (if a_family a = AF_INET then 32 else 128)\<rparr>))"

section \<open>Facts\<close>

lemma ip4_in_addrtou_addr [simp]: "ip4 (in_addrtou_addr w) = w"
  by (simp add: ip4_def in_addrtou_addr_def)

lemma family_in_addrtou_addr [simp]: "a_family (in_addrtou_addr w) = AF_INET"
  by (simp add: in_addrtou_addr_def)

lemma u_addrtoin_addr_roundtrip [simp]: "u_addrtoin_addr (in_addrtou_addr w) = w"
  by (simp add: u_addrtoin_addr_def)

lemma u_addrempty_in_addr [simp]: "u_addrempty (in_addrtou_addr w) \<longleftrightarrow> w = 0"
  by (simp add: u_addrempty_def)

lemma and_high_mask:
  "n \<le> 32 \<Longrightarrow> (a AND push_bit n (-1) = b AND push_bit n (-1)) \<longleftrightarrow> drop_bit n a = drop_bit n (b :: u32)"
proof (intro iffI)
  assume *: "n \<le> 32" "a AND push_bit n (-1) = b AND push_bit n (-1)"
  show "drop_bit n a = drop_bit n b"
  proof (rule bit_word_eqI)
    fix i assume "i < LENGTH(32)"
    have "bit (a AND push_bit n (-1)) (n + i) = bit (b AND push_bit n (-1)) (n + i)"
      using * by simp
    moreover have "\<not> bit a (n + i)" "\<not> bit b (n + i)" if "\<not> n + i < 32"
      using that bit_imp_le_length [of a "n + i"] bit_imp_le_length [of b "n + i"] by auto
    ultimately show "bit (drop_bit n a) i = bit (drop_bit n b) i"
      by (cases "n + i < 32") (simp_all add: bit_simps)
  qed
next
  assume *: "n \<le> 32" "drop_bit n a = drop_bit n b"
  show "a AND push_bit n (-1) = b AND push_bit n (-1)"
  proof (rule bit_word_eqI)
    fix i assume "i < LENGTH(32)"
    have "bit (drop_bit n a) (i - n) = bit (drop_bit n b) (i - n)" using * by simp
    then show "bit (a AND push_bit n (-1)) i = bit (b AND push_bit n (-1)) i"
      by (auto simp: bit_simps)
  qed
qed

lemma in_range4:
  assumes "a_family (r_addr r) = AF_INET" "a_family a = AF_INET" "ip4 (r_addr r) \<noteq> 0"
    "r_width r \<le> 32"
  shows "IpAddrInRange r a =
    Some (drop_bit (32 - unat (r_width r)) (ip4 a) = drop_bit (32 - unat (r_width r)) (ip4 (r_addr r)))"
proof -
  have w: "drop_bit 32 (x :: u32) = 0" for x by (rule bit_word_eqI) (auto simp: bit_simps dest: bit_imp_le_length)
  have "unat (r_width r) \<le> 32" using assms(4) by (simp add: word_le_nat_alt)
  then show ?thesis
    using assms and_high_mask [of "32 - unat (r_width r)" "ip4 a" "ip4 (r_addr r)"]
    by (auto simp: IpAddrInRange_def u_rangeempty_def u_addrempty_def Let_def not_less w unat_eq_0)
qed

lemma in_range_defined4:
  "a_family (r_addr r) = AF_INET \<Longrightarrow> r_width r \<le> 32 \<Longrightarrow> \<exists>b. IpAddrInRange r a = Some b"
  by (auto simp: IpAddrInRange_def Let_def not_less)

lemma in_range_host:
  assumes "a_family (r_addr r) = AF_INET" "r_width r = 32" "ip4 (r_addr r) \<noteq> 0"
  shows "IpAddrInRange r (in_addrtou_addr w) = Some (w = ip4 (r_addr r))"
  using assms by (subst in_range4) auto

end
