(* ===== verification/IpPool.thy ===== *)
theory IpPool
  imports Ip
begin

text \<open>
  Address pools (\<open>src/src/ippool.c\<close>): the global list of named pools, each an array of
  addresses with a flag. The array is a list, its \<open>size\<close> the length; \<open>SLIST_INSERT_HEAD\<close> is
  \<open>#\<close>. \<open>IPPoolAdd\<close> allocates \<open>total + c\<close> records and copies \<open>size\<close> of them: where the copy or a
  later store leaves the allocation, or the count is negative, the result is \<open>None\<close>. The mutex is
  held throughout each operation, so operations are atomic.
\<close>

section \<open>The pools\<close>

record ippool_rec =
  pr_ip :: in_addr
  pr_used :: bool

record ippool =
  p_name :: string
  p_recs :: "ippool_rec list"

type_synonym ippools = "ippool list"

definition IPPoolInit :: ippools where
  "IPPoolInit = []"

text \<open>\<open>LINK_MAX_NAME\<close> counts the terminating octet.\<close>

definition pool_strlcpy :: "string \<Rightarrow> string" where
  "pool_strlcpy s = take 15 s"

fun take_free :: "ippool_rec list \<Rightarrow> (ippool_rec list \<times> in_addr) option" where
  "take_free [] = None"
| "take_free (r # rs) =
     (if \<not> pr_used r then Some (r\<lparr>pr_used := True\<rparr> # rs, pr_ip r)
      else case take_free rs of None \<Rightarrow> None | Some (rs', i) \<Rightarrow> Some (r # rs', i))"

fun IPPoolGet :: "string \<Rightarrow> ippools \<Rightarrow> ippools \<times> u_addr option" where
  "IPPoolGet pool [] = ([], None)"
| "IPPoolGet pool (p # ps) =
     (if p_name p = pool then
        (case take_free (p_recs p) of
           None \<Rightarrow> (p # ps, None)
         | Some (rs, i) \<Rightarrow> (p\<lparr>p_recs := rs\<rparr> # ps, Some (in_addrtou_addr i)))
      else (let (ps', r) = IPPoolGet pool ps in (p # ps', r)))"

fun release :: "in_addr \<Rightarrow> ippool_rec list \<Rightarrow> ippool_rec list" where
  "release i [] = []"
| "release i (r # rs) = (if pr_ip r = i then r\<lparr>pr_used := False\<rparr> # rs else r # release i rs)"

fun IPPoolFree :: "string \<Rightarrow> u_addr \<Rightarrow> ippools \<Rightarrow> ippools" where
  "IPPoolFree pool a [] = []"
| "IPPoolFree pool a (p # ps) =
     (if p_name p = pool then p\<lparr>p_recs := release (ip4 a) (p_recs p)\<rparr> # ps
      else p # IPPoolFree pool a ps)"

text \<open>The filling loop: \<open>old\<close> are the first \<open>p->size\<close> records, \<open>cap\<close> the records allocated.\<close>

fun pool_fill :: "ippool_rec list \<Rightarrow> nat \<Rightarrow> in_addr \<Rightarrow> nat \<Rightarrow> ippool_rec list \<Rightarrow> ippool_rec list option"
where
  "pool_fill old cap i 0 recs = Some recs"
| "pool_fill old cap i (Suc c) recs =
     (if i \<in> set (map pr_ip old) then pool_fill old cap (i + 1) c recs
      else if length recs < cap
      then pool_fill old cap (i + 1) c (recs @ [\<lparr>pr_ip = i, pr_used = False\<rparr>])
      else None)"

definition range_count :: "in_addr \<Rightarrow> in_addr \<Rightarrow> int" where
  "range_count lo hi = sint (hi - lo + 1)"

definition pool_add_recs ::
  "in_addr \<Rightarrow> int \<Rightarrow> ippool_rec list \<Rightarrow> ippool_rec list option" where
  "pool_add_recs lo c recs =
     (let total = length (filter (\<lambda>r. pr_ip r \<noteq> 0) recs) in
      if int total + c < 0 then None
      else if length recs > nat (int total + c) then None
      else pool_fill recs (nat (int total + c)) lo (nat c) recs)"

fun pool_add :: "string \<Rightarrow> in_addr \<Rightarrow> int \<Rightarrow> ippools \<Rightarrow> ippools option" where
  "pool_add pool lo c [] = None"
| "pool_add pool lo c (p # ps) =
     (if p_name p = pool then
        (case pool_add_recs lo c (p_recs p) of
           None \<Rightarrow> None | Some rs \<Rightarrow> Some (p\<lparr>p_recs := rs\<rparr> # ps))
      else (case pool_add pool lo c ps of None \<Rightarrow> None | Some ps' \<Rightarrow> Some (p # ps')))"

definition IPPoolAdd :: "string \<Rightarrow> in_addr \<Rightarrow> in_addr \<Rightarrow> ippools \<Rightarrow> ippools option" where
  "IPPoolAdd pool lo hi ps =
     (let c = range_count lo hi in
      if c > 65536 then Some ps
      else if pool \<in> set (map p_name ps) then pool_add pool lo c ps
      else (case pool_add_recs lo c [] of
              None \<Rightarrow> None
            | Some rs \<Rightarrow> Some (\<lparr>p_name = pool_strlcpy pool, p_recs = rs\<rparr> # ps)))"

text \<open>\<open>IPPoolStat\<close>: name, used and total of every pool.\<close>

definition IPPoolStat :: "ippools \<Rightarrow> (string \<times> nat \<times> nat) list" where
  "IPPoolStat ps = map (\<lambda>p.
     (p_name p,
      length (filter (\<lambda>r. pr_ip r \<noteq> 0 \<and> pr_used r) (p_recs p)),
      length (filter (\<lambda>r. pr_ip r \<noteq> 0) (p_recs p)))) ps"

text \<open>\<open>set ippool add\<close>: the arguments are the pool, the first and the last address; \<open>Inl\<close> is the
  return value -1.\<close>

definition IPPoolSetCommand ::
  "(string \<Rightarrow> u_addr option) \<Rightarrow> string list \<Rightarrow> ippools \<Rightarrow> unit + ippools option" where
  "IPPoolSetCommand parse av ps = (case av of
     [pool, b, e] \<Rightarrow>
       (case (parse b, parse e) of
          (Some ba, Some ea) \<Rightarrow> Inr (IPPoolAdd pool (ip4 ba) (ip4 ea) ps)
        | _ \<Rightarrow> Inl ())
   | _ \<Rightarrow> Inl ())"

section \<open>The abstract pool\<close>

text \<open>A pool promises: which addresses it has, and which of them are lent.\<close>

definition pool_recs :: "string \<Rightarrow> ippools \<Rightarrow> ippool_rec list" where
  "pool_recs pool ps = (case find (\<lambda>p. p_name p = pool) ps of None \<Rightarrow> [] | Some p \<Rightarrow> p_recs p)"

definition pool_has :: "string \<Rightarrow> ippools \<Rightarrow> in_addr set" where
  "pool_has pool ps = pr_ip ` set (pool_recs pool ps)"

definition pool_lent :: "string \<Rightarrow> ippools \<Rightarrow> in_addr set" where
  "pool_lent pool ps = pr_ip ` set (filter pr_used (pool_recs pool ps))"

definition pools_ok :: "ippools \<Rightarrow> bool" where
  "pools_ok ps \<longleftrightarrow> (\<forall>p \<in> set ps. distinct (map pr_ip (p_recs p)))"

lemma pool_recs_simps [simp]:
  "pool_recs pool [] = []"
  "pool_recs pool (p # ps) = (if p_name p = pool then p_recs p else pool_recs pool ps)"
  by (simp_all add: pool_recs_def)

lemma pools_ok_recs: "pools_ok ps \<Longrightarrow> distinct (map pr_ip (pool_recs pool ps))"
  by (induction ps) (auto simp: pools_ok_def)

lemma take_free_spec:
  "take_free rs = Some (rs', i) \<Longrightarrow>
     \<exists>pre r post. rs = pre @ r # post \<and> rs' = pre @ r\<lparr>pr_used := True\<rparr> # post \<and>
       \<not> pr_used r \<and> pr_ip r = i \<and> list_all pr_used pre"
proof (induction rs arbitrary: rs')
  case (Cons r rs)
  show ?case
  proof (cases "pr_used r")
    case True
    with Cons.prems obtain rs'' where
      "take_free rs = Some (rs'', i)" "rs' = r # rs''" by (auto split: option.splits)
    with Cons.IH obtain pre q post where
      "rs = pre @ q # post" "rs'' = pre @ q\<lparr>pr_used := True\<rparr> # post" "\<not> pr_used q" "pr_ip q = i"
      "list_all pr_used pre" by blast
    with True \<open>rs' = _\<close> show ?thesis
      by (intro exI [of _ "r # pre"] exI [of _ q] exI [of _ post]) simp
  next
    case False
    with Cons.prems show ?thesis by (intro exI [of _ "[]"] exI [of _ r] exI [of _ rs]) auto
  qed
qed simp

lemma take_free_None: "take_free rs = None \<longleftrightarrow> list_all pr_used rs"
  by (induction rs) (auto split: option.splits)

lemma get_recs:
  "IPPoolGet pool ps = (ps', r) \<Longrightarrow>
     pool_recs q ps' = (if q = pool then
       (case take_free (pool_recs pool ps) of None \<Rightarrow> pool_recs pool ps | Some (rs, i) \<Rightarrow> rs)
       else pool_recs q ps) \<and>
     r = (case take_free (pool_recs pool ps) of
            None \<Rightarrow> None | Some (rs, i) \<Rightarrow> Some (in_addrtou_addr i))"
  by (induction ps arbitrary: ps') (auto split: option.splits prod.splits if_splits)

lemma free_recs:
  "pool_recs q (IPPoolFree pool a ps) =
     (if q = pool then release (ip4 a) (pool_recs pool ps) else pool_recs q ps)"
  by (induction ps) auto

lemma release_lent:
  assumes "distinct (map pr_ip rs)"
  shows "pr_ip ` set (filter pr_used (release i rs)) = pr_ip ` set (filter pr_used rs) - {i}"
  using assms
proof (induction rs)
  case (Cons r rs)
  show ?case
  proof (cases "pr_ip r = i")
    case True
    then have "i \<notin> pr_ip ` set (filter pr_used rs)" using Cons.prems by auto
    with True show ?thesis by simp
  next
    case False
    with Cons show ?thesis by auto
  qed
qed simp

lemma release_ips [simp]: "map pr_ip (release i rs) = map pr_ip rs"
  by (induction rs) auto

section \<open>Lending and taking back\<close>

lemma get_lends:
  assumes "IPPoolGet pool ps = (ps', Some a)" "pools_ok ps"
  shows "ip4 a \<in> pool_has pool ps" "ip4 a \<notin> pool_lent pool ps"
    "pool_lent pool ps' = insert (ip4 a) (pool_lent pool ps)" "pool_has pool ps' = pool_has pool ps"
proof -
  from get_recs [OF assms(1), of pool] obtain rs i where
    t: "take_free (pool_recs pool ps) = Some (rs, i)" "pool_recs pool ps' = rs" "a = in_addrtou_addr i"
    by (auto split: option.splits)
  from take_free_spec [OF t(1)] obtain pre r post where
    s: "pool_recs pool ps = pre @ r # post" "rs = pre @ r\<lparr>pr_used := True\<rparr> # post"
       "\<not> pr_used r" "pr_ip r = i" by blast
  have d: "distinct (map pr_ip (pre @ r # post))" using pools_ok_recs [OF assms(2), of pool] s(1) by simp
  show "ip4 a \<in> pool_has pool ps" "pool_has pool ps' = pool_has pool ps"
    using s t by (auto simp: pool_has_def)
  show "pool_lent pool ps' = insert (ip4 a) (pool_lent pool ps)"
    using s t by (auto simp: pool_lent_def)
  show "ip4 a \<notin> pool_lent pool ps"
    using s t d by (auto simp: pool_lent_def)
qed

lemma subset_image_inj_on: "inj_on f A \<Longrightarrow> B \<subseteq> A \<Longrightarrow> f ` A \<subseteq> f ` B \<longleftrightarrow> A \<subseteq> B"
  unfolding inj_on_def by blast

lemma get_exhausted:
  assumes "IPPoolGet pool ps = (ps', r)" "pools_ok ps"
  shows "r = None \<longleftrightarrow> pool_has pool ps \<subseteq> pool_lent pool ps"
proof -
  have "r = None \<longleftrightarrow> list_all pr_used (pool_recs pool ps)"
    using get_recs [OF assms(1), of pool] take_free_None [of "pool_recs pool ps", symmetric]
    by (auto split: option.splits)
  also have "\<dots> \<longleftrightarrow> set (pool_recs pool ps) \<subseteq> set (filter pr_used (pool_recs pool ps))"
    by (auto simp: list_all_iff)
  also have "\<dots> \<longleftrightarrow> pool_has pool ps \<subseteq> pool_lent pool ps"
    unfolding pool_has_def pool_lent_def
    using pools_ok_recs [OF assms(2), of pool]
    by (intro subset_image_inj_on [symmetric]) (auto simp: distinct_map)
  finally show ?thesis .
qed

lemma free_returns:
  assumes "pools_ok ps"
  shows "pool_lent pool (IPPoolFree pool a ps) = pool_lent pool ps - {ip4 a}"
    "pool_has pool (IPPoolFree pool a ps) = pool_has pool ps"
proof -
  show "pool_lent pool (IPPoolFree pool a ps) = pool_lent pool ps - {ip4 a}"
    using release_lent [OF pools_ok_recs [OF assms, of pool], of "ip4 a"]
    by (simp add: pool_lent_def free_recs)
  have "pr_ip ` set (release (ip4 a) (pool_recs pool ps)) = pr_ip ` set (pool_recs pool ps)"
    by (metis release_ips set_map)
  then show "pool_has pool (IPPoolFree pool a ps) = pool_has pool ps"
    by (simp add: pool_has_def free_recs)
qed

lemma other_pools:
  "q \<noteq> pool \<Longrightarrow> pool_recs q (fst (IPPoolGet pool ps)) = pool_recs q ps"
  "q \<noteq> pool \<Longrightarrow> pool_recs q (IPPoolFree pool a ps) = pool_recs q ps"
  using get_recs [of pool ps "fst (IPPoolGet pool ps)" "snd (IPPoolGet pool ps)" q]
  by (simp_all add: free_recs)

lemma pools_ok_get: "pools_ok ps \<Longrightarrow> pools_ok (fst (IPPoolGet pool ps))"
proof (induction ps)
  case (Cons p ps)
  then show ?case
    by (auto simp: pools_ok_def split: option.splits prod.splits dest!: take_free_spec)
qed simp

lemma pools_ok_free: "pools_ok ps \<Longrightarrow> pools_ok (IPPoolFree pool a ps)"
  by (induction ps) (auto simp: pools_ok_def)

section \<open>Adding a range\<close>

text \<open>The addresses of a range.\<close>

fun addrs_from :: "in_addr \<Rightarrow> nat \<Rightarrow> in_addr list" where
  "addrs_from i 0 = []"
| "addrs_from i (Suc c) = i # addrs_from (i + 1) c"

lemma pool_fill_spec:
  "pool_fill old cap i c recs = Some recs' \<Longrightarrow>
     recs' = recs @ map (\<lambda>a. \<lparr>pr_ip = a, pr_used = False\<rparr>)
                      (filter (\<lambda>a. a \<notin> pr_ip ` set old) (addrs_from i c))"
  by (induction old cap i c recs rule: pool_fill.induct) (auto split: if_splits)

lemma pool_fill_room:
  assumes "length recs + c \<le> cap"
  shows "\<exists>recs'. pool_fill old cap i c recs = Some recs'"
  using assms by (induction c arbitrary: i recs) auto

lemma u32_of_nat_inj:
  assumes "(of_nat a :: u32) = of_nat b" "a < 2 ^ 32" "b < 2 ^ 32"
  shows "a = b"
proof -
  have "unat (of_nat a :: u32) = a" "unat (of_nat b :: u32) = b"
    using assms(2,3) by (auto intro!: unat_of_nat_small)
  with assms(1) show ?thesis by metis
qed

lemma addrs_from_set: "set (addrs_from i c) = (\<lambda>k. i + of_nat k) ` {..<c}"
proof (induction c arbitrary: i)
  case (Suc c)
  show ?case
    by (simp only: lessThan_Suc_eq_insert_0 image_insert image_image addrs_from.simps set_simps Suc)
      (simp add: ac_simps)
qed simp

lemma addrs_from_distinct: "c \<le> 65536 \<Longrightarrow> distinct (addrs_from i c)"
proof (induction c arbitrary: i)
  case (Suc c)
  have "i \<notin> set (addrs_from (i + 1) c)"
  proof
    assume "i \<in> set (addrs_from (i + 1) c)"
    then obtain k where k: "k < c" "i = i + 1 + of_nat k" by (auto simp: addrs_from_set)
    then have "(of_nat (Suc k) :: u32) = of_nat 0" by (simp add: ac_simps)
    with k Suc.prems show False using u32_of_nat_inj [of "Suc k" 0] by simp
  qed
  with Suc show ?case by simp
qed simp

lemma pool_add_recs_ok:
  assumes "distinct (map pr_ip recs)" "0 \<notin> pr_ip ` set recs" "0 \<le> c" "c \<le> 65536"
  shows "pool_add_recs lo c recs = Some (recs @ map (\<lambda>a. \<lparr>pr_ip = a, pr_used = False\<rparr>)
           (filter (\<lambda>a. a \<notin> pr_ip ` set recs) (addrs_from lo (nat c))))"
proof -
  have t: "filter (\<lambda>r. pr_ip r \<noteq> 0) recs = recs" using assms(2) by (auto simp: filter_id_conv)
  have "length recs + nat c \<le> nat (int (length recs) + c)" using assms(3) by simp
  from pool_fill_room [OF this, of recs lo] obtain r where
    r: "pool_fill recs (nat (int (length recs) + c)) lo (nat c) recs = Some r" by blast
  then show ?thesis
    using pool_fill_spec [OF r] assms(3) by (simp add: pool_add_recs_def t Let_def)
qed

lemma pool_add_recs_distinct:
  assumes "distinct (map pr_ip recs)" "c \<le> 65536" "pool_add_recs lo c recs = Some recs'"
  shows "distinct (map pr_ip recs')"
  using assms addrs_from_distinct [of "nat c" lo]
  by (auto simp: pool_add_recs_def Let_def comp_def split: if_splits dest!: pool_fill_spec)

text \<open>Two ways out of the allocation: an address 0.0.0.0 in the pool, and a range that ends
  before it begins.\<close>

lemma pool_add_recs_zero:
  assumes "0 \<in> pr_ip ` set recs" "c \<le> 0"
  shows "pool_add_recs lo c recs = None"
proof -
  obtain r where "r \<in> set recs" "pr_ip r = 0" using assms(1) by auto
  then have "length (filter (\<lambda>r. pr_ip r \<noteq> 0) recs) < length recs"
    by (intro length_filter_less) auto
  with assms(2) show ?thesis by (auto simp: pool_add_recs_def Let_def)
qed

lemma pool_add_recs_backwards:
  assumes "c < 0"
  shows "pool_add_recs lo c recs = None"
proof -
  define t where "t = length (filter (\<lambda>r. pr_ip r \<noteq> 0) recs)"
  have "t \<le> length recs" by (simp add: t_def)
  then have "int t + c < 0 \<or> nat (int t + c) < length recs" using assms by linarith
  then show ?thesis by (auto simp: pool_add_recs_def Let_def t_def)
qed

lemma pools_ok_add:
  "IPPoolAdd pool lo hi ps = Some ps' \<Longrightarrow> pools_ok ps \<Longrightarrow> pools_ok ps'"
proof -
  assume *: "IPPoolAdd pool lo hi ps = Some ps'" "pools_ok ps"
  have add: "pool_add pool lo c ps = Some ps' \<Longrightarrow> c \<le> 65536 \<Longrightarrow> pools_ok ps \<Longrightarrow> pools_ok ps'"
    for c ps ps'
    by (induction ps arbitrary: ps')
      (auto simp: pools_ok_def pool_add_recs_distinct split: if_splits option.splits)
  from * show ?thesis
    by (auto simp: IPPoolAdd_def Let_def add split: if_splits option.splits)
      (auto simp: pools_ok_def dest: pool_add_recs_distinct [rotated 2])
qed

end
