(* ===== verification/Vars.thy ===== *)
theory Vars
  imports Mpd_Prelude
begin

text \<open>
  The option sets every component is configured with (\<open>src/src/vars.c\<close>, \<open>src/src/vars.h\<close>): two
  bit masks, what we want (\<open>enable\<close>) and what we let the peer have (\<open>accept\<close>), and the
  commands that change them. Options are named by any unambiguous prefix, in either case of
  letters. Error messages are the second component of the result of \<open>Do\<close>.
\<close>

record confinfo =
  ci_peered :: bool
  ci_option :: nat
  ci_name :: string

record optinfo =
  oi_enable :: u32
  oi_accept :: u32

definition Enable :: "nat \<Rightarrow> optinfo \<Rightarrow> optinfo" where
  "Enable x c = c\<lparr>oi_enable := mask_set (oi_enable c) x\<rparr>"

definition Disable :: "nat \<Rightarrow> optinfo \<Rightarrow> optinfo" where
  "Disable x c = c\<lparr>oi_enable := mask_clear (oi_enable c) x\<rparr>"

definition Accept :: "nat \<Rightarrow> optinfo \<Rightarrow> optinfo" where
  "Accept x c = c\<lparr>oi_accept := mask_set (oi_accept c) x\<rparr>"

definition Deny :: "nat \<Rightarrow> optinfo \<Rightarrow> optinfo" where
  "Deny x c = c\<lparr>oi_accept := mask_clear (oi_accept c) x\<rparr>"

definition Enabled :: "optinfo \<Rightarrow> nat \<Rightarrow> bool" where
  "Enabled c x = mask_test (oi_enable c) x"

definition Acceptable :: "optinfo \<Rightarrow> nat \<Rightarrow> bool" where
  "Acceptable c x = mask_test (oi_accept c) x"

section \<open>Finding an option\<close>

definition tolower :: "char \<Rightarrow> nat" where
  "tolower c = (let n = of_char c in if 65 \<le> n \<and> n \<le> 90 then n + 32 else n)"

text \<open>\<open>strncasecmp (s, name, strlen (name)) == 0\<close>\<close>

fun case_prefix :: "string \<Rightarrow> string \<Rightarrow> bool" where
  "case_prefix s [] = True"
| "case_prefix [] (n # ns) = False"
| "case_prefix (c # s) (n # ns) = (tolower c = tolower n \<and> case_prefix s ns)"

datatype find_result = NotFound | Ambiguous | Found nat

fun find_opt :: "confinfo list \<Rightarrow> string \<Rightarrow> nat \<Rightarrow> find_result \<Rightarrow> find_result" where
  "find_opt [] name k found = found"
| "find_opt (c # cs) name k found =
     (if case_prefix (ci_name c) name
      then (if found = NotFound then find_opt cs name (k + 1) (Found k) else Ambiguous)
      else find_opt cs name (k + 1) found)"

definition FindOpt :: "confinfo list \<Rightarrow> string \<Rightarrow> find_result" where
  "FindOpt cl name = find_opt cl name 0 NotFound"

section \<open>The commands\<close>

datatype action = ENABLE | DISABLE | ACCEPT | DENY

datatype message = UnknownOpt string | AmbiguousOpt string | NotApplicable string

definition apply_opt :: "action \<Rightarrow> bool \<Rightarrow> confinfo \<Rightarrow> optinfo \<Rightarrow> optinfo \<times> message list" where
  "apply_opt which scold c opt = (case which of
     ENABLE \<Rightarrow> (Enable (ci_option c) opt, [])
   | DISABLE \<Rightarrow> (Disable (ci_option c) opt, [])
   | ACCEPT \<Rightarrow>
       (if \<not> ci_peered c then (opt, if scold then [NotApplicable (ci_name c)] else [])
        else (Accept (ci_option c) opt, []))
   | DENY \<Rightarrow>
       (if \<not> ci_peered c then (opt, if scold then [NotApplicable (ci_name c)] else [])
        else (Deny (ci_option c) opt, [])))"

fun Do :: "action \<Rightarrow> bool \<Rightarrow> string list \<Rightarrow> confinfo list \<Rightarrow> optinfo \<Rightarrow> optinfo \<times> message list" where
  "Do which scold [] cl opt = (opt, [])"
| "Do which scold (a # av) cl opt =
     (let (opt, ms) = (case FindOpt cl a of
                         NotFound \<Rightarrow> (opt, [UnknownOpt a])
                       | Ambiguous \<Rightarrow> (opt, [AmbiguousOpt a])
                       | Found k \<Rightarrow> apply_opt which scold (cl ! k) opt);
          (opt, ms') = Do which scold av cl opt
      in (opt, ms @ ms'))"

definition EnableCommand :: "string list \<Rightarrow> confinfo list \<Rightarrow> optinfo \<Rightarrow> optinfo" where
  "EnableCommand av cl opt = fst (Do ENABLE True av cl opt)"

definition DisableCommand :: "string list \<Rightarrow> confinfo list \<Rightarrow> optinfo \<Rightarrow> optinfo" where
  "DisableCommand av cl opt = fst (Do DISABLE True av cl opt)"

definition AcceptCommand :: "string list \<Rightarrow> confinfo list \<Rightarrow> optinfo \<Rightarrow> optinfo" where
  "AcceptCommand av cl opt = fst (Do ACCEPT True av cl opt)"

definition DenyCommand :: "string list \<Rightarrow> confinfo list \<Rightarrow> optinfo \<Rightarrow> optinfo" where
  "DenyCommand av cl opt = fst (Do DENY True av cl opt)"

definition YesCommand :: "string list \<Rightarrow> confinfo list \<Rightarrow> optinfo \<Rightarrow> optinfo" where
  "YesCommand av cl opt = fst (Do ACCEPT False av cl (fst (Do ENABLE True av cl opt)))"

definition NoCommand :: "string list \<Rightarrow> confinfo list \<Rightarrow> optinfo \<Rightarrow> optinfo" where
  "NoCommand av cl opt = fst (Do DENY False av cl (fst (Do DISABLE True av cl opt)))"

text \<open>\<open>OptStat\<close>: name, enabled, and whether acceptable where that applies.\<close>

definition OptStat :: "optinfo \<Rightarrow> confinfo list \<Rightarrow> (string \<times> bool \<times> bool option) list" where
  "OptStat opt cl = map (\<lambda>c. (ci_name c, Enabled opt (ci_option c),
     if ci_peered c then Some (Acceptable opt (ci_option c)) else None)) cl"

section \<open>Facts\<close>

lemma enabled_simps [simp]:
  "x < 32 \<Longrightarrow> Enabled (Enable y c) x \<longleftrightarrow> x = y \<or> Enabled c x"
  "Enabled (Disable y c) x \<longleftrightarrow> x \<noteq> y \<and> Enabled c x"
  "Enabled (Accept y c) x = Enabled c x" "Enabled (Deny y c) x = Enabled c x"
  "x < 32 \<Longrightarrow> Acceptable (Accept y c) x \<longleftrightarrow> x = y \<or> Acceptable c x"
  "Acceptable (Deny y c) x \<longleftrightarrow> x \<noteq> y \<and> Acceptable c x"
  "Acceptable (Enable y c) x = Acceptable c x" "Acceptable (Disable y c) x = Acceptable c x"
  by (simp_all add: Enabled_def Acceptable_def Enable_def Disable_def Accept_def Deny_def)

definition opt_matches :: "confinfo list \<Rightarrow> string \<Rightarrow> nat list" where
  "opt_matches cl name = filter (\<lambda>k. case_prefix (ci_name (cl ! k)) name) [0..<length cl]"

lemma find_opt_spec:
  "find_opt cl name k found =
     (case filter (\<lambda>j. case_prefix (ci_name (cl ! j)) name) [0..<length cl] of
        [] \<Rightarrow> found
      | [j] \<Rightarrow> if found = NotFound then Found (k + j) else Ambiguous
      | _ \<Rightarrow> Ambiguous)"
proof (induction cl arbitrary: k found)
  case (Cons c cs)
  have f: "filter (\<lambda>j. case_prefix (ci_name ((c # cs) ! j)) name) [0..<length (c # cs)] =
      (if case_prefix (ci_name c) name then [0] else []) @
      map Suc (filter (\<lambda>j. case_prefix (ci_name (cs ! j)) name) [0..<length cs])"
    by (simp add: upt_conv_Cons map_Suc_upt [symmetric] filter_map comp_def del: upt_Suc)
  show ?case
    by (subst f) (auto simp: Cons split: list.split)
qed simp

lemma FindOpt_spec:
  "FindOpt cl name = (case opt_matches cl name of
     [] \<Rightarrow> NotFound | [k] \<Rightarrow> Found k | _ \<Rightarrow> Ambiguous)"
  by (simp add: FindOpt_def find_opt_spec opt_matches_def split: list.split)

text \<open>The options a command names.\<close>

definition named :: "string list \<Rightarrow> confinfo list \<Rightarrow> confinfo set" where
  "named av cl = {cl ! k | a k. a \<in> set av \<and> opt_matches cl a = [k]}"

lemma named_Cons:
  "named (a # av) cl =
     (case FindOpt cl a of Found k \<Rightarrow> insert (cl ! k) (named av cl) | _ \<Rightarrow> named av cl)"
  by (auto simp: named_def FindOpt_spec split: list.split)

lemma named_Nil [simp]: "named [] cl = {}"
  by (simp add: named_def)

lemma Do_ENABLE:
  "x < 32 \<Longrightarrow> Enabled (fst (Do ENABLE sc av cl opt)) x \<longleftrightarrow>
     Enabled opt x \<or> x \<in> ci_option ` named av cl"
  "Acceptable (fst (Do ENABLE sc av cl opt)) x = Acceptable opt x"
  by (induction av arbitrary: opt)
    (auto simp: case_prod_beta Let_def apply_opt_def named_Cons split: find_result.split)

lemma Do_DISABLE:
  "Enabled (fst (Do DISABLE sc av cl opt)) x \<longleftrightarrow> Enabled opt x \<and> x \<notin> ci_option ` named av cl"
  "Acceptable (fst (Do DISABLE sc av cl opt)) x = Acceptable opt x"
  by (induction av arbitrary: opt)
    (auto simp: case_prod_beta Let_def apply_opt_def named_Cons split: find_result.split)

lemma Do_ACCEPT:
  "x < 32 \<Longrightarrow> Acceptable (fst (Do ACCEPT sc av cl opt)) x \<longleftrightarrow>
     Acceptable opt x \<or> x \<in> ci_option ` {c \<in> named av cl. ci_peered c}"
  "Enabled (fst (Do ACCEPT sc av cl opt)) x = Enabled opt x"
  by (induction av arbitrary: opt)
    (auto simp: case_prod_beta Let_def apply_opt_def named_Cons split: find_result.split)

lemma Do_DENY:
  "Acceptable (fst (Do DENY sc av cl opt)) x \<longleftrightarrow>
     Acceptable opt x \<and> x \<notin> ci_option ` {c \<in> named av cl. ci_peered c}"
  "Enabled (fst (Do DENY sc av cl opt)) x = Enabled opt x"
  by (induction av arbitrary: opt)
    (auto simp: case_prod_beta Let_def apply_opt_def named_Cons split: find_result.split)

end
