(* ===== verification/Bund_Ncps.thy ===== *)
theory Bund_Ncps
  imports Mpd_Prelude
begin

unbundle bit_operations_syntax

text \<open>
  The part of the bundle the network protocols report to (\<open>BundNcpsStart\<close>, \<open>BundNcpsFinish\<close>,
  \<open>BundNcpsJoin\<close> and \<open>BundNcpsLeave\<close> of \<open>src/src/bund.c\<close>): which protocols keep the bundle
  alive, and the flags of its interface. The calls into \<open>iface.c\<close> are recorded; whether
  \<open>IfaceIpIfaceUp\<close> and \<open>IfaceIpv6IfaceUp\<close> fail is read from the two fields
  \<open>nc_ip_fails\<close> and \<open>nc_ipv6_fails\<close> (each is called at most once in an operation).
\<close>

datatype ncp = NCP_NONE | NCP_IPCP | NCP_IPV6CP | NCP_ECP | NCP_CCP

fun ncp_number :: "ncp \<Rightarrow> nat" where
  "ncp_number NCP_NONE = 0"
| "ncp_number NCP_IPCP = 1"
| "ncp_number NCP_IPV6CP = 2"
| "ncp_number NCP_ECP = 3"
| "ncp_number NCP_CCP = 4"

datatype iface_call =
  IfaceIpIfaceUp bool | IfaceIpIfaceDown | IfaceIpv6IfaceUp bool | IfaceIpv6IfaceDown
| IfaceUp bool | IfaceDown | BundCloseLinks

record ncps =
  nc_started :: u32
  nc_en_ipcp :: bool        \<comment> \<open>\<open>Enabled (&b->conf.options, BUND_CONF_IPCP)\<close>\<close>
  nc_en_ipv6cp :: bool
  if_open :: bool
  if_dod :: bool
  if_up :: bool
  if_ip_up :: bool
  if_ipv6_up :: bool
  nc_ip_fails :: bool
  nc_ipv6_fails :: bool
  nc_calls :: "iface_call list"

definition iface_call :: "iface_call \<Rightarrow> ncps \<Rightarrow> ncps" where
  "iface_call c b = b\<lparr>nc_calls := nc_calls b @ [c]\<rparr>"

definition ncp_mask :: "ncp \<Rightarrow> u32" where
  "ncp_mask p = drop_bit 1 (push_bit (ncp_number p) 1)"

definition BundNcpsStart :: "ncp \<Rightarrow> ncps \<Rightarrow> ncps" where
  "BundNcpsStart p b = b\<lparr>nc_started := nc_started b OR ncp_mask p\<rparr>"

definition BundNcpsFinish :: "ncp \<Rightarrow> ncps \<Rightarrow> ncps" where
  "BundNcpsFinish p b =
     (let b = b\<lparr>nc_started := nc_started b AND NOT (ncp_mask p)\<rparr>
      in if nc_started b = 0 then iface_call BundCloseLinks b else b)"

text \<open>Bringing one address family up; \<open>False\<close> when the interface refused.\<close>

definition ncps_ip_up :: "bool \<Rightarrow> ncps \<Rightarrow> ncps \<times> bool" where
  "ncps_ip_up ready b =
     (if if_ip_up b then (b, True)
      else (let b = iface_call (IfaceIpIfaceUp ready) (b\<lparr>if_ip_up := True\<rparr>) in
            if nc_ip_fails b then (b\<lparr>if_ip_up := False\<rparr>, False) else (b, True)))"

definition ncps_ipv6_up :: "bool \<Rightarrow> ncps \<Rightarrow> ncps \<times> bool" where
  "ncps_ipv6_up ready b =
     (if if_ipv6_up b then (b, True)
      else (let b = iface_call (IfaceIpv6IfaceUp ready) (b\<lparr>if_ipv6_up := True\<rparr>) in
            if nc_ipv6_fails b then (b\<lparr>if_ipv6_up := False\<rparr>, False) else (b, True)))"

definition ncps_ip_down :: "ncps \<Rightarrow> ncps" where
  "ncps_ip_down b =
     (if if_ip_up b then iface_call IfaceIpIfaceDown (b\<lparr>if_ip_up := False\<rparr>) else b)"

definition ncps_ipv6_down :: "ncps \<Rightarrow> ncps" where
  "ncps_ipv6_down b =
     (if if_ipv6_up b then iface_call IfaceIpv6IfaceDown (b\<lparr>if_ipv6_up := False\<rparr>) else b)"

text \<open>The \<open>dod\<close> branch at the head of \<open>BundNcpsJoin\<close>.\<close>

definition ncps_leave_dod :: "ncps \<Rightarrow> ncps" where
  "ncps_leave_dod b =
     (if if_dod b
      then iface_call IfaceDown
             ((ncps_ipv6_down (ncps_ip_down b))\<lparr>if_dod := False, if_up := False\<rparr>)
      else b)"

definition BundNcpsJoin :: "ncp \<Rightarrow> ncps \<Rightarrow> ncps" where
  "BundNcpsJoin p b =
     (let b = ncps_leave_dod b;
          (b, ok) = (case p of
             NCP_IPCP \<Rightarrow> ncps_ip_up True b
           | NCP_IPV6CP \<Rightarrow> ncps_ipv6_up True b
           | NCP_NONE \<Rightarrow>
               (let (b, ok) = (if nc_en_ipcp b then ncps_ip_up False b else (b, True))
                in if \<not> ok then (b, False)
                   else if nc_en_ipv6cp b then ncps_ipv6_up False b else (b, True))
           | _ \<Rightarrow> (b, True))
      in if \<not> ok then b
         else if \<not> if_up b
         then (let b = b\<lparr>if_up := True\<rparr> in
               if p = NCP_NONE then iface_call (IfaceUp False) (b\<lparr>if_dod := True\<rparr>)
               else iface_call (IfaceUp True) b)
         else b)"

text \<open>Going back to dial-on-demand, the last part of \<open>BundNcpsLeave\<close>.\<close>

definition ncps_back_to_dod :: "ncps \<Rightarrow> ncps" where
  "ncps_back_to_dod b =
     (let b = (if nc_en_ipcp b
               then (let b = iface_call (IfaceIpIfaceUp False) (b\<lparr>if_ip_up := True\<rparr>) in
                     if nc_ip_fails b then b\<lparr>if_ip_up := False\<rparr> else b)
               else b);
          b = (if nc_en_ipv6cp b
               then (let b = iface_call (IfaceIpv6IfaceUp False) (b\<lparr>if_ipv6_up := True\<rparr>) in
                     if nc_ipv6_fails b then b\<lparr>if_ipv6_up := False\<rparr> else b)
               else b)
      in if if_ip_up b \<or> if_ipv6_up b
         then iface_call (IfaceUp False) (b\<lparr>if_dod := True, if_up := True\<rparr>) else b)"

definition BundNcpsLeave :: "ncp \<Rightarrow> ncps \<Rightarrow> ncps" where
  "BundNcpsLeave p b =
     (let b = (case p of
             NCP_IPCP \<Rightarrow> ncps_ip_down b
           | NCP_IPV6CP \<Rightarrow> ncps_ipv6_down b
           | NCP_NONE \<Rightarrow> ncps_ipv6_down (ncps_ip_down b)
           | _ \<Rightarrow> b)
      in if if_up b \<and> \<not> if_ip_up b \<and> \<not> if_ipv6_up b
         then (let b = iface_call IfaceDown (b\<lparr>if_dod := False, if_up := False\<rparr>)
               in if if_open b then ncps_back_to_dod b else b)
         else b)"

section \<open>The interface follows its protocols\<close>

lemma iface_call_fields [simp]:
  "nc_started (iface_call c b) = nc_started b" "nc_en_ipcp (iface_call c b) = nc_en_ipcp b"
  "nc_en_ipv6cp (iface_call c b) = nc_en_ipv6cp b" "if_open (iface_call c b) = if_open b"
  "if_dod (iface_call c b) = if_dod b" "if_up (iface_call c b) = if_up b"
  "if_ip_up (iface_call c b) = if_ip_up b" "if_ipv6_up (iface_call c b) = if_ipv6_up b"
  "nc_ip_fails (iface_call c b) = nc_ip_fails b"
  "nc_ipv6_fails (iface_call c b) = nc_ipv6_fails b"
  "nc_calls (iface_call c b) = nc_calls b @ [c]"
  by (simp_all add: iface_call_def)

definition iface_ok :: "ncps \<Rightarrow> bool" where
  "iface_ok b \<longleftrightarrow> (if_up b \<longleftrightarrow> if_ip_up b \<or> if_ipv6_up b) \<and> (if_dod b \<longrightarrow> if_up b)"

lemma leave_dod_fields:
  "iface_ok b \<Longrightarrow> iface_ok (ncps_leave_dod b) \<and> \<not> if_dod (ncps_leave_dod b)"
  "nc_en_ipcp (ncps_leave_dod b) = nc_en_ipcp b" "nc_en_ipv6cp (ncps_leave_dod b) = nc_en_ipv6cp b"
  by (auto simp: iface_ok_def ncps_leave_dod_def ncps_ip_down_def ncps_ipv6_down_def)

lemma ip_up_fields:
  assumes "ncps_ip_up r b = (b', ok)"
  shows "if_ip_up b' = ok" "if_ipv6_up b' = if_ipv6_up b" "if_up b' = if_up b"
    "if_dod b' = if_dod b" "nc_en_ipv6cp b' = nc_en_ipv6cp b" "if_ip_up b \<longrightarrow> ok"
  using assms by (auto simp: ncps_ip_up_def Let_def split: if_splits)

lemma ipv6_up_fields:
  assumes "ncps_ipv6_up r b = (b', ok)"
  shows "if_ipv6_up b' = ok" "if_ip_up b' = if_ip_up b" "if_up b' = if_up b"
    "if_dod b' = if_dod b" "if_ipv6_up b \<longrightarrow> ok"
  using assms by (auto simp: ncps_ipv6_up_def Let_def split: if_splits)

text \<open>The common end of \<open>BundNcpsJoin\<close>.\<close>

lemma iface_ok_mark_up:
  assumes "if_ip_up b \<or> if_ipv6_up b" "\<not> if_dod b \<or> if_up b"
  shows "iface_ok (if \<not> if_up b
         then (let b = b\<lparr>if_up := True\<rparr> in
               if p = NCP_NONE then iface_call (IfaceUp False) (b\<lparr>if_dod := True\<rparr>)
               else iface_call (IfaceUp True) b)
         else b)"
  using assms by (simp add: iface_ok_def Let_def)

lemma iface_ok_join_one:
  assumes "iface_ok b"
  shows "iface_ok (BundNcpsJoin NCP_IPCP b)" "iface_ok (BundNcpsJoin NCP_IPV6CP b)"
proof -
  define d where "d = ncps_leave_dod b"
  have d: "iface_ok d" "\<not> if_dod d" using leave_dod_fields(1) [OF assms] by (simp_all add: d_def)
  obtain b1 ok1 where 1: "ncps_ip_up True d = (b1, ok1)" by fastforce
  obtain b2 ok2 where 2: "ncps_ipv6_up True d = (b2, ok2)" by fastforce
  show "iface_ok (BundNcpsJoin NCP_IPCP b)"
    using d ip_up_fields [OF 1] iface_ok_mark_up [of b1 NCP_IPCP]
    by (cases ok1) (simp_all add: BundNcpsJoin_def d_def [symmetric] 1 iface_ok_def)
  show "iface_ok (BundNcpsJoin NCP_IPV6CP b)"
    using d ipv6_up_fields [OF 2] iface_ok_mark_up [of b2 NCP_IPV6CP]
    by (cases ok2) (simp_all add: BundNcpsJoin_def d_def [symmetric] 2 iface_ok_def)
qed

lemma iface_ok_leave: "iface_ok b \<Longrightarrow> iface_ok (BundNcpsLeave p b)"
proof -
  assume ok: "iface_ok b"
  have redial: "\<not> if_up c \<Longrightarrow> \<not> if_dod c \<Longrightarrow> \<not> if_ip_up c \<Longrightarrow> \<not> if_ipv6_up c \<Longrightarrow>
      iface_ok (ncps_back_to_dod c)" for c
    by (simp add: ncps_back_to_dod_def iface_ok_def Let_def)
  define c where "c = (case p of
             NCP_IPCP \<Rightarrow> ncps_ip_down b
           | NCP_IPV6CP \<Rightarrow> ncps_ipv6_down b
           | NCP_NONE \<Rightarrow> ncps_ipv6_down (ncps_ip_down b)
           | _ \<Rightarrow> b)"
  have c: "if_up c = if_up b" "if_dod c = if_dod b" "if_ip_up c \<longrightarrow> if_ip_up b"
    "if_ipv6_up c \<longrightarrow> if_ipv6_up b"
    by (cases p; simp add: c_def ncps_ip_down_def ncps_ipv6_down_def)+
  show ?thesis
    using ok c redial
    by (simp add: BundNcpsLeave_def c_def [symmetric] Let_def) (auto simp: iface_ok_def)
qed

lemma nc_started_finish: "nc_started (BundNcpsFinish p b) = nc_started b AND NOT (ncp_mask p)"
  by (simp add: BundNcpsFinish_def Let_def)

lemma ncps_started_bits:
  "bit (nc_started (BundNcpsStart p b)) n \<longleftrightarrow> bit (nc_started b) n \<or> bit (ncp_mask p) n"
  "bit (nc_started (BundNcpsFinish p b)) n \<longleftrightarrow> bit (nc_started b) n \<and> \<not> bit (ncp_mask p) n"
  by (auto simp: BundNcpsStart_def nc_started_finish bit_simps dest: bit_imp_le_length)

lemma bit_shifted_one:
  "0 < k \<Longrightarrow> k < 32 \<Longrightarrow> bit (drop_bit 1 (push_bit k (1 :: u32))) n \<longleftrightarrow> n + 1 = k"
  by (auto simp: bit_simps)

lemma bit_ncp_mask: "p \<noteq> NCP_NONE \<Longrightarrow> bit (ncp_mask p) n \<longleftrightarrow> n + 1 = ncp_number p"
  unfolding ncp_mask_def by (rule bit_shifted_one) (cases p; simp)+

end
