(* ===== verification/Ipcp.thy ===== *)
theory Ipcp
  imports Fsm_Decode IpPool Bund_Ncps Vars
begin

unbundle bit_operations_syntax

text \<open>
  IPCP (\<open>src/src/ipcp.c\<close>): the callbacks of the automaton that negotiate the two IPv4 addresses,
  Van Jacobson compression and the name servers. The record \<open>ipcp_bund\<close> is what the callbacks
  reach through \<open>fp->arg\<close>: the state \<open>b->ipcp\<close>, the parameters \<open>b->params\<close> the
  authentication left, the bundle's interface and the global address pools. The
  numbers of channels the VJ node allows are those of the netgraph headers and are fields. Messages
  to netgraph nodes are recorded in \<open>ib_ng\<close>. IPv4 ranges have a width of at most 32
  (\<open>ParseRange\<close>), for which \<open>IpAddrInRange\<close> is defined.
\<close>

section \<open>State\<close>

definition PROTO_IPCP :: u16 where "PROTO_IPCP = 0x8021"
definition PROTO_VJCOMP :: u16 where "PROTO_VJCOMP = 0x002d"

abbreviation (input) "TY_IPADDRS \<equiv> (1 :: byte)"
abbreviation (input) "TY_COMPPROTO \<equiv> (2 :: byte)"
abbreviation (input) "TY_IPADDR \<equiv> (3 :: byte)"
abbreviation (input) "TY_MOBILEIP \<equiv> (4 :: byte)"
abbreviation (input) "TY_PRIMARYDNS \<equiv> (129 :: byte)"
abbreviation (input) "TY_PRIMARYNBNS \<equiv> (130 :: byte)"
abbreviation (input) "TY_SECONDARYDNS \<equiv> (131 :: byte)"
abbreviation (input) "TY_SECONDARYNBNS \<equiv> (132 :: byte)"

abbreviation (input) "IPCP_CONF_VJCOMP \<equiv> (0 :: nat)"
abbreviation (input) "IPCP_CONF_REQPRIDNS \<equiv> (1 :: nat)"
abbreviation (input) "IPCP_CONF_REQSECDNS \<equiv> (2 :: nat)"
abbreviation (input) "IPCP_CONF_REQPRINBNS \<equiv> (3 :: nat)"
abbreviation (input) "IPCP_CONF_REQSECNBNS \<equiv> (4 :: nat)"
abbreviation (input) "IPCP_CONF_PRETENDIP \<equiv> (5 :: nat)"

definition IPCP_KNOWN_CODES :: u16 where
  "IPCP_KNOWN_CODES = push_bit 1 1 OR push_bit 2 1 OR push_bit 3 1 OR push_bit 4 1
     OR push_bit 5 1 OR push_bit 6 1 OR push_bit 7 1"

record ipcpvjcomp =
  vj_proto :: u16
  vj_maxchan :: byte
  vj_compcid :: byte

datatype ipcp_ng =
  NgInitVJ
| NgConfigVJ bool bool byte byte   \<comment> \<open>enableComp, enableDecomp, maxChannel, compressCID\<close>
| NgShutdownVJ
| NgSetConfig bool bool bool       \<comment> \<open>enableIP, VJ compression, VJ decompression\<close>

record ipcp_bund =
  ic_options :: optinfo
  ic_self_allow :: u_range
  ic_peer_allow :: u_range
  ic_self_ippool :: string
  ic_ippool :: string
  ic_peer_dns :: "in_addr \<times> in_addr"
  ic_peer_nbns :: "in_addr \<times> in_addr"
  ip_want_addr :: in_addr
  ip_peer_addr :: in_addr
  ip_self_allow :: u_range
  ip_peer_allow :: u_range
  ip_self_ippool_used :: bool
  ip_ippool_used :: bool
  ip_peer_comp :: ipcpvjcomp
  ip_want_comp :: ipcpvjcomp
  ip_want_dns :: "in_addr \<times> in_addr"
  ip_want_nbns :: "in_addr \<times> in_addr"
  ip_peer_reject :: u32
  bp_range_valid :: bool
  bp_range :: u_range
  bp_ippool :: string
  bp_ippool_used :: bool
  bp_vjc_enable :: bool
  bp_peer_dns :: "in_addr \<times> in_addr"
  bp_peer_nbns :: "in_addr \<times> in_addr"
  ib_retry_timeout :: short
  ib_recvFrames :: "u32 option"
  ib_ncps :: ncps
  ib_enableIP :: bool
  ib_enableVJComp :: bool
  ib_enableVJDecomp :: bool
  ib_ng :: "ipcp_ng list"
  ib_failures :: "fsmfail list"
  ib_pools :: ippools
  vjc_min_channels :: byte
  vjc_max_channels :: byte

definition IPCP_VJCOMP_MIN_MAXCHAN :: "ipcp_bund \<Rightarrow> byte" where
  "IPCP_VJCOMP_MIN_MAXCHAN b = vjc_min_channels b - 1"

definition IPCP_VJCOMP_MAX_MAXCHAN :: "ipcp_bund \<Rightarrow> byte" where
  "IPCP_VJCOMP_MAX_MAXCHAN b = vjc_max_channels b - 1"

definition o2b :: "byte \<Rightarrow> nat" where
  "o2b x = (if x < 128 then unat x else unat x - 128 + 3)"

definition IPCP_REJECTED :: "ipcp_bund \<Rightarrow> byte \<Rightarrow> bool" where
  "IPCP_REJECTED b x = mask_test (ip_peer_reject b) (o2b x)"

definition IPCP_PEER_REJ :: "byte \<Rightarrow> ipcp_bund \<Rightarrow> ipcp_bund" where
  "IPCP_PEER_REJ x b = b\<lparr>ip_peer_reject := mask_set (ip_peer_reject b) (o2b x)\<rparr>"

definition gIpcpConfOpts :: "fsmoptinfo list" where
  "gIpcpConfOpts =
     [\<lparr>oi_name = ''IPADDRS'', oi_type = TY_IPADDRS, oi_minLen = 8, oi_maxLen = 8, oi_supported = False\<rparr>,
      \<lparr>oi_name = ''COMPPROTO'', oi_type = TY_COMPPROTO, oi_minLen = 4, oi_maxLen = 4, oi_supported = True\<rparr>,
      \<lparr>oi_name = ''IPADDR'', oi_type = TY_IPADDR, oi_minLen = 4, oi_maxLen = 4, oi_supported = True\<rparr>,
      \<lparr>oi_name = ''MOBILEIP'', oi_type = TY_MOBILEIP, oi_minLen = 6, oi_maxLen = 6, oi_supported = False\<rparr>,
      \<lparr>oi_name = ''PRIDNS'', oi_type = TY_PRIMARYDNS, oi_minLen = 4, oi_maxLen = 4, oi_supported = True\<rparr>,
      \<lparr>oi_name = ''PRINBNS'', oi_type = TY_PRIMARYNBNS, oi_minLen = 4, oi_maxLen = 4, oi_supported = True\<rparr>,
      \<lparr>oi_name = ''SECDNS'', oi_type = TY_SECONDARYDNS, oi_minLen = 4, oi_maxLen = 4, oi_supported = True\<rparr>,
      \<lparr>oi_name = ''SECNBNS'', oi_type = TY_SECONDARYNBNS, oi_minLen = 4, oi_maxLen = 4, oi_supported = True\<rparr>]"

definition ipcp_gConfList :: "confinfo list" where
  "ipcp_gConfList =
     [\<lparr>ci_peered = True, ci_option = IPCP_CONF_VJCOMP, ci_name = ''vjcomp''\<rparr>,
      \<lparr>ci_peered = False, ci_option = IPCP_CONF_REQPRIDNS, ci_name = ''req-pri-dns''\<rparr>,
      \<lparr>ci_peered = False, ci_option = IPCP_CONF_REQSECDNS, ci_name = ''req-sec-dns''\<rparr>,
      \<lparr>ci_peered = False, ci_option = IPCP_CONF_REQPRINBNS, ci_name = ''req-pri-nbns''\<rparr>,
      \<lparr>ci_peered = False, ci_option = IPCP_CONF_REQSECNBNS, ci_name = ''req-sec-nbns''\<rparr>,
      \<lparr>ci_peered = False, ci_option = IPCP_CONF_PRETENDIP, ci_name = ''pretend-ip''\<rparr>]"

section \<open>Configuring and unconfiguring\<close>

definition ipcp_pool_get :: "string \<Rightarrow> ipcp_bund \<Rightarrow> ipcp_bund \<times> u_addr option" where
  "ipcp_pool_get pool b =
     (let (ps, r) = IPPoolGet pool (ib_pools b) in (b\<lparr>ib_pools := ps\<rparr>, r))"

definition configure_self :: "ipcp_bund \<Rightarrow> ipcp_bund" where
  "configure_self b =
     (if ic_self_ippool b \<noteq> ''''
      then (let (b, r) = ipcp_pool_get (ic_self_ippool b) b in
            case r of
              None \<Rightarrow> b
            | Some a \<Rightarrow> b\<lparr>ip_self_allow := (ip_self_allow b)\<lparr>r_addr := a, r_width := 32\<rparr>,
                         ip_self_ippool_used := True\<rparr>)
      else b\<lparr>ip_self_allow := ic_self_allow b\<rparr>)"

definition configure_peer :: "ipcp_bund \<Rightarrow> ipcp_bund" where
  "configure_peer b =
     (if bp_range_valid b \<and> \<not> u_rangeempty (bp_range b)
      then b\<lparr>ip_peer_allow := bp_range b\<rparr>
      else if bp_ippool b \<noteq> ''''
      then (let (b, r) = ipcp_pool_get (bp_ippool b) b in
            case r of
              None \<Rightarrow> b
            | Some a \<Rightarrow> b\<lparr>ip_peer_allow := (ip_peer_allow b)\<lparr>r_addr := a, r_width := 32\<rparr>,
                         bp_ippool_used := True\<rparr>)
      else if ic_ippool b \<noteq> ''''
      then (let (b, r) = ipcp_pool_get (ic_ippool b) b in
            case r of
              None \<Rightarrow> b
            | Some a \<Rightarrow> b\<lparr>ip_peer_allow := (ip_peer_allow b)\<lparr>r_addr := a, r_width := 32\<rparr>,
                         ip_ippool_used := True\<rparr>)
      else b\<lparr>ip_peer_allow := ic_peer_allow b\<rparr>)"

definition configure_rest :: "ipcp_bund \<Rightarrow> ipcp_bund" where
  "configure_rest b =
     b\<lparr>ip_want_addr := u_addrtoin_addr (r_addr (ip_self_allow b)),
       ip_peer_addr := u_addrtoin_addr (r_addr (ip_peer_allow b)),
       ip_peer_comp := \<lparr>vj_proto = 0, vj_maxchan = IPCP_VJCOMP_MAX_MAXCHAN b, vj_compcid = 0\<rparr>,
       ip_want_comp :=
         \<lparr>vj_proto = (if bp_vjc_enable b \<or> Enabled (ic_options b) IPCP_CONF_VJCOMP
                      then PROTO_VJCOMP else 0),
          vj_maxchan = IPCP_VJCOMP_MAX_MAXCHAN b, vj_compcid = 0\<rparr>,
       ip_want_dns := (0, 0), ip_want_nbns := (0, 0)\<rparr>"

definition ipcp_configure :: "ipcp_bund \<Rightarrow> ipcp_bund" where
  "ipcp_configure b = configure_rest (configure_peer (configure_self (b\<lparr>ip_peer_reject := 0\<rparr>)))"

definition ipcp_unconfigure :: "ipcp_bund \<Rightarrow> ipcp_bund" where
  "ipcp_unconfigure b =
     (let b = (if ip_self_ippool_used b
               then b\<lparr>ib_pools := IPPoolFree (ic_self_ippool b)
                                   (in_addrtou_addr (ip_want_addr b)) (ib_pools b),
                      ip_self_ippool_used := False\<rparr>
               else b)
      in if bp_ippool_used b
         then b\<lparr>ib_pools := IPPoolFree (bp_ippool b) (in_addrtou_addr (ip_peer_addr b)) (ib_pools b),
                bp_ippool_used := False\<rparr>
         else if ip_ippool_used b
         then b\<lparr>ib_pools := IPPoolFree (ic_ippool b) (in_addrtou_addr (ip_peer_addr b)) (ib_pools b),
                ip_ippool_used := False\<rparr>
         else b)"

definition IpcpConfigure :: "ipcp_bund fsm \<Rightarrow> ipcp_bund fsm" where
  "IpcpConfigure = upd_arg ipcp_configure"

definition IpcpUnConfigure :: "ipcp_bund fsm \<Rightarrow> ipcp_bund fsm" where
  "IpcpUnConfigure = upd_arg ipcp_unconfigure"

section \<open>Requests\<close>

definition vj_bytes :: "ipcpvjcomp \<Rightarrow> byte list" where
  "vj_bytes v = be16 (vj_proto v) @ [vj_maxchan v, vj_compcid v]"

definition build_server :: "ipcp_bund \<Rightarrow> nat \<Rightarrow> byte \<Rightarrow> in_addr \<Rightarrow> byte list" where
  "build_server b sopt opt val =
     (if Enabled (ic_options b) sopt \<and> \<not> IPCP_REJECTED b opt
      then FsmConfValue opt (be32 val) else [])"

definition ipcp_request :: "ipcp_bund \<Rightarrow> byte list" where
  "ipcp_request b =
     (if \<not> IPCP_REJECTED b TY_IPADDR \<or> ip_want_addr b = 0
      then FsmConfValue TY_IPADDR (be32 (ip_want_addr b)) else []) @
     (if vj_proto (ip_want_comp b) \<noteq> 0 \<and> \<not> IPCP_REJECTED b TY_COMPPROTO
      then FsmConfValue TY_COMPPROTO (vj_bytes (ip_want_comp b)) else []) @
     build_server b IPCP_CONF_REQPRIDNS TY_PRIMARYDNS (fst (ip_want_dns b)) @
     build_server b IPCP_CONF_REQSECDNS TY_SECONDARYDNS (snd (ip_want_dns b)) @
     build_server b IPCP_CONF_REQPRINBNS TY_PRIMARYNBNS (fst (ip_want_nbns b)) @
     build_server b IPCP_CONF_REQSECNBNS TY_SECONDARYNBNS (snd (ip_want_nbns b))"

definition IpcpBuildConfigReq :: "ipcp_bund fsm \<Rightarrow> ipcp_bund fsm \<times> byte list" where
  "IpcpBuildConfigReq f = (f, ipcp_request (f_arg f))"

section \<open>The layer callbacks\<close>

definition upd_ncps :: "(ncps \<Rightarrow> ncps) \<Rightarrow> ipcp_bund \<Rightarrow> ipcp_bund" where
  "upd_ncps g b = b\<lparr>ib_ncps := g (ib_ncps b)\<rparr>"

definition IpcpLayerStart :: "ipcp_bund fsm \<Rightarrow> ipcp_bund fsm" where
  "IpcpLayerStart = upd_arg (upd_ncps (BundNcpsStart NCP_IPCP))"

definition IpcpLayerFinish :: "ipcp_bund fsm \<Rightarrow> ipcp_bund fsm" where
  "IpcpLayerFinish = upd_arg (upd_ncps (BundNcpsFinish NCP_IPCP))"

definition ipcp_ng :: "ipcp_ng list \<Rightarrow> ipcp_bund \<Rightarrow> ipcp_bund" where
  "ipcp_ng ms b = b\<lparr>ib_ng := ib_ng b @ ms\<rparr>"

definition ipcp_set_config :: "bool \<Rightarrow> bool \<Rightarrow> bool \<Rightarrow> ipcp_bund \<Rightarrow> ipcp_bund" where
  "ipcp_set_config en vjc vjd b =
     ipcp_ng [NgSetConfig en vjc vjd]
       (b\<lparr>ib_enableIP := en, ib_enableVJComp := vjc, ib_enableVJDecomp := vjd\<rparr>)"

text \<open>The addresses actually used: what was negotiated if it is allowed, our own otherwise.\<close>

definition layer_up_addrs :: "ipcp_bund \<Rightarrow> ipcp_bund" where
  "layer_up_addrs b =
     (let b = (if IpAddrInRange (ip_self_allow b) (in_addrtou_addr (ip_want_addr b)) \<noteq> Some True
               then b\<lparr>ip_want_addr := u_addrtoin_addr (r_addr (ip_self_allow b))\<rparr> else b)
      in if IpAddrInRange (ip_peer_allow b) (in_addrtou_addr (ip_peer_addr b)) \<noteq> Some True
            \<and> \<not> u_addrempty (r_addr (ip_peer_allow b))
         then b\<lparr>ip_peer_addr := u_addrtoin_addr (r_addr (ip_peer_allow b))\<rparr> else b)"

definition ipcp_layer_up :: "ipcp_bund \<Rightarrow> ipcp_bund" where
  "ipcp_layer_up b =
     (let b = layer_up_addrs b;
          vjc = (vj_proto (ip_peer_comp b) = PROTO_VJCOMP);
          vjd = (vj_proto (ip_want_comp b) = PROTO_VJCOMP);
          b = (if vjc \<or> vjd
               then ipcp_ng [NgInitVJ, NgConfigVJ vjc vjd (vj_maxchan (ip_peer_comp b))
                                         (vj_compcid (ip_peer_comp b))] b
               else b)
      in upd_ncps (BundNcpsJoin NCP_IPCP) (ipcp_set_config True vjc vjd b))"

definition IpcpLayerUp :: "ipcp_bund fsm \<Rightarrow> ipcp_bund fsm" where
  "IpcpLayerUp = upd_arg ipcp_layer_up"

definition ipcp_layer_down :: "ipcp_bund \<Rightarrow> ipcp_bund" where
  "ipcp_layer_down b =
     (let b = ipcp_set_config False False False (upd_ncps (BundNcpsLeave NCP_IPCP) b)
      in if vj_proto (ip_peer_comp b) = PROTO_VJCOMP \<or> vj_proto (ip_want_comp b) = PROTO_VJCOMP
         then ipcp_ng [NgShutdownVJ] b else b)"

definition IpcpLayerDown :: "ipcp_bund fsm \<Rightarrow> ipcp_bund fsm" where
  "IpcpLayerDown = upd_arg ipcp_layer_down"

definition IpcpFailure :: "ipcp_bund fsm \<Rightarrow> fsmfail \<Rightarrow> ipcp_bund fsm" where
  "IpcpFailure f reason = upd_arg (\<lambda>b. b\<lparr>ib_failures := ib_failures b @ [reason]\<rparr>) f"

section \<open>Decoding\<close>

definition opt_ip :: "fsmoption \<Rightarrow> in_addr" where
  "opt_ip opt = (case get32 (opt_data opt) of None \<Rightarrow> 0 | Some w \<Rightarrow> w)"

definition ipcp_ipaddr :: "mode \<Rightarrow> fsmoption \<Rightarrow> ipcp_bund fsm \<Rightarrow> ipcp_bund fsm" where
  "ipcp_ipaddr md opt f =
     (let b = f_arg f; i = opt_ip opt in
      case md of
        MODE_REQ \<Rightarrow>
          (if IpAddrInRange (ip_peer_allow b) (in_addrtou_addr i) \<noteq> Some True \<or> i = 0
           then (if Enabled (ic_options b) IPCP_CONF_PRETENDIP
                 then FsmAck opt (f\<lparr>f_arg := b\<lparr>ip_peer_addr := i\<rparr>\<rparr>)
                 else FsmNak (opt_set (be32 (ip_peer_addr b)) opt) f)
           else FsmAck opt (f\<lparr>f_arg := b\<lparr>ip_peer_addr := i\<rparr>\<rparr>))
      | MODE_NAK \<Rightarrow>
          (if IpAddrInRange (ip_self_allow b) (in_addrtou_addr i) = Some True
              \<or> Enabled (ic_options b) IPCP_CONF_PRETENDIP
           then f\<lparr>f_arg := b\<lparr>ip_want_addr := i\<rparr>\<rparr> else f)
      | MODE_REJ \<Rightarrow> f\<lparr>f_arg := IPCP_PEER_REJ (opt_type opt) b\<rparr>
      | MODE_NOP \<Rightarrow> f)"

definition opt_vj :: "fsmoption \<Rightarrow> ipcpvjcomp" where
  "opt_vj opt =
     \<lparr>vj_proto = (case get16 (opt_data opt) of None \<Rightarrow> 0 | Some w \<Rightarrow> w),
      vj_maxchan = opt_data opt ! 2, vj_compcid = opt_data opt ! 3\<rparr>"

definition vj_chan_ok :: "ipcp_bund \<Rightarrow> ipcpvjcomp \<Rightarrow> bool" where
  "vj_chan_ok b vj \<longleftrightarrow> vj_maxchan vj \<le> IPCP_VJCOMP_MAX_MAXCHAN b
     \<and> IPCP_VJCOMP_MIN_MAXCHAN b \<le> vj_maxchan vj"

definition ipcp_compproto :: "mode \<Rightarrow> fsmoption \<Rightarrow> ipcp_bund fsm \<Rightarrow> ipcp_bund fsm" where
  "ipcp_compproto md opt f =
     (let b = f_arg f; vj = opt_vj opt in
      case md of
        MODE_REQ \<Rightarrow>
          (if \<not> Acceptable (ic_options b) IPCP_CONF_VJCOMP \<and> \<not> bp_vjc_enable b then FsmRej opt f
           else if vj_proto vj = PROTO_VJCOMP \<and> vj_chan_ok b vj
           then FsmAck opt (f\<lparr>f_arg := b\<lparr>ip_peer_comp := vj\<rparr>\<rparr>)
           else FsmNak (opt_set (vj_bytes \<lparr>vj_proto = PROTO_VJCOMP,
                    vj_maxchan = IPCP_VJCOMP_MAX_MAXCHAN b, vj_compcid = 0\<rparr>) opt) f)
      | MODE_NAK \<Rightarrow>
          (if vj_proto vj = PROTO_VJCOMP \<and> vj_maxchan vj \<noteq> vj_maxchan (ip_want_comp b)
              \<and> vj_chan_ok b vj
           then f\<lparr>f_arg := b\<lparr>ip_want_comp := (ip_want_comp b)\<lparr>vj_maxchan := vj_maxchan vj\<rparr>\<rparr>\<rparr>
           else f)
      | MODE_REJ \<Rightarrow>
          f\<lparr>f_arg := (IPCP_PEER_REJ (opt_type opt) b)
                      \<lparr>ip_want_comp := (ip_want_comp b)\<lparr>vj_proto := 0\<rparr>\<rparr>\<rparr>
      | MODE_NOP \<Rightarrow> f)"

text \<open>The label \<open>doDnsNbns\<close>: \<open>peerip\<close> is the address we can offer, \<open>set_want\<close> the store to
  \<open>*wantip\<close>.\<close>

definition ipcp_server ::
  "mode \<Rightarrow> fsmoption \<Rightarrow> in_addr \<Rightarrow> (in_addr \<Rightarrow> ipcp_bund \<Rightarrow> ipcp_bund) \<Rightarrow> ipcp_bund fsm \<Rightarrow> ipcp_bund fsm"
where
  "ipcp_server md opt peerip set_want f =
     (let hisip = opt_ip opt in
      case md of
        MODE_REQ \<Rightarrow>
          (if hisip = 0
           then (if peerip = 0 then FsmRej opt f else FsmNak (opt_set (be32 peerip) opt) f)
           else FsmAck opt f)
      | MODE_NAK \<Rightarrow> f\<lparr>f_arg := set_want hisip (f_arg f)\<rparr>
      | MODE_REJ \<Rightarrow> f\<lparr>f_arg := IPCP_PEER_REJ (opt_type opt) (f_arg f)\<rparr>
      | MODE_NOP \<Rightarrow> f)"

definition offer :: "in_addr \<Rightarrow> in_addr \<Rightarrow> in_addr" where
  "offer param conf = (if param \<noteq> 0 then param else conf)"

definition ipcp_decode_opt :: "mode \<Rightarrow> ipcp_bund fsm \<Rightarrow> fsmoption \<Rightarrow> ipcp_bund fsm" where
  "ipcp_decode_opt md f opt =
     (let b = f_arg f; rej = (if md = MODE_REQ then FsmRej opt f else f) in
      case FsmFindOptInfo gIpcpConfOpts (opt_type opt) of
        None \<Rightarrow> rej
      | Some oi \<Rightarrow>
          if \<not> oi_supported oi then rej
          else if unat (opt_len opt) < unat (oi_minLen oi) + 2
                  \<or> unat (opt_len opt) > unat (oi_maxLen oi) + 2 then rej
          else if opt_type opt = TY_IPADDR then ipcp_ipaddr md opt f
          else if opt_type opt = TY_COMPPROTO then ipcp_compproto md opt f
          else if opt_type opt = TY_PRIMARYDNS then
            ipcp_server md opt (offer (fst (bp_peer_dns b)) (fst (ic_peer_dns b)))
              (\<lambda>i b. b\<lparr>ip_want_dns := (i, snd (ip_want_dns b))\<rparr>) f
          else if opt_type opt = TY_PRIMARYNBNS then
            ipcp_server md opt (offer (fst (bp_peer_nbns b)) (fst (ic_peer_nbns b)))
              (\<lambda>i b. b\<lparr>ip_want_nbns := (i, snd (ip_want_nbns b))\<rparr>) f
          else if opt_type opt = TY_SECONDARYDNS then
            ipcp_server md opt (offer (snd (bp_peer_dns b)) (snd (ic_peer_dns b)))
              (\<lambda>i b. b\<lparr>ip_want_dns := (fst (ip_want_dns b), i)\<rparr>) f
          else if opt_type opt = TY_SECONDARYNBNS then
            ipcp_server md opt (offer (snd (bp_peer_nbns b)) (snd (ic_peer_nbns b)))
              (\<lambda>i b. b\<lparr>ip_want_nbns := (fst (ip_want_nbns b), i)\<rparr>) f
          else fsm_abort f)"

definition IpcpDecodeConfig ::
  "ipcp_bund fsm \<Rightarrow> fsmoption list \<Rightarrow> mode \<Rightarrow> ipcp_bund fsm" where
  "IpcpDecodeConfig f opts md = foldl (ipcp_decode_opt md) f opts"

section \<open>The protocol type and the operations\<close>

definition gIpcpFsmType :: "ipcp_bund fsmtype" where
  "gIpcpFsmType =
     \<lparr>ty_name = ''IPCP'', ty_proto = PROTO_IPCP, ty_known_codes = IPCP_KNOWN_CODES,
      ty_link_layer = False, NewState = None, LayerUp = Some IpcpLayerUp,
      LayerDown = Some IpcpLayerDown, LayerStart = Some IpcpLayerStart,
      LayerFinish = Some IpcpLayerFinish, BuildConfigReq = IpcpBuildConfigReq,
      DecodeConfig = IpcpDecodeConfig, Configure = Some IpcpConfigure,
      UnConfigure = Some IpcpUnConfigure, SendTerminateReq = None, SendTerminateAck = None,
      RecvCodeRej = None, RecvProtoRej = None, Failure = Some IpcpFailure,
      RecvResetReq = None, RecvResetAck = None, RecvIdent = None, RecvDiscReq = None,
      RecvTimeRemain = None, RecvVendor = None,
      arg_retry_timeout = ib_retry_timeout, arg_want_magic = (\<lambda>_. 0), arg_peer_magic = (\<lambda>_. 0),
      arg_has_bund = (\<lambda>_. True), arg_recvFrames = ib_recvFrames\<rparr>"

text \<open>\<open>memset\<close> of the IPCP state; \<open>any\<close> is the address \<open>GetAnyIpAddress\<close> finds.\<close>

definition vj_zero :: ipcpvjcomp where
  "vj_zero = \<lparr>vj_proto = 0, vj_maxchan = 0, vj_compcid = 0\<rparr>"

definition range_zero :: u_range where
  "range_zero = \<lparr>r_addr = u_addr_zero, r_width = 0\<rparr>"

definition IpcpInit :: "byte list \<Rightarrow> u_addr \<Rightarrow> ipcp_bund \<Rightarrow> ipcp_bund fsm" where
  "IpcpInit junk any b = FsmInit junk
     (b\<lparr>ic_options := Accept IPCP_CONF_VJCOMP (Enable IPCP_CONF_VJCOMP
          \<lparr>oi_enable = 0, oi_accept = 0\<rparr>),
        ic_self_allow := \<lparr>r_addr = any, r_width = 0\<rparr>, ic_peer_allow := range_zero,
        ic_self_ippool := '''', ic_ippool := '''', ic_peer_dns := (0, 0), ic_peer_nbns := (0, 0),
        ip_want_addr := 0, ip_peer_addr := 0, ip_self_allow := range_zero,
        ip_peer_allow := range_zero, ip_self_ippool_used := False, ip_ippool_used := False,
        ip_peer_comp := vj_zero, ip_want_comp := vj_zero, ip_want_dns := (0, 0),
        ip_want_nbns := (0, 0), ip_peer_reject := 0\<rparr>)"

definition IpcpUp :: "ipcp_bund fsm \<Rightarrow> ipcp_bund fsm" where
  "IpcpUp = FsmUp gIpcpFsmType"

definition IpcpDown :: "ipcp_bund fsm \<Rightarrow> ipcp_bund fsm" where
  "IpcpDown = FsmDown gIpcpFsmType"

definition IpcpOpen :: "ipcp_bund fsm \<Rightarrow> ipcp_bund fsm" where
  "IpcpOpen = FsmOpen gIpcpFsmType"

definition IpcpClose :: "ipcp_bund fsm \<Rightarrow> ipcp_bund fsm" where
  "IpcpClose = FsmClose gIpcpFsmType"

definition IpcpInput :: "pkt \<Rightarrow> ipcp_bund fsm \<Rightarrow> ipcp_bund fsm" where
  "IpcpInput bp = FsmInput gIpcpFsmType bp"

text \<open>
  The \<open>set ipcp\<close> commands; \<open>None\<close> and \<open>False\<close> are the return value -1 (or the error exit of
  \<open>inet_aton\<close>). \<open>junk\<close> are the two ranges on the stack, which the pool forms never write. The
  addresses of \<open>dns\<close> and \<open>nbns\<close> are stored one by one, so an error in the second leaves the first.
\<close>

datatype ipcp_set =
  SET_RANGES | SET_DNS | SET_NBNS | SET_IPCP_ENABLE | SET_IPCP_DISABLE | SET_IPCP_ACCEPT
| SET_IPCP_DENY | SET_IPCP_YES | SET_IPCP_NO

definition ippool_name :: "string \<Rightarrow> string" where
  "ippool_name s = take 15 s"

text \<open>One of the two ranges: pool name, range, remaining arguments.\<close>

definition set_one_range ::
  "(string \<Rightarrow> u_addr option) \<Rightarrow> u_range \<Rightarrow> string list \<Rightarrow> (string \<times> u_range \<times> string list) option"
where
  "set_one_range parse junk av = (case av of
     [] \<Rightarrow> None
   | a # rest \<Rightarrow>
       if a = ''ippool'' then (case rest of [] \<Rightarrow> None | n # rest \<Rightarrow> Some (n, junk, rest))
       else (case ParseRange parse a of None \<Rightarrow> None | Some r \<Rightarrow> Some ('''', r, rest)))"

definition set_ranges ::
  "(string \<Rightarrow> u_addr option) \<Rightarrow> u_range \<times> u_range \<Rightarrow> string list \<Rightarrow> ipcp_bund \<Rightarrow> ipcp_bund option"
where
  "set_ranges parse junk av b =
     (if length av < 2 then None
      else case set_one_range parse (fst junk) av of
        None \<Rightarrow> None
      | Some (self_pool, self_allow, rest) \<Rightarrow>
          (case set_one_range parse (snd junk) rest of
             None \<Rightarrow> None
           | Some (peer_pool, peer_allow, rest) \<Rightarrow>
               if rest \<noteq> [] then None
               else Some (b\<lparr>ic_self_ippool := ippool_name self_pool,
                            ic_ippool := ippool_name peer_pool,
                            ic_self_allow := self_allow, ic_peer_allow := peer_allow\<rparr>)))"

definition set_pri_sec ::
  "(string \<Rightarrow> in_addr option) \<Rightarrow> string list \<Rightarrow> in_addr \<times> in_addr \<Rightarrow> (in_addr \<times> in_addr) \<times> bool"
where
  "set_pri_sec aton av ips =
     (case aton (hd av) of
        None \<Rightarrow> (ips, False)
      | Some p \<Rightarrow>
          if length av > 1
          then (case aton (av ! 1) of None \<Rightarrow> ((p, 0), False) | Some s \<Rightarrow> ((p, s), True))
          else ((p, 0), True))"

definition IpcpSetCommand ::
  "(string \<Rightarrow> u_addr option) \<Rightarrow> (string \<Rightarrow> in_addr option) \<Rightarrow> u_range \<times> u_range \<Rightarrow>
     ipcp_set \<Rightarrow> string list \<Rightarrow> ipcp_bund \<Rightarrow> ipcp_bund \<times> bool" where
  "IpcpSetCommand parse aton junk cmd av b =
     (if av = [] then (b, False)
      else case cmd of
        SET_RANGES \<Rightarrow> (case set_ranges parse junk av b of None \<Rightarrow> (b, False) | Some b' \<Rightarrow> (b', True))
      | SET_DNS \<Rightarrow>
          (let (ips, ok) = set_pri_sec aton av (ic_peer_dns b) in (b\<lparr>ic_peer_dns := ips\<rparr>, ok))
      | SET_NBNS \<Rightarrow>
          (let (ips, ok) = set_pri_sec aton av (ic_peer_nbns b) in (b\<lparr>ic_peer_nbns := ips\<rparr>, ok))
      | SET_IPCP_ENABLE \<Rightarrow> (b\<lparr>ic_options := EnableCommand av ipcp_gConfList (ic_options b)\<rparr>, True)
      | SET_IPCP_DISABLE \<Rightarrow> (b\<lparr>ic_options := DisableCommand av ipcp_gConfList (ic_options b)\<rparr>, True)
      | SET_IPCP_ACCEPT \<Rightarrow> (b\<lparr>ic_options := AcceptCommand av ipcp_gConfList (ic_options b)\<rparr>, True)
      | SET_IPCP_DENY \<Rightarrow> (b\<lparr>ic_options := DenyCommand av ipcp_gConfList (ic_options b)\<rparr>, True)
      | SET_IPCP_YES \<Rightarrow> (b\<lparr>ic_options := YesCommand av ipcp_gConfList (ic_options b)\<rparr>, True)
      | SET_IPCP_NO \<Rightarrow> (b\<lparr>ic_options := NoCommand av ipcp_gConfList (ic_options b)\<rparr>, True))"

section \<open>The contract with the automaton\<close>

lemma known_ipcp_type:
  assumes "FsmFindOptInfo gIpcpConfOpts t = Some oi" "oi_supported oi"
  shows "t \<in> {TY_COMPPROTO, TY_IPADDR, TY_PRIMARYDNS, TY_PRIMARYNBNS, TY_SECONDARYDNS,
              TY_SECONDARYNBNS}"
  using assms by (auto simp: FsmFindOptInfo_def gIpcpConfOpts_def split: if_splits)

lemma ipcp_len_six:
  assumes "FsmFindOptInfo gIpcpConfOpts t = Some oi" "oi_supported oi"
  shows "oi_minLen oi = 4" "oi_maxLen oi = 4"
  using assms by (auto simp: FsmFindOptInfo_def gIpcpConfOpts_def split: if_splits)

lemmas ipcp_cases_defs = ipcp_ipaddr_def ipcp_compproto_def ipcp_server_def Let_def

lemma ipcp_cases_ctl [simp]:
  "ctl (ipcp_ipaddr md opt f) = ctl f" "ctl (ipcp_compproto md opt f) = ctl f"
  "ctl (ipcp_server md opt i g f) = ctl f"
  by (cases md; simp add: ipcp_cases_defs)+

lemma ipcp_cases_quiet [simp]:
  assumes "md \<noteq> MODE_REQ"
  shows "bufs (ipcp_ipaddr md opt f) = bufs f" "bufs (ipcp_compproto md opt f) = bufs f"
    "bufs (ipcp_server md opt i g f) = bufs f"
  using assms by (cases md; simp add: ipcp_cases_defs)+

lemma ipcp_cases_answer:
  assumes "opt_ok opt" "unat (opt_len opt) = 6"
  shows "answered opt f (ipcp_ipaddr MODE_REQ opt f)"
    "answered opt f (ipcp_compproto MODE_REQ opt f)"
    "answered opt f (ipcp_server MODE_REQ opt i g f)"
  using assms by (auto simp: ipcp_cases_defs vj_bytes_def)

text \<open>One option: unknown, rejected or skipped; or one of the three kinds, of six octets.\<close>

lemma ipcp_decode_opt_cases:
  obtains "ipcp_decode_opt md f opt = (if md = MODE_REQ then FsmRej opt f else f)"
  | "unat (opt_len opt) = 6" "ipcp_decode_opt md f opt = ipcp_ipaddr md opt f"
  | "unat (opt_len opt) = 6" "ipcp_decode_opt md f opt = ipcp_compproto md opt f"
  | i g where "unat (opt_len opt) = 6" "ipcp_decode_opt md f opt = ipcp_server md opt i g f"
proof (cases "FsmFindOptInfo gIpcpConfOpts (opt_type opt)")
  case None
  then show ?thesis using that(1) by (simp add: ipcp_decode_opt_def Let_def)
next
  case (Some oi)
  show ?thesis
  proof (cases "oi_supported oi \<and> unat (opt_len opt) = 6")
    case True
    with Some known_ipcp_type [OF Some] ipcp_len_six [OF Some] show ?thesis
      by (auto simp: ipcp_decode_opt_def Let_def intro: that)
  next
    case False
    show ?thesis
    proof (cases "oi_supported oi")
      case True
      with False ipcp_len_six [OF Some] have len: "(unat (opt_len opt) < unat (oi_minLen oi) + 2
          \<or> unat (oi_maxLen oi) + 2 < unat (opt_len opt)) = True" by auto
      show ?thesis
        by (rule that(1)) (simp only: ipcp_decode_opt_def Let_def Some option.case True len if_True
            simp_thms if_False)
    next
      case False
      then show ?thesis
        by (intro that(1)) (simp only: ipcp_decode_opt_def Let_def Some option.case if_True simp_thms)
    qed
  qed
qed

interpretation ipcp_dec: option_decoder ipcp_decode_opt
proof
  fix md opt and f :: "ipcp_bund fsm"
  show "ctl (ipcp_decode_opt md f opt) = ctl f"
    by (cases md opt f rule: ipcp_decode_opt_cases) simp_all
  show "md \<noteq> MODE_REQ \<Longrightarrow> bufs (ipcp_decode_opt md f opt) = bufs f"
    by (cases md opt f rule: ipcp_decode_opt_cases) simp_all
  show "opt_ok opt \<Longrightarrow> answered opt f (ipcp_decode_opt MODE_REQ f opt)"
    by (cases MODE_REQ opt f rule: ipcp_decode_opt_cases) (simp_all add: ipcp_cases_answer)
qed

lemma IpcpDecodeConfig_ctl: "ctl (IpcpDecodeConfig f opts md) = ctl f"
  by (simp add: IpcpDecodeConfig_def ipcp_dec.all_ctl)

lemma IpcpDecodeConfig_bufs: "bufs (IpcpDecodeConfig f opts MODE_NOP) = bufs f"
  by (simp add: IpcpDecodeConfig_def ipcp_dec.all_quiet)

interpretation ipcp: fsm_configured gIpcpFsmType IpcpConfigure IpcpUnConfigure
  by unfold_locales
    (auto simp: gIpcpFsmType_def call0_def IpcpLayerUp_def IpcpLayerDown_def IpcpLayerStart_def
      IpcpLayerFinish_def IpcpBuildConfigReq_def IpcpDecodeConfig_ctl IpcpDecodeConfig_bufs
      IpcpConfigure_def IpcpUnConfigure_def IpcpFailure_def)

interpretation ipcp_dec: decoding_type ipcp_decode_opt gIpcpFsmType "\<lambda>_ f. f"
  by unfold_locales (simp_all add: gIpcpFsmType_def IpcpDecodeConfig_def)

end
