(* ===== verification/Ipcp_Facts.thy ===== *)
theory Ipcp_Facts
  imports Ipcp
begin

unbundle bit_operations_syntax

text \<open>
  What IPCP promises: requests that are read back as they were written, addresses that stay in the
  configured ranges, and pool addresses that go back to their pool.
\<close>

section \<open>Single options\<close>

definition pool_side :: "ipcp_bund \<Rightarrow> bool \<times> bool \<times> bool \<times> string \<times> string \<times> string \<times> ippools
    \<times> u_range \<times> u_range \<times> optinfo" where
  "pool_side b = (ip_self_ippool_used b, ip_ippool_used b, bp_ippool_used b, ic_self_ippool b,
     ic_ippool b, bp_ippool b, ib_pools b, ip_self_allow b, ip_peer_allow b, ic_options b)"

lemma peer_rej_side [simp]: "pool_side (IPCP_PEER_REJ x b) = pool_side b"
  by (simp add: pool_side_def IPCP_PEER_REJ_def)

lemma answers_side [simp]:
  "pool_side (f_arg (f\<lparr>f_arg := b\<lparr>ip_peer_addr := i\<rparr>\<rparr>)) = pool_side b"
  "pool_side (b\<lparr>ip_peer_addr := i\<rparr>) = pool_side b" "pool_side (b\<lparr>ip_want_addr := i\<rparr>) = pool_side b"
  "pool_side (b\<lparr>ip_peer_comp := v\<rparr>) = pool_side b" "pool_side (b\<lparr>ip_want_comp := v\<rparr>) = pool_side b"
  "pool_side (b\<lparr>ip_want_dns := d\<rparr>) = pool_side b" "pool_side (b\<lparr>ip_want_nbns := d\<rparr>) = pool_side b"
  by (simp_all add: pool_side_def)

lemma cases_side [simp]:
  "pool_side (f_arg (ipcp_ipaddr md opt f)) = pool_side (f_arg f)"
  "pool_side (f_arg (ipcp_compproto md opt f)) = pool_side (f_arg f)"
  "(\<And>i b. pool_side (g i b) = pool_side b) \<Longrightarrow>
     pool_side (f_arg (ipcp_server md opt j g f)) = pool_side (f_arg f)"
  by (cases md; simp add: ipcp_ipaddr_def ipcp_compproto_def ipcp_server_def Let_def)+

lemma decode_opt_side: "pool_side (f_arg (ipcp_decode_opt md f opt)) = pool_side (f_arg f)"
  using known_ipcp_type [of "opt_type opt"]
  by (cases "FsmFindOptInfo gIpcpConfOpts (opt_type opt)") (auto simp: ipcp_decode_opt_def Let_def)

lemma decode_side: "pool_side (f_arg (IpcpDecodeConfig f opts md)) = pool_side (f_arg f)"
  unfolding IpcpDecodeConfig_def
  by (induction opts arbitrary: f) (simp_all add: decode_opt_side)

section \<open>Addresses stay in range\<close>

definition addr_allowed :: "u_range \<Rightarrow> in_addr \<Rightarrow> bool" where
  "addr_allowed r i \<longleftrightarrow> IpAddrInRange r (in_addrtou_addr i) = Some True"

definition addrs_ok :: "ipcp_bund \<Rightarrow> bool" where
  "addrs_ok b \<longleftrightarrow> addr_allowed (ip_self_allow b) (ip_want_addr b) \<and>
     addr_allowed (ip_peer_allow b) (ip_peer_addr b)"

lemma decode_opt_addrs:
  assumes "addrs_ok (f_arg f)" "\<not> Enabled (ic_options (f_arg f)) IPCP_CONF_PRETENDIP"
  shows "addrs_ok (f_arg (ipcp_decode_opt md f opt))"
  using assms known_ipcp_type [of "opt_type opt"]
  by (cases "FsmFindOptInfo gIpcpConfOpts (opt_type opt)"; cases md)
    (auto simp: ipcp_decode_opt_def Let_def ipcp_ipaddr_def ipcp_compproto_def ipcp_server_def
      addrs_ok_def addr_allowed_def IPCP_PEER_REJ_def)

lemma decode_addrs:
  assumes "addrs_ok (f_arg f)" "\<not> Enabled (ic_options (f_arg f)) IPCP_CONF_PRETENDIP"
  shows "addrs_ok (f_arg (IpcpDecodeConfig f opts md))"
  using assms unfolding IpcpDecodeConfig_def
proof (induction opts arbitrary: f)
  case (Cons opt opts)
  have "ic_options (f_arg (ipcp_decode_opt md f opt)) = ic_options (f_arg f)"
    using decode_opt_side [of md f opt] by (simp add: pool_side_def)
  with Cons.IH [of "ipcp_decode_opt md f opt"] decode_opt_addrs [OF Cons.prems] Cons.prems
  show ?case by simp
qed simp

definition range4 :: "u_range \<Rightarrow> bool" where
  "range4 r \<longleftrightarrow> a_family (r_addr r) = AF_INET \<and> r_width r \<le> 32"

lemma own_addr_allowed: "range4 r \<Longrightarrow> addr_allowed r (ip4 (r_addr r))"
  by (auto simp: addr_allowed_def range4_def IpAddrInRange_def Let_def not_less)

lemma empty_allows: "u_addrempty (r_addr r) \<Longrightarrow> addr_allowed r i"
  by (simp add: addr_allowed_def IpAddrInRange_def u_rangeempty_def)

lemma layer_up_addrs_ok:
  assumes "range4 (ip_self_allow b)" "range4 (ip_peer_allow b)"
  shows "addrs_ok (layer_up_addrs b)"
  using own_addr_allowed [OF assms(1)] own_addr_allowed [OF assms(2)] empty_allows
  by (auto simp: addrs_ok_def layer_up_addrs_def Let_def addr_allowed_def u_addrtoin_addr_def)

lemma addrs_ok_ncps [simp]:
  "addrs_ok (upd_ncps g b) = addrs_ok b" "addrs_ok (ipcp_set_config e c d b) = addrs_ok b"
  "addrs_ok (ipcp_ng ms b) = addrs_ok b"
  by (simp_all add: addrs_ok_def upd_ncps_def ipcp_set_config_def ipcp_ng_def)

lemma ipcp_layer_up_addrs:
  assumes "range4 (ip_self_allow b)" "range4 (ip_peer_allow b)"
  shows "addrs_ok (ipcp_layer_up b)"
  using layer_up_addrs_ok [OF assms] by (simp add: ipcp_layer_up_def Let_def)

lemma host_allowed:
  assumes "r_width r = 32" "a_family (r_addr r) = AF_INET" "ip4 (r_addr r) \<noteq> 0"
  shows "addr_allowed r i \<longleftrightarrow> i = ip4 (r_addr r)"
  using in_range_host [of r i] assms by (auto simp: addr_allowed_def)

section \<open>Pool addresses\<close>

text \<open>What the bundle holds of the pools while it is configured.\<close>

definition host_range :: "in_addr \<Rightarrow> u_range" where
  "host_range i = \<lparr>r_addr = in_addrtou_addr i, r_width = 32\<rparr>"

lemma get_sound:
  assumes "IPPoolGet pool ps = (ps', Some a)" "pools_ok ps"
  shows "a = in_addrtou_addr (ip4 a)" "pools_ok ps'"
proof -
  from get_recs [OF assms(1), of pool] show "a = in_addrtou_addr (ip4 a)"
    by (auto split: option.splits)
  show "pools_ok ps'" using pools_ok_get [OF assms(2), of pool] assms(1) by simp
qed

lemma get_none:
  "IPPoolGet pool ps = (ps', None) \<Longrightarrow> pool_recs q ps' = pool_recs q ps"
  using get_recs [of pool ps ps' None q] by (auto split: option.splits)

lemma get_free_lent:
  assumes "IPPoolGet pool ps = (ps', Some a)" "pools_ok ps"
  shows "pool_lent q (IPPoolFree pool a ps') = pool_lent q ps"
proof (cases "q = pool")
  case True
  with get_lends [OF assms] free_returns [OF get_sound(2) [OF assms]] show ?thesis by auto
next
  case False
  with other_pools(1) [OF False, of ps] other_pools(2) [OF False, of a ps'] assms(1)
  show ?thesis by (simp add: pool_lent_def)
qed

lemma range_update_host:
  "r\<lparr>r_addr := in_addrtou_addr i, r_width := 32\<rparr> = host_range i"
  by (simp add: host_range_def)

lemma lent_get:
  assumes "IPPoolGet pool ps = (ps', Some a)" "pools_ok ps"
  shows "pool_lent q ps' = pool_lent q ps \<union> (if q = pool then {ip4 a} else {})"
  using get_lends(3) [OF assms] other_pools(1) [of q pool ps] assms(1)
  by (auto simp: pool_lent_def)

lemma lent_free:
  assumes "pools_ok ps"
  shows "pool_lent q (IPPoolFree pool a ps) = pool_lent q ps - (if q = pool then {ip4 a} else {})"
  using free_returns(1) [OF assms, of pool a] other_pools(2) [of q pool a ps]
  by (auto simp: pool_lent_def)

definition range_fine :: "u_range \<Rightarrow> bool" where
  "range_fine r \<longleftrightarrow> range4 r \<or> u_addrempty (r_addr r)"

lemma own_addr_fine: "range_fine r \<Longrightarrow> addr_allowed r (ip4 (r_addr r))"
  using own_addr_allowed empty_allows by (auto simp: range_fine_def)

text \<open>A configuration the program can have: IPv4 ranges, pools without duplicates.\<close>

definition ipcp_ok :: "ipcp_bund \<Rightarrow> bool" where
  "ipcp_ok b \<longleftrightarrow> range_fine (ic_self_allow b) \<and> range_fine (ic_peer_allow b) \<and>
     range_fine (bp_range b) \<and> range_fine (ip_self_allow b) \<and> range_fine (ip_peer_allow b) \<and>
     pools_ok (ib_pools b)"

definition no_lease :: "ipcp_bund \<Rightarrow> bool" where
  "no_lease b \<longleftrightarrow> \<not> ip_self_ippool_used b \<and> \<not> ip_ippool_used b \<and> \<not> bp_ippool_used b"

text \<open>The leases of a configured bundle are what its ranges say.\<close>

definition leases_ok :: "ipcp_bund \<Rightarrow> bool" where
  "leases_ok b \<longleftrightarrow>
     addrs_ok b \<and>
     (ip_self_ippool_used b \<longrightarrow> (\<exists>s. s \<noteq> 0 \<and> ip_self_allow b = host_range s)) \<and>
     (bp_ippool_used b \<or> ip_ippool_used b \<longrightarrow> (\<exists>s. s \<noteq> 0 \<and> ip_peer_allow b = host_range s))"

lemma host_range_allowed [simp]: "s \<noteq> 0 \<Longrightarrow> addr_allowed (host_range s) i \<longleftrightarrow> i = s"
  by (subst host_allowed) (simp_all add: host_range_def)

lemma host_range_fine [simp]: "range_fine (host_range s)"
  by (simp add: range_fine_def range4_def host_range_def)

lemma leases_decode:
  assumes "leases_ok (f_arg f)" "\<not> Enabled (ic_options (f_arg f)) IPCP_CONF_PRETENDIP"
  shows "leases_ok (f_arg (IpcpDecodeConfig f opts md))"
    "\<not> Enabled (ic_options (f_arg (IpcpDecodeConfig f opts md))) IPCP_CONF_PRETENDIP"
  using decode_addrs [of f opts md] decode_side [of f opts md] assms
  by (auto simp: leases_ok_def pool_side_def)

lemma unconfigure_lent:
  assumes "leases_ok b" "pools_ok (ib_pools b)" "pool_side b' = pool_side b" "leases_ok b'"
  shows "ib_pools (ipcp_unconfigure b') = ib_pools (ipcp_unconfigure b)"
proof -
  have "ip_self_ippool_used b \<Longrightarrow> ip_want_addr b' = ip_want_addr b"
    "bp_ippool_used b \<or> ip_ippool_used b \<Longrightarrow> ip_peer_addr b' = ip_peer_addr b"
    using assms by (auto simp: leases_ok_def addrs_ok_def pool_side_def)
  with assms(3) show ?thesis
    by (auto simp: ipcp_unconfigure_def Let_def pool_side_def)
qed

text \<open>One side of \<open>IpcpConfigure\<close>: the pool \<open>pool\<close> before and after, the range, and whether
  an address was lent.\<close>

definition lease :: "string \<Rightarrow> ippools \<Rightarrow> ippools \<Rightarrow> u_range \<Rightarrow> bool \<Rightarrow> bool" where
  "lease pool ps ps' r u \<longleftrightarrow>
     pools_ok ps' \<and> (\<forall>q. pool_has q ps' = pool_has q ps) \<and>
     (if u then \<exists>s. s \<noteq> 0 \<and> r = host_range s \<and> s \<notin> pool_lent pool ps \<and>
                  (\<forall>q. pool_lent q ps' = pool_lent q ps \<union> (if q = pool then {s} else {}))
      else range_fine r \<and> (\<forall>q. pool_lent q ps' = pool_lent q ps))"

lemma lease_none: "pools_ok ps \<Longrightarrow> range_fine r \<Longrightarrow> lease pool ps ps r False"
  by (simp add: lease_def)

lemma lease_get:
  assumes "IPPoolGet pool ps = (ps', res)" "pools_ok ps" "0 \<notin> pool_has pool ps" "range_fine r"
  shows "case res of None \<Rightarrow> lease pool ps ps' r False
         | Some a \<Rightarrow> lease pool ps ps' (r\<lparr>r_addr := a, r_width := 32\<rparr>) True"
proof (cases res)
  case None
  have "pools_ok ps'" using pools_ok_get [OF assms(2), of pool] assms(1) by simp
  with None assms get_none [of pool ps ps'] show ?thesis
    by (simp add: lease_def pool_lent_def pool_has_def)
next
  case (Some a)
  note g = assms(1) [unfolded Some]
  have has: "pool_has q ps' = pool_has q ps" for q
    using get_lends(4) [OF g assms(2)] other_pools(1) [of q pool ps] g
    by (cases "q = pool") (auto simp: pool_has_def)
  have "ip4 a \<noteq> 0" using get_lends(1) [OF g assms(2)] assms(3) by metis
  moreover have "r\<lparr>r_addr := a, r_width := 32\<rparr> = host_range (ip4 a)"
    using get_sound(1) [OF g assms(2)] by (metis range_update_host)
  ultimately show ?thesis
    using Some get_sound(2) [OF g assms(2)] has get_lends(2) [OF g assms(2)]
      lent_get [OF g assms(2)] by (auto simp: lease_def)
qed

lemma configure_self_lease:
  assumes "ipcp_ok b" "no_lease b" "\<forall>q. 0 \<notin> pool_has q (ib_pools b)"
  shows "\<exists>ps r u. configure_self b = b\<lparr>ip_self_allow := r, ip_self_ippool_used := u, ib_pools := ps\<rparr> \<and>
    lease (ic_self_ippool b) (ib_pools b) ps r u"
proof (cases "ic_self_ippool b = []")
  case True
  with assms show ?thesis
    by (intro exI [of _ "ib_pools b"] exI [of _ "ic_self_allow b"] exI [of _ False])
      (simp add: configure_self_def lease_none ipcp_ok_def no_lease_def)
next
  case False
  obtain ps res where g: "IPPoolGet (ic_self_ippool b) (ib_pools b) = (ps, res)" by fastforce
  have l: "case res of None \<Rightarrow> lease (ic_self_ippool b) (ib_pools b) ps (ip_self_allow b) False
     | Some a \<Rightarrow> lease (ic_self_ippool b) (ib_pools b) ps
                   ((ip_self_allow b)\<lparr>r_addr := a, r_width := 32\<rparr>) True"
    using lease_get [OF g] assms by (simp add: ipcp_ok_def)
  show ?thesis
  proof (cases res)
    case None
    with l False g assms(2) show ?thesis
      by (intro exI [of _ ps] exI [of _ "ip_self_allow b"] exI [of _ False])
        (simp add: configure_self_def ipcp_pool_get_def no_lease_def)
  next
    case (Some a)
    with l False g show ?thesis
      by (intro exI [of _ ps] exI [of _ "(ip_self_allow b)\<lparr>r_addr := a, r_width := 32\<rparr>"]
          exI [of _ True]) (simp add: configure_self_def ipcp_pool_get_def)
  qed
qed

lemma lease_pool: "lease pool ps ps' r False = lease pool' ps ps' r False"
  by (simp add: lease_def)

lemma lease_host: "lease pool ps ps' r u \<Longrightarrow> u \<Longrightarrow> \<exists>s. s \<noteq> 0 \<and> r = host_range s"
  by (auto simp: lease_def)

lemma lease_at:
  assumes "lease pool ps ps' r u"
  shows "pool_lent q ps' = pool_lent q ps \<union> (if u \<and> q = pool then {ip4 (r_addr r)} else {})"
    "u \<Longrightarrow> ip4 (r_addr r) \<notin> pool_lent pool ps"
  using assms by (cases u; cases "q = pool"; auto simp: lease_def host_range_def)+

lemma peer_unchanged:
  "\<not> bp_ippool_used b \<Longrightarrow> \<not> ip_ippool_used b \<Longrightarrow>
     b\<lparr>ib_pools := qs\<rparr> = b\<lparr>ip_peer_allow := ip_peer_allow b, bp_ippool_used := False,
                            ip_ippool_used := False, ib_pools := qs\<rparr>"
  by (cases b) simp

lemma configure_peer_lease:
  assumes "ipcp_ok b" "\<not> bp_ippool_used b" "\<not> ip_ippool_used b"
    "\<forall>q. 0 \<notin> pool_has q (ib_pools b)"
  shows "\<exists>ps r u v. configure_peer b =
      b\<lparr>ip_peer_allow := r, bp_ippool_used := u, ip_ippool_used := v, ib_pools := ps\<rparr> \<and> \<not> (u \<and> v) \<and>
    lease (if u then bp_ippool b else ic_ippool b) (ib_pools b) ps r (u \<or> v)"
proof -
  have fine: "pools_ok (ib_pools b)" "range_fine (ip_peer_allow b)" "range_fine (bp_range b)"
    "range_fine (ic_peer_allow b)" using assms(1) by (simp_all add: ipcp_ok_def)
  obtain ps res where g: "IPPoolGet (bp_ippool b) (ib_pools b) = (ps, res)" by fastforce
  obtain qs red where h: "IPPoolGet (ic_ippool b) (ib_pools b) = (qs, red)" by fastforce
  note lg = lease_get [OF g fine(1) assms(4) [rule_format] fine(2)]
  note lh = lease_get [OF h fine(1) assms(4) [rule_format] fine(2)]
  consider (range) "bp_range_valid b \<and> \<not> u_rangeempty (bp_range b)"
    | (bp) "\<not> (bp_range_valid b \<and> \<not> u_rangeempty (bp_range b))" "bp_ippool b \<noteq> []"
    | (ic) "\<not> (bp_range_valid b \<and> \<not> u_rangeempty (bp_range b))" "bp_ippool b = []" "ic_ippool b \<noteq> []"
    | (conf) "\<not> (bp_range_valid b \<and> \<not> u_rangeempty (bp_range b))" "bp_ippool b = []" "ic_ippool b = []"
    by blast
  then show ?thesis
  proof cases
    case range
    then have "configure_peer b = b\<lparr>ip_peer_allow := bp_range b, bp_ippool_used := False,
        ip_ippool_used := False, ib_pools := ib_pools b\<rparr>"
      using assms(2,3) by (cases b) (auto simp: configure_peer_def)
    then show ?thesis
      using lease_none [OF fine(1,3), of "ic_ippool b"]
      by (intro exI [of _ "ib_pools b"] exI [of _ "bp_range b"] exI [of _ False]) simp
  next
    case bp
    show ?thesis
    proof (cases res)
      case None
      have "configure_peer b = b\<lparr>ib_pools := ps\<rparr>"
        using bp g None by (auto simp: configure_peer_def ipcp_pool_get_def)
      moreover have "lease (ic_ippool b) (ib_pools b) ps (ip_peer_allow b) False"
        using lg None lease_pool [of "bp_ippool b" _ _ _ "ic_ippool b"] by simp
      ultimately show ?thesis
        using peer_unchanged [OF assms(2,3), of ps]
        by (intro exI [of _ ps] exI [of _ "ip_peer_allow b"] exI [of _ False]) simp
    next
      case (Some a)
      define r where "r = (ip_peer_allow b)\<lparr>r_addr := a, r_width := 32\<rparr>"
      have "configure_peer b = b\<lparr>ib_pools := ps, ip_peer_allow := r, bp_ippool_used := True\<rparr>"
        using bp g Some by (auto simp: configure_peer_def ipcp_pool_get_def r_def)
      also have "\<dots> = b\<lparr>ip_peer_allow := r, bp_ippool_used := True, ip_ippool_used := False,
          ib_pools := ps\<rparr>"
        using assms(3) by (cases b) simp
      finally show ?thesis
        using lg Some
        by (intro exI [of _ ps] exI [of _ r] exI [of _ True] exI [of _ False])
          (simp add: r_def)
    qed
  next
    case ic
    show ?thesis
    proof (cases red)
      case None
      have "configure_peer b = b\<lparr>ib_pools := qs\<rparr>"
        using ic h None by (auto simp: configure_peer_def ipcp_pool_get_def)
      moreover have "lease (ic_ippool b) (ib_pools b) qs (ip_peer_allow b) False"
        using lh None by simp
      ultimately show ?thesis
        using peer_unchanged [OF assms(2,3), of qs]
        by (intro exI [of _ qs] exI [of _ "ip_peer_allow b"] exI [of _ False]) simp
    next
      case (Some a)
      define r where "r = (ip_peer_allow b)\<lparr>r_addr := a, r_width := 32\<rparr>"
      have "configure_peer b = b\<lparr>ib_pools := qs, ip_peer_allow := r, ip_ippool_used := True\<rparr>"
        using ic h Some by (auto simp: configure_peer_def ipcp_pool_get_def r_def)
      also have "\<dots> = b\<lparr>ip_peer_allow := r, bp_ippool_used := False, ip_ippool_used := True,
          ib_pools := qs\<rparr>"
        using assms(2) by (cases b) simp
      finally show ?thesis
        using lh Some
        by (intro exI [of _ qs] exI [of _ r] exI [of _ False] exI [of _ True])
          (simp add: r_def)
    qed
  next
    case conf
    then have "configure_peer b = b\<lparr>ip_peer_allow := ic_peer_allow b, bp_ippool_used := False,
        ip_ippool_used := False, ib_pools := ib_pools b\<rparr>"
      using assms(2,3) by (cases b) (auto simp: configure_peer_def)
    then show ?thesis
      using lease_none [OF fine(1,4), of "ic_ippool b"]
      by (intro exI [of _ "ib_pools b"] exI [of _ "ic_peer_allow b"] exI [of _ False]) simp
  qed
qed

text \<open>Both sides, and what unconfiguring returns.\<close>

lemma configure_leases:
  assumes "ipcp_ok b" "no_lease b" "\<forall>q. 0 \<notin> pool_has q (ib_pools b)"
  shows "leases_ok (ipcp_configure b)" "pools_ok (ib_pools (ipcp_configure b))"
    "pool_lent q (ib_pools (ipcp_unconfigure (ipcp_configure b))) = pool_lent q (ib_pools b)"
proof -
  define b0 where "b0 = b\<lparr>ip_peer_reject := 0\<rparr>"
  have ok0: "ipcp_ok b0" "no_lease b0" "\<forall>q. 0 \<notin> pool_has q (ib_pools b0)"
    using assms by (simp_all add: b0_def ipcp_ok_def no_lease_def)
  from configure_self_lease [OF this] obtain ps r u where
    s: "configure_self b0 = b0\<lparr>ip_self_allow := r, ip_self_ippool_used := u, ib_pools := ps\<rparr>"
       "lease (ic_self_ippool b) (ib_pools b) ps r u"
    by (auto simp: b0_def)
  define b1 where "b1 = configure_self b0"
  have ok1: "ipcp_ok b1" "\<not> bp_ippool_used b1" "\<not> ip_ippool_used b1"
      "\<forall>q. 0 \<notin> pool_has q (ib_pools b1)"
    using ok0 s by (auto simp: b1_def ipcp_ok_def no_lease_def lease_def b0_def split: if_splits)
  have f1: "ip_self_allow b1 = r" "ip_self_ippool_used b1 = u" "ic_self_ippool b1 = ic_self_ippool b"
    "bp_ippool b1 = bp_ippool b" "ic_ippool b1 = ic_ippool b" "ib_pools b1 = ps"
    using s by (simp_all add: b1_def b0_def)
  from configure_peer_lease [OF ok1] obtain qs t v w where
    p: "configure_peer b1 = b1\<lparr>ip_peer_allow := t, bp_ippool_used := v, ip_ippool_used := w,
          ib_pools := qs\<rparr>" "\<not> (v \<and> w)"
       "lease (if v then bp_ippool b1 else ic_ippool b1) (ib_pools b1) qs t (v \<or> w)"
    by blast
  note p = p [unfolded f1]
  have c: "ipcp_configure b = configure_rest (b1\<lparr>ip_peer_allow := t, bp_ippool_used := v,
      ip_ippool_used := w, ib_pools := qs\<rparr>)"
    by (simp add: ipcp_configure_def b0_def [symmetric] b1_def [symmetric] p)
  have fine: "range_fine r" "range_fine t"
    using s(2) p(3) by (auto simp: lease_def split: if_splits)
  show "pools_ok (ib_pools (ipcp_configure b))"
    using p(3) by (simp add: c configure_rest_def lease_def)
  then have ok2: "pools_ok qs" by (simp add: c configure_rest_def)
  show "leases_ok (ipcp_configure b)"
    using own_addr_fine [OF fine(1)] own_addr_fine [OF fine(2)]
      lease_host [OF s(2)] lease_host [OF p(3)]
    by (simp add: c configure_rest_def leases_ok_def addrs_ok_def f1 u_addrtoin_addr_def)
  define pp where "pp = (if v then bp_ippool b else ic_ippool b)"
  have "pool_lent q (ib_pools (ipcp_unconfigure (ipcp_configure b))) =
      pool_lent q qs - (if u \<and> q = ic_self_ippool b then {ip4 (r_addr r)} else {})
        - (if (v \<or> w) \<and> q = pp then {ip4 (r_addr t)} else {})"
    using ok2 pools_ok_free [OF ok2] p(2)
    by (simp add: c configure_rest_def ipcp_unconfigure_def Let_def f1 lent_free u_addrtoin_addr_def
        pp_def)
  then show "pool_lent q (ib_pools (ipcp_unconfigure (ipcp_configure b))) = pool_lent q (ib_pools b)"
    using lease_at(1) [OF s(2), of q] lease_at(1) [OF p(3), of q] lease_at(2) [OF s(2)]
      lease_at(2) [OF p(3)] unfolding pp_def [symmetric] by auto
qed

end
