(* ===== verification/Ipv6cp.thy ===== *)
theory Ipv6cp
  imports Fsm_Decode Bund_Ncps Vars
begin

unbundle bit_operations_syntax

text \<open>
  IPV6CP (\<open>src/src/ipv6cp.c\<close>): the callbacks of the automaton that negotiate the two interface
  identifiers. The record \<open>ipv6cp_bund\<close> is what they reach through \<open>fp->arg\<close>. The generator
  \<open>random ()\<close> is a stream of values with a position; the hardware address \<open>GetEther\<close> finds is
  the field \<open>v6_ether\<close>. \<open>CreateInterfaceID\<close> stores two host integers, here of a
  little-endian machine.
\<close>

section \<open>State\<close>

definition PROTO_IPV6CP :: u16 where "PROTO_IPV6CP = 0x8057"

abbreviation (input) "TY_INTIDENT \<equiv> (1 :: byte)"
abbreviation (input) "TY_V6_COMPPROTO \<equiv> (2 :: byte)"

definition IPV6CP_KNOWN_CODES :: u16 where
  "IPV6CP_KNOWN_CODES = push_bit 1 1 OR push_bit 2 1 OR push_bit 3 1 OR push_bit 4 1
     OR push_bit 5 1 OR push_bit 6 1 OR push_bit 7 1"

record ipv6cp_bund =
  v6_options :: optinfo
  v6_myintid :: "byte list"
  v6_hisintid :: "byte list"
  v6_peer_reject :: u32
  v6_retry_timeout :: short
  v6_recvFrames :: "u32 option"
  v6_ncps :: ncps
  v6_enableIPv6 :: bool
  v6_set_configs :: nat              \<comment> \<open>calls of \<open>NgFuncSetConfig\<close>\<close>
  v6_failures :: "fsmfail list"
  v6_ether :: "byte list option"
  v6_random :: "nat \<Rightarrow> u32"
  v6_drawn :: nat

definition IPV6CP_PEER_REJ :: "byte \<Rightarrow> ipv6cp_bund \<Rightarrow> ipv6cp_bund" where
  "IPV6CP_PEER_REJ x b = b\<lparr>v6_peer_reject := mask_set (v6_peer_reject b) (unat x)\<rparr>"

definition gIpv6cpConfOpts :: "fsmoptinfo list" where
  "gIpv6cpConfOpts =
     [\<lparr>oi_name = ''INTIDENT'', oi_type = TY_INTIDENT, oi_minLen = 8, oi_maxLen = 8, oi_supported = True\<rparr>,
      \<lparr>oi_name = ''COMPPROTO'', oi_type = TY_V6_COMPPROTO, oi_minLen = 4, oi_maxLen = 4, oi_supported = False\<rparr>]"

definition ipv6cp_gConfList :: "confinfo list" where
  "ipv6cp_gConfList = []"

section \<open>Interface identifiers\<close>

definition host32 :: "u32 \<Rightarrow> byte list" where
  "host32 w = rev (be32 w)"

text \<open>\<open>(((u_int32_t)random()) % 0xFFFFFFFF) + 1\<close>\<close>

definition draw :: "ipv6cp_bund \<Rightarrow> u32 \<times> ipv6cp_bund" where
  "draw b = ((v6_random b (v6_drawn b) mod 0xFFFFFFFF) + 1, b\<lparr>v6_drawn := v6_drawn b + 1\<rparr>)"

definition CreateInterfaceID :: "bool \<Rightarrow> ipv6cp_bund \<Rightarrow> byte list \<times> ipv6cp_bund" where
  "CreateInterfaceID r b =
     (case (if r then None else v6_ether b) of
        Some e \<Rightarrow>
          ([e ! 0 XOR 0x02, e ! 1, e ! 2, 0xff, 0xfe, e ! 3, e ! 4, e ! 5], b)
      | None \<Rightarrow>
          (let (w0, b) = draw b; (w1, b) = draw b; xs = host32 w0 @ host32 w1
           in (xs[0 := hd xs AND 0xfd], b)))"

section \<open>The callbacks\<close>

definition Ipv6cpConfigure :: "ipv6cp_bund fsm \<Rightarrow> ipv6cp_bund fsm" where
  "Ipv6cpConfigure = upd_arg (\<lambda>b. b\<lparr>v6_peer_reject := 0\<rparr>)"

definition Ipv6cpUnConfigure :: "ipv6cp_bund fsm \<Rightarrow> ipv6cp_bund fsm" where
  "Ipv6cpUnConfigure f = f"

definition Ipv6cpBuildConfigReq :: "ipv6cp_bund fsm \<Rightarrow> ipv6cp_bund fsm \<times> byte list" where
  "Ipv6cpBuildConfigReq f = (f, FsmConfValue TY_INTIDENT (v6_myintid (f_arg f)))"

definition v6_upd_ncps :: "(ncps \<Rightarrow> ncps) \<Rightarrow> ipv6cp_bund \<Rightarrow> ipv6cp_bund" where
  "v6_upd_ncps g b = b\<lparr>v6_ncps := g (v6_ncps b)\<rparr>"

definition v6_set_config :: "bool \<Rightarrow> ipv6cp_bund \<Rightarrow> ipv6cp_bund" where
  "v6_set_config en b = b\<lparr>v6_enableIPv6 := en, v6_set_configs := v6_set_configs b + 1\<rparr>"

definition Ipv6cpLayerStart :: "ipv6cp_bund fsm \<Rightarrow> ipv6cp_bund fsm" where
  "Ipv6cpLayerStart = upd_arg (v6_upd_ncps (BundNcpsStart NCP_IPV6CP))"

definition Ipv6cpLayerFinish :: "ipv6cp_bund fsm \<Rightarrow> ipv6cp_bund fsm" where
  "Ipv6cpLayerFinish = upd_arg (v6_upd_ncps (BundNcpsFinish NCP_IPV6CP))"

definition Ipv6cpLayerUp :: "ipv6cp_bund fsm \<Rightarrow> ipv6cp_bund fsm" where
  "Ipv6cpLayerUp = upd_arg (\<lambda>b. v6_upd_ncps (BundNcpsJoin NCP_IPV6CP) (v6_set_config True b))"

definition Ipv6cpLayerDown :: "ipv6cp_bund fsm \<Rightarrow> ipv6cp_bund fsm" where
  "Ipv6cpLayerDown = upd_arg (\<lambda>b. v6_set_config False (v6_upd_ncps (BundNcpsLeave NCP_IPV6CP) b))"

definition Ipv6cpFailure :: "ipv6cp_bund fsm \<Rightarrow> fsmfail \<Rightarrow> ipv6cp_bund fsm" where
  "Ipv6cpFailure f reason = upd_arg (\<lambda>b. b\<lparr>v6_failures := v6_failures b @ [reason]\<rparr>) f"

section \<open>Decoding\<close>

text \<open>A proposal of another identifier for the peer.\<close>

definition propose_id :: "fsmoption \<Rightarrow> ipv6cp_bund fsm \<Rightarrow> ipv6cp_bund fsm" where
  "propose_id opt f =
     (let (i, b) = CreateInterfaceID True (f_arg f)
      in FsmNak (opt_set i opt) (f\<lparr>f_arg := b\<lparr>v6_hisintid := i\<rparr>\<rparr>))"

definition ipv6cp_intident :: "mode \<Rightarrow> fsmoption \<Rightarrow> ipv6cp_bund fsm \<Rightarrow> ipv6cp_bund fsm" where
  "ipv6cp_intident md opt f =
     (let i = take 8 (opt_data opt) in
      case md of
        MODE_REQ \<Rightarrow>
          (if list_all (\<lambda>x. x = 0) i then propose_id opt f
           else if i = v6_myintid (f_arg f) then propose_id opt f
           else FsmAck opt (f\<lparr>f_arg := (f_arg f)\<lparr>v6_hisintid := i\<rparr>\<rparr>))
      | MODE_NAK \<Rightarrow> f\<lparr>f_arg := (f_arg f)\<lparr>v6_myintid := i\<rparr>\<rparr>
      | MODE_REJ \<Rightarrow> f\<lparr>f_arg := IPV6CP_PEER_REJ (opt_type opt) (f_arg f)\<rparr>
      | MODE_NOP \<Rightarrow> f)"

definition ipv6cp_decode_opt ::
  "mode \<Rightarrow> ipv6cp_bund fsm \<Rightarrow> fsmoption \<Rightarrow> ipv6cp_bund fsm" where
  "ipv6cp_decode_opt md f opt =
     opt_checked gIpv6cpConfOpts md opt
       (\<lambda>f. if opt_type opt = TY_INTIDENT then ipv6cp_intident md opt f else fsm_abort f) f"

definition Ipv6cpDecodeConfig ::
  "ipv6cp_bund fsm \<Rightarrow> fsmoption list \<Rightarrow> mode \<Rightarrow> ipv6cp_bund fsm" where
  "Ipv6cpDecodeConfig f opts md = foldl (ipv6cp_decode_opt md) f opts"

section \<open>The protocol type and the operations\<close>

definition gIpv6cpFsmType :: "ipv6cp_bund fsmtype" where
  "gIpv6cpFsmType =
     \<lparr>ty_name = ''IPV6CP'', ty_proto = PROTO_IPV6CP, ty_known_codes = IPV6CP_KNOWN_CODES,
      ty_link_layer = False, NewState = None, LayerUp = Some Ipv6cpLayerUp,
      LayerDown = Some Ipv6cpLayerDown, LayerStart = Some Ipv6cpLayerStart,
      LayerFinish = Some Ipv6cpLayerFinish, BuildConfigReq = Ipv6cpBuildConfigReq,
      DecodeConfig = Ipv6cpDecodeConfig, Configure = Some Ipv6cpConfigure,
      UnConfigure = Some Ipv6cpUnConfigure, SendTerminateReq = None, SendTerminateAck = None,
      RecvCodeRej = None, RecvProtoRej = None, Failure = Some Ipv6cpFailure,
      RecvResetReq = None, RecvResetAck = None, RecvIdent = None, RecvDiscReq = None,
      RecvTimeRemain = None, RecvVendor = None,
      arg_retry_timeout = v6_retry_timeout, arg_want_magic = (\<lambda>_. 0), arg_peer_magic = (\<lambda>_. 0),
      arg_has_bund = (\<lambda>_. True), arg_recvFrames = v6_recvFrames\<rparr>"

definition Ipv6cpInit :: "byte list \<Rightarrow> ipv6cp_bund \<Rightarrow> ipv6cp_bund fsm" where
  "Ipv6cpInit junk b =
     (let (i, b) = CreateInterfaceID False b
      in FsmInit junk
           (b\<lparr>v6_options := \<lparr>oi_enable = 0, oi_accept = 0\<rparr>, v6_myintid := i,
              v6_hisintid := replicate 8 0, v6_peer_reject := 0\<rparr>))"

definition Ipv6cpInst :: "ipv6cp_bund fsm \<Rightarrow> ipv6cp_bund \<Rightarrow> ipv6cp_bund fsm" where
  "Ipv6cpInst ft b =
     FsmInst ft (b\<lparr>v6_options := v6_options (f_arg ft), v6_myintid := v6_myintid (f_arg ft),
       v6_hisintid := v6_hisintid (f_arg ft), v6_peer_reject := v6_peer_reject (f_arg ft)\<rparr>)"

definition Ipv6cpUp :: "ipv6cp_bund fsm \<Rightarrow> ipv6cp_bund fsm" where
  "Ipv6cpUp = FsmUp gIpv6cpFsmType"

definition Ipv6cpDown :: "ipv6cp_bund fsm \<Rightarrow> ipv6cp_bund fsm" where
  "Ipv6cpDown = FsmDown gIpv6cpFsmType"

definition Ipv6cpOpen :: "ipv6cp_bund fsm \<Rightarrow> ipv6cp_bund fsm" where
  "Ipv6cpOpen = FsmOpen gIpv6cpFsmType"

definition Ipv6cpClose :: "ipv6cp_bund fsm \<Rightarrow> ipv6cp_bund fsm" where
  "Ipv6cpClose = FsmClose gIpv6cpFsmType"

definition Ipv6cpInput :: "pkt \<Rightarrow> ipv6cp_bund fsm \<Rightarrow> ipv6cp_bund fsm" where
  "Ipv6cpInput bp = FsmInput gIpv6cpFsmType bp"

text \<open>The console commands; \<open>Inl\<close> is the error for a bundle that is only a template.\<close>

definition Ipv6cpOpenCmd :: "bool \<Rightarrow> ipv6cp_bund fsm \<Rightarrow> unit + ipv6cp_bund fsm" where
  "Ipv6cpOpenCmd tmpl f = (if tmpl then Inl () else Inr (FsmOpen gIpv6cpFsmType f))"

definition Ipv6cpCloseCmd :: "bool \<Rightarrow> ipv6cp_bund fsm \<Rightarrow> unit + ipv6cp_bund fsm" where
  "Ipv6cpCloseCmd tmpl f = (if tmpl then Inl () else Inr (FsmClose gIpv6cpFsmType f))"

datatype ipv6cp_set =
  SET_V6_ENABLE | SET_V6_DISABLE | SET_V6_ACCEPT | SET_V6_DENY | SET_V6_YES | SET_V6_NO

definition Ipv6cpSetCommand ::
  "ipv6cp_set \<Rightarrow> string list \<Rightarrow> ipv6cp_bund \<Rightarrow> ipv6cp_bund option" where
  "Ipv6cpSetCommand cmd av b =
     (if av = [] then None
      else Some (b\<lparr>v6_options :=
        (case cmd of
           SET_V6_ACCEPT \<Rightarrow> AcceptCommand | SET_V6_DENY \<Rightarrow> DenyCommand
         | SET_V6_ENABLE \<Rightarrow> EnableCommand | SET_V6_DISABLE \<Rightarrow> DisableCommand
         | SET_V6_YES \<Rightarrow> YesCommand | SET_V6_NO \<Rightarrow> NoCommand)
        av ipv6cp_gConfList (v6_options b)\<rparr>))"

end
