(* ===== verification/Ipv6cp_Facts.thy ===== *)
theory Ipv6cp_Facts
  imports Ipv6cp
begin

unbundle bit_operations_syntax

text \<open>
  Facts about IPV6CP: identifiers made up at random, the contract with the automaton, and what is
  accepted from the peer.
\<close>

section \<open>Identifiers\<close>

lemma length_host32 [simp]: "length (host32 w) = 4"
  by (simp add: host32_def)

lemma host32_zero: "list_all (\<lambda>x. x = 0) (host32 w) \<longleftrightarrow> w = 0"
proof
  assume "list_all (\<lambda>x. x = 0) (host32 w)"
  then have "be32 w = be32 0" by (simp add: host32_def be32_def)
  then have "get32 (be32 w @ []) = get32 (be32 0 @ [])" by simp
  then show "w = 0" by (simp only: get32_be32 option.inject)
qed (simp add: host32_def be32_def)

lemma drawn_nonzero: "fst (draw b) \<noteq> 0"
proof -
  let ?x = "v6_random b (v6_drawn b) mod 0xFFFFFFFF"
  have "?x < 0xFFFFFFFF" by (rule word_mod_less_divisor) simp
  then have "?x \<noteq> - 1" by auto
  then show ?thesis by (simp add: draw_def eq_neg_iff_add_eq_0)
qed

lemma random_id:
  "length (fst (CreateInterfaceID True b)) = 8"
  "\<not> list_all (\<lambda>x. x = 0) (fst (CreateInterfaceID True b))"
  "\<not> bit (hd (fst (CreateInterfaceID True b))) 1"
proof -
  obtain w0 b0 where 0: "draw b = (w0, b0)" by fastforce
  obtain w1 b1 where 1: "draw b0 = (w1, b1)" by fastforce
  have id: "fst (CreateInterfaceID True b) =
      (host32 w0 @ host32 w1)[0 := hd (host32 w0 @ host32 w1) AND 0xfd]"
    by (simp add: CreateInterfaceID_def 0 1 Let_def)
  have "w1 \<noteq> 0" using drawn_nonzero [of b0] 1 by simp
  moreover have "host32 w0 \<noteq> []" using length_host32 [of w0] by fastforce
  ultimately show "length (fst (CreateInterfaceID True b)) = 8"
    "\<not> list_all (\<lambda>x. x = 0) (fst (CreateInterfaceID True b))"
    "\<not> bit (hd (fst (CreateInterfaceID True b))) 1"
    by (auto simp: id list_update_append host32_zero neq_Nil_conv bit_simps)
qed

section \<open>The contract with the automaton\<close>

lemma known_ipv6cp_type:
  assumes "FsmFindOptInfo gIpv6cpConfOpts t = Some oi" "oi_supported oi"
  shows "t = TY_INTIDENT" "oi_minLen oi = 8" "oi_maxLen oi = 8"
  using assms by (auto simp: FsmFindOptInfo_def gIpv6cpConfOpts_def split: if_splits)

lemma ipv6cp_decode_opt_cases:
  obtains "ipv6cp_decode_opt md f opt = (if md = MODE_REQ then FsmRej opt f else f)"
  | "opt_type opt = TY_INTIDENT" "unat (opt_len opt) = 10"
    "ipv6cp_decode_opt md f opt = ipv6cp_intident md opt f"
proof (cases "FsmFindOptInfo gIpv6cpConfOpts (opt_type opt)")
  case (Some oi)
  show ?thesis
  proof (cases "oi_supported oi \<and> unat (opt_len opt) = 10")
    case True
    with Some known_ipv6cp_type [OF Some] show ?thesis
      by (intro that(2)) (auto simp: ipv6cp_decode_opt_def opt_checked_def)
  next
    case False
    with Some known_ipv6cp_type [OF Some] show ?thesis
      by (intro that(1)) (auto simp: ipv6cp_decode_opt_def opt_checked_def Let_def)
  qed
qed (auto simp: ipv6cp_decode_opt_def opt_checked_def intro: that)

lemma propose_id_ctl [simp]: "ctl (propose_id opt f) = ctl f"
  by (simp add: propose_id_def case_prod_beta)

lemma propose_id_answer:
  assumes "opt_ok opt" "unat (opt_len opt) = 10"
  shows "answered opt f (propose_id opt f)"
  using assms random_id(1) [of "f_arg f"] by (auto simp: propose_id_def case_prod_beta)

interpretation ipv6cp_dec: option_decoder ipv6cp_decode_opt
proof
  fix md opt and f :: "ipv6cp_bund fsm"
  show "ctl (ipv6cp_decode_opt md f opt) = ctl f"
    by (cases md opt f rule: ipv6cp_decode_opt_cases; cases md)
      (simp_all add: ipv6cp_intident_def Let_def)
  show "md \<noteq> MODE_REQ \<Longrightarrow> bufs (ipv6cp_decode_opt md f opt) = bufs f"
    by (cases md opt f rule: ipv6cp_decode_opt_cases; cases md)
      (simp_all add: ipv6cp_intident_def Let_def)
  show "opt_ok opt \<Longrightarrow> answered opt f (ipv6cp_decode_opt MODE_REQ f opt)"
    by (cases MODE_REQ opt f rule: ipv6cp_decode_opt_cases)
      (simp_all add: ipv6cp_intident_def Let_def propose_id_answer)
qed

interpretation ipv6cp_dec: decoding_type ipv6cp_decode_opt gIpv6cpFsmType "\<lambda>_ f. f"
  by unfold_locales (simp_all add: gIpv6cpFsmType_def Ipv6cpDecodeConfig_def)

lemma Ipv6cpDecodeConfig_ctl:
  "ctl (Ipv6cpDecodeConfig f opts md) = ctl f"
  "bufs (Ipv6cpDecodeConfig f opts MODE_NOP) = bufs f"
  by (simp_all add: Ipv6cpDecodeConfig_def ipv6cp_dec.all_ctl ipv6cp_dec.all_quiet)

interpretation ipv6cp: fsm_configured gIpv6cpFsmType Ipv6cpConfigure Ipv6cpUnConfigure
  by unfold_locales
    (auto simp: gIpv6cpFsmType_def call0_def Ipv6cpLayerUp_def Ipv6cpLayerDown_def
      Ipv6cpLayerStart_def Ipv6cpLayerFinish_def Ipv6cpBuildConfigReq_def Ipv6cpDecodeConfig_ctl
      Ipv6cpConfigure_def Ipv6cpUnConfigure_def Ipv6cpFailure_def)

section \<open>What is accepted\<close>

lemma propose_complains: "f_nakBuf (propose_id opt f) \<noteq> []"
  by (simp add: propose_id_def case_prod_beta nak_nonempty)

lemma decode_opt_intident:
  assumes "opt_type opt = TY_INTIDENT"
    "f_nakBuf (ipv6cp_decode_opt MODE_REQ f opt) = []"
    "f_rejBuf (ipv6cp_decode_opt MODE_REQ f opt) = []"
  shows "\<not> list_all (\<lambda>x. x = 0) (take 8 (opt_data opt)) \<and> take 8 (opt_data opt) \<noteq> v6_myintid (f_arg f)"
  using assms(2,3) rej_nonempty propose_complains
  by (cases MODE_REQ opt f rule: ipv6cp_decode_opt_cases)
    (auto simp: ipv6cp_intident_def Let_def split: if_splits)

lemma request_keeps_myintid:
  "v6_myintid (f_arg (ipv6cp_decode_opt MODE_REQ f opt)) = v6_myintid (f_arg f)"
  by (cases MODE_REQ opt f rule: ipv6cp_decode_opt_cases)
    (auto simp: ipv6cp_intident_def Let_def propose_id_def CreateInterfaceID_def draw_def)

end
