(* ===== verification/Link.thy ===== *)
theory Link
  imports Fsm_Decode Vars
begin

unbundle bit_operations_syntax

text \<open>
  The state of a link (\<open>struct linkst\<close> of \<open>src/src/link.h\<close>, \<open>struct lcpstate\<close> of
  \<open>lcp.h\<close>, \<open>struct auth\<close> of \<open>auth.h\<close>), as far as LCP and authentication read or write
  it. Both keep it in the automaton's \<open>arg\<close>, so the operations of these components work on a
  \<open>link fsm\<close>. What a link asks of other parts (the device, the bundle, the netgraph nodes) is
  recorded in \<open>lk_calls\<close> in its order; what those parts answer is in fields of its own:
  \<open>ph_*\<close> (the device), \<open>lk_join\<close> (how \<open>BundJoin\<close> ends), the streams of magic
  numbers and random octets. C strings are octet lists without NUL.
\<close>

section \<open>Data\<close>

datatype origination = LINK_ORIGINATE_UNKNOWN | LINK_ORIGINATE_LOCAL | LINK_ORIGINATE_REMOTE

fun originate_number :: "origination \<Rightarrow> byte" where
  "originate_number LINK_ORIGINATE_UNKNOWN = 0"
| "originate_number LINK_ORIGINATE_LOCAL = 1"
| "originate_number LINK_ORIGINATE_REMOTE = 2"

datatype lcp_phase =
  PHASE_DEAD | PHASE_ESTABLISH | PHASE_AUTHENTICATE | PHASE_NETWORK | PHASE_TERMINATE

abbreviation (input) "PROTO_LCP \<equiv> (0xc021 :: u16)"
abbreviation (input) "PROTO_PAP \<equiv> (0xc023 :: u16)"
abbreviation (input) "PROTO_CHAP \<equiv> (0xc223 :: u16)"
abbreviation (input) "PROTO_EAP \<equiv> (0xc227 :: u16)"

abbreviation (input) "CHAP_ALG_MD5 \<equiv> (0x05 :: byte)"
abbreviation (input) "CHAP_ALG_MSOFT \<equiv> (0x80 :: byte)"
abbreviation (input) "CHAP_ALG_MSOFTv2 \<equiv> (0x81 :: byte)"

abbreviation (input) "LINK_CONF_PAP \<equiv> (0 :: nat)"
abbreviation (input) "LINK_CONF_CHAPMD5 \<equiv> (1 :: nat)"
abbreviation (input) "LINK_CONF_CHAPMSv1 \<equiv> (2 :: nat)"
abbreviation (input) "LINK_CONF_CHAPMSv2 \<equiv> (3 :: nat)"
abbreviation (input) "LINK_CONF_EAP \<equiv> (4 :: nat)"
abbreviation (input) "LINK_CONF_ACFCOMP \<equiv> (6 :: nat)"
abbreviation (input) "LINK_CONF_PROTOCOMP \<equiv> (7 :: nat)"
abbreviation (input) "LINK_CONF_MSDOMAIN \<equiv> (8 :: nat)"
abbreviation (input) "LINK_CONF_MAGICNUM \<equiv> (9 :: nat)"
abbreviation (input) "LINK_CONF_PASSIVE \<equiv> (10 :: nat)"
abbreviation (input) "LINK_CONF_CHECK_MAGIC \<equiv> (11 :: nat)"
abbreviation (input) "LINK_CONF_NO_ORIG_AUTH \<equiv> (13 :: nat)"
abbreviation (input) "LINK_CONF_CALLBACK \<equiv> (14 :: nat)"
abbreviation (input) "LINK_CONF_MULTILINK \<equiv> (15 :: nat)"
abbreviation (input) "LINK_CONF_SHORTSEQ \<equiv> (16 :: nat)"
abbreviation (input) "LINK_CONF_TIMEREMAIN \<equiv> (17 :: nat)"

text \<open>The discriminator of a multilink endpoint: its class and the octets in use.\<close>

record discrim =
  d_class :: byte
  d_bytes :: "byte list"

record lcpauthproto =
  lap_proto :: u16
  lap_alg :: byte
  lap_conf :: nat

text \<open>The pointers into \<open>gLcpAuthProtos\<close> the lists of protocols hold, by the entry they point
  to.\<close>

datatype auth_entry = AuthPap | AuthChapMd5 | AuthChapMsv1 | AuthChapMsv2 | AuthEap

fun auth_index :: "auth_entry \<Rightarrow> nat" where
  "auth_index AuthPap = LINK_CONF_PAP"
| "auth_index AuthChapMd5 = LINK_CONF_CHAPMD5"
| "auth_index AuthChapMsv1 = LINK_CONF_CHAPMSv1"
| "auth_index AuthChapMsv2 = LINK_CONF_CHAPMSv2"
| "auth_index AuthEap = LINK_CONF_EAP"

record lcpstate =
  lp_phase :: lcp_phase
  lp_peer_protos :: "auth_entry option list"
  lp_peer_accmap :: u32
  lp_peer_magic :: u32
  lp_peer_mru :: u16
  lp_peer_auth :: u16
  lp_peer_mrru :: u16
  lp_peer_alg :: byte
  lp_peer_protocomp :: bool
  lp_peer_acfcomp :: bool
  lp_peer_shortseq :: bool
  lp_want_protos :: "auth_entry option list"
  lp_want_accmap :: u32
  lp_want_magic :: u32
  lp_want_mru :: u16
  lp_want_auth :: u16
  lp_want_mrru :: u16
  lp_want_alg :: byte
  lp_want_protocomp :: bool
  lp_want_acfcomp :: bool
  lp_want_shortseq :: bool
  lp_want_callback :: bool
  lp_peer_discrim :: discrim
  lp_peer_ident :: "byte list"
  lp_peer_reject :: u32
  lp_need_reset :: bool

section \<open>Authentication\<close>

record papinfo =
  pap_next_id :: short
  pap_retry :: short
  pap_timer :: ppp_timer

record chapinfo =
  ch_proto :: u16
  ch_next_id :: short
  ch_retry :: short
  ch_chalTimer :: ppp_timer
  ch_respTimer :: ppp_timer
  ch_resp :: "byte list option"
  ch_resp_id :: byte

record eapinfo =
  eap_next_id :: short
  eap_retry :: short
  eap_identTimer :: ppp_timer
  eap_reqTimer :: ppp_timer
  eap_identity :: "byte list"
  eap_peer_types :: "byte list"
  eap_want_types :: "byte list"
  eap_options :: optinfo

text \<open>The parameters of \<open>struct authparams\<close> that PAP, CHAP and EAP use. \<open>cp_chal\<close> are the
  first \<open>chal_len\<close> octets of \<open>chal_data\<close>; \<open>cp_value\<close> is the array of 64 octets.\<close>

record authparams =
  ap_authname :: "byte list"
  ap_password :: "byte list"
  ap_peer_name :: "byte list"
  ap_peer_pass :: "byte list"
  cp_chal :: "byte list"
  cp_value :: "byte list"
  cp_value_len :: nat
  ms_chap_alg :: byte
  ms_has_nt_hash :: bool
  ms_nt_hash :: "byte list"
  ms_nt_hash_hash :: "byte list"
  ms_lm_hash :: "byte list"
  ms_has_lm_hash :: bool
  ms_msChal :: "byte list"
  ms_ntResp :: "byte list"
  ap_session_timeout :: u32
  ap_action :: "byte list"
  ap_eapmsg :: "byte list option"
  ap_authentic :: nat

datatype auth_status =
  AUTH_STATUS_UNDEF | AUTH_STATUS_FAIL | AUTH_STATUS_SUCCESS | AUTH_STATUS_BUSY

datatype why_fail =
  AUTH_FAIL_INVALID_LOGIN | AUTH_FAIL_ACCT_DISABLED | AUTH_FAIL_NO_PERMISSION
| AUTH_FAIL_RESTRICTED_HOURS | AUTH_FAIL_INVALID_PACKET | AUTH_FAIL_NOT_EXPECTED

datatype auth_finish = FinishNone | PapInputFinish_fn | ChapInputFinish_fn | EapRadiusProxyFinish_fn

record authdata =
  ad_proto :: u16
  ad_alg :: byte
  ad_id :: byte
  ad_code :: byte
  ad_status :: auth_status
  ad_why_fail :: why_fail
  ad_reply_message :: "byte list option"
  ad_mschap_error :: "byte list option"
  ad_mschapv2resp :: "byte list option"
  ad_finish :: auth_finish
  ad_params :: authparams
  ad_options :: optinfo                \<comment> \<open>\<open>conf.options\<close>\<close>
  ad_eap_radius :: bool

record auth =
  au_peer_to_self :: u16
  au_self_to_peer :: u16
  au_peer_to_self_alg :: byte
  au_self_to_peer_alg :: byte
  au_timer :: ppp_timer
  au_pap :: papinfo
  au_chap :: chapinfo
  au_eap :: eapinfo
  au_thread :: "authdata option"    \<comment> \<open>the request a thread is working on\<close>
  au_params :: authparams
  au_conf_authname :: "byte list"
  au_conf_password :: "byte list"
  au_conf_timeout :: int
  au_conf_options :: optinfo

section \<open>Links\<close>

datatype link_call =
  CallPhysOpen | CallPhysClose | CallPhysSetAccm u32 u32
| CallNgInit | CallNgShutdown
| CallShutdownCheck fsm_state
| CallBundJoin | CallBundLeave
| CallAuthFrame u16 "byte list"       \<comment> \<open>\<open>NgFuncWritePppFrameLink\<close>\<close>
| CallRejectedProtocol u16            \<comment> \<open>\<open>FsmFailure (rej, FAIL_WAS_PROTREJ)\<close> of that protocol\<close>
| CallReason fsmfail                  \<comment> \<open>\<open>RecordLinkUpDownReason\<close> of \<open>LcpFailure\<close>\<close>
| CallReasonAuth | CallReasonJoin
| CallRepeat                          \<comment> \<open>\<open>RepIncoming\<close> and \<open>LinkNgToRep\<close>\<close>

text \<open>\<open>BundJoin\<close> refuses, fails in netgraph (then the link belongs to no bundle) or succeeds.\<close>

datatype join_result = JoinRefused | JoinFailed | Joined

record link =
  lk_options :: optinfo
  lk_mrru :: u16
  lk_accmap :: u32
  lk_retry_timeout :: short
  lk_ident :: "byte list option"
  lk_originate :: origination
  lk_joined_bund :: bool
  lk_has_bund :: bool
  lk_rep :: bool
  lk_num_redial :: u16
  lk_openTimer :: ppp_timer
  lk_recvFrames :: "u32 option"
  lk_join :: join_result
  ph_mtu :: u16                         \<comment> \<open>\<open>PhysGetMtu (l, 1)\<close>\<close>
  ph_mru_conf :: u16                    \<comment> \<open>\<open>PhysGetMru (l, 1)\<close>\<close>
  ph_mru :: u16                         \<comment> \<open>\<open>PhysGetMru (l, 0)\<close>\<close>
  ph_type_mru :: "u16 option"           \<comment> \<open>\<open>l->type->mru\<close>; \<open>None\<close> without a type\<close>
  ph_sync :: bool
  lk_magic :: "nat \<Rightarrow> u32"
  lk_magic_pos :: nat
  lk_secret :: "byte list \<Rightarrow> byte list option"   \<comment> \<open>what \<open>AuthGetData\<close> finds for a name\<close>
  lk_stack :: "byte list"               \<comment> \<open>what an uninitialised string on the stack holds\<close>
  lk_random :: "nat \<Rightarrow> byte"
  lk_random_pos :: nat
  lk_self_discrim :: discrim
  lk_lcp :: lcpstate
  lk_auth :: auth
  lk_calls :: "link_call list"

definition link_call :: "link_call \<Rightarrow> link fsm \<Rightarrow> link fsm" where
  "link_call c = upd_arg (\<lambda>l. l\<lparr>lk_calls := lk_calls l @ [c]\<rparr>)"

definition upd_lcp :: "(lcpstate \<Rightarrow> lcpstate) \<Rightarrow> link fsm \<Rightarrow> link fsm" where
  "upd_lcp g = upd_arg (\<lambda>l. l\<lparr>lk_lcp := g (lk_lcp l)\<rparr>)"

definition upd_auth :: "(auth \<Rightarrow> auth) \<Rightarrow> link fsm \<Rightarrow> link fsm" where
  "upd_auth g = upd_arg (\<lambda>l. l\<lparr>lk_auth := g (lk_auth l)\<rparr>)"

abbreviation (input) "the_lcp f \<equiv> lk_lcp (f_arg f)"
abbreviation (input) "the_auth f \<equiv> lk_auth (f_arg f)"

definition GenerateMagic :: "link \<Rightarrow> u32 \<times> link" where
  "GenerateMagic l = (lk_magic l (lk_magic_pos l), l\<lparr>lk_magic_pos := lk_magic_pos l + 1\<rparr>)"

text \<open>\<open>TimerStart\<close> of a timer of the authentication; it asserts that the timer has a handler.\<close>

definition auth_timer_start ::
  "(auth \<Rightarrow> ppp_timer) \<Rightarrow> (ppp_timer \<Rightarrow> auth \<Rightarrow> auth) \<Rightarrow> link fsm \<Rightarrow> link fsm" where
  "auth_timer_start sel upd f =
     (case TimerStart2 (sel (the_auth f)) of
        None \<Rightarrow> fsm_abort f | Some t \<Rightarrow> upd_auth (upd t) f)"

section \<open>Strings\<close>

definition cstr :: "byte list \<Rightarrow> byte list" where
  "cstr xs = takeWhile (\<lambda>b. b \<noteq> 0) xs"

definition strlcpy :: "nat \<Rightarrow> byte list \<Rightarrow> byte list" where
  "strlcpy n xs = take (n - 1) (cstr xs)"

definition ascii :: "string \<Rightarrow> byte list" where
  "ascii s = map of_char s"

lemmas link_defs = link_call_def upd_lcp_def upd_auth_def

lemma link_ops_ctl [simp]:
  "ctl (link_call c f) = ctl f" "ctl (upd_lcp g f) = ctl f" "ctl (upd_auth h f) = ctl f"
  by (simp_all add: link_defs)

lemma link_ops_bufs [simp]:
  "bufs (link_call c f) = bufs f" "bufs (upd_lcp g f) = bufs f" "bufs (upd_auth h f) = bufs f"
  by (simp_all add: link_defs)

end
