(* ===== verification/Auth_Start.thy ===== *)
theory Auth_Start
  imports Link
begin

unbundle bit_operations_syntax

text \<open>
  Starting and stopping the authentication protocols, and sending their packets: \<open>AuthOutput\<close>,
  \<open>AuthStop\<close> and \<open>AuthCleanup\<close> of \<open>src/src/auth.c\<close>, \<open>PapStart\<close> and
  \<open>PapSendRequest\<close> of \<open>pap.c\<close>, \<open>ChapStart\<close> and \<open>ChapSendChallenge\<close> of
  \<open>chap.c\<close>, \<open>EapStart\<close> of \<open>eap.c\<close>. None of them calls back into LCP.
\<close>

datatype auth_side = AUTH_PEER_TO_SELF | AUTH_SELF_TO_PEER

definition AUTH_RETRIES :: short where "AUTH_RETRIES = 5"

section \<open>Packets\<close>

text \<open>The header, for EAP the type, then (with \<open>add_len\<close>) the length of the text, and the text.\<close>

definition auth_packet ::
  "u16 \<Rightarrow> byte \<Rightarrow> byte \<Rightarrow> byte list \<Rightarrow> bool \<Rightarrow> byte \<Rightarrow> byte list" where
  "auth_packet proto code i xs add_len eap_type =
     (let plen = 4 + length xs + (if add_len then 1 else 0) + (if proto = PROTO_EAP then 1 else 0)
      in [code, i] @ be16 (of_nat plen) @ (if proto = PROTO_EAP then [eap_type] else [])
           @ (if add_len then [of_nat (length xs)] else []) @ xs)"

definition AuthOutput ::
  "u16 \<Rightarrow> byte \<Rightarrow> byte \<Rightarrow> byte list \<Rightarrow> bool \<Rightarrow> byte \<Rightarrow> link fsm \<Rightarrow> link fsm" where
  "AuthOutput proto code i xs add_len eap_type =
     link_call (CallAuthFrame proto (auth_packet proto code i xs add_len eap_type))"

section \<open>PAP\<close>

abbreviation (input) "PAP_REQUEST \<equiv> (1 :: byte)"
abbreviation (input) "PAP_ACK \<equiv> (2 :: byte)"
abbreviation (input) "PAP_NAK \<equiv> (3 :: byte)"

definition upd_pap :: "(papinfo \<Rightarrow> papinfo) \<Rightarrow> link fsm \<Rightarrow> link fsm" where
  "upd_pap g = upd_auth (\<lambda>a. a\<lparr>au_pap := g (au_pap a)\<rparr>)"

text \<open>The password: configured, found in the secrets file, or what the stack holds.\<close>

definition pap_password :: "link \<Rightarrow> byte list" where
  "pap_password l =
     (let a = lk_auth l in
      if au_conf_password a \<noteq> [] then strlcpy 64 (au_conf_password a)
      else if au_conf_authname a = [] then cstr (lk_stack l)
      else case lk_secret l (au_conf_authname a) of
        Some p \<Rightarrow> strlcpy 64 p | None \<Rightarrow> cstr (lk_stack l))"

definition PapSendRequest :: "link fsm \<Rightarrow> link fsm" where
  "PapSendRequest f =
     (let name = au_conf_authname (the_auth f); pass = pap_password (f_arg f);
          pkt = [of_nat (length name)] @ name @ [of_nat (length pass)] @ pass;
          i = pap_next_id (au_pap (the_auth f));
          f = upd_pap (\<lambda>p. p\<lparr>pap_next_id := i + 1\<rparr>) f
      in AuthOutput PROTO_PAP PAP_REQUEST (ucast i) pkt False 0 f)"

definition retry_load :: "link fsm \<Rightarrow> int" where
  "retry_load f = sint (lk_retry_timeout (f_arg f)) * SECONDS"

definition PapStart :: "auth_side \<Rightarrow> link fsm \<Rightarrow> link fsm" where
  "PapStart which f = (case which of
     AUTH_PEER_TO_SELF \<Rightarrow> f
   | AUTH_SELF_TO_PEER \<Rightarrow>
       (let f = upd_pap (\<lambda>p. p\<lparr>pap_next_id := 1, pap_retry := AUTH_RETRIES,
                  pap_timer := TimerInit2 (retry_load f) (pap_timer p)\<rparr>) f;
            f = auth_timer_start (\<lambda>a. pap_timer (au_pap a))
                  (\<lambda>t a. a\<lparr>au_pap := (au_pap a)\<lparr>pap_timer := t\<rparr>\<rparr>) f
        in PapSendRequest f))"

definition PapStop :: "papinfo \<Rightarrow> papinfo" where
  "PapStop p = p\<lparr>pap_timer := TimerStop2 (pap_timer p)\<rparr>"

definition PapTimeout :: "link fsm \<Rightarrow> link fsm" where
  "PapTimeout f =
     (let f = upd_pap (\<lambda>p. p\<lparr>pap_retry := pap_retry p - 1\<rparr>) f in
      if 0 <s pap_retry (au_pap (the_auth f))
      then PapSendRequest (auth_timer_start (\<lambda>a. pap_timer (au_pap a))
             (\<lambda>t a. a\<lparr>au_pap := (au_pap a)\<lparr>pap_timer := t\<rparr>\<rparr>) f)
      else f)"

section \<open>CHAP\<close>

abbreviation (input) "CHAP_CHALLENGE \<equiv> (1 :: byte)"
abbreviation (input) "CHAP_RESPONSE \<equiv> (2 :: byte)"
abbreviation (input) "CHAP_SUCCESS \<equiv> (3 :: byte)"
abbreviation (input) "CHAP_FAILURE \<equiv> (4 :: byte)"
abbreviation (input) "CHAP_MS_V1_CHANGE_PW \<equiv> (5 :: byte)"
abbreviation (input) "CHAP_MS_V2_CHANGE_PW \<equiv> (7 :: byte)"
abbreviation (input) "EAP_REQUEST \<equiv> (1 :: byte)"
abbreviation (input) "EAP_RESPONSE \<equiv> (2 :: byte)"
abbreviation (input) "EAP_SUCCESS \<equiv> (3 :: byte)"
abbreviation (input) "EAP_FAILURE \<equiv> (4 :: byte)"
abbreviation (input) "EAP_TYPE_IDENT \<equiv> (1 :: byte)"
abbreviation (input) "EAP_TYPE_NOTIF \<equiv> (2 :: byte)"
abbreviation (input) "EAP_TYPE_NAK \<equiv> (3 :: byte)"
abbreviation (input) "EAP_TYPE_MD5CHAL \<equiv> (4 :: byte)"

definition upd_chap :: "(chapinfo \<Rightarrow> chapinfo) \<Rightarrow> link fsm \<Rightarrow> link fsm" where
  "upd_chap g = upd_auth (\<lambda>a. a\<lparr>au_chap := g (au_chap a)\<rparr>)"

definition upd_params :: "(authparams \<Rightarrow> authparams) \<Rightarrow> link fsm \<Rightarrow> link fsm" where
  "upd_params g = upd_auth (\<lambda>a. a\<lparr>au_params := g (au_params a)\<rparr>)"

text \<open>\<open>ChapGenRandom\<close>: three identifying octets with the origination in the top bits of the
  first, then random octets.\<close>

definition gIdBytes :: "byte list" where
  "gIdBytes = [0x3b, 0x1e, 0x68]"

definition ChapGenRandom :: "nat \<Rightarrow> link \<Rightarrow> byte list \<times> link" where
  "ChapGenRandom n l =
     (let ident = take n gIdBytes;
          ident = (case ident of [] \<Rightarrow> []
            | x # xs \<Rightarrow> (x OR push_bit 6 (originate_number (lk_originate l) AND 0x03)) # xs);
          k = n - length ident
      in (ident @ map (\<lambda>i. lk_random l (lk_random_pos l + i)) [0..<k],
          l\<lparr>lk_random_pos := lk_random_pos l + k\<rparr>))"

definition chap_new_challenge :: "nat \<Rightarrow> link fsm \<Rightarrow> link fsm" where
  "chap_new_challenge n f =
     (let (c, l) = ChapGenRandom n (f_arg f)
      in upd_params (\<lambda>p. p\<lparr>cp_chal := c\<rparr>) (f\<lparr>f_arg := l\<rparr>))"

definition remember_msChal :: "link fsm \<Rightarrow> link fsm" where
  "remember_msChal f =
     (if lk_originate (f_arg f) = LINK_ORIGINATE_REMOTE
      then upd_params (\<lambda>p. p\<lparr>ms_msChal := cp_chal p @ drop (length (cp_chal p)) (ms_msChal p)\<rparr>) f
      else f)"

text \<open>One value of \<open>random ()\<close>; an MD5 challenge has a random length from 16 to 47.\<close>

definition draw_random :: "link fsm \<Rightarrow> byte \<times> link fsm" where
  "draw_random f = (lk_random (f_arg f) (lk_random_pos (f_arg f)),
     upd_arg (\<lambda>l. l\<lparr>lk_random_pos := lk_random_pos l + 1\<rparr>) f)"

text \<open>An unknown algorithm is an assertion.\<close>

definition chap_make_challenge :: "link fsm \<Rightarrow> link fsm" where
  "chap_make_challenge f =
     (let alg = au_peer_to_self_alg (the_auth f) in
      if cp_chal (au_params (the_auth f)) \<noteq> [] then f
      else if alg = CHAP_ALG_MSOFT then remember_msChal (chap_new_challenge 8 f)
      else if alg = CHAP_ALG_MSOFTv2 then remember_msChal (chap_new_challenge 16 f)
      else if alg = CHAP_ALG_MD5
      then (let (r, f) = draw_random f in chap_new_challenge (unat r mod 32 + 16) f)
      else fsm_abort f)"

definition ChapSendChallenge :: "link fsm \<Rightarrow> link fsm" where
  "ChapSendChallenge f =
     (let f = chap_make_challenge f;
          chal = cp_chal (au_params (the_auth f));
          proto = ch_proto (au_chap (the_auth f));
          i = ch_next_id (au_chap (the_auth f));
          pkt = [of_nat (length chal)] @ chal @ au_conf_authname (the_auth f);
          f = upd_chap (\<lambda>c. c\<lparr>ch_next_id := i + 1\<rparr>) f
      in AuthOutput proto (if proto = PROTO_CHAP then CHAP_CHALLENGE else EAP_REQUEST) (ucast i)
           pkt False EAP_TYPE_MD5CHAL f)"

definition ms_alg :: "link fsm \<Rightarrow> byte" where
  "ms_alg f = (if lk_originate (f_arg f) = LINK_ORIGINATE_LOCAL
     then au_self_to_peer_alg (the_auth f) else au_peer_to_self_alg (the_auth f))"

text \<open>Arming the challenge timer and sending the first challenge, as \<open>ChapStart\<close> and
  \<open>EapSendRequest\<close> do.\<close>

definition chap_first_challenge :: "link fsm \<Rightarrow> link fsm" where
  "chap_first_challenge f =
     (let f = upd_params (\<lambda>p. p\<lparr>cp_chal := []\<rparr>) f;
          f = upd_chap (\<lambda>c. c\<lparr>ch_next_id := 1, ch_retry := AUTH_RETRIES,
                ch_chalTimer := TimerInit2 (retry_load f) (ch_chalTimer c)\<rparr>) f;
          f = auth_timer_start (\<lambda>a. ch_chalTimer (au_chap a))
                (\<lambda>t a. a\<lparr>au_chap := (au_chap a)\<lparr>ch_chalTimer := t\<rparr>\<rparr>) f
      in ChapSendChallenge f)"

definition ChapStart :: "auth_side \<Rightarrow> link fsm \<Rightarrow> link fsm" where
  "ChapStart which f =
     (let f = upd_chap (\<lambda>c. c\<lparr>ch_proto := PROTO_CHAP\<rparr>) f;
          f = upd_params (\<lambda>p. p\<lparr>ms_chap_alg := ms_alg f\<rparr>) f
      in case which of
        AUTH_SELF_TO_PEER \<Rightarrow> f
      | AUTH_PEER_TO_SELF \<Rightarrow> chap_first_challenge f)"

definition ChapStop :: "chapinfo \<Rightarrow> chapinfo" where
  "ChapStop c = c\<lparr>ch_chalTimer := TimerStop2 (ch_chalTimer c),
                  ch_respTimer := TimerStop2 (ch_respTimer c), ch_resp := None\<rparr>"

definition ChapChalTimeout :: "link fsm \<Rightarrow> link fsm" where
  "ChapChalTimeout f =
     (let f = upd_chap (\<lambda>c. c\<lparr>ch_retry := ch_retry c - 1\<rparr>) f in
      if 0 <s ch_retry (au_chap (the_auth f))
      then ChapSendChallenge (auth_timer_start (\<lambda>a. ch_chalTimer (au_chap a))
             (\<lambda>t a. a\<lparr>au_chap := (au_chap a)\<lparr>ch_chalTimer := t\<rparr>\<rparr>) f)
      else f)"

section \<open>EAP\<close>

definition EAP_NUM_TYPES :: nat where "EAP_NUM_TYPES = 29"

definition upd_eap :: "(eapinfo \<Rightarrow> eapinfo) \<Rightarrow> link fsm \<Rightarrow> link fsm" where
  "upd_eap g = upd_auth (\<lambda>a. a\<lparr>au_eap := g (au_eap a)\<rparr>)"

definition EapSendIdentRequest :: "link fsm \<Rightarrow> link fsm" where
  "EapSendIdentRequest f =
     (let i = eap_next_id (au_eap (the_auth f));
          f = upd_eap (\<lambda>e. e\<lparr>eap_next_id := i + 1\<rparr>) f
      in AuthOutput PROTO_EAP EAP_REQUEST (ucast i) [] False EAP_TYPE_IDENT f)"

text \<open>The type lists start empty, but for MD5 in the first place when it is enabled
  (\<open>EAP_CONF_MD5\<close> is option 1).\<close>

definition eap_types :: "bool \<Rightarrow> byte list" where
  "eap_types md5 = (if md5 then EAP_TYPE_MD5CHAL else 0) # replicate (EAP_NUM_TYPES - 1) 0"

definition eap_timer_start :: "link fsm \<Rightarrow> link fsm" where
  "eap_timer_start = auth_timer_start (\<lambda>a. eap_identTimer (au_eap a))
     (\<lambda>t a. a\<lparr>au_eap := (au_eap a)\<lparr>eap_identTimer := t\<rparr>\<rparr>)"

definition EapStart :: "auth_side \<Rightarrow> link fsm \<Rightarrow> link fsm" where
  "EapStart which f =
     (let f = upd_eap (\<lambda>e. e\<lparr>eap_want_types := eap_types (Enabled (eap_options e) 1),
                             eap_peer_types := eap_types (Acceptable (eap_options e) 1)\<rparr>) f;
          f = upd_params (\<lambda>p. p\<lparr>ms_chap_alg := ms_alg f\<rparr>) f
      in case which of
        AUTH_SELF_TO_PEER \<Rightarrow> f
      | AUTH_PEER_TO_SELF \<Rightarrow>
          EapSendIdentRequest (eap_timer_start
            (upd_eap (\<lambda>e. e\<lparr>eap_next_id := 1, eap_retry := AUTH_RETRIES,
               eap_reqTimer := TimerInit2 (retry_load f) (eap_reqTimer e),
               eap_identTimer := TimerInit2 (retry_load f) (eap_identTimer e)\<rparr>) f)))"

definition EapStop :: "eapinfo \<Rightarrow> eapinfo" where
  "EapStop e = e\<lparr>eap_identTimer := TimerStop2 (eap_identTimer e),
                 eap_reqTimer := TimerStop2 (eap_reqTimer e)\<rparr>"

definition EapIdentTimeout :: "link fsm \<Rightarrow> link fsm" where
  "EapIdentTimeout f =
     (let f = upd_eap (\<lambda>e. e\<lparr>eap_retry := eap_retry e - 1\<rparr>) f in
      if 0 <s eap_retry (au_eap (the_auth f))
      then EapSendIdentRequest (eap_timer_start f) else f)"

section \<open>Stopping\<close>

definition AuthStop :: "link fsm \<Rightarrow> link fsm" where
  "AuthStop = upd_auth (\<lambda>a. a\<lparr>au_timer := TimerStop2 (au_timer a), au_pap := PapStop (au_pap a),
     au_chap := ChapStop (au_chap a), au_eap := EapStop (au_eap a), au_thread := None\<rparr>)"

text \<open>\<open>authparamsInit\<close> and \<open>authparamsDestroy\<close> leave all octets zero.\<close>

definition params_zero :: authparams where
  "params_zero = \<lparr>ap_authname = [], ap_password = [], ap_peer_name = [], ap_peer_pass = [],
     cp_chal = [], cp_value = replicate 64 0, cp_value_len = 0, ms_chap_alg = 0,
     ms_has_nt_hash = False, ms_nt_hash = replicate 16 0, ms_nt_hash_hash = replicate 16 0,
     ms_lm_hash = replicate 16 0, ms_has_lm_hash = False, ms_msChal = replicate 16 0,
     ms_ntResp = replicate 24 0, ap_session_timeout = 0, ap_action = [], ap_eapmsg = None,
     ap_authentic = 0\<rparr>"

definition AuthCleanup :: "link fsm \<Rightarrow> link fsm" where
  "AuthCleanup = upd_params (\<lambda>_. params_zero)"

end
