(* ===== verification/Lcp.thy ===== *)
theory Lcp
  imports Auth_Start
begin

unbundle bit_operations_syntax

text \<open>
  LCP (\<open>src/src/lcp.c\<close>): options of the link, and its phases. LCP is re-entrant: entering
  the authentication phase may authenticate at once (\<open>AuthStart\<close>), join the bundle and, when the
  bundle refuses, make the automaton fail while it is still changing state. The descriptor is
  therefore defined by levels: \<open>gLcpFsmType n\<close> answers \<open>n\<close> nested changes of state and aborts at
  the next. Two are enough for everything the program does (\<open>Lcp_Phases\<close>).
\<close>

section \<open>Constants and tables\<close>

abbreviation (input) "TY_VENDOR \<equiv> (0 :: byte)"
abbreviation (input) "TY_MRU \<equiv> (1 :: byte)"
abbreviation (input) "TY_ACCMAP \<equiv> (2 :: byte)"
abbreviation (input) "TY_AUTHPROTO \<equiv> (3 :: byte)"
abbreviation (input) "TY_MAGICNUM \<equiv> (5 :: byte)"
abbreviation (input) "TY_PROTOCOMP \<equiv> (7 :: byte)"
abbreviation (input) "TY_ACFCOMP \<equiv> (8 :: byte)"
abbreviation (input) "TY_CALLBACK \<equiv> (13 :: byte)"
abbreviation (input) "TY_MRRU \<equiv> (17 :: byte)"
abbreviation (input) "TY_SHORTSEQNUM \<equiv> (18 :: byte)"
abbreviation (input) "TY_ENDPOINTDISC \<equiv> (19 :: byte)"

definition LCP_MIN_MRU :: u16 where "LCP_MIN_MRU = 296"
definition MP_MIN_MRRU :: u16 where "MP_MIN_MRRU = LCP_MIN_MRU"
definition LCP_ECHO_INTERVAL :: short where "LCP_ECHO_INTERVAL = 5"
definition LCP_ECHO_TIMEOUT :: short where "LCP_ECHO_TIMEOUT = 40"
definition LCP_NUM_AUTH_PROTOS :: nat where "LCP_NUM_AUTH_PROTOS = 5"

text \<open>The codes 1 to 13.\<close>

definition LCP_KNOWN_CODES :: u16 where
  "LCP_KNOWN_CODES = push_bit 1 1 OR push_bit 2 1 OR push_bit 3 1 OR push_bit 4 1 OR push_bit 5 1
     OR push_bit 6 1 OR push_bit 7 1 OR push_bit 8 1 OR push_bit 9 1 OR push_bit 10 1
     OR push_bit 11 1 OR push_bit 12 1 OR push_bit 13 1"

definition LCP_PEER_REJECTED :: "lcpstate \<Rightarrow> byte \<Rightarrow> bool" where
  "LCP_PEER_REJECTED p x = mask_test (lp_peer_reject p) (unat x)"

definition LCP_PEER_REJ :: "byte \<Rightarrow> lcpstate \<Rightarrow> lcpstate" where
  "LCP_PEER_REJ x p = p\<lparr>lp_peer_reject := mask_set (lp_peer_reject p) (unat x)\<rparr>"

definition LCP_PEER_UNREJ :: "byte \<Rightarrow> lcpstate \<Rightarrow> lcpstate" where
  "LCP_PEER_UNREJ x p = p\<lparr>lp_peer_reject := mask_clear (lp_peer_reject p) (unat x)\<rparr>"

definition lcp_opt :: "string \<Rightarrow> byte \<Rightarrow> byte \<Rightarrow> byte \<Rightarrow> bool \<Rightarrow> fsmoptinfo" where
  "lcp_opt name ty lo hi supp =
     \<lparr>oi_name = name, oi_type = ty, oi_minLen = lo, oi_maxLen = hi, oi_supported = supp\<rparr>"

definition gLcpConfOpts :: "fsmoptinfo list" where
  "gLcpConfOpts =
     [lcp_opt ''VENDOR'' TY_VENDOR 4 255 True, lcp_opt ''MRU'' TY_MRU 2 2 True,
      lcp_opt ''ACCMAP'' TY_ACCMAP 4 4 True, lcp_opt ''AUTHPROTO'' TY_AUTHPROTO 2 255 True,
      lcp_opt ''QUALPROTO'' 4 0 0 False, lcp_opt ''MAGICNUM'' TY_MAGICNUM 4 4 True,
      lcp_opt ''RESERVED'' 6 0 0 False, lcp_opt ''PROTOCOMP'' TY_PROTOCOMP 0 0 True,
      lcp_opt ''ACFCOMP'' TY_ACFCOMP 0 0 True, lcp_opt ''FCSALT'' 9 0 0 False,
      lcp_opt ''SDP'' 10 0 0 False, lcp_opt ''NUMMODE'' 11 0 0 False,
      lcp_opt ''MULTILINK'' 12 0 0 False, lcp_opt ''CALLBACK'' TY_CALLBACK 1 255 True,
      lcp_opt ''CONNECTTIME'' 14 0 0 False, lcp_opt ''COMPFRAME'' 15 0 0 False,
      lcp_opt ''NDS'' 16 0 0 False, lcp_opt ''MP MRRU'' TY_MRRU 2 2 True,
      lcp_opt ''MP SHORTSEQ'' TY_SHORTSEQNUM 0 0 True,
      lcp_opt ''ENDPOINTDISC'' TY_ENDPOINTDISC 1 255 True, lcp_opt ''PROPRIETARY'' 20 0 0 False,
      lcp_opt ''DCEIDENTIFIER'' 21 0 0 False, lcp_opt ''MULTILINKPLUS'' 22 0 0 False,
      lcp_opt ''BACP'' 23 0 0 False, lcp_opt ''LCPAUTHOPT'' 24 0 0 False,
      lcp_opt ''COBS'' 25 0 0 False, lcp_opt ''PREFIXELISION'' 26 0 0 False,
      lcp_opt ''MULTILINKHEADERFMT'' 27 0 0 False, lcp_opt ''INTERNAT'' 28 0 0 False,
      lcp_opt ''SDATALINKSONET'' 29 0 0 False]"

definition auth_proto :: "u16 \<Rightarrow> byte \<Rightarrow> nat \<Rightarrow> lcpauthproto" where
  "auth_proto p a c = \<lparr>lap_proto = p, lap_alg = a, lap_conf = c\<rparr>"

definition gLcpAuthProtos :: "lcpauthproto list" where
  "gLcpAuthProtos =
     [auth_proto PROTO_PAP 0 LINK_CONF_PAP,
      auth_proto PROTO_CHAP CHAP_ALG_MD5 LINK_CONF_CHAPMD5,
      auth_proto PROTO_CHAP CHAP_ALG_MSOFT LINK_CONF_CHAPMSv1,
      auth_proto PROTO_CHAP CHAP_ALG_MSOFTv2 LINK_CONF_CHAPMSv2,
      auth_proto PROTO_EAP 0 LINK_CONF_EAP]"

section \<open>Configuring\<close>

definition auth_of :: "auth_entry \<Rightarrow> lcpauthproto" where
  "auth_of q = gLcpAuthProtos ! auth_index q"

text \<open>The protocols from most to least secure.\<close>

definition auth_preference :: "auth_entry list" where
  "auth_preference = [AuthChapMsv2, AuthChapMsv1, AuthChapMd5, AuthPap, AuthEap]"

text \<open>The loop over the five protocols: the first enabled one is requested and leaves the list, as
  do the disabled ones; the denied ones leave the peer's list.\<close>

definition configure_proto :: "optinfo \<Rightarrow> auth_entry \<Rightarrow> lcpstate \<Rightarrow> lcpstate" where
  "configure_proto opts q p =
     (let a = auth_of q;
          p = (if Enabled opts (lap_conf a) \<and> lp_want_auth p = 0
               then p\<lparr>lp_want_auth := lap_proto a, lp_want_alg := lap_alg a,
                      lp_want_protos := lp_want_protos p @ [None]\<rparr>
               else if \<not> Enabled opts (lap_conf a)
               then p\<lparr>lp_want_protos := lp_want_protos p @ [None]\<rparr>
               else p\<lparr>lp_want_protos := lp_want_protos p @ [Some q]\<rparr>)
      in p\<lparr>lp_peer_protos := lp_peer_protos p @
             [if Acceptable opts (lap_conf a) then Some q else None]\<rparr>)"

definition configure_protos :: "optinfo \<Rightarrow> lcpstate \<Rightarrow> lcpstate" where
  "configure_protos opts p =
     fold (configure_proto opts) auth_preference (p\<lparr>lp_want_protos := [], lp_peer_protos := []\<rparr>)"

definition lcp_configure :: "link \<Rightarrow> link" where
  "lcp_configure l =
     (let opts = lk_options l; p = lk_lcp l;
          want_mru = (if ph_type_mru l \<noteq> None \<and> ph_mru l < ph_mru_conf l then ph_mru l
                      else ph_mru_conf l);
          p = p\<lparr>lp_peer_reject := 0, lp_need_reset := False,
                lp_peer_mru := ph_mtu l, lp_want_mru := want_mru,
                lp_peer_accmap := 0xffffffff, lp_want_accmap := lk_accmap l,
                lp_peer_acfcomp := False, lp_want_acfcomp := Enabled opts LINK_CONF_ACFCOMP,
                lp_peer_protocomp := False, lp_want_protocomp := Enabled opts LINK_CONF_PROTOCOMP,
                lp_peer_magic := 0\<rparr>;
          (magic, l) = (if Enabled opts LINK_CONF_MAGICNUM then GenerateMagic l else (0, l));
          p = p\<lparr>lp_want_magic := magic,
                lp_want_callback := lk_originate l = LINK_ORIGINATE_LOCAL \<and>
                  Enabled opts LINK_CONF_CALLBACK,
                lp_peer_auth := 0, lp_want_auth := 0, lp_peer_alg := 0, lp_want_alg := 0,
                lp_peer_ident := []\<rparr>;
          p = configure_protos opts p;
          mp = Enabled opts LINK_CONF_MULTILINK;
          p = p\<lparr>lp_peer_mrru := 0, lp_peer_shortseq := False,
                lp_want_mrru := (if mp then lk_mrru l else 0),
                lp_want_shortseq := mp \<and> Enabled opts LINK_CONF_SHORTSEQ,
                lp_peer_discrim := \<lparr>d_class = 0, d_bytes = []\<rparr>\<rparr>
      in l\<lparr>lk_lcp := p\<rparr>)"

definition LcpConfigure :: "link fsm \<Rightarrow> link fsm" where
  "LcpConfigure f =
     (let opts = lk_options (f_arg f) in
      f\<lparr>f_conf := (f_conf f)\<lparr>conf_passive := Enabled opts LINK_CONF_PASSIVE,
                            check_magic := Enabled opts LINK_CONF_CHECK_MAGIC\<rparr>,
        f_arg := lcp_configure (f_arg f)\<rparr>)"

section \<open>Phases\<close>

text \<open>The transitions \<open>LcpNewPhase\<close> asserts.\<close>

fun phase_may :: "lcp_phase \<Rightarrow> lcp_phase \<Rightarrow> bool" where
  "phase_may PHASE_DEAD new = (new = PHASE_ESTABLISH)"
| "phase_may PHASE_ESTABLISH new = (new \<in> {PHASE_DEAD, PHASE_TERMINATE, PHASE_AUTHENTICATE})"
| "phase_may PHASE_AUTHENTICATE new =
     (new \<in> {PHASE_TERMINATE, PHASE_ESTABLISH, PHASE_NETWORK, PHASE_DEAD})"
| "phase_may PHASE_NETWORK new = (new \<in> {PHASE_TERMINATE, PHASE_ESTABLISH, PHASE_DEAD})"
| "phase_may PHASE_TERMINATE new = (new \<in> {PHASE_ESTABLISH, PHASE_DEAD})"

text \<open>What \<open>BundLeave\<close> and \<open>BundJoin\<close> do to the link.\<close>

definition bund_leave :: "link fsm \<Rightarrow> link fsm" where
  "bund_leave f =
     link_call CallBundLeave (upd_arg (\<lambda>l. l\<lparr>lk_has_bund := False, lk_joined_bund := False\<rparr>) f)"

text \<open>Checking the transition, storing the phase and leaving the old one.\<close>

definition lcp_leave_phase :: "lcp_phase \<Rightarrow> link fsm \<Rightarrow> link fsm" where
  "lcp_leave_phase new f =
     (let old = lp_phase (the_lcp f) in
      if \<not> phase_may old new then fsm_abort f
      else
        (let f = upd_lcp (\<lambda>p. p\<lparr>lp_phase := new\<rparr>) f in
         case old of
           PHASE_AUTHENTICATE \<Rightarrow> (if new \<noteq> PHASE_NETWORK then AuthCleanup f else f)
         | PHASE_NETWORK \<Rightarrow>
             AuthCleanup (if lk_joined_bund (f_arg f) then bund_leave f else f)
         | _ \<Rightarrow> f))"

text \<open>Entering the network phase; \<open>ty\<close> is LCP's descriptor.\<close>

definition bund_join :: "link fsm \<Rightarrow> link fsm" where
  "bund_join f =
     link_call CallBundJoin (upd_arg (\<lambda>l. case lk_join l of
       JoinRefused \<Rightarrow> l
     | JoinFailed \<Rightarrow> l\<lparr>lk_has_bund := False\<rparr>
     | Joined \<Rightarrow> l\<lparr>lk_has_bund := True, lk_joined_bund := True\<rparr>) f)"

definition lcp_join :: "link fsmtype \<Rightarrow> link fsm \<Rightarrow> link fsm" where
  "lcp_join ty f =
     (let f = bund_join f in
      if lk_join (f_arg f) \<noteq> Joined
      then FsmFailure ty FAIL_NEGOT_FAILURE (link_call CallReasonJoin f)
      else upd_arg (\<lambda>l. l\<lparr>lk_num_redial := 0\<rparr>) f)"

definition lcp_enter_network :: "link fsmtype \<Rightarrow> link fsm \<Rightarrow> link fsm" where
  "lcp_enter_network ty f =
     (let f = (case lk_ident (f_arg f) of None \<Rightarrow> f | Some s \<Rightarrow> FsmSendIdent ty s f);
          t = ap_session_timeout (au_params (the_auth f));
          f = (if Enabled (lk_options (f_arg f)) LINK_CONF_TIMEREMAIN \<and> t \<noteq> 0
               then FsmSendTimeRemaining ty t f else f)
      in lcp_join ty f)"

definition LcpAuthResult :: "link fsmtype \<Rightarrow> bool \<Rightarrow> link fsm \<Rightarrow> link fsm" where
  "LcpAuthResult ty success f =
     (if success
      then (if lp_phase (the_lcp f) \<noteq> PHASE_NETWORK
            then lcp_enter_network ty (lcp_leave_phase PHASE_NETWORK f) else f)
      else FsmFailure ty FAIL_NEGOT_FAILURE (link_call CallReasonAuth f))"

definition auth_start_side :: "u16 \<Rightarrow> auth_side \<Rightarrow> link fsm \<Rightarrow> link fsm" where
  "auth_start_side proto which f =
     (if proto = 0 then f
      else if proto = PROTO_PAP then PapStart which f
      else if proto = PROTO_CHAP then ChapStart which f
      else if proto = PROTO_EAP then EapStart which f
      else fsm_abort f)"

text \<open>\<open>AuthStart\<close> of \<open>auth.c\<close>; the names and addresses of the two ends are left out.\<close>

definition AuthStart :: "link fsmtype \<Rightarrow> link fsm \<Rightarrow> link fsm" where
  "AuthStart ty f =
     (let p = the_lcp f;
          f = upd_auth (\<lambda>a. a\<lparr>au_params := params_zero,
                au_self_to_peer := lp_peer_auth p, au_peer_to_self := lp_want_auth p,
                au_self_to_peer_alg := lp_peer_alg p, au_peer_to_self_alg := lp_want_alg p\<rparr>) f
      in if lp_peer_auth p = 0 \<and> lp_want_auth p = 0 then LcpAuthResult ty True f
         else
           (let f = upd_auth (\<lambda>a. a\<lparr>au_timer :=
                      TimerInit2 (au_conf_timeout a * SECONDS) (au_timer a)\<rparr>) f;
                f = auth_timer_start au_timer (\<lambda>t a. a\<lparr>au_timer := t\<rparr>) f;
                f = auth_start_side (lp_peer_auth p) AUTH_SELF_TO_PEER f
            in auth_start_side (lp_want_auth p) AUTH_PEER_TO_SELF f))"

definition LcpNewPhase :: "link fsmtype \<Rightarrow> lcp_phase \<Rightarrow> link fsm \<Rightarrow> link fsm" where
  "LcpNewPhase ty new f =
     (let f = lcp_leave_phase new f in
      case new of
        PHASE_AUTHENTICATE \<Rightarrow>
          AuthStart ty
            (if \<not> ph_sync (f_arg f)
             then link_call (CallPhysSetAccm (lp_peer_accmap (the_lcp f))
                                             (lp_want_accmap (the_lcp f))) f
             else f)
      | PHASE_NETWORK \<Rightarrow> lcp_enter_network ty f
      | _ \<Rightarrow> f)"

datatype phase_step = NoMove | Move lcp_phase | BadMove

fun phase_move :: "fsm_state \<Rightarrow> fsm_state \<Rightarrow> phase_step" where
  "phase_move old new =
     (if old \<in> {ST_INITIAL, ST_STARTING}
      then (if new \<in> {ST_INITIAL, ST_STARTING} then NoMove else Move PHASE_ESTABLISH)
      else if old \<in> {ST_CLOSED, ST_STOPPED}
      then (if new \<in> {ST_INITIAL, ST_STARTING} then Move PHASE_DEAD else NoMove)
      else if old \<in> {ST_CLOSING, ST_STOPPING}
      then (if new \<in> {ST_INITIAL, ST_STARTING} then Move PHASE_DEAD
            else if new \<in> {ST_CLOSED, ST_STOPPED} then Move PHASE_ESTABLISH else NoMove)
      else if old \<in> {ST_REQSENT, ST_ACKRCVD, ST_ACKSENT}
      then (if new \<in> {ST_INITIAL, ST_STARTING} then Move PHASE_DEAD
            else if new \<in> {ST_CLOSING, ST_STOPPING} then Move PHASE_TERMINATE
            else if new = ST_OPENED then Move PHASE_AUTHENTICATE else NoMove)
      else (if new = ST_STARTING then Move PHASE_DEAD
            else if new \<in> {ST_REQSENT, ST_ACKSENT} then Move PHASE_ESTABLISH
            else if new \<in> {ST_CLOSING, ST_STOPPING} then Move PHASE_TERMINATE else BadMove))"

definition LcpNewState :: "link fsmtype \<Rightarrow> link fsm \<Rightarrow> fsm_state \<Rightarrow> fsm_state \<Rightarrow> link fsm" where
  "LcpNewState ty f old new =
     link_call (CallShutdownCheck new)
       (case phase_move old new of
          NoMove \<Rightarrow> f | Move ph \<Rightarrow> LcpNewPhase ty ph f | BadMove \<Rightarrow> fsm_abort f)"

section \<open>Requests\<close>

definition discrim_bytes :: "discrim \<Rightarrow> byte list" where
  "discrim_bytes d = d_class d # d_bytes d"

definition lcp_auth_value :: "lcpstate \<Rightarrow> byte list" where
  "lcp_auth_value p =
     (if lp_want_auth p = PROTO_PAP \<or> lp_want_auth p = PROTO_EAP
      then FsmConfValue TY_AUTHPROTO (be16 (lp_want_auth p))
      else if lp_want_auth p = PROTO_CHAP
      then FsmConfValue TY_AUTHPROTO (be16 PROTO_CHAP @ [lp_want_alg p])
      else [])"

definition lcp_request :: "link \<Rightarrow> byte list" where
  "lcp_request l =
     (let p = lk_lcp l; ok = (\<lambda>t. \<not> LCP_PEER_REJECTED p t) in
      (if lp_want_acfcomp p \<and> ok TY_ACFCOMP then FsmConfValue TY_ACFCOMP [] else []) @
      (if lp_want_protocomp p \<and> ok TY_PROTOCOMP then FsmConfValue TY_PROTOCOMP [] else []) @
      (if \<not> ph_sync l \<and> ok TY_ACCMAP
       then FsmConfValue TY_ACCMAP (be32 (lp_want_accmap p)) else []) @
      (if ok TY_MRU then FsmConfValue TY_MRU (be16 (lp_want_mru p)) else []) @
      (if lp_want_magic p \<noteq> 0 \<and> ok TY_MAGICNUM
       then FsmConfValue TY_MAGICNUM (be32 (lp_want_magic p)) else []) @
      (if lp_want_callback p \<and> ok TY_CALLBACK then FsmConfValue TY_CALLBACK [0] else []) @
      lcp_auth_value p @
      (if Enabled (lk_options l) LINK_CONF_MULTILINK \<and> ok TY_MRRU
       then FsmConfValue TY_MRRU (be16 (lp_want_mrru p)) @
            (if lp_want_shortseq p \<and> ok TY_SHORTSEQNUM then FsmConfValue TY_SHORTSEQNUM [] else []) @
            (if ok TY_ENDPOINTDISC
             then FsmConfValue TY_ENDPOINTDISC (discrim_bytes (lk_self_discrim l)) else [])
       else []))"

definition LcpBuildConfigReq :: "link fsm \<Rightarrow> link fsm \<times> byte list" where
  "LcpBuildConfigReq f = (f, lcp_request (f_arg f))"

section \<open>Layers and notices\<close>

definition LcpLayerStart :: "link fsm \<Rightarrow> link fsm" where
  "LcpLayerStart f =
     (let f = link_call CallNgInit f in
      if TimerStarted (lk_openTimer (f_arg f)) then f else link_call CallPhysOpen f)"

definition LcpLayerFinish :: "link fsm \<Rightarrow> link fsm" where
  "LcpLayerFinish f =
     (let f = AuthStop f in
      if lk_rep (f_arg f) then f else link_call CallNgShutdown (link_call CallPhysClose f))"

definition LcpLayerDown :: "link fsm \<Rightarrow> link fsm" where
  "LcpLayerDown f =
     (let f = AuthStop f in
      if lp_phase (the_lcp f) = PHASE_AUTHENTICATE \<or> lp_phase (the_lcp f) = PHASE_NETWORK
      then upd_lcp (\<lambda>p. p\<lparr>lp_need_reset := True\<rparr>) f else f)"

text \<open>A rejected protocol of the bundle is made to fail; nothing is fatal to LCP. The numbers are
  CCP, compressed data, ECP, encrypted data, IPCP and IPV6CP.\<close>

definition LcpRecvProtoRej :: "link fsm \<Rightarrow> u16 \<Rightarrow> pkt \<Rightarrow> link fsm \<times> bool" where
  "LcpRecvProtoRej f proto bp =
     (if proto \<in> {0x80fd, 0x00fd, 0x8053, 0x0053, 0x8021, 0x8057} \<and> lk_has_bund (f_arg f)
      then (link_call (CallRejectedProtocol proto) f, False) else (f, False))"

text \<open>The identification of the peer, collected in 64 octets.\<close>

definition LcpRecvIdent :: "link fsm \<Rightarrow> pkt \<Rightarrow> link fsm" where
  "LcpRecvIdent f bp = (case bp of None \<Rightarrow> f
     | Some xs \<Rightarrow>
         upd_lcp (\<lambda>p.
           let old = (if lp_peer_ident p = [] then []
                      else take 63 (lp_peer_ident p @ ascii '' ''));
               clen = min (63 - length old) (length xs)
           in p\<lparr>lp_peer_ident := cstr (old @ take clen xs)\<rparr>) f)"

definition LcpFailure :: "link fsm \<Rightarrow> fsmfail \<Rightarrow> link fsm" where
  "LcpFailure f reason = link_call (CallReason reason) f"

section \<open>Decoding\<close>

definition get_be16 :: "byte list \<Rightarrow> u16" where
  "get_be16 xs = (case get16 xs of None \<Rightarrow> 0 | Some w \<Rightarrow> w)"

definition get_be32 :: "byte list \<Rightarrow> u32" where
  "get_be32 xs = (case get32 xs of None \<Rightarrow> 0 | Some w \<Rightarrow> w)"

text \<open>A request makes us forget what the last one said: everything, when we come back from
  the authentication or network phase.\<close>

definition lcp_forget :: "mode \<Rightarrow> link fsm \<Rightarrow> link fsm" where
  "lcp_forget md f =
     (if md \<noteq> MODE_REQ then f
      else if lp_need_reset (the_lcp f) then LcpConfigure f
      else upd_lcp (\<lambda>p. p\<lparr>lp_peer_mru := ph_mtu (f_arg f), lp_peer_accmap := 0xffffffff,
             lp_peer_acfcomp := False, lp_peer_protocomp := False, lp_peer_magic := 0,
             lp_peer_auth := 0, lp_peer_alg := 0, lp_peer_mrru := 0, lp_peer_shortseq := False\<rparr>) f)"

definition lcp_rejected :: "fsmoption \<Rightarrow> (lcpstate \<Rightarrow> lcpstate) \<Rightarrow> link fsm \<Rightarrow> link fsm" where
  "lcp_rejected opt g = upd_lcp (\<lambda>p. LCP_PEER_REJ (opt_type opt) (g p))"

definition lcp_mru :: "mode \<Rightarrow> fsmoption \<Rightarrow> link fsm \<Rightarrow> link fsm" where
  "lcp_mru md opt f =
     (let mru = get_be16 (opt_data opt); p = the_lcp f in
      case md of
        MODE_REQ \<Rightarrow>
          (if mru < LCP_MIN_MRU then FsmNak (opt_set (be16 LCP_MIN_MRU) opt) f
           else FsmAck opt (if mru < lp_peer_mru p
                            then upd_lcp (\<lambda>p. p\<lparr>lp_peer_mru := mru\<rparr>) f else f))
      | MODE_NAK \<Rightarrow>
          (if mru = lp_want_mru p then lcp_rejected opt id f
           else if LCP_MIN_MRU \<le> mru \<and>
               ((case ph_type_mru (f_arg f) of None \<Rightarrow> False | Some m \<Rightarrow> mru \<le> m) \<or> mru < lp_want_mru p)
           then upd_lcp (\<lambda>p. p\<lparr>lp_want_mru := mru\<rparr>) f else f)
      | MODE_REJ \<Rightarrow> lcp_rejected opt id f
      | MODE_NOP \<Rightarrow> f)"

definition lcp_accmap :: "mode \<Rightarrow> fsmoption \<Rightarrow> link fsm \<Rightarrow> link fsm" where
  "lcp_accmap md opt f =
     (let accm = get_be32 (opt_data opt) in
      case md of
        MODE_REQ \<Rightarrow> FsmAck opt (upd_lcp (\<lambda>p. p\<lparr>lp_peer_accmap := accm\<rparr>) f)
      | MODE_NAK \<Rightarrow> upd_lcp (\<lambda>p. p\<lparr>lp_want_accmap := accm\<rparr>) f
      | MODE_REJ \<Rightarrow> lcp_rejected opt id f
      | MODE_NOP \<Rightarrow> f)"

fun find_auth_proto :: "u16 \<Rightarrow> byte \<Rightarrow> nat \<Rightarrow> lcpauthproto list \<Rightarrow> nat option" where
  "find_auth_proto proto alg i [] = None"
| "find_auth_proto proto alg i (q # qs) =
     (if lap_proto q = proto \<and> lap_alg q = alg then Some i else find_auth_proto proto alg (i + 1) qs)"

definition LcpFindAuthProto :: "u16 \<Rightarrow> byte \<Rightarrow> nat option" where
  "LcpFindAuthProto proto alg = find_auth_proto proto alg 0 gLcpAuthProtos"

text \<open>The Nak for a protocol; for CHAP with an algorithm we do not know there is none.\<close>

definition LcpAuthProtoNak :: "u16 \<Rightarrow> byte \<Rightarrow> fsmoption option" where
  "LcpAuthProtoNak proto alg =
     (if proto = PROTO_PAP \<or> proto = PROTO_EAP
      then Some \<lparr>opt_type = TY_AUTHPROTO, opt_len = 4, opt_data = be16 proto\<rparr>
      else if alg \<in> {CHAP_ALG_MSOFTv2, CHAP_ALG_MSOFT, CHAP_ALG_MD5}
      then Some \<lparr>opt_type = TY_AUTHPROTO, opt_len = 5, opt_data = be16 PROTO_CHAP @ [alg]\<rparr>
      else None)"

text \<open>The position in \<open>gLcpAuthProtos\<close> of the protocol an option names, unless its length is wrong
  for it.\<close>

definition opt_auth_pos :: "fsmoption \<Rightarrow> nat option" where
  "opt_auth_pos opt =
     (let proto = get_be16 (opt_data opt);
          bogus = proto = PROTO_PAP \<and> opt_len opt \<noteq> 4 \<or> proto = PROTO_CHAP \<and> opt_len opt \<noteq> 5
      in if bogus then None
         else LcpFindAuthProto proto (if proto = PROTO_CHAP then opt_data opt ! 2 else 0))"

fun first_proto :: "auth_entry option list \<Rightarrow> auth_entry option" where
  "first_proto [] = None"
| "first_proto (None # qs) = first_proto qs"
| "first_proto (Some q # qs) = Some q"

definition lcp_auth_req :: "fsmoption \<Rightarrow> link fsm \<Rightarrow> link fsm" where
  "lcp_auth_req opt f =
     (let proto = get_be16 (opt_data opt);
          ok = (case opt_auth_pos opt of None \<Rightarrow> False
                | Some i \<Rightarrow> Acceptable (lk_options (f_arg f)) (lap_conf (gLcpAuthProtos ! i)))
      in if ok
         then FsmAck opt (upd_lcp (\<lambda>p. p\<lparr>lp_peer_auth := proto,
                lp_peer_alg := (if proto = PROTO_CHAP then opt_data opt ! 2 else lp_peer_alg p)\<rparr>) f)
         else case first_proto (lp_peer_protos (the_lcp f)) of
           None \<Rightarrow> FsmRej opt f
         | Some q \<Rightarrow>
             (case LcpAuthProtoNak (lap_proto (auth_of q)) (lap_alg (auth_of q)) of
                None \<Rightarrow> fsm_abort f | Some nak \<Rightarrow> FsmNak nak f))"

definition lcp_auth_nak :: "fsmoption \<Rightarrow> link fsm \<Rightarrow> link fsm" where
  "lcp_auth_nak opt f =
     (let proto = get_be16 (opt_data opt) in
      case opt_auth_pos opt of
        None \<Rightarrow> f
      | Some i \<Rightarrow>
          if Enabled (lk_options (f_arg f)) (lap_conf (gLcpAuthProtos ! i))
          then upd_lcp (\<lambda>p. p\<lparr>lp_want_auth := proto,
                 lp_want_alg := (if proto = PROTO_CHAP then opt_data opt ! 2 else lp_want_alg p)\<rparr>) f
          else upd_lcp (\<lambda>p.
                 let qs = (lp_want_protos p)[i := None];
                     p = p\<lparr>lp_want_protos := qs\<rparr>
                 in case first_proto qs of None \<Rightarrow> p
                    | Some q \<Rightarrow> p\<lparr>lp_want_auth := lap_proto (auth_of q), lp_want_alg := lap_alg (auth_of q)\<rparr>) f)"

definition lcp_authproto :: "mode \<Rightarrow> fsmoption \<Rightarrow> link fsm \<Rightarrow> link fsm" where
  "lcp_authproto md opt f = (case md of
     MODE_REQ \<Rightarrow> lcp_auth_req opt f
   | MODE_NAK \<Rightarrow> lcp_auth_nak opt f
   | MODE_REJ \<Rightarrow>
       lcp_rejected opt (\<lambda>p.
         if lk_originate (f_arg f) = LINK_ORIGINATE_LOCAL
            \<and> Enabled (lk_options (f_arg f)) LINK_CONF_NO_ORIG_AUTH
         then p\<lparr>lp_want_auth := 0\<rparr> else p) f
   | MODE_NOP \<Rightarrow> f)"

text \<open>A Nak of a multilink option we thought rejected revives it; a Nak may lower our MRRU, to
  296 at least.\<close>

definition mrru_lower :: "u16 \<Rightarrow> lcpstate \<Rightarrow> lcpstate" where
  "mrru_lower mrru p =
     (if lp_want_mrru p < mrru then p
      else p\<lparr>lp_want_mrru := (if mrru < MP_MIN_MRRU then MP_MIN_MRRU else mrru)\<rparr>)"

definition lcp_mrru :: "mode \<Rightarrow> fsmoption \<Rightarrow> link fsm \<Rightarrow> link fsm" where
  "lcp_mrru md opt f =
     (let mrru = get_be16 (opt_data opt); mp = Enabled (lk_options (f_arg f)) LINK_CONF_MULTILINK in
      case md of
        MODE_REQ \<Rightarrow>
          (if \<not> mp then FsmRej opt f
           else if mrru < MP_MIN_MRRU then FsmNak (opt_set (be16 MP_MIN_MRRU) opt) f
           else FsmAck opt (upd_lcp (\<lambda>p. p\<lparr>lp_peer_mrru := mrru\<rparr>) f))
      | MODE_NAK \<Rightarrow>
          upd_lcp (\<lambda>p. mrru_lower mrru
            (if LCP_PEER_REJECTED p (opt_type opt)
             then (LCP_PEER_UNREJ (opt_type opt) p)
                    \<lparr>lp_want_mrru := (if mp then lk_mrru (f_arg f) else lp_want_mrru p)\<rparr>
             else p)) f
      | MODE_REJ \<Rightarrow> lcp_rejected opt (\<lambda>p. p\<lparr>lp_want_mrru := 0\<rparr>) f
      | MODE_NOP \<Rightarrow> f)"

definition lcp_shortseq :: "mode \<Rightarrow> fsmoption \<Rightarrow> link fsm \<Rightarrow> link fsm" where
  "lcp_shortseq md opt f =
     (let opts = lk_options (f_arg f); mp = Enabled opts LINK_CONF_MULTILINK in
      case md of
        MODE_REQ \<Rightarrow>
          (if \<not> mp \<or> \<not> Acceptable opts LINK_CONF_SHORTSEQ then FsmRej opt f
           else FsmAck opt (upd_lcp (\<lambda>p. p\<lparr>lp_peer_shortseq := True\<rparr>) f))
      | MODE_NAK \<Rightarrow>
          upd_lcp (\<lambda>p.
            if LCP_PEER_REJECTED p (opt_type opt)
            then (LCP_PEER_UNREJ (opt_type opt) p)
                   \<lparr>lp_want_shortseq := (if mp then Enabled opts LINK_CONF_SHORTSEQ
                                         else lp_want_shortseq p)\<rparr>
            else p) f
      | MODE_REJ \<Rightarrow> lcp_rejected opt (\<lambda>p. p\<lparr>lp_want_shortseq := False\<rparr>) f
      | MODE_NOP \<Rightarrow> f)"

text \<open>Class and octets; a \<open>struct discrim\<close> has room for 50.\<close>

definition lcp_endpoint :: "mode \<Rightarrow> fsmoption \<Rightarrow> link fsm \<Rightarrow> link fsm" where
  "lcp_endpoint md opt f =
     (if opt_len opt < 3 \<or> 50 < opt_len opt then (if md = MODE_REQ then FsmRej opt f else f)
      else case md of
        MODE_REQ \<Rightarrow>
          FsmAck opt (upd_lcp (\<lambda>p. p\<lparr>lp_peer_discrim :=
            \<lparr>d_class = hd (opt_data opt), d_bytes = tl (opt_data opt)\<rparr>\<rparr>) f)
      | MODE_NAK \<Rightarrow> upd_lcp (LCP_PEER_UNREJ (opt_type opt)) f
      | MODE_REJ \<Rightarrow> lcp_rejected opt id f
      | MODE_NOP \<Rightarrow> f)"

definition lcp_magic :: "mode \<Rightarrow> fsmoption \<Rightarrow> link fsm \<Rightarrow> link fsm" where
  "lcp_magic md opt f =
     (let magic = get_be32 (opt_data opt); want = lp_want_magic (the_lcp f) in
      case md of
        MODE_REQ \<Rightarrow>
          (if want = 0 then FsmRej opt f
           else if magic = want then FsmNak (opt_set (be32 (NOT magic)) opt) f
           else FsmAck opt (upd_lcp (\<lambda>p. p\<lparr>lp_peer_magic := magic\<rparr>) f))
      | MODE_NAK \<Rightarrow>
          (let (m, l) = GenerateMagic (f_arg f)
           in upd_lcp (\<lambda>p. p\<lparr>lp_want_magic := m\<rparr>) (f\<lparr>f_arg := l\<rparr>))
      | MODE_REJ \<Rightarrow> lcp_rejected opt (\<lambda>p. p\<lparr>lp_want_magic := 0\<rparr>) f
      | MODE_NOP \<Rightarrow> f)"

definition lcp_protocomp :: "mode \<Rightarrow> fsmoption \<Rightarrow> link fsm \<Rightarrow> link fsm" where
  "lcp_protocomp md opt f = (case md of
     MODE_REQ \<Rightarrow>
       (if Acceptable (lk_options (f_arg f)) LINK_CONF_PROTOCOMP
        then FsmAck opt (upd_lcp (\<lambda>p. p\<lparr>lp_peer_protocomp := True\<rparr>) f) else FsmRej opt f)
   | MODE_NOP \<Rightarrow> f
   | _ \<Rightarrow> lcp_rejected opt (\<lambda>p. p\<lparr>lp_want_protocomp := False\<rparr>) f)"

definition lcp_acfcomp :: "mode \<Rightarrow> fsmoption \<Rightarrow> link fsm \<Rightarrow> link fsm" where
  "lcp_acfcomp md opt f = (case md of
     MODE_REQ \<Rightarrow>
       (if Acceptable (lk_options (f_arg f)) LINK_CONF_ACFCOMP
        then FsmAck opt (upd_lcp (\<lambda>p. p\<lparr>lp_peer_acfcomp := True\<rparr>) f) else FsmRej opt f)
   | MODE_NOP \<Rightarrow> f
   | _ \<Rightarrow> lcp_rejected opt (\<lambda>p. p\<lparr>lp_want_acfcomp := False\<rparr>) f)"

definition lcp_callback :: "mode \<Rightarrow> fsmoption \<Rightarrow> link fsm \<Rightarrow> link fsm" where
  "lcp_callback md opt f = (case md of
     MODE_REQ \<Rightarrow> FsmRej opt f
   | MODE_NOP \<Rightarrow> f
   | _ \<Rightarrow> lcp_rejected opt (\<lambda>p. p\<lparr>lp_want_callback := False\<rparr>) f)"

definition lcp_vendor :: "mode \<Rightarrow> fsmoption \<Rightarrow> link fsm \<Rightarrow> link fsm" where
  "lcp_vendor md opt f = (case md of
     MODE_REQ \<Rightarrow> FsmRej opt f | MODE_NOP \<Rightarrow> f | _ \<Rightarrow> lcp_rejected opt id f)"

definition lcp_opt_body :: "mode \<Rightarrow> fsmoption \<Rightarrow> link fsm \<Rightarrow> link fsm" where
  "lcp_opt_body md opt =
     (let t = opt_type opt in
      (if t = TY_MRU then lcp_mru else if t = TY_ACCMAP then lcp_accmap
       else if t = TY_AUTHPROTO then lcp_authproto else if t = TY_MRRU then lcp_mrru
       else if t = TY_SHORTSEQNUM then lcp_shortseq else if t = TY_ENDPOINTDISC then lcp_endpoint
       else if t = TY_MAGICNUM then lcp_magic else if t = TY_PROTOCOMP then lcp_protocomp
       else if t = TY_ACFCOMP then lcp_acfcomp else if t = TY_CALLBACK then lcp_callback
       else if t = TY_VENDOR then lcp_vendor else (\<lambda>_ _ f. fsm_abort f)) md opt)"

definition lcp_decode_opt :: "mode \<Rightarrow> link fsm \<Rightarrow> fsmoption \<Rightarrow> link fsm" where
  "lcp_decode_opt md f opt = opt_checked gLcpConfOpts md opt (lcp_opt_body md opt) f"

definition LcpDecodeConfig :: "link fsm \<Rightarrow> fsmoption list \<Rightarrow> mode \<Rightarrow> link fsm" where
  "LcpDecodeConfig f opts md = foldl (lcp_decode_opt md) (lcp_forget md f) opts"

section \<open>The protocol type and the operations\<close>

definition lcp_type :: "(link fsm \<Rightarrow> fsm_state \<Rightarrow> fsm_state \<Rightarrow> link fsm) \<Rightarrow> link fsmtype" where
  "lcp_type new_state =
     \<lparr>ty_name = ''LCP'', ty_proto = PROTO_LCP, ty_known_codes = LCP_KNOWN_CODES,
      ty_link_layer = True, NewState = Some new_state, LayerUp = None,
      LayerDown = Some LcpLayerDown, LayerStart = Some LcpLayerStart,
      LayerFinish = Some LcpLayerFinish, BuildConfigReq = LcpBuildConfigReq,
      DecodeConfig = LcpDecodeConfig, Configure = Some LcpConfigure, UnConfigure = None,
      SendTerminateReq = None, SendTerminateAck = None, RecvCodeRej = None,
      RecvProtoRej = Some LcpRecvProtoRej, Failure = Some LcpFailure, RecvResetReq = None,
      RecvResetAck = None, RecvIdent = Some LcpRecvIdent, RecvDiscReq = None,
      RecvTimeRemain = None, RecvVendor = None,
      arg_retry_timeout = lk_retry_timeout, arg_want_magic = (\<lambda>l. lp_want_magic (lk_lcp l)),
      arg_peer_magic = (\<lambda>l. lp_peer_magic (lk_lcp l)), arg_has_bund = lk_has_bund,
      arg_recvFrames = lk_recvFrames\<rparr>"

primrec gLcpFsmType :: "nat \<Rightarrow> link fsmtype" where
  "gLcpFsmType 0 = lcp_type (\<lambda>f old new. fsm_abort f)"
| "gLcpFsmType (Suc n) = lcp_type (LcpNewState (gLcpFsmType n))"

text \<open>The descriptor the operations use.\<close>

definition lcp_fsm :: "link fsmtype" where
  "lcp_fsm = gLcpFsmType 2"

definition LcpOpen :: "link fsm \<Rightarrow> link fsm" where "LcpOpen = FsmOpen lcp_fsm"
definition LcpClose :: "link fsm \<Rightarrow> link fsm" where "LcpClose = FsmClose lcp_fsm"
definition LcpUp :: "link fsm \<Rightarrow> link fsm" where "LcpUp = FsmUp lcp_fsm"
definition LcpDown :: "link fsm \<Rightarrow> link fsm" where "LcpDown = FsmDown lcp_fsm"
definition LcpInput :: "pkt \<Rightarrow> link fsm \<Rightarrow> link fsm" where "LcpInput bp = FsmInput lcp_fsm bp"

text \<open>\<open>LcpInit\<close> zeroes the LCP and authentication state and sets the defaults (\<open>AuthInit\<close> with
  its time of 40 seconds and the options for the secrets file and for mandatory accounting;
  \<open>EapInit\<close> accepts MD5 and does not request it).\<close>

definition lcp_zero :: lcpstate where
  "lcp_zero = \<lparr>lp_phase = PHASE_DEAD, lp_peer_protos = replicate 5 None, lp_peer_accmap = 0,
     lp_peer_magic = 0, lp_peer_mru = 0, lp_peer_auth = 0, lp_peer_mrru = 0, lp_peer_alg = 0,
     lp_peer_protocomp = False, lp_peer_acfcomp = False, lp_peer_shortseq = False,
     lp_want_protos = replicate 5 None, lp_want_accmap = 0, lp_want_magic = 0, lp_want_mru = 0,
     lp_want_auth = 0, lp_want_mrru = 0, lp_want_alg = 0, lp_want_protocomp = False,
     lp_want_acfcomp = False, lp_want_shortseq = False, lp_want_callback = False,
     lp_peer_discrim = \<lparr>d_class = 0, d_bytes = []\<rparr>, lp_peer_ident = [], lp_peer_reject = 0,
     lp_need_reset = False\<rparr>"

definition auth_zero :: auth where
  "auth_zero = \<lparr>au_peer_to_self = 0, au_self_to_peer = 0, au_peer_to_self_alg = 0,
     au_self_to_peer_alg = 0, au_timer = timer_zero,
     au_pap = \<lparr>pap_next_id = 0, pap_retry = 0, pap_timer = timer_zero\<rparr>,
     au_chap = \<lparr>ch_proto = 0, ch_next_id = 0, ch_retry = 0, ch_chalTimer = timer_zero,
                ch_respTimer = timer_zero, ch_resp = None, ch_resp_id = 0\<rparr>,
     au_eap = \<lparr>eap_next_id = 0, eap_retry = 0, eap_identTimer = timer_zero,
               eap_reqTimer = timer_zero, eap_identity = [], eap_peer_types = replicate EAP_NUM_TYPES 0,
               eap_want_types = replicate EAP_NUM_TYPES 0,
               eap_options = \<lparr>oi_enable = 0, oi_accept = 2\<rparr>\<rparr>,
     au_thread = None, au_params = params_zero, au_conf_authname = [], au_conf_password = [],
     au_conf_timeout = 40, au_conf_options = \<lparr>oi_enable = 0x808, oi_accept = 0\<rparr>\<rparr>"

definition LcpInit :: "byte list \<Rightarrow> link \<Rightarrow> link fsm" where
  "LcpInit junk l =
     (let f = FsmInit junk (l\<lparr>lk_lcp := lcp_zero, lk_auth := auth_zero\<rparr>)
      in f\<lparr>f_conf := (f_conf f)\<lparr>echo_int := LCP_ECHO_INTERVAL, echo_max := LCP_ECHO_TIMEOUT\<rparr>\<rparr>)"

end
