(* ===== verification/Lcp_Facts.thy ===== *)
theory Lcp_Facts
  imports Lcp
begin

unbundle bit_operations_syntax

text \<open>
  Facts about LCP's options: the contract with the automaton, what is accepted from the peer, and
  that a request can be read back.
\<close>

section \<open>The contract with the automaton\<close>

lemma known_lcp_type:
  assumes "FsmFindOptInfo gLcpConfOpts t = Some oi" "oi_supported oi"
  shows "t \<in> {TY_VENDOR, TY_MRU, TY_ACCMAP, TY_AUTHPROTO, TY_MAGICNUM, TY_PROTOCOMP, TY_ACFCOMP,
      TY_CALLBACK, TY_MRRU, TY_SHORTSEQNUM, TY_ENDPOINTDISC}"
    "t \<in> {TY_MRU, TY_MRRU} \<Longrightarrow> oi_minLen oi = 2" "t = TY_MAGICNUM \<Longrightarrow> oi_minLen oi = 4"
  using assms
  by (auto simp: FsmFindOptInfo_def gLcpConfOpts_def lcp_opt_def split: if_splits)

lemma lcp_decode_opt_cases:
  obtains "lcp_decode_opt md f opt = (if md = MODE_REQ then FsmRej opt f else f)"
  | g where "(opt_type opt, g) \<in> {(TY_VENDOR, lcp_vendor), (TY_ACCMAP, lcp_accmap),
      (TY_AUTHPROTO, lcp_authproto), (TY_PROTOCOMP, lcp_protocomp), (TY_ACFCOMP, lcp_acfcomp),
      (TY_CALLBACK, lcp_callback), (TY_SHORTSEQNUM, lcp_shortseq), (TY_ENDPOINTDISC, lcp_endpoint)}"
    "lcp_decode_opt md f opt = g md opt f"
  | g where "(opt_type opt, g) \<in> {(TY_MRU, lcp_mru), (TY_MRRU, lcp_mrru)}"
    "4 \<le> unat (opt_len opt)" "lcp_decode_opt md f opt = g md opt f"
  | "opt_type opt = TY_MAGICNUM" "6 \<le> unat (opt_len opt)"
    "lcp_decode_opt md f opt = lcp_magic md opt f"
proof -
  consider (rej) "lcp_decode_opt md f opt = (if md = MODE_REQ then FsmRej opt f else f)"
    | (body) oi where "FsmFindOptInfo gLcpConfOpts (opt_type opt) = Some oi" "oi_supported oi"
      "unat (oi_minLen oi) + 2 \<le> unat (opt_len opt)"
      "lcp_decode_opt md f opt = lcp_opt_body md opt f"
    unfolding lcp_decode_opt_def by (rule opt_checked_cases)
  then show ?thesis
  proof cases
    case rej
    then show ?thesis by (rule that(1))
  next
    case (body oi)
    note known = known_lcp_type [OF body(1,2)] and d = body(4)
    from known(1) consider "opt_type opt \<in> {TY_MRU, TY_MRRU}" | "opt_type opt = TY_MAGICNUM"
      | "opt_type opt \<in> {TY_VENDOR, TY_ACCMAP, TY_AUTHPROTO, TY_PROTOCOMP, TY_ACFCOMP,
        TY_CALLBACK, TY_SHORTSEQNUM, TY_ENDPOINTDISC}"
      by blast
    then show ?thesis
    proof cases
      case 1
      with body(3) known(2) d show ?thesis
        by (intro that(3) [of "if opt_type opt = TY_MRU then lcp_mru else lcp_mrru"])
          (auto simp: lcp_opt_body_def)
    next
      case 2
      with body(3) known(3) d show ?thesis by (intro that(4)) (auto simp: lcp_opt_body_def)
    next
      case 3
      with d show ?thesis by (elim insertE emptyE) (rule that(2); simp add: lcp_opt_body_def)+
    qed
  qed
qed

lemma auth_entry_nak:
  obtains nak where "LcpAuthProtoNak (lap_proto (auth_of q)) (lap_alg (auth_of q)) = Some nak"
    "opt_ok nak" "opt_type nak = TY_AUTHPROTO"
proof -
  have "\<exists>nak. LcpAuthProtoNak (lap_proto (auth_of q)) (lap_alg (auth_of q)) = Some nak \<and>
      opt_ok nak \<and> opt_type nak = TY_AUTHPROTO"
    by (cases q) (simp_all add: auth_of_def gLcpAuthProtos_def auth_proto_def LcpAuthProtoNak_def
        opt_ok_def)
  then show ?thesis using that by blast
qed

lemma auth_entry_known [simp]:
  "LcpAuthProtoNak (lap_proto (auth_of q)) (lap_alg (auth_of q)) \<noteq> None"
  by (rule auth_entry_nak [of q]) simp

lemma lcp_auth_req_cases:
  obtains g where "lcp_auth_req opt f = FsmAck opt (upd_lcp g f)"
  | "lcp_auth_req opt f = FsmRej opt f"
  | nak where "lcp_auth_req opt f = FsmNak nak f" "opt_ok nak" "opt_type nak = TY_AUTHPROTO"
proof (cases "case opt_auth_pos opt of None \<Rightarrow> False
    | Some i \<Rightarrow> Acceptable (lk_options (f_arg f)) (lap_conf (gLcpAuthProtos ! i))")
  case True
  then show ?thesis by (intro that(1)) (simp add: lcp_auth_req_def Let_def)
next
  case False
  show ?thesis
  proof (cases "first_proto (lp_peer_protos (the_lcp f))")
    case None
    with False show ?thesis by (intro that(2)) (simp add: lcp_auth_req_def Let_def)
  next
    case (Some q)
    obtain nak where "LcpAuthProtoNak (lap_proto (auth_of q)) (lap_alg (auth_of q)) = Some nak"
      "opt_ok nak" "opt_type nak = TY_AUTHPROTO"
      by (rule auth_entry_nak)
    with False Some show ?thesis by (intro that(3) [of nak]) (simp_all add: lcp_auth_req_def Let_def)
  qed
qed

lemmas lcp_quiet_opts =
  lcp_vendor_def lcp_accmap_def lcp_authproto_def lcp_protocomp_def lcp_acfcomp_def
  lcp_callback_def lcp_shortseq_def lcp_endpoint_def lcp_mru_def lcp_mrru_def lcp_magic_def
  lcp_rejected_def lcp_auth_nak_def GenerateMagic_def

lemma lcp_auth_req_ctl [simp]: "ctl (lcp_auth_req opt f) = ctl f"
  by (cases opt f rule: lcp_auth_req_cases) simp_all

lemma answered_upd_lcp [intro, simp]:
  "answered opt f (FsmAck opt (upd_lcp g f))"
  by (simp add: upd_lcp_def upd_arg_def)

lemma lcp_auth_req_answer:
  "opt_type opt = TY_AUTHPROTO \<Longrightarrow> answered opt f (lcp_auth_req opt f)"
  by (cases opt f rule: lcp_auth_req_cases) auto

interpretation lcp_dec: option_decoder lcp_decode_opt
proof
  fix md opt and f :: "link fsm"
  show "ctl (lcp_decode_opt md f opt) = ctl f"
  proof (cases md opt f rule: lcp_decode_opt_cases)
    case (2 g)
    then show ?thesis
      by (cases md) (auto simp: lcp_quiet_opts Let_def split: option.split)
  qed (cases md; auto simp: lcp_quiet_opts Let_def)+
  show "md \<noteq> MODE_REQ \<Longrightarrow> bufs (lcp_decode_opt md f opt) = bufs f"
  proof (cases md opt f rule: lcp_decode_opt_cases)
    case (2 g)
    then show "md \<noteq> MODE_REQ \<Longrightarrow> ?thesis"
      by (cases md) (auto simp: lcp_quiet_opts Let_def split: option.split)
  qed (cases md; auto simp: lcp_quiet_opts Let_def)+
  show "opt_ok opt \<Longrightarrow> answered opt f (lcp_decode_opt MODE_REQ f opt)"
  proof (cases MODE_REQ opt f rule: lcp_decode_opt_cases)
    case (2 g)
    then show ?thesis
      by (auto simp: lcp_quiet_opts Let_def lcp_auth_req_answer)
  qed (auto simp: lcp_quiet_opts Let_def intro!: answered_set)
qed

interpretation lcp_dec: decoding_type lcp_decode_opt lcp_fsm lcp_forget
  by unfold_locales (simp_all add: lcp_fsm_def numeral_2_eq_2 lcp_type_def LcpDecodeConfig_def
      lcp_forget_def LcpConfigure_def Let_def bufs_def upd_lcp_def upd_arg_def)

section \<open>What is accepted\<close>

text \<open>What decoding a request leaves alone, and the tests an accepted option passed.\<close>

definition lcp_wants :: "link \<Rightarrow> optinfo \<times> u32" where
  "lcp_wants l = (lk_options l, lp_want_magic (lk_lcp l))"

definition lcp_acceptable :: "fsmoption \<Rightarrow> optinfo \<times> u32 \<Rightarrow> bool" where
  "lcp_acceptable opt w \<longleftrightarrow>
     (opt_type opt = TY_MRU \<longrightarrow> LCP_MIN_MRU \<le> get_be16 (opt_data opt)) \<and>
     (opt_type opt = TY_MRRU \<longrightarrow> Enabled (fst w) LINK_CONF_MULTILINK \<and>
        MP_MIN_MRRU \<le> get_be16 (opt_data opt)) \<and>
     (opt_type opt = TY_MAGICNUM \<longrightarrow> snd w \<noteq> 0 \<and> get_be32 (opt_data opt) \<noteq> snd w) \<and>
     (opt_type opt = TY_AUTHPROTO \<longrightarrow>
        (\<exists>i. opt_auth_pos opt = Some i \<and> Acceptable (fst w) (lap_conf (gLcpAuthProtos ! i)))) \<and>
     opt_type opt \<notin> {TY_CALLBACK, TY_VENDOR}"

lemma lcp_wants_upd:
  "(\<And>p. lp_want_magic (g p) = lp_want_magic p) \<Longrightarrow>
     lcp_wants (f_arg (upd_lcp g f)) = lcp_wants (f_arg f)"
  by (simp add: lcp_wants_def upd_lcp_def)

lemma lcp_wants_auth_req [simp]: "lcp_wants (f_arg (lcp_auth_req opt f)) = lcp_wants (f_arg f)"
proof (cases "case opt_auth_pos opt of None \<Rightarrow> False
    | Some i \<Rightarrow> Acceptable (lk_options (f_arg f)) (lap_conf (gLcpAuthProtos ! i))")
  case True
  then show ?thesis by (simp add: lcp_auth_req_def Let_def lcp_wants_upd)
next
  case False
  then show ?thesis
    by (simp add: lcp_auth_req_def Let_def fsm_abort_def split: option.split)
qed

lemma request_keeps_wants:
  "lcp_wants (f_arg (lcp_decode_opt MODE_REQ f opt)) = lcp_wants (f_arg f)"
  by (cases MODE_REQ opt f rule: lcp_decode_opt_cases)
    (auto simp: lcp_quiet_opts Let_def lcp_wants_upd)

lemma decode_opt_acceptable:
  assumes "f_nakBuf (lcp_decode_opt MODE_REQ f opt) = []"
    "f_rejBuf (lcp_decode_opt MODE_REQ f opt) = []"
  shows "lcp_acceptable opt (lcp_wants (f_arg f))"
  using assms
proof (cases MODE_REQ opt f rule: lcp_decode_opt_cases)
  case (2 g)
  show ?thesis
  proof (cases "opt_type opt = TY_AUTHPROTO")
    case True
    with 2 assms show ?thesis
      by (auto simp: rej_nonempty nak_nonempty lcp_authproto_def lcp_auth_req_def lcp_acceptable_def lcp_wants_def Let_def
          split: option.splits if_splits dest: auth_entry_known [THEN notE])
  next
    case False
    with 2 assms show ?thesis
      by (auto simp: rej_nonempty lcp_acceptable_def lcp_quiet_opts)
  qed
qed (auto simp: rej_nonempty nak_nonempty lcp_acceptable_def lcp_wants_def lcp_quiet_opts Let_def split: if_splits)

section \<open>How deep LCP calls itself\<close>

text \<open>Only the moves into the authentication and network phases use the descriptor, and an
  automaton that fails makes neither.\<close>

lemma LcpNewState_quiet:
  assumes "phase_move old new \<noteq> Move PHASE_AUTHENTICATE" "phase_move old new \<noteq> Move PHASE_NETWORK"
  shows "LcpNewState ty f old new = LcpNewState ty' f old new"
proof (cases "phase_move old new")
  case (Move ph)
  with assms have "ph \<noteq> PHASE_AUTHENTICATE" "ph \<noteq> PHASE_NETWORK" by (simp_all del: phase_move.simps)
  then have "LcpNewPhase ty ph = LcpNewPhase ty' ph"
    by (cases ph) (simp_all add: LcpNewPhase_def fun_eq_iff Let_def)
  with Move show ?thesis by (simp add: LcpNewState_def del: phase_move.simps)
qed (simp_all add: LcpNewState_def del: phase_move.simps)

lemma failure_moves:
  assumes "new \<in> {ST_CLOSED, ST_STOPPED, ST_STOPPING}"
  shows "LcpNewState ty f old new = LcpNewState ty' f old new"
  by (rule LcpNewState_quiet; use assms in \<open>cases old; auto\<close>)

text \<open>At any level, a descriptor has the same fields but for \<open>NewState\<close>.\<close>

lemma lcp_level [simp]:
  "gLcpFsmType n\<lparr>NewState := None\<rparr> = (lcp_type undefined)\<lparr>NewState := None\<rparr>"
  by (cases n) (simp_all add: lcp_type_def)

lemma lcp_level_fields [simp]:
  "ty_proto (gLcpFsmType n) = PROTO_LCP" "ty_link_layer (gLcpFsmType n) = True"
  "LayerUp (gLcpFsmType n) = None" "LayerDown (gLcpFsmType n) = Some LcpLayerDown"
  "LayerStart (gLcpFsmType n) = Some LcpLayerStart"
  "LayerFinish (gLcpFsmType n) = Some LcpLayerFinish"
  "Failure (gLcpFsmType n) = Some LcpFailure" "UnConfigure (gLcpFsmType n) = None"
  "Configure (gLcpFsmType n) = Some LcpConfigure"
  "SendTerminateReq (gLcpFsmType n) = None" "SendTerminateAck (gLcpFsmType n) = None"
  "arg_retry_timeout (gLcpFsmType n) = lk_retry_timeout"
  "arg_want_magic (gLcpFsmType n) = (\<lambda>l. lp_want_magic (lk_lcp l))"
  "BuildConfigReq (gLcpFsmType n) = LcpBuildConfigReq"
  "DecodeConfig (gLcpFsmType n) = LcpDecodeConfig"
  "RecvCodeRej (gLcpFsmType n) = None" "RecvProtoRej (gLcpFsmType n) = Some LcpRecvProtoRej"
  "RecvResetReq (gLcpFsmType n) = None" "RecvResetAck (gLcpFsmType n) = None"
  "RecvIdent (gLcpFsmType n) = Some LcpRecvIdent" "RecvDiscReq (gLcpFsmType n) = None"
  "RecvTimeRemain (gLcpFsmType n) = None" "RecvVendor (gLcpFsmType n) = None"
  "NewState (gLcpFsmType (Suc n)) = Some (LcpNewState (gLcpFsmType n))"
  by (cases n; simp add: lcp_type_def)+

declare gLcpFsmType.simps [simp del]

lemma lcp_level_ops:
  "FsmLayerFinish (gLcpFsmType m) = FsmLayerFinish (gLcpFsmType n)"
  "FsmLayerDown (gLcpFsmType m) = FsmLayerDown (gLcpFsmType n)"
  "fsm_UnConfigure (gLcpFsmType m) = fsm_UnConfigure (gLcpFsmType n)"
  "FsmSendTerminateReq (gLcpFsmType m) = FsmSendTerminateReq (gLcpFsmType n)"
  "FsmInitRestartCounter (gLcpFsmType m) = FsmInitRestartCounter (gLcpFsmType n)"
  "FsmSendIdent (gLcpFsmType m) = FsmSendIdent (gLcpFsmType n)"
  "FsmSendTimeRemaining (gLcpFsmType m) = FsmSendTimeRemaining (gLcpFsmType n)"
  by (simp_all add: fun_eq_iff FsmLayerFinish_def FsmLayerDown_def fsm_UnConfigure_def
      FsmSendTerminateReq_def FsmInitRestartCounter_def FsmSendIdent_def FsmSendTimeRemaining_def
      FsmOutput_def FsmOutputMbuf_def)

lemma new_state_level:
  assumes "new \<in> {ST_CLOSED, ST_STOPPED, ST_STOPPING}"
  shows "FsmNewState (gLcpFsmType (Suc m)) new f = FsmNewState (gLcpFsmType (Suc n)) new f"
  using failure_moves [OF assms, of "gLcpFsmType m" _ _ "gLcpFsmType n"]
  by (simp add: FsmNewState_def)

lemma failure_level: "FsmFailure (gLcpFsmType (Suc m)) r f = FsmFailure (gLcpFsmType (Suc n)) r f"
  using new_state_level [of ST_CLOSED m _ n] new_state_level [of ST_STOPPED m _ n]
    new_state_level [of ST_STOPPING m _ n]
    lcp_level_ops [of "Suc m" "Suc n"]
  by (cases "f_state (LcpFailure (emit (EvFailure r) f) r)") (simp_all add: FsmFailure_def Let_def)

lemma enter_network_level:
  "lcp_enter_network (gLcpFsmType (Suc m)) f = lcp_enter_network (gLcpFsmType (Suc n)) f"
proof -
  have "lcp_join (gLcpFsmType (Suc m)) = lcp_join (gLcpFsmType (Suc n))"
    by (intro ext) (simp only: lcp_join_def failure_level [of m _ _ n])
  then show ?thesis
    by (simp only: lcp_enter_network_def lcp_level_ops [of "Suc m" "Suc n"])
qed

lemma auth_result_level:
  "LcpAuthResult (gLcpFsmType (Suc m)) = LcpAuthResult (gLcpFsmType (Suc n))"
  by (intro ext) (simp only: LcpAuthResult_def enter_network_level [of m _ n]
      failure_level [of m _ _ n])

lemma auth_start_level: "AuthStart (gLcpFsmType (Suc m)) = AuthStart (gLcpFsmType (Suc n))"
  by (intro ext) (simp only: AuthStart_def auth_result_level [of m n])

lemma new_level:
  "LcpNewState (gLcpFsmType (Suc m)) f old new = LcpNewState (gLcpFsmType (Suc n)) f old new"
  by (simp only: LcpNewState_def LcpNewPhase_def auth_start_level [of m n]
      enter_network_level [of m _ n])

lemma lcp_levels: "gLcpFsmType (Suc (Suc n)) = lcp_fsm"
proof -
  have "LcpNewState (gLcpFsmType (Suc n)) = LcpNewState (gLcpFsmType (Suc 0))"
    by (intro ext new_level)
  then show ?thesis by (simp add: lcp_fsm_def numeral_2_eq_2 gLcpFsmType.simps)
qed

end
