(* ===== verification/Lcp_Phases.thy ===== *)
theory Lcp_Phases
  imports Lcp_Facts Fsm_Phase
begin

unbundle bit_operations_syntax

text \<open>
  LCP's phase follows the automaton's state, whatever happens: the assertions of
  \<open>LcpNewPhase\<close>, \<open>LcpNewState\<close> and \<open>AuthStart\<close> hold, and a link is in a bundle only during
  the network phase. The automaton's contract (\<open>fsm_phased\<close>) is discharged for LCP here, the
  nested failure of \<open>lcp_join\<close> included.
\<close>

section \<open>What fits\<close>

fun phase_ok :: "fsm_state \<Rightarrow> lcp_phase \<Rightarrow> bool" where
  "phase_ok s ph =
     (if s \<in> {ST_INITIAL, ST_STARTING} then ph = PHASE_DEAD
      else if s \<in> {ST_CLOSING, ST_STOPPING} then ph = PHASE_TERMINATE
      else if s = ST_OPENED then ph = PHASE_AUTHENTICATE \<or> ph = PHASE_NETWORK
      else ph = PHASE_ESTABLISH)"

definition auth_known :: "lcpstate \<Rightarrow> bool" where
  "auth_known p \<longleftrightarrow> lp_peer_auth p \<in> {0, PROTO_PAP, PROTO_CHAP, PROTO_EAP} \<and>
     lp_want_auth p \<in> {0, PROTO_PAP, PROTO_CHAP, PROTO_EAP} \<and>
     (lp_want_auth p = PROTO_CHAP \<longrightarrow>
        lp_want_alg p \<in> {CHAP_ALG_MD5, CHAP_ALG_MSOFT, CHAP_ALG_MSOFTv2})"

text \<open>The authentications still owed: by the peer to us and by us to the peer.\<close>

definition auth_owed :: "link \<Rightarrow> u16 \<times> u16" where
  "auth_owed l = (au_peer_to_self (lk_auth l), au_self_to_peer (lk_auth l))"

definition lcp_good :: "fsm_state \<Rightarrow> link \<Rightarrow> bool" where
  "lcp_good s l \<longleftrightarrow> phase_ok s (lp_phase (lk_lcp l)) \<and> auth_known (lk_lcp l) \<and>
     (lk_joined_bund l \<longrightarrow> lp_phase (lk_lcp l) = PHASE_NETWORK) \<and>
     (lp_phase (lk_lcp l) = PHASE_NETWORK \<longrightarrow> auth_owed l = (0, 0))"

lemma auth_owed_same: "lk_auth l' = lk_auth l \<Longrightarrow> auth_owed l' = auth_owed l"
  by (simp add: auth_owed_def)

lemma auth_owed_update [simp]:
  "auth_owed (l\<lparr>lk_lcp := p\<rparr>) = auth_owed l" "auth_owed (l\<lparr>lk_calls := cs\<rparr>) = auth_owed l"
  "auth_owed (l\<lparr>lk_has_bund := b\<rparr>) = auth_owed l" "auth_owed (l\<lparr>lk_joined_bund := b\<rparr>) = auth_owed l"
  "auth_owed (l\<lparr>lk_num_redial := k\<rparr>) = auth_owed l" "auth_owed (l\<lparr>lk_rep := b\<rparr>) = auth_owed l"
  "auth_owed (l\<lparr>lk_magic_pos := n\<rparr>) = auth_owed l" "auth_owed (l\<lparr>lk_random_pos := n\<rparr>) = auth_owed l"
  by (simp_all add: auth_owed_def)

lemma lcp_good_same:
  "lk_lcp l' = lk_lcp l \<Longrightarrow> lk_joined_bund l' = lk_joined_bund l \<Longrightarrow> auth_owed l' = auth_owed l \<Longrightarrow>
     lcp_good s l' = lcp_good s l"
  by (simp add: lcp_good_def)

lemma lcp_good_upd:
  assumes "lcp_good s (f_arg f)" "\<And>p. lp_phase (g p) = lp_phase p"
    "\<And>p. auth_known p \<Longrightarrow> auth_known (g p)"
  shows "lcp_good s (f_arg (upd_lcp g f))"
  using assms by (simp add: lcp_good_def upd_lcp_def)

lemma lcp_good_calls [simp]:
  "lcp_good s (f_arg (link_call c f)) = lcp_good s (f_arg f)"
  "(\<And>a. au_peer_to_self (h a) = au_peer_to_self a) \<Longrightarrow> (\<And>a. au_self_to_peer (h a) = au_self_to_peer a) \<Longrightarrow>
     lcp_good s (f_arg (upd_auth h f)) = lcp_good s (f_arg f)"
  "lcp_good s (f_arg (FsmAck opt f)) = lcp_good s (f_arg f)"
  "lcp_good s (f_arg (FsmNak opt f)) = lcp_good s (f_arg f)"
  "lcp_good s (f_arg (FsmRej opt f)) = lcp_good s (f_arg f)"
  by (simp_all add: lcp_good_def link_call_def upd_auth_def auth_owed_def)

section \<open>Configuring and decoding\<close>

lemma auth_of_known:
  "lap_proto (auth_of q) \<in> {PROTO_PAP, PROTO_CHAP, PROTO_EAP}"
  "lap_proto (auth_of q) = PROTO_CHAP \<Longrightarrow>
     lap_alg (auth_of q) \<in> {CHAP_ALG_MD5, CHAP_ALG_MSOFT, CHAP_ALG_MSOFTv2}"
  by (cases q; simp add: auth_of_def gLcpAuthProtos_def auth_proto_def)+

lemma auth_known_want:
  "auth_known p \<Longrightarrow> auth_known (p\<lparr>lp_want_auth := lap_proto (auth_of q), lp_want_alg := lap_alg (auth_of q)\<rparr>)"
  using auth_of_known [of q] by (simp add: auth_known_def)

lemma configure_proto_keeps:
  "auth_known p \<Longrightarrow> auth_known (configure_proto opts q p)"
  "lp_phase (configure_proto opts q p) = lp_phase p"
  using auth_known_want [of p q] by (auto simp: configure_proto_def Let_def auth_known_def)

lemma configure_protos_keeps:
  "auth_known p \<Longrightarrow> auth_known (configure_protos opts p)"
  "lp_phase (configure_protos opts p) = lp_phase p"
proof -
  have "auth_known p \<Longrightarrow> auth_known (fold (configure_proto opts) qs p)"
    "lp_phase (fold (configure_proto opts) qs p) = lp_phase p" for qs p
    by (induction qs arbitrary: p) (simp_all add: configure_proto_keeps)
  then show "auth_known p \<Longrightarrow> auth_known (configure_protos opts p)"
    "lp_phase (configure_protos opts p) = lp_phase p"
    by (simp_all add: configure_protos_def auth_known_def)
qed

lemma auth_known_update [simp]:
  "auth_known (p\<lparr>lp_peer_mru := a\<rparr>) = auth_known p"
  "auth_known (p\<lparr>lp_peer_accmap := w\<rparr>) = auth_known p"
  "auth_known (p\<lparr>lp_peer_magic := w\<rparr>) = auth_known p"
  "auth_known (p\<lparr>lp_peer_mrru := a\<rparr>) = auth_known p"
  "auth_known (p\<lparr>lp_peer_protocomp := b\<rparr>) = auth_known p"
  "auth_known (p\<lparr>lp_peer_acfcomp := b\<rparr>) = auth_known p"
  "auth_known (p\<lparr>lp_peer_shortseq := b\<rparr>) = auth_known p"
  "auth_known (p\<lparr>lp_peer_discrim := d\<rparr>) = auth_known p"
  "auth_known (p\<lparr>lp_peer_ident := xs\<rparr>) = auth_known p"
  "auth_known (p\<lparr>lp_peer_reject := w\<rparr>) = auth_known p"
  "auth_known (p\<lparr>lp_need_reset := b\<rparr>) = auth_known p"
  "auth_known (p\<lparr>lp_want_mru := a\<rparr>) = auth_known p"
  "auth_known (p\<lparr>lp_want_accmap := w\<rparr>) = auth_known p"
  "auth_known (p\<lparr>lp_want_magic := w\<rparr>) = auth_known p"
  "auth_known (p\<lparr>lp_want_mrru := a\<rparr>) = auth_known p"
  "auth_known (p\<lparr>lp_want_protocomp := b\<rparr>) = auth_known p"
  "auth_known (p\<lparr>lp_want_acfcomp := b\<rparr>) = auth_known p"
  "auth_known (p\<lparr>lp_want_shortseq := b\<rparr>) = auth_known p"
  "auth_known (p\<lparr>lp_want_callback := b\<rparr>) = auth_known p"
  "auth_known (p\<lparr>lp_want_protos := qs\<rparr>) = auth_known p"
  "auth_known (p\<lparr>lp_phase := ph\<rparr>) = auth_known p"
  "auth_known p \<Longrightarrow> auth_known (p\<lparr>lp_want_auth := 0\<rparr>)"
  "auth_known p \<Longrightarrow> auth_known (p\<lparr>lp_peer_auth := 0, lp_peer_alg := x\<rparr>)"
  "auth_known (LCP_PEER_REJ t p) = auth_known p" "auth_known (LCP_PEER_UNREJ t p) = auth_known p"
  "lp_phase (LCP_PEER_REJ t p) = lp_phase p" "lp_phase (LCP_PEER_UNREJ t p) = lp_phase p"
  by (simp_all add: auth_known_def LCP_PEER_REJ_def LCP_PEER_UNREJ_def)

lemma lcp_configure_keeps:
  "auth_known (lk_lcp (lcp_configure l))"
  "lp_phase (lk_lcp (lcp_configure l)) = lp_phase (lk_lcp l)"
  "lk_joined_bund (lcp_configure l) = lk_joined_bund l"
  "auth_owed (lcp_configure l) = auth_owed l"
  by (simp_all add: lcp_configure_def Let_def GenerateMagic_def configure_protos_keeps)
    (intro conjI impI; rule configure_protos_keeps; simp add: auth_known_def)

lemma lcp_good_configure: "lcp_good s l \<Longrightarrow> lcp_good s (lcp_configure l)"
  by (simp add: lcp_good_def lcp_configure_keeps)

lemma find_auth_proto_known:
  "find_auth_proto proto alg i qs = Some j \<Longrightarrow>
     \<exists>q\<in>set qs. lap_proto q = proto \<and> lap_alg q = alg"
  by (induction qs arbitrary: i) (auto split: if_splits)

lemma opt_auth_pos_known:
  assumes "opt_auth_pos opt = Some i"
  shows "get_be16 (opt_data opt) \<in> {PROTO_PAP, PROTO_CHAP, PROTO_EAP}"
    "get_be16 (opt_data opt) = PROTO_CHAP \<Longrightarrow>
       opt_data opt ! 2 \<in> {CHAP_ALG_MD5, CHAP_ALG_MSOFT, CHAP_ALG_MSOFTv2}"
  using assms
  by (auto simp: opt_auth_pos_def LcpFindAuthProto_def Let_def gLcpAuthProtos_def auth_proto_def
      split: if_splits dest!: find_auth_proto_known)

lemma lcp_good_auth_req:
  assumes "lcp_good s (f_arg f)"
  shows "lcp_good s (f_arg (lcp_auth_req opt f))"
proof (cases "case opt_auth_pos opt of None \<Rightarrow> False
    | Some i \<Rightarrow> Acceptable (lk_options (f_arg f)) (lap_conf (gLcpAuthProtos ! i))")
  case True
  then obtain i where "opt_auth_pos opt = Some i" by (auto split: option.splits)
  with True assms opt_auth_pos_known [of opt i] show ?thesis
    by (auto simp: lcp_auth_req_def Let_def auth_known_def intro!: lcp_good_upd)
next
  case False
  with assms show ?thesis
    by (simp add: lcp_auth_req_def Let_def fsm_abort_def split: option.split)
qed

lemma lcp_good_auth_nak:
  assumes "lcp_good s (f_arg f)"
  shows "lcp_good s (f_arg (lcp_auth_nak opt f))"
proof (cases "opt_auth_pos opt")
  case (Some i)
  note known = opt_auth_pos_known [OF Some]
  show ?thesis
  proof (cases "Enabled (lk_options (f_arg f)) (lap_conf (gLcpAuthProtos ! i))")
    case True
    then have "lcp_auth_nak opt f = upd_lcp (\<lambda>p. p\<lparr>lp_want_auth := get_be16 (opt_data opt),
        lp_want_alg := (if get_be16 (opt_data opt) = PROTO_CHAP then opt_data opt ! 2
                        else lp_want_alg p)\<rparr>) f"
      using Some by (simp add: lcp_auth_nak_def Let_def)
    with assms known show ?thesis by (auto simp: auth_known_def intro!: lcp_good_upd)
  next
    case False
    with assms Some show ?thesis
      by (simp add: lcp_auth_nak_def Let_def lcp_good_upd auth_known_want split: option.split)
  qed
qed (use assms in \<open>simp add: lcp_auth_nak_def Let_def\<close>)

lemma lcp_good_vendor: "lcp_good s (f_arg f) \<Longrightarrow> lcp_good s (f_arg (lcp_vendor md opt f))"
  by (cases md; simp add: lcp_vendor_def lcp_rejected_def Let_def lcp_good_upd)

lemma lcp_good_accmap: "lcp_good s (f_arg f) \<Longrightarrow> lcp_good s (f_arg (lcp_accmap md opt f))"
  by (cases md; simp add: lcp_accmap_def lcp_rejected_def Let_def lcp_good_upd)

lemma lcp_good_protocomp: "lcp_good s (f_arg f) \<Longrightarrow> lcp_good s (f_arg (lcp_protocomp md opt f))"
  by (cases md; simp add: lcp_protocomp_def lcp_rejected_def Let_def lcp_good_upd)

lemma lcp_good_acfcomp: "lcp_good s (f_arg f) \<Longrightarrow> lcp_good s (f_arg (lcp_acfcomp md opt f))"
  by (cases md; simp add: lcp_acfcomp_def lcp_rejected_def Let_def lcp_good_upd)

lemma lcp_good_callback: "lcp_good s (f_arg f) \<Longrightarrow> lcp_good s (f_arg (lcp_callback md opt f))"
  by (cases md; simp add: lcp_callback_def lcp_rejected_def Let_def lcp_good_upd)

lemma lcp_good_shortseq: "lcp_good s (f_arg f) \<Longrightarrow> lcp_good s (f_arg (lcp_shortseq md opt f))"
  by (cases md; simp add: lcp_shortseq_def lcp_rejected_def Let_def lcp_good_upd)

lemma lcp_good_endpoint: "lcp_good s (f_arg f) \<Longrightarrow> lcp_good s (f_arg (lcp_endpoint md opt f))"
  by (cases md; simp add: lcp_endpoint_def lcp_rejected_def Let_def lcp_good_upd)

lemma lcp_good_mru: "lcp_good s (f_arg f) \<Longrightarrow> lcp_good s (f_arg (lcp_mru md opt f))"
  by (cases md; simp add: lcp_mru_def lcp_rejected_def Let_def lcp_good_upd)

lemma mrru_lower_keeps [simp]:
  "auth_known (mrru_lower m p) = auth_known p" "lp_phase (mrru_lower m p) = lp_phase p"
  by (simp_all add: mrru_lower_def)

lemma lcp_good_mrru: "lcp_good s (f_arg f) \<Longrightarrow> lcp_good s (f_arg (lcp_mrru md opt f))"
  by (cases md; simp add: lcp_mrru_def lcp_rejected_def Let_def lcp_good_upd)

lemma lcp_good_authproto:
  "lcp_good s (f_arg f) \<Longrightarrow> lcp_good s (f_arg (lcp_authproto md opt f))"
  by (cases md; simp add: lcp_authproto_def lcp_rejected_def lcp_good_upd lcp_good_auth_req
      lcp_good_auth_nak)

lemmas lcp_good_opts = lcp_good_vendor lcp_good_accmap lcp_good_protocomp lcp_good_acfcomp
  lcp_good_callback lcp_good_shortseq lcp_good_endpoint lcp_good_mru lcp_good_mrru
  lcp_good_authproto

lemma lcp_good_magic:
  assumes "lcp_good s (f_arg f)"
  shows "lcp_good s (f_arg (lcp_magic md opt f))"
proof -
  have "lcp_good s (f_arg (f\<lparr>f_arg := snd (GenerateMagic (f_arg f))\<rparr>))"
    using assms by (simp add: GenerateMagic_def lcp_good_def)
  then show ?thesis
    using assms
    by (cases md; simp add: lcp_magic_def lcp_rejected_def Let_def lcp_good_upd case_prod_beta)
qed

lemma lcp_good_decode_opt:
  assumes "lcp_good s (f_arg f)"
  shows "lcp_good s (f_arg (lcp_decode_opt md f opt))"
  using lcp_good_opts [OF assms] lcp_good_magic [OF assms] assms
  by (cases md opt f rule: lcp_decode_opt_cases) auto

section \<open>Starting the authentication\<close>

text \<open>What starting a protocol leaves alone.\<close>

definition auth_frame :: "link fsm \<Rightarrow> unit fsm \<times> lcpstate \<times> bool \<times> byte \<times> u16 \<times> u16" where
  "auth_frame f = (ctl f, lk_lcp (f_arg f), lk_joined_bund (f_arg f),
     au_peer_to_self_alg (lk_auth (f_arg f)), auth_owed (f_arg f))"

lemma auth_frame_ops [simp]:
  "auth_frame (link_call c f) = auth_frame f" "auth_frame (upd_pap g1 f) = auth_frame f"
  "auth_frame (upd_chap g2 f) = auth_frame f" "auth_frame (upd_eap g3 f) = auth_frame f"
  "auth_frame (upd_params g4 f) = auth_frame f"
  "auth_frame (AuthOutput proto code i xs b t f) = auth_frame f"
  "auth_frame (chap_new_challenge n f) = auth_frame f" "auth_frame (remember_msChal f) = auth_frame f"
  "auth_frame (snd (draw_random f)) = auth_frame f"
  by (simp_all add: auth_frame_def link_call_def upd_pap_def upd_chap_def upd_eap_def upd_params_def
      upd_auth_def AuthOutput_def chap_new_challenge_def remember_msChal_def draw_random_def
      ChapGenRandom_def auth_owed_def Let_def)

lemma auth_frame_timer:
  assumes "t_func (sel (the_auth f))" "\<And>t a. au_peer_to_self_alg (upd t a) = au_peer_to_self_alg a"
    "\<And>t a. au_peer_to_self (upd t a) = au_peer_to_self a"
    "\<And>t a. au_self_to_peer (upd t a) = au_self_to_peer a"
  shows "auth_frame (auth_timer_start sel upd f) = auth_frame f"
  using assms by (simp add: auth_timer_start_def TimerStart2_def auth_frame_def upd_auth_def auth_owed_def)

lemma auth_reads [simp]:
  "lk_auth (f_arg (upd_pap g1 f)) = (the_auth f)\<lparr>au_pap := g1 (au_pap (the_auth f))\<rparr>"
  "lk_auth (f_arg (upd_chap g2 f)) = (the_auth f)\<lparr>au_chap := g2 (au_chap (the_auth f))\<rparr>"
  "lk_auth (f_arg (upd_eap g3 f)) = (the_auth f)\<lparr>au_eap := g3 (au_eap (the_auth f))\<rparr>"
  "lk_auth (f_arg (upd_params g4 f)) = (the_auth f)\<lparr>au_params := g4 (au_params (the_auth f))\<rparr>"
  by (simp_all add: upd_pap_def upd_chap_def upd_eap_def upd_params_def upd_auth_def)

lemma auth_frame_alg:
  "auth_frame g = auth_frame f \<Longrightarrow> au_peer_to_self_alg (the_auth g) = au_peer_to_self_alg (the_auth f)"
  by (simp add: auth_frame_def)

text \<open>The protocol's timer was initialised just before.\<close>

lemma auth_frame_pap_timer:
  assumes "\<And>p. t_func (pap_timer (g p))"
  shows "auth_frame (auth_timer_start (\<lambda>a. pap_timer (au_pap a))
     (\<lambda>t a. a\<lparr>au_pap := (au_pap a)\<lparr>pap_timer := t\<rparr>\<rparr>) (upd_pap g f)) = auth_frame f"
  using assms by (simp add: auth_frame_timer)

lemma auth_frame_chal_timer:
  assumes "\<And>c. t_func (ch_chalTimer (g c))"
  shows "auth_frame (auth_timer_start (\<lambda>a. ch_chalTimer (au_chap a))
     (\<lambda>t a. a\<lparr>au_chap := (au_chap a)\<lparr>ch_chalTimer := t\<rparr>\<rparr>) (upd_chap g f)) = auth_frame f"
  using assms by (simp add: auth_frame_timer)

lemma auth_frame_ident_timer:
  assumes "\<And>e. t_func (eap_identTimer (g e))"
  shows "auth_frame (eap_timer_start (upd_eap g f)) = auth_frame f"
  using assms by (simp add: eap_timer_start_def auth_frame_timer)

lemma auth_frame_requests [simp]:
  "auth_frame (PapSendRequest f) = auth_frame f" "auth_frame (EapSendIdentRequest f) = auth_frame f"
  by (simp_all only: PapSendRequest_def EapSendIdentRequest_def Let_def auth_frame_ops)

lemma auth_frame_PapStart [simp]: "auth_frame (PapStart which f) = auth_frame f"
  by (cases which) (simp_all add: PapStart_def Let_def auth_frame_pap_timer)

definition chap_alg_known :: "link fsm \<Rightarrow> bool" where
  "chap_alg_known f \<longleftrightarrow>
     au_peer_to_self_alg (the_auth f) \<in> {CHAP_ALG_MD5, CHAP_ALG_MSOFT, CHAP_ALG_MSOFTv2}"

lemma chap_alg_frame: "auth_frame g = auth_frame f \<Longrightarrow> chap_alg_known g = chap_alg_known f"
  by (simp add: chap_alg_known_def auth_frame_def)

lemmas chap_alg_ops [simp] = auth_frame_ops [THEN chap_alg_frame]

lemma auth_frame_make_challenge: "chap_alg_known f \<Longrightarrow> auth_frame (chap_make_challenge f) = auth_frame f"
  by (auto simp: chap_alg_known_def chap_make_challenge_def Let_def case_prod_beta)

lemma auth_frame_challenge:
  assumes "chap_alg_known f"
  shows "auth_frame (ChapSendChallenge f) = auth_frame f"
proof -
  have "auth_frame (ChapSendChallenge f) = auth_frame (chap_make_challenge f)"
    by (simp only: ChapSendChallenge_def Let_def auth_frame_ops)
  then show ?thesis using auth_frame_make_challenge [OF assms] by (rule trans)
qed

lemma auth_frame_first_challenge:
  assumes "chap_alg_known f"
  shows "auth_frame (chap_first_challenge f) = auth_frame f"
proof -
  define f1 where "f1 = upd_params (\<lambda>p. p\<lparr>cp_chal := []\<rparr>) f"
  define f2 where "f2 = auth_timer_start (\<lambda>a. ch_chalTimer (au_chap a))
    (\<lambda>t a. a\<lparr>au_chap := (au_chap a)\<lparr>ch_chalTimer := t\<rparr>\<rparr>)
    (upd_chap (\<lambda>c. c\<lparr>ch_next_id := 1, ch_retry := AUTH_RETRIES,
       ch_chalTimer := TimerInit2 (retry_load f1) (ch_chalTimer c)\<rparr>) f1)"
  have f2: "auth_frame f2 = auth_frame f" by (simp add: f2_def f1_def auth_frame_chal_timer)
  with assms have "chap_alg_known f2" using chap_alg_frame by blast
  then have "auth_frame (ChapSendChallenge f2) = auth_frame f"
    using f2 auth_frame_challenge by metis
  then show ?thesis by (simp only: chap_first_challenge_def Let_def f2_def f1_def)
qed

lemma auth_frame_ChapStart:
  assumes "which = AUTH_PEER_TO_SELF \<Longrightarrow> chap_alg_known f"
  shows "auth_frame (ChapStart which f) = auth_frame f"
  using assms
  by (cases which) (simp_all add: ChapStart_def Let_def auth_frame_first_challenge)

lemma auth_frame_EapStart [simp]: "auth_frame (EapStart which f) = auth_frame f"
  by (cases which) (simp_all add: EapStart_def Let_def auth_frame_ident_timer)

lemma auth_frame_start_side:
  assumes "proto \<in> {0, PROTO_PAP, PROTO_CHAP, PROTO_EAP}"
    "which = AUTH_PEER_TO_SELF \<Longrightarrow> proto = PROTO_CHAP \<Longrightarrow> chap_alg_known f"
  shows "auth_frame (auth_start_side proto which f) = auth_frame f"
  using assms by (auto simp: auth_start_side_def auth_frame_ChapStart)

section \<open>Entering the network phase\<close>

text \<open>What is left of the invariant when the automaton fails in the middle of its move to
  Opened.\<close>

definition in_network :: "link fsm \<Rightarrow> bool" where
  "in_network f \<longleftrightarrow> lp_phase (the_lcp f) = PHASE_NETWORK \<and> auth_known (the_lcp f) \<and>
     auth_owed (f_arg f) = (0, 0) \<and> \<not> f_aborted f"

lemma in_network_calls [simp]:
  "in_network (link_call c f) = in_network f" "in_network (emit e f) = in_network f"
  "in_network (f\<lparr>f_echoid := x\<rparr>) = in_network f" "in_network (f\<lparr>f_state := s\<rparr>) = in_network f"
  "in_network (f\<lparr>f_timer := t\<rparr>) = in_network f" "in_network (f\<lparr>f_echoTimer := t\<rparr>) = in_network f"
  "in_network (FsmSendIdent ty xs f) = in_network f"
  "in_network (FsmSendTimeRemaining ty w f) = in_network f"
  "(\<And>a. au_peer_to_self (h a) = au_peer_to_self a) \<Longrightarrow> (\<And>a. au_self_to_peer (h a) = au_self_to_peer a) \<Longrightarrow>
     in_network (upd_auth h f) = in_network f"
  "in_network (upd_arg (\<lambda>l. l\<lparr>lk_num_redial := k\<rparr>) f) = in_network f"
  "in_network (bund_join f) = in_network f"
  by (simp_all add: in_network_def link_call_def FsmSendIdent_def FsmSendTimeRemaining_def
      FsmOutputMbuf_def upd_auth_def bund_join_def upd_arg_def emit_def auth_owed_def Let_def
      split: join_result.split)

declare gLcpFsmType.simps [simp del]

lemma link_primed [simp]:
  "the_lcp (link_call c f) = the_lcp f"
  "lk_joined_bund (f_arg (link_call c f)) = lk_joined_bund (f_arg f)"
  "primed (link_call c f) = primed f" "f_state (link_call c f) = f_state f"
  "f_aborted (link_call c f) = f_aborted f" "f_conf (link_call c f) = f_conf f"
  "primed (upd_lcp g1 f) = primed f" "f_state (upd_lcp g1 f) = f_state f"
  "f_aborted (upd_lcp g1 f) = f_aborted f"
  "primed (upd_auth g2 f) = primed f" "f_state (upd_auth g2 f) = f_state f"
  "f_aborted (upd_auth g2 f) = f_aborted f"
  "primed (bund_join f) = primed f" "f_state (bund_join f) = f_state f"
  "primed (bund_leave f) = primed f" "f_state (bund_leave f) = f_state f"
  "f_aborted (bund_leave f) = f_aborted f" "f_timer (link_call c f) = f_timer f"
  by (simp_all add: link_call_def upd_lcp_def upd_auth_def bund_join_def bund_leave_def)
    (simp_all add: upd_arg_def)

lemma failure_in_network:
  assumes "in_network f" "f_state f \<in> {ST_REQSENT, ST_ACKRCVD, ST_ACKSENT}"
  shows "in_network (FsmFailure (gLcpFsmType (Suc n)) r f)"
    "primed (FsmFailure (gLcpFsmType (Suc n)) r f) = primed f"
proof -
  let ?ty = "gLcpFsmType (Suc n)"
  let ?g = "link_call (CallReason r) (emit (EvFailure r) f)"
  have g: "in_network ?g" "primed ?g = primed f" "f_state ?g = f_state f"
    using assms(1) by simp_all
  have move: "phase_move (f_state f) ST_STOPPED = NoMove" using assms(2) by auto
  have stop: "in_network (FsmNewState ?ty ST_STOPPED ?g)"
    "primed (FsmNewState ?ty ST_STOPPED ?g) = primed f"
    using g move assms(2)
    by (auto simp: FsmNewState_def Let_def LcpNewState_def) (auto simp: primed_def)
  have fin: "in_network (FsmLayerFinish ?ty h) = in_network h"
    "primed (FsmLayerFinish ?ty h) = primed h" for h
    by (simp_all add: FsmLayerFinish_def call0_def LcpLayerFinish_def AuthStop_def Let_def)
  have "FsmFailure ?ty r f = (let f = FsmNewState ?ty ST_STOPPED ?g
      in if \<not> conf_passive (f_conf f) then FsmLayerFinish ?ty f else f)"
    using assms(2) g(3)
    by (auto simp: FsmFailure_def LcpFailure_def fsm_UnConfigure_def Let_def)
  with stop fin show "in_network (FsmFailure ?ty r f)" "primed (FsmFailure ?ty r f) = primed f"
    by (simp_all add: Let_def)
qed

lemma enter_network:
  assumes "in_network f" "f_state f \<in> {ST_REQSENT, ST_ACKRCVD, ST_ACKSENT}"
  shows "in_network (lcp_enter_network (gLcpFsmType (Suc n)) f)"
    "primed (lcp_enter_network (gLcpFsmType (Suc n)) f) = primed f"
proof -
  let ?ty = "gLcpFsmType (Suc n)"
  define f1 where "f1 = (case lk_ident (f_arg f) of None \<Rightarrow> f | Some s \<Rightarrow> FsmSendIdent ?ty s f)"
  define t where "t = ap_session_timeout (au_params (the_auth f1))"
  define f2 where "f2 = (if Enabled (lk_options (f_arg f1)) LINK_CONF_TIMEREMAIN \<and> t \<noteq> 0
    then FsmSendTimeRemaining ?ty t f1 else f1)"
  have sends: "primed (FsmSendIdent ?ty s h) = primed h" "f_state (FsmSendIdent ?ty s h) = f_state h"
    "primed (FsmSendTimeRemaining ?ty w h) = primed h"
    "f_state (FsmSendTimeRemaining ?ty w h) = f_state h" for s w h
    by (simp_all add: FsmSendIdent_def FsmSendTimeRemaining_def FsmOutputMbuf_def)
  have f2: "in_network f2" "f_state f2 = f_state f" "primed f2 = primed f"
    using assms(1) by (simp_all add: f2_def f1_def sends split: option.split)
  have "in_network (lcp_join ?ty f2)" "primed (lcp_join ?ty f2) = primed f2"
    using f2(1,2) assms(2) failure_in_network [of "link_call CallReasonJoin (bund_join f2)" n]
    by (auto simp: lcp_join_def Let_def)
  then show "in_network (lcp_enter_network ?ty f)"
    "primed (lcp_enter_network ?ty f) = primed f"
    using f2(3) by (simp_all only: lcp_enter_network_def Let_def f2_def f1_def t_def)
qed

section \<open>Moving through the phases\<close>

lemma auth_result_in_network:
  assumes "lp_phase (the_lcp f) = PHASE_AUTHENTICATE" "auth_known (the_lcp f)" "\<not> f_aborted f"
    "auth_owed (f_arg f) = (0, 0)"
    "f_state f \<in> {ST_REQSENT, ST_ACKRCVD, ST_ACKSENT}"
  shows "in_network (LcpAuthResult (gLcpFsmType (Suc n)) True f)"
    "primed (LcpAuthResult (gLcpFsmType (Suc n)) True f) = primed f"
proof -
  let ?g = "upd_lcp (\<lambda>p. p\<lparr>lp_phase := PHASE_NETWORK\<rparr>) f"
  have "in_network ?g" "f_state ?g = f_state f" "primed ?g = primed f"
    using assms by (simp_all add: in_network_def upd_lcp_def)
  moreover have "LcpAuthResult (gLcpFsmType (Suc n)) True f = lcp_enter_network (gLcpFsmType (Suc n)) ?g"
    using assms(1) by (simp add: LcpAuthResult_def lcp_leave_phase_def Let_def)
  ultimately show "in_network (LcpAuthResult (gLcpFsmType (Suc n)) True f)"
    "primed (LcpAuthResult (gLcpFsmType (Suc n)) True f) = primed f"
    using assms(5) enter_network [of ?g n] by simp_all
qed

definition authenticating :: "link fsm \<Rightarrow> bool" where
  "authenticating f \<longleftrightarrow> lp_phase (the_lcp f) = PHASE_AUTHENTICATE \<and> auth_known (the_lcp f) \<and> \<not> f_aborted f \<and>
     \<not> lk_joined_bund (f_arg f) \<and> f_state f \<in> {ST_REQSENT, ST_ACKRCVD, ST_ACKSENT}"

text \<open>Either the link joins at once or the authentication begins.\<close>

lemma auth_start_good:
  assumes "authenticating f"
  shows "lcp_good ST_OPENED (f_arg (AuthStart (gLcpFsmType (Suc n)) f))"
    "\<not> f_aborted (AuthStart (gLcpFsmType (Suc n)) f)"
    "primed f \<Longrightarrow> primed (AuthStart (gLcpFsmType (Suc n)) f)"
proof -
  let ?ty = "gLcpFsmType (Suc n)"
  let ?p = "the_lcp f"
  define f1 where "f1 = upd_auth (\<lambda>a. a\<lparr>au_params := params_zero,
    au_self_to_peer := lp_peer_auth ?p, au_peer_to_self := lp_want_auth ?p,
    au_self_to_peer_alg := lp_peer_alg ?p, au_peer_to_self_alg := lp_want_alg ?p\<rparr>) f"
  have f1: "the_lcp f1 = ?p" "ctl f1 = ctl f" "lk_joined_bund (f_arg f1) = lk_joined_bund (f_arg f)"
    "au_peer_to_self_alg (the_auth f1) = lp_want_alg ?p" "f_state f1 = f_state f"
    "auth_owed (f_arg f1) = (lp_want_auth ?p, lp_peer_auth ?p)"
    by (simp_all add: f1_def upd_auth_def auth_owed_def)
  have known: "lp_peer_auth ?p \<in> {0, PROTO_PAP, PROTO_CHAP, PROTO_EAP}"
      "lp_want_auth ?p \<in> {0, PROTO_PAP, PROTO_CHAP, PROTO_EAP}"
      "lp_want_auth ?p = PROTO_CHAP \<Longrightarrow> chap_alg_known f1"
    using assms f1(4) by (auto simp: authenticating_def auth_known_def chap_alg_known_def)
  have "in_network (AuthStart ?ty f) \<and> (primed f \<longrightarrow> primed (AuthStart ?ty f)) \<or>
      auth_frame (AuthStart ?ty f) = auth_frame f1"
  proof (cases "lp_peer_auth ?p = 0 \<and> lp_want_auth ?p = 0")
    case True
    then have "AuthStart ?ty f = LcpAuthResult ?ty True f1" by (simp add: AuthStart_def Let_def f1_def)
    moreover have "primed f1 = primed f" "\<not> f_aborted f1"
      using assms by (simp_all add: f1_def authenticating_def)
    ultimately show ?thesis
      using assms f1 True auth_result_in_network [of f1 n] by (simp add: authenticating_def)
  next
    case False
    define f2 where "f2 = upd_auth (\<lambda>a. a\<lparr>au_timer :=
      TimerInit2 (au_conf_timeout a * SECONDS) (au_timer a)\<rparr>) f1"
    define f3 where "f3 = auth_timer_start au_timer (\<lambda>t a. a\<lparr>au_timer := t\<rparr>) f2"
    define f4 where "f4 = auth_start_side (lp_peer_auth ?p) AUTH_SELF_TO_PEER f3"
    have "auth_frame f3 = auth_frame f2" "auth_frame f2 = auth_frame f1"
      by (simp_all add: f3_def f2_def auth_frame_timer upd_auth_def) (simp add: auth_frame_def auth_owed_def)
    moreover have "auth_frame f4 = auth_frame f3"
      unfolding f4_def using known(1) by (intro auth_frame_start_side) simp_all
    ultimately have f4: "auth_frame f4 = auth_frame f1" by simp
    then have "auth_frame (auth_start_side (lp_want_auth ?p) AUTH_PEER_TO_SELF f4) = auth_frame f4"
      using known(2,3) chap_alg_frame by (intro auth_frame_start_side) blast+
    moreover have "AuthStart ?ty f = auth_start_side (lp_want_auth ?p) AUTH_PEER_TO_SELF f4"
      using False by (simp only: AuthStart_def Let_def f4_def f3_def f2_def f1_def if_False)
    ultimately show ?thesis using f4 by simp
  qed
  then show "lcp_good ST_OPENED (f_arg (AuthStart ?ty f))" "\<not> f_aborted (AuthStart ?ty f)"
    "primed f \<Longrightarrow> primed (AuthStart ?ty f)"
    using assms f1 ctl_fields [of "AuthStart ?ty f" f]
    by (auto simp: in_network_def auth_frame_def lcp_good_def authenticating_def primed_def)
qed

lemma leave_phase:
  assumes "phase_may (lp_phase (the_lcp f)) new"
    "lk_joined_bund (f_arg f) \<longrightarrow> lp_phase (the_lcp f) = PHASE_NETWORK"
  shows "the_lcp (lcp_leave_phase new f) = (the_lcp f)\<lparr>lp_phase := new\<rparr>"
    "\<not> lk_joined_bund (f_arg (lcp_leave_phase new f))"
    "f_state (lcp_leave_phase new f) = f_state f" "f_aborted (lcp_leave_phase new f) = f_aborted f"
    "primed (lcp_leave_phase new f) = primed f"
  using assms
  by (cases "lp_phase (the_lcp f)"; simp add: lcp_leave_phase_def Let_def AuthCleanup_def
      upd_params_def upd_lcp_def upd_auth_def bund_leave_def link_call_def)+

lemma phase_moves:
  assumes "fsm_moves old new" "new \<noteq> ST_OPENED" "phase_ok old ph"
  obtains "phase_move old new = NoMove" "phase_ok new ph"
  | ph' where "phase_move old new = Move ph'" "ph' \<noteq> PHASE_AUTHENTICATE" "ph' \<noteq> PHASE_NETWORK"
      "phase_may ph ph'" "phase_ok new ph'"
  using assms by (cases old) (auto split: if_splits)

lemma opened_from:
  "fsm_moves old ST_OPENED \<Longrightarrow> old \<in> {ST_ACKRCVD, ST_ACKSENT}"
  by (cases old) simp_all

lemma new_state_good:
  assumes "lcp_good (f_state f) (f_arg f)" "\<not> f_aborted f" "fsm_moves (f_state f) new"
  shows "lcp_good new (f_arg (LcpNewState (gLcpFsmType (Suc n)) f (f_state f) new))"
    "\<not> f_aborted (LcpNewState (gLcpFsmType (Suc n)) f (f_state f) new)"
    "primed f \<Longrightarrow> primed (LcpNewState (gLcpFsmType (Suc n)) f (f_state f) new)"
proof -
  let ?ty = "gLcpFsmType (Suc n)"
  let ?g = "LcpNewState ?ty f (f_state f) new"
  have joined: "lk_joined_bund (f_arg f) \<longrightarrow> lp_phase (the_lcp f) = PHASE_NETWORK"
    and known: "auth_known (the_lcp f)"
    and owed: "lp_phase (the_lcp f) = PHASE_NETWORK \<longrightarrow> auth_owed (f_arg f) = (0, 0)"
    and ok: "phase_ok (f_state f) (lp_phase (the_lcp f))"
    using assms(1) by (simp_all add: lcp_good_def)
  have "lcp_good new (f_arg ?g) \<and> \<not> f_aborted ?g \<and> (primed f \<longrightarrow> primed ?g)"
  proof (cases "new = ST_OPENED")
    case True
    with assms(3) opened_from have old: "f_state f \<in> {ST_ACKRCVD, ST_ACKSENT}" by simp
    with ok have "phase_may (lp_phase (the_lcp f)) PHASE_AUTHENTICATE" by auto
    note left = leave_phase [OF this joined]
    define h where "h = (let g = lcp_leave_phase PHASE_AUTHENTICATE f in
      if \<not> ph_sync (f_arg g)
      then link_call (CallPhysSetAccm (lp_peer_accmap (the_lcp g)) (lp_want_accmap (the_lcp g))) g
      else g)"
    have "authenticating h" "primed h = primed f"
      using left known old assms(2)
      by (auto simp: h_def Let_def authenticating_def)
    moreover have "?g = link_call (CallShutdownCheck new) (AuthStart ?ty h)"
      using True old by (auto simp: LcpNewState_def LcpNewPhase_def h_def Let_def)
    ultimately show ?thesis using auth_start_good [of h n] True by simp
  next
    case False
    then show ?thesis
    proof (rule phase_moves [OF assms(3) _ ok])
      assume "phase_move (f_state f) new = NoMove" "phase_ok new (lp_phase (the_lcp f))"
      then show ?thesis
        using joined known owed assms(2)
        by (simp add: LcpNewState_def lcp_good_def link_call_def del: phase_ok.simps)
    next
      fix ph'
      assume m: "phase_move (f_state f) new = Move ph'" "ph' \<noteq> PHASE_AUTHENTICATE"
        "ph' \<noteq> PHASE_NETWORK" "phase_may (lp_phase (the_lcp f)) ph'" "phase_ok new ph'"
      then have "?g = link_call (CallShutdownCheck new) (lcp_leave_phase ph' f)"
        by (cases ph') (simp_all add: LcpNewState_def LcpNewPhase_def)
      then show ?thesis
        using leave_phase [OF m(4) joined] m(3,5) known assms(2)
        by (simp add: lcp_good_def del: phase_ok.simps)
    qed
  qed
  then show "lcp_good new (f_arg ?g)" "\<not> f_aborted ?g" "primed f \<Longrightarrow> primed ?g" by simp_all
qed

section \<open>The contract of the automaton\<close>

lemma lcp_forget_keeps:
  "f_state (lcp_forget md f) = f_state f" "f_aborted (lcp_forget md f) = f_aborted f"
  "primed (lcp_forget md f) = primed f"
  "lcp_good s (f_arg f) \<Longrightarrow> lcp_good s (f_arg (lcp_forget md f))"
  by (simp_all add: lcp_forget_def LcpConfigure_def Let_def lcp_good_configure lcp_good_upd)

lemma LcpDecodeConfig_harmless: "harmless lcp_good (\<lambda>f. LcpDecodeConfig f opts md)"
proof (rule harmlessI)
  fix f :: "link fsm"
  note kept = ctl_fields [OF lcp_dec.all_ctl [of md "lcp_forget md f" opts]] lcp_forget_keeps
  show "f_state (LcpDecodeConfig f opts md) = f_state f"
    "f_aborted (LcpDecodeConfig f opts md) = f_aborted f"
    "primed (LcpDecodeConfig f opts md) = primed f"
    using kept by (simp_all add: LcpDecodeConfig_def primed_def)
  fix s
  have "lcp_good s (f_arg g) \<Longrightarrow> lcp_good s (f_arg (foldl (lcp_decode_opt md) g opts))" for g
    by (induction opts arbitrary: g) (simp_all add: lcp_good_decode_opt)
  then show "lcp_good s (f_arg f) \<Longrightarrow> lcp_good s (f_arg (LcpDecodeConfig f opts md))"
    by (simp add: LcpDecodeConfig_def lcp_forget_keeps(4))
qed

lemma lcp_calls_harmless:
  "harmless lcp_good LcpLayerDown" "harmless lcp_good LcpLayerStart"
  "harmless lcp_good LcpLayerFinish" "harmless lcp_good LcpConfigure"
  "harmless lcp_good (\<lambda>f. LcpFailure f r)" "harmless lcp_good (\<lambda>f. fst (LcpRecvProtoRej f p bp))"
  "harmless lcp_good (\<lambda>f. LcpRecvIdent f bp)"
  by (auto intro!: harmlessI simp: LcpLayerDown_def LcpLayerStart_def LcpLayerFinish_def
      LcpConfigure_def LcpFailure_def LcpRecvProtoRej_def LcpRecvIdent_def AuthStop_def Let_def
      lcp_good_configure lcp_good_upd split: option.splits if_splits)

interpretation lcp: fsm_phased lcp_fsm lcp_good
proof unfold_locales
  fix c and f :: "link fsm" and s
  assume "NewState lcp_fsm = Some c" "lcp_good (f_state f) (f_arg f)" "\<not> f_aborted f"
    "fsm_moves (f_state f) s"
  then show "lcp_good s (f_arg (c f (f_state f) s)) \<and> \<not> f_aborted (c f (f_state f) s) \<and>
      (primed f \<longrightarrow> primed (c f (f_state f) s))"
    using new_state_good [of f s 0] by (auto simp: lcp_fsm_def numeral_2_eq_2)
qed (simp_all add: lcp_fsm_def numeral_2_eq_2 LcpBuildConfigReq_def
    lcp_calls_harmless LcpDecodeConfig_harmless)

text \<open>The result of an authentication, which arrives while the automaton is open.\<close>

lemma sends_sound:
  "lcp.sound f \<Longrightarrow> lcp.sound (FsmSendIdent ty s f)"
  "lcp.sound f \<Longrightarrow> lcp.sound (FsmSendTimeRemaining ty w f)"
  by (simp_all add: FsmSendIdent_def FsmSendTimeRemaining_def FsmOutputMbuf_def Let_def)

lemma lcp_join_sound:
  assumes "lcp.sound f" "f_state f = ST_OPENED" "lp_phase (the_lcp f) = PHASE_NETWORK"
  shows "lcp.sound (lcp_join lcp_fsm f)"
proof -
  have "lcp.sound (bund_join f)" "lcp.sound (upd_arg (\<lambda>l. l\<lparr>lk_num_redial := k\<rparr>) (bund_join f))"
    "lcp.sound (link_call CallReasonJoin (bund_join f))" for k
    using assms
    by (auto simp: lcp.sound_def lcp.calm_def lcp_good_def bund_join_def link_call_def
        split: join_result.split)
  then show ?thesis
    using lcp.sound_Failure [of "link_call CallReasonJoin (bund_join f)"]
    by (simp add: lcp_join_def Let_def)
qed

lemma auth_result_sound:
  assumes "lcp.sound f" "f_state f = ST_OPENED" "success \<longrightarrow> auth_owed (f_arg f) = (0, 0)"
  shows "lcp.sound (LcpAuthResult lcp_fsm success f)"
proof (cases success)
  case True
  show ?thesis
  proof (cases "lp_phase (the_lcp f) = PHASE_NETWORK")
    case False
    with assms have auth: "lp_phase (the_lcp f) = PHASE_AUTHENTICATE" "\<not> lk_joined_bund (f_arg f)"
      by (auto simp: lcp.sound_def lcp.calm_def lcp_good_def)
    then have left: "lcp_leave_phase PHASE_NETWORK f = upd_lcp (\<lambda>p. p\<lparr>lp_phase := PHASE_NETWORK\<rparr>) f"
      by (simp add: lcp_leave_phase_def Let_def)
    have "lcp.sound (lcp_leave_phase PHASE_NETWORK f)"
      using assms auth True
      by (simp add: left lcp.sound_def lcp.calm_def lcp_good_def) (simp add: upd_lcp_def)
    moreover have "f_state (lcp_leave_phase PHASE_NETWORK f) = ST_OPENED"
      "lp_phase (the_lcp (lcp_leave_phase PHASE_NETWORK f)) = PHASE_NETWORK"
      using assms(2) by (simp_all add: left) (simp add: upd_lcp_def)
    ultimately have "lcp.sound (lcp_enter_network lcp_fsm (lcp_leave_phase PHASE_NETWORK f))"
      unfolding lcp_enter_network_def Let_def
      by (intro lcp_join_sound)
        (auto simp: sends_sound, auto simp: FsmSendIdent_def FsmSendTimeRemaining_def
          FsmOutputMbuf_def Let_def split: option.splits)
    with True False show ?thesis by (simp add: LcpAuthResult_def)
  qed (use True assms in \<open>simp add: LcpAuthResult_def\<close>)
next
  case False
  have "lcp.sound (link_call CallReasonAuth f)"
    using assms by (simp add: lcp.sound_def lcp.calm_def)
  with False show ?thesis by (simp add: LcpAuthResult_def lcp.sound_Failure)
qed

end
