(* ===== verification/Fsm_Settle.thy ===== *)
theory Fsm_Settle
  imports Fsm_Phase
begin

text \<open>
  What the state of a client keeps over the steps of an automaton. \<open>fsm_keeps\<close> says that the
  callbacks keep a predicate \<open>idle\<close> of the client's state; with \<open>LayerUp\<close> among them
  (\<open>fsm_carries\<close>) every step keeps it. In \<open>fsm_settled\<close> the callback \<open>LayerUp\<close> may begin work, that
  is, end \<open>idle\<close>, and may run the automaton; if \<open>LayerDown\<close> ends the work, wherever an
  invariant \<open>inv\<close> holds that every callback keeps, then
  after every step the client is idle or the automaton is in Opened: nothing that was begun in Opened
  outlives it.
\<close>

definition keeps :: "('a \<Rightarrow> bool) \<Rightarrow> ('a fsm \<Rightarrow> 'a fsm) \<Rightarrow> bool" where
  "keeps idle c \<longleftrightarrow> (\<forall>f. idle (f_arg f) \<longrightarrow> idle (f_arg (c f)))"

lemma keepsD: "keeps idle c \<Longrightarrow> idle (f_arg f) \<Longrightarrow> idle (f_arg (c f))"
  by (simp add: keeps_def)

lemma keeps_call0 [simp]:
  "keeps idle (call0 None)" "keeps idle (call0 (Some c)) = keeps idle c"
  by (simp_all add: keeps_def call0_def)

locale fsm_keeps =
  fixes ty :: "'a fsmtype" and idle :: "'a \<Rightarrow> bool"
  assumes k_NewState: "NewState ty = Some c \<Longrightarrow> keeps idle (\<lambda>f. c f old new)"
    and k_LayerDown: "keeps idle (call0 (LayerDown ty))"
    and k_LayerStart: "keeps idle (call0 (LayerStart ty))"
    and k_LayerFinish: "keeps idle (call0 (LayerFinish ty))"
    and k_Configure: "keeps idle (call0 (Configure ty))"
    and k_UnConfigure: "keeps idle (call0 (UnConfigure ty))"
    and k_TermReq: "keeps idle (call0 (SendTerminateReq ty))"
    and k_TermAck: "keeps idle (call0 (SendTerminateAck ty))"
    and k_Build: "keeps idle (\<lambda>f. fst (BuildConfigReq ty f))"
    and k_Decode: "keeps idle (\<lambda>f. DecodeConfig ty f opts md)"
    and k_Failure: "Failure ty = Some c2 \<Longrightarrow> keeps idle (\<lambda>f. c2 f r)"
begin

lemma idle_calls [simp]:
  assumes "idle (f_arg f)"
  shows "idle (f_arg (FsmLayerDown ty f))"
    "idle (f_arg (FsmLayerStart ty f))" "idle (f_arg (FsmLayerFinish ty f))"
    "idle (f_arg (fsm_Configure ty f))" "idle (f_arg (fsm_UnConfigure ty f))"
  using assms k_LayerDown k_LayerStart k_LayerFinish
    keepsD [OF k_Configure, of "emit EvConfigure f"]
    keepsD [OF k_UnConfigure, of "emit EvUnConfigure f"]
  by (simp_all add: FsmLayerDown_def FsmLayerStart_def FsmLayerFinish_def
      fsm_Configure_def fsm_UnConfigure_def keeps_def call0_def split: option.split option.split_asm)

lemma idle_new_state [simp]:
  assumes "idle (f_arg f)"
  shows "idle (f_arg (FsmNewState ty s f))"
proof -
  define g where "g = (let f' = emit (EvState (f_state f) s) f in
    case NewState ty of None \<Rightarrow> f' | Some c \<Rightarrow> c f' (f_state f) s)"
  have "idle (f_arg g)"
    using assms keepsD [OF k_NewState, of _ "emit (EvState (f_state f) s) f"]
    by (simp add: g_def Let_def split: option.split)
  moreover have "f_arg (FsmNewState ty s f) = f_arg g"
    unfolding FsmNewState_def g_def by (simp add: Let_def)
  ultimately show ?thesis by simp
qed

lemma idle_same [simp]:
  "f_arg (FsmInitRestartCounter ty' v f) = f_arg f" "f_arg (FsmInitMaxFailure v f) = f_arg f"
  "f_arg (FsmInitMaxConfig v f) = f_arg f" "f_arg (FsmOutputMbuf ty' code i bp f) = f_arg f"
  "f_arg (FsmOutput ty' code i xs f) = f_arg f"
  by (simp_all add: FsmInitRestartCounter_def FsmInitMaxFailure_def FsmInitMaxConfig_def
      FsmOutput_def FsmOutputMbuf_def)

lemma idle_decode [simp]: "idle (f_arg f) \<Longrightarrow> idle (f_arg (FsmDecodeBuffer ty buf md f))"
  using keepsD [OF k_Decode] by (simp add: FsmDecodeBuffer_def)

lemma idle_sends [simp]:
  assumes "idle (f_arg f)"
  shows "idle (f_arg (FsmSendConfigReq ty f))" "idle (f_arg (FsmSendTerminateReq ty f))"
    "idle (f_arg (FsmSendTerminateAck ty f))" "idle (f_arg (FsmSendConfigAck ty i opts f))"
    "idle (f_arg (FsmSendConfigRej ty i opts f))" "idle (f_arg (FsmSendConfigNak ty i opts f))"
  using assms keepsD [OF k_Build] keepsD [OF k_TermReq] keepsD [OF k_TermAck]
  by (simp_all add: FsmSendConfigReq_def FsmSendTerminateReq_def FsmSendTerminateAck_def
      FsmSendConfigAck_def FsmSendConfigRej_def FsmSendConfigNak_def Let_def case_prod_beta)

lemma idle_Failure: "idle (f_arg f) \<Longrightarrow> idle (f_arg (FsmFailure ty r f))"
proof -
  assume "idle (f_arg f)"
  then have "idle (f_arg (case Failure ty of None \<Rightarrow> emit (EvFailure r) f
      | Some c \<Rightarrow> c (emit (EvFailure r) f) r))" (is "idle (f_arg ?g)")
    using keepsD [OF k_Failure] by (simp split: option.split)
  then show ?thesis by (cases "f_state ?g"; simp add: FsmFailure_def Let_def)
qed

end

text \<open>With the callbacks for the packets that do not change the automaton's state.\<close>

locale fsm_keeps_all = fsm_keeps ty idle for ty :: "'a fsmtype" and idle :: "'a \<Rightarrow> bool" +
  assumes k_CodeRej: "RecvCodeRej ty = Some c3 \<Longrightarrow> keeps idle (\<lambda>f. fst (c3 f code bp))"
    and k_ProtoRej: "RecvProtoRej ty = Some c4 \<Longrightarrow> keeps idle (\<lambda>f. fst (c4 f p bp))"
    and k_ResetReq: "RecvResetReq ty = Some c5 \<Longrightarrow> keeps idle (\<lambda>f. c5 f i bp)"
    and k_ResetAck: "RecvResetAck ty = Some c5 \<Longrightarrow> keeps idle (\<lambda>f. c5 f i bp)"
    and k_Ident: "RecvIdent ty = Some c6 \<Longrightarrow> keeps idle (\<lambda>f. c6 f bp)"
    and k_DiscReq: "RecvDiscReq ty = Some c6 \<Longrightarrow> keeps idle (\<lambda>f. c6 f bp)"
    and k_TimeRemain: "RecvTimeRemain ty = Some c6 \<Longrightarrow> keeps idle (\<lambda>f. c6 f bp)"
    and k_Vendor: "RecvVendor ty = Some c6 \<Longrightarrow> keeps idle (\<lambda>f. c6 f bp)"
begin

lemma idle_callbacks:
  assumes "idle (f_arg f)"
  shows "Failure ty = Some c2 \<Longrightarrow> idle (f_arg (c2 f r))"
    "RecvCodeRej ty = Some c3 \<Longrightarrow> idle (f_arg (fst (c3 f code bp)))"
    "RecvProtoRej ty = Some c4 \<Longrightarrow> idle (f_arg (fst (c4 f p bp)))"
    "RecvResetReq ty = Some c5 \<Longrightarrow> idle (f_arg (c5 f i bp))"
    "RecvResetAck ty = Some c5 \<Longrightarrow> idle (f_arg (c5 f i bp))"
    "RecvIdent ty = Some c6 \<Longrightarrow> idle (f_arg (c6 f bp))"
    "RecvDiscReq ty = Some c6 \<Longrightarrow> idle (f_arg (c6 f bp))"
    "RecvTimeRemain ty = Some c6 \<Longrightarrow> idle (f_arg (c6 f bp))"
    "RecvVendor ty = Some c6 \<Longrightarrow> idle (f_arg (c6 f bp))"
  using assms
  by (simp_all add: keepsD [OF k_Failure [of c2 r]] keepsD [OF k_CodeRej [of c3 code bp]]
      keepsD [OF k_ProtoRej [of c4 p bp]] keepsD [OF k_ResetReq [of c5 i bp]]
      keepsD [OF k_ResetAck [of c5 i bp]] keepsD [OF k_Ident [of c6 bp]]
      keepsD [OF k_DiscReq [of c6 bp]] keepsD [OF k_TimeRemain [of c6 bp]] keepsD [OF k_Vendor [of c6 bp]])

end

section \<open>What every callback keeps\<close>

locale fsm_carries = fsm_keeps_all ty idle for ty :: "'a fsmtype" and idle :: "'a \<Rightarrow> bool" +
  assumes k_LayerUp: "keeps idle (call0 (LayerUp ty))"
begin

lemma idle_up [simp]: "idle (f_arg f) \<Longrightarrow> idle (f_arg (FsmLayerUp ty f))"
  using keepsD [OF k_LayerUp, of "emit EvLayerUp f"] by (simp add: FsmLayerUp_def)

lemma carried_admin:
  assumes "idle (f_arg f)"
  shows "idle (f_arg (FsmOpen ty f))" "idle (f_arg (FsmUp ty f))" "idle (f_arg (FsmDown ty f))"
    "idle (f_arg (FsmClose ty f))"
  using assms
  by (cases "f_state f"; simp add: FsmOpen_def FsmUp_def FsmDown_def FsmClose_def Let_def)+

lemma carried_Term:
  assumes "idle (f_arg f)"
  shows "idle (f_arg (FsmRecvTermReq ty f))" "idle (f_arg (FsmRecvTermAck ty f))"
    "idle (f_arg (FsmRecvRxjPlus ty f))"
  using assms
  by (cases "f_state f"; simp add: FsmRecvTermReq_def FsmRecvTermAck_def FsmRecvRxjPlus_def Let_def)+

lemma carried_Timeout: "idle (f_arg f) \<Longrightarrow> idle (f_arg (FsmTimeout ty f))"
  by (cases "f_state f") (simp_all add: FsmTimeout_def idle_Failure)

lemma carried_answers:
  assumes "idle (f_arg f)"
  shows "idle (f_arg (FsmRecvConfigAck ty i bp f))" "idle (f_arg (FsmRecvConfigNak ty i bp f))"
    "idle (f_arg (FsmRecvConfigRej ty i bp f))"
proof -
  let ?f = "\<lambda>md. FsmDecodeBuffer ty (pk_data bp) md f"
  have f: "idle (f_arg (?f md))" for md using assms by simp
  show "idle (f_arg (FsmRecvConfigAck ty i bp f))"
    using assms f by (cases "f_state (?f MODE_NOP)") (simp_all add: FsmRecvConfigAck_def Let_def)
  show "idle (f_arg (FsmRecvConfigNak ty i bp f))"
    using assms f by (cases "f_state f"; cases "f_state (?f MODE_NAK)")
      (simp_all add: FsmRecvConfigNak_def Let_def idle_Failure)
  show "idle (f_arg (FsmRecvConfigRej ty i bp f))"
    using assms f by (cases "f_state f"; cases "f_state (?f MODE_REJ)")
      (simp_all add: FsmRecvConfigRej_def Let_def idle_Failure)
qed

lemma carried_next: "idle (f_arg f) \<Longrightarrow> idle (f_arg (rcr_next ty b f))"
  by (cases "f_state f"; simp add: rcr_next_def)

lemma carried_process:
  assumes "idle (f_arg f)"
  shows "idle (f_arg (rcr_process ty i bp f))"
proof -
  have "idle (f_arg (FsmDecodeBuffer ty (pk_data bp) MODE_REQ f))" using assms by simp
  then show ?thesis
    by (cases "f_state (FsmDecodeBuffer ty (pk_data bp) MODE_REQ f)")
      (simp_all add: rcr_process_def Let_def carried_next idle_Failure)
qed

lemma carried_ConfigReq: "idle (f_arg f) \<Longrightarrow> idle (f_arg (FsmRecvConfigReq ty i bp f))"
  by (cases "f_state f") (simp_all add: FsmRecvConfigReq_def carried_process)

lemma carried_Rej:
  assumes "idle (f_arg f)"
  shows "idle (f_arg (FsmRecvCodeRej ty bp f))" "idle (f_arg (FsmRecvProtoRej ty bp f))"
  unfolding FsmRecvCodeRej_def FsmRecvProtoRej_def Let_def case_prod_beta
  by (auto simp: assms idle_Failure carried_Term idle_callbacks split: option.split)

lemma carried_CheckMagic: "idle (f_arg f) \<Longrightarrow> idle (f_arg (fst (FsmCheckMagic ty bp f)))"
  by (simp add: FsmCheckMagic_def Let_def case_prod_beta idle_Failure)

lemma carried_informational:
  assumes "idle (f_arg f)"
  shows "idle (f_arg (FsmRecvDiscReq ty bp f))" "idle (f_arg (FsmRecvIdent ty bp f))"
    "idle (f_arg (FsmRecvVendor ty bp f))" "idle (f_arg (FsmRecvTimeRemain ty bp f))"
    "idle (f_arg (FsmRecvResetReq ty i bp f))" "idle (f_arg (FsmRecvResetAck ty i bp f))"
    "idle (f_arg (FsmRecvEchoReq ty i bp f))" "idle (f_arg (FsmRecvEchoRep ty bp f))"
  using carried_CheckMagic [OF assms] idle_callbacks [OF carried_CheckMagic [OF assms]]
    idle_callbacks [OF assms]
  by (auto simp: assms FsmRecvDiscReq_def FsmRecvIdent_def FsmRecvVendor_def FsmRecvTimeRemain_def
      FsmRecvResetReq_def FsmRecvResetAck_def FsmRecvEchoReq_def FsmRecvEchoRep_def call_pkt_def
      Let_def case_prod_beta split: option.split)

lemma carried_action: "idle (f_arg f) \<Longrightarrow> idle (f_arg (fsm_action ty code i bp f))"
  by (simp add: fsm_action_def carried_informational carried_ConfigReq carried_answers carried_Term
      carried_Rej)

lemma carried_step: "fsm_step ty f g \<Longrightarrow> idle (f_arg f) \<Longrightarrow> idle (f_arg g)"
proof (induction rule: fsm_step.induct)
  case (step_input f bp)
  then show ?case by (auto simp: FsmInput_def carried_action split: option.split)
next
  case (step_echo f)
  then show ?case
    by (cases "arg_recvFrames ty (f_arg f)")
      (auto simp: FsmEchoTimeout_def Let_def FsmSendEchoReq_def idle_Failure)
qed (simp_all add: carried_admin carried_Timeout idle_Failure)

lemma carried_reachable:
  assumes "fsm_reachable ty f0 f" "idle (f_arg f0)"
  shows "idle (f_arg f)"
  using assms by (induction rule: fsm_reachable.induct) (simp_all add: carried_step)

end

lemma carries_True: "fsm_carries ty (\<lambda>_. True)"
  by unfold_locales (simp_all add: keeps_def)

section \<open>Nothing outlives Opened\<close>

locale fsm_settled = fsm_stable ty + fsm_keeps_all ty idle + inv: fsm_carries ty inv
  for ty :: "'a fsmtype" and idle :: "'a \<Rightarrow> bool" and inv :: "'a \<Rightarrow> bool" +
  assumes s_LayerDown: "\<And>f. inv (f_arg f) \<Longrightarrow> idle (f_arg (call0 (LayerDown ty) f))"
    and s_LayerUp: "\<And>f. f_state f = ST_OPENED \<Longrightarrow> inv (f_arg f) \<Longrightarrow>
      idle (f_arg (call0 (LayerUp ty) f)) \<or> f_state (call0 (LayerUp ty) f) = ST_OPENED"
begin

definition settled :: "'a fsm \<Rightarrow> bool" where
  "settled f \<longleftrightarrow> inv (f_arg f) \<and> (f_state f = ST_OPENED \<or> idle (f_arg f))"

lemma idle_layer_down [simp]: "inv (f_arg f) \<Longrightarrow> idle (f_arg (FsmLayerDown ty f))"
  using s_LayerDown by (simp add: FsmLayerDown_def)

lemma settled_update [simp]:
  "settled (f\<lparr>f_echoid := e\<rparr>) = settled f" "settled (f\<lparr>f_rejid := e\<rparr>) = settled f"
  "settled (f\<lparr>f_quietCount := q\<rparr>) = settled f" "settled (f\<lparr>f_idleStats := n\<rparr>) = settled f"
  "settled (f\<lparr>f_echoTimer := t\<rparr>) = settled f" "settled (f\<lparr>f_timer := t\<rparr>) = settled f"
  "settled (emit ev f) = settled f" "settled (FsmOutputMbuf ty' code i bp f) = settled f"
  by (simp_all add: settled_def FsmOutputMbuf_def)

lemma settled_up [simp]:
  "f_state f = ST_OPENED \<Longrightarrow> inv (f_arg f) \<Longrightarrow>
     f_state (FsmLayerUp ty f) = ST_OPENED \<or> idle (f_arg (FsmLayerUp ty f))"
  using s_LayerUp [of "emit EvLayerUp f"] by (auto simp: FsmLayerUp_def)

lemma settled_callbacks:
  assumes "settled f"
  shows "Failure ty = Some c2 \<Longrightarrow> settled (c2 f r)"
    "RecvCodeRej ty = Some c3 \<Longrightarrow> settled (fst (c3 f code bp))"
    "RecvProtoRej ty = Some c4 \<Longrightarrow> settled (fst (c4 f p bp))"
    "RecvResetReq ty = Some c5 \<Longrightarrow> settled (c5 f i bp)"
    "RecvResetAck ty = Some c5 \<Longrightarrow> settled (c5 f i bp)"
    "RecvIdent ty = Some c6 \<Longrightarrow> settled (c6 f bp)" "RecvDiscReq ty = Some c6 \<Longrightarrow> settled (c6 f bp)"
    "RecvTimeRemain ty = Some c6 \<Longrightarrow> settled (c6 f bp)" "RecvVendor ty = Some c6 \<Longrightarrow> settled (c6 f bp)"
  using assms idle_callbacks inv.idle_callbacks
  by (auto simp: settled_def t_Failure t_CodeRej t_ProtoRej t_ResetReq t_ResetAck t_Ident t_DiscReq
      t_TimeRemain t_Vendor)

lemma settled_admin:
  assumes "settled f"
  shows "settled (FsmOpen ty f)" "settled (FsmUp ty f)" "settled (FsmDown ty f)"
    "settled (FsmClose ty f)"
  using assms
  by (cases "f_state f"; simp add: settled_def FsmOpen_def FsmUp_def FsmDown_def FsmClose_def Let_def)+

lemma settled_Failure:
  assumes "settled f"
  shows "settled (FsmFailure ty r f)"
proof -
  have "settled (case Failure ty of None \<Rightarrow> emit (EvFailure r) f
      | Some c \<Rightarrow> c (emit (EvFailure r) f) r)" (is "settled ?g")
    using assms by (simp add: settled_callbacks split: option.split)
  then show ?thesis by (cases "f_state ?g"; simp add: settled_def FsmFailure_def Let_def)
qed

lemma settled_Timeout: "settled f \<Longrightarrow> settled (FsmTimeout ty f)"
  using settled_Failure [of f]
  by (cases "f_state f"; simp add: FsmTimeout_def) (simp_all add: settled_def)

lemma settled_Term:
  assumes "settled f"
  shows "settled (FsmRecvTermReq ty f)" "settled (FsmRecvTermAck ty f)"
    "settled (FsmRecvRxjPlus ty f)" "settled (FsmRecvConfigAck ty i bp f)"
  using assms
  by (cases "f_state f"; simp add: settled_def FsmRecvTermReq_def FsmRecvTermAck_def
      FsmRecvRxjPlus_def FsmRecvConfigAck_def Let_def)+

lemma settled_decode: "settled f \<Longrightarrow> settled (FsmDecodeBuffer ty buf md f)"
  by (auto simp: settled_def)

lemma settled_ConfigNak: "settled f \<Longrightarrow> settled (FsmRecvConfigNak ty i bp f)"
  using settled_Failure [OF settled_decode, of f]
  by (cases "f_state f"; simp add: FsmRecvConfigNak_def Let_def) (simp_all add: settled_def)

lemma settled_ConfigRej: "settled f \<Longrightarrow> settled (FsmRecvConfigRej ty i bp f)"
  using settled_Failure [OF settled_decode, of f]
  by (cases "f_state f"; simp add: FsmRecvConfigRej_def Let_def) (simp_all add: settled_def)

lemma idle_next: "inv (f_arg f) \<Longrightarrow> idle (f_arg f) \<Longrightarrow> settled (rcr_next ty b f)"
  by (cases "f_state f"; simp add: settled_def rcr_next_def)

lemma settled_process:
  assumes "settled f"
  shows "settled (rcr_process ty i bp f)"
proof -
  define f1 where "f1 = FsmDecodeBuffer ty (pk_data bp) MODE_REQ f"
  define f2 where "f2 = (case f_state f1 of
       ST_OPENED \<Rightarrow> FsmSendConfigReq ty (FsmLayerDown ty f1)
     | ST_STOPPED \<Rightarrow>
         (let f = FsmLayerStart ty f1;
              f = FsmInitRestartCounter ty (maxconfig (f_conf f)) f;
              f = FsmInitMaxFailure (maxfailure (f_conf f)) f;
              f = FsmInitMaxConfig (maxconfig (f_conf f)) f
          in FsmSendConfigReq ty f)
     | _ \<Rightarrow> f1)"
  have "settled f1" using assms by (simp add: f1_def settled_decode)
  then have f2: "idle (f_arg f2)" "inv (f_arg f2)"
    by (cases "f_state f1"; simp add: f2_def settled_def Let_def)+
  then have "settled (FsmFailure ty FAIL_NEGOT_FAILURE f2)"
    by (intro settled_Failure) (simp add: settled_def)
  moreover have "rcr_process ty i bp f =
      (if f_nakBuf f2 = [] \<and> f_rejBuf f2 = []
       then rcr_next ty True (FsmSendConfigAck ty i (f_ackBuf f2) f2)
       else if f_failure f2 \<le>s 0 then FsmFailure ty FAIL_NEGOT_FAILURE f2
       else rcr_next ty False
              (if f_rejBuf f2 \<noteq> [] then FsmSendConfigRej ty i (f_rejBuf f2) f2
               else FsmSendConfigNak ty i (f_nakBuf f2) f2))"
    by (simp only: rcr_process_def Let_def f2_def f1_def)
  ultimately show ?thesis using f2 by (simp add: idle_next)
qed

lemma settled_ConfigReq: "settled f \<Longrightarrow> settled (FsmRecvConfigReq ty i bp f)"
  using settled_process [of f i bp] settled_process [of "fsm_Configure ty f" i bp]
  by (cases "f_state f"; simp add: FsmRecvConfigReq_def) (simp_all add: settled_def)

lemma settled_fatal_or_plus:
  "settled (fst gb) \<Longrightarrow>
     settled (if snd gb then FsmFailure ty r (fst gb) else FsmRecvRxjPlus ty (fst gb))"
  by (simp add: settled_Failure settled_Term)

lemma settled_Rej:
  assumes "settled f"
  shows "settled (FsmRecvCodeRej ty bp f)" "settled (FsmRecvProtoRej ty bp f)"
  unfolding FsmRecvCodeRej_def FsmRecvProtoRej_def Let_def case_prod_beta
  by (rule settled_fatal_or_plus, simp add: assms settled_callbacks split: option.split)+

lemma settled_CheckMagic: "settled f \<Longrightarrow> settled (fst (FsmCheckMagic ty bp f))"
  by (simp add: FsmCheckMagic_def Let_def case_prod_beta settled_Failure)

lemma settled_informational:
  assumes "settled f"
  shows "settled (FsmRecvDiscReq ty bp f)" "settled (FsmRecvIdent ty bp f)"
    "settled (FsmRecvVendor ty bp f)" "settled (FsmRecvTimeRemain ty bp f)"
  using settled_CheckMagic [OF assms] settled_callbacks [OF settled_CheckMagic [OF assms]]
  by (auto simp: FsmRecvDiscReq_def FsmRecvIdent_def FsmRecvVendor_def FsmRecvTimeRemain_def
      call_pkt_def split: option.split)

lemma settled_Reset:
  assumes "settled f"
  shows "settled (FsmRecvResetReq ty i bp f)" "settled (FsmRecvResetAck ty i bp f)"
  using assms
  by (auto simp: FsmRecvResetReq_def FsmRecvResetAck_def settled_callbacks split: option.split)

lemma settled_Echo:
  assumes "settled f"
  shows "settled (FsmRecvEchoReq ty i bp f)" "settled (FsmRecvEchoRep ty bp f)"
  using settled_CheckMagic [OF assms, of bp]
  by (simp_all add: FsmRecvEchoReq_def FsmRecvEchoRep_def Let_def case_prod_beta)

lemma settled_action: "settled f \<Longrightarrow> settled (fsm_action ty code i bp f)"
  by (simp add: fsm_action_def settled_informational settled_Reset settled_Echo settled_ConfigReq
      settled_ConfigNak settled_ConfigRej settled_Term settled_Rej)

lemma settled_step: "fsm_step ty f g \<Longrightarrow> settled f \<Longrightarrow> settled g"
proof (induction rule: fsm_step.induct)
  case (step_input f bp)
  then show ?case by (auto simp: FsmInput_def settled_action split: option.split)
next
  case (step_timeout f)
  then show ?case by (intro settled_Timeout) simp
next
  case (step_echo f)
  then have "settled (f\<lparr>f_echoTimer := timer_fired (f_echoTimer f)\<rparr>)" by simp
  then show ?case
    by (cases "arg_recvFrames ty (f_arg f)")
      (auto simp: FsmEchoTimeout_def Let_def FsmSendEchoReq_def settled_Failure)
qed (simp_all add: settled_admin settled_Failure)

end

end
