(* ===== verification/Lcp_Thread.thy ===== *)
theory Lcp_Thread
  imports Lcp_Phases Fsm_Settle
begin

unbundle bit_operations_syntax

text \<open>
  The thread that works on an authentication request belongs to an open LCP: \<open>LcpLayerDown\<close>
  cancels it and nothing in LCP starts one. The contract \<open>fsm_settled\<close> for LCP.
\<close>

definition thread_idle :: "link \<Rightarrow> bool" where
  "thread_idle l \<longleftrightarrow> au_thread (lk_auth l) = None"

section \<open>What leaves the authentication alone\<close>

lemma lk_auth_ops [simp]:
  "lk_auth (f_arg (link_call c f)) = lk_auth (f_arg f)" "lk_auth (f_arg (upd_lcp g f)) = lk_auth (f_arg f)"
  "lk_auth (f_arg (FsmAck opt f)) = lk_auth (f_arg f)" "lk_auth (f_arg (FsmNak opt f)) = lk_auth (f_arg f)"
  "lk_auth (f_arg (FsmRej opt f)) = lk_auth (f_arg f)" "lk_auth (f_arg (bund_join f)) = lk_auth (f_arg f)"
  "lk_auth (f_arg (bund_leave f)) = lk_auth (f_arg f)" "lk_auth (f_arg (fsm_abort f)) = lk_auth (f_arg f)"
  "lk_auth (f_arg (upd_auth h f)) = h (lk_auth (f_arg f))"
  by (simp_all add: link_call_def upd_lcp_def upd_auth_def bund_join_def bund_leave_def fsm_abort_def
      split: join_result.split)

lemma lk_auth_rejected [simp]: "lk_auth (f_arg (lcp_rejected opt g f)) = lk_auth (f_arg f)"
  by (simp add: lcp_rejected_def)

lemma lk_auth_opts:
  "lk_auth (f_arg (lcp_mru md opt f)) = lk_auth (f_arg f)"
  "lk_auth (f_arg (lcp_accmap md opt f)) = lk_auth (f_arg f)"
  "lk_auth (f_arg (lcp_auth_req opt f)) = lk_auth (f_arg f)"
  "lk_auth (f_arg (lcp_auth_nak opt f)) = lk_auth (f_arg f)"
  "lk_auth (f_arg (lcp_mrru md opt f)) = lk_auth (f_arg f)"
  "lk_auth (f_arg (lcp_shortseq md opt f)) = lk_auth (f_arg f)"
  "lk_auth (f_arg (lcp_endpoint md opt f)) = lk_auth (f_arg f)"
  "lk_auth (f_arg (lcp_magic md opt f)) = lk_auth (f_arg f)"
  "lk_auth (f_arg (lcp_protocomp md opt f)) = lk_auth (f_arg f)"
  "lk_auth (f_arg (lcp_acfcomp md opt f)) = lk_auth (f_arg f)"
  "lk_auth (f_arg (lcp_callback md opt f)) = lk_auth (f_arg f)"
  "lk_auth (f_arg (lcp_vendor md opt f)) = lk_auth (f_arg f)"
  by (cases md; simp add: lcp_mru_def lcp_accmap_def lcp_auth_req_def lcp_auth_nak_def lcp_mrru_def
      lcp_shortseq_def lcp_endpoint_def lcp_magic_def lcp_protocomp_def lcp_acfcomp_def
      lcp_callback_def lcp_vendor_def GenerateMagic_def Let_def split: option.split)+

lemma lk_auth_authproto: "lk_auth (f_arg (lcp_authproto md opt f)) = lk_auth (f_arg f)"
  by (cases md; simp add: lcp_authproto_def lk_auth_opts)

lemma lk_auth_decode_opt [simp]: "lk_auth (f_arg (lcp_decode_opt md f opt)) = lk_auth (f_arg f)"
  by (cases md opt f rule: lcp_decode_opt_cases) (auto simp: lk_auth_opts lk_auth_authproto)

lemma lk_auth_configure [simp]: "lk_auth (lcp_configure l) = lk_auth l"
  by (simp add: lcp_configure_def Let_def GenerateMagic_def)

lemma lk_auth_LcpConfigure [simp]: "lk_auth (f_arg (LcpConfigure f)) = lk_auth (f_arg f)"
  by (simp add: LcpConfigure_def Let_def)

lemma lk_auth_decode [simp]: "lk_auth (f_arg (LcpDecodeConfig f opts md)) = lk_auth (f_arg f)"
proof -
  have "lk_auth (f_arg (foldl (lcp_decode_opt md) g opts)) = lk_auth (f_arg g)" for g
    by (induction opts arbitrary: g) simp_all
  then show ?thesis by (simp add: LcpDecodeConfig_def lcp_forget_def)
qed

section \<open>What starts no thread\<close>

abbreviation (input) "the_thread f \<equiv> au_thread (the_auth f)"

lemma thread_timer [simp]:
  assumes "\<And>t a. au_thread (upd t a) = au_thread a"
  shows "the_thread (auth_timer_start sel upd f) = the_thread f"
  using assms by (simp add: auth_timer_start_def split: option.split)

lemma thread_output [simp]: "the_thread (AuthOutput proto code i xs b t f) = the_thread f"
  by (simp add: AuthOutput_def)

lemma thread_reads [simp]:
  "the_thread (upd_pap g1 f) = the_thread f" "the_thread (upd_chap g2 f) = the_thread f"
  "the_thread (upd_eap g3 f) = the_thread f" "the_thread (upd_params g4 f) = the_thread f"
  by simp_all

lemma thread_challenge [simp]: "the_thread (ChapSendChallenge f) = the_thread f"
proof -
  have new: "the_thread (chap_new_challenge n g) = the_thread g" for n g
    by (simp add: chap_new_challenge_def ChapGenRandom_def Let_def)
  have remember: "the_thread (remember_msChal g) = the_thread g" for g
    by (simp add: remember_msChal_def)
  have draw: "the_thread (snd (draw_random g)) = the_thread g" for g
    by (simp add: draw_random_def)
  have "the_thread (chap_make_challenge f) = the_thread f"
    by (simp add: chap_make_challenge_def Let_def case_prod_beta new remember draw del: auth_reads)
  then show ?thesis
    by (simp only: ChapSendChallenge_def Let_def thread_output thread_reads)
qed

lemma thread_first_challenge [simp]: "the_thread (chap_first_challenge f) = the_thread f"
  by (simp only: chap_first_challenge_def Let_def thread_challenge) simp

lemma thread_starts [simp]:
  "the_thread (PapStart which f) = the_thread f" "the_thread (ChapStart which f) = the_thread f"
  "the_thread (EapStart which f) = the_thread f"
  "the_thread (auth_start_side proto which f) = the_thread f"
proof -
  have pap: "the_thread (PapSendRequest g) = the_thread g" for g
    by (simp only: PapSendRequest_def Let_def thread_output thread_reads)
  have eap: "the_thread (EapSendIdentRequest g) = the_thread g"
    "the_thread (eap_timer_start g) = the_thread g" for g
    by (simp_all only: EapSendIdentRequest_def Let_def thread_output thread_reads)
      (simp add: eap_timer_start_def)
  show starts: "the_thread (PapStart which f) = the_thread f"
    "the_thread (ChapStart which f) = the_thread f" "the_thread (EapStart which f) = the_thread f"
    by (cases which; simp only: PapStart_def ChapStart_def EapStart_def Let_def auth_side.case
        pap eap thread_first_challenge thread_reads; simp)+
  show "the_thread (auth_start_side proto which f) = the_thread f"
    by (simp add: auth_start_side_def starts)
qed

section \<open>The automaton's callbacks\<close>

lemma thread_leave [simp]: "the_thread (lcp_leave_phase new f) = the_thread f"
  by (cases "lp_phase (the_lcp f)"; simp add: lcp_leave_phase_def Let_def AuthCleanup_def)

lemma thread_enter:
  assumes "fsm_keeps ty thread_idle" "thread_idle (f_arg f)"
  shows "thread_idle (f_arg (lcp_enter_network ty f))"
proof -
  have "thread_idle (f_arg (lcp_join ty g))" if "thread_idle (f_arg g)" for g
  proof -
    have "thread_idle (f_arg (link_call CallReasonJoin (bund_join g)))"
      "thread_idle (f_arg (upd_arg (\<lambda>l. l\<lparr>lk_num_redial := 0\<rparr>) (bund_join g)))"
      using that lk_auth_ops(6) [of g] by (simp_all add: thread_idle_def)
    then show ?thesis
      using fsm_keeps.idle_Failure [OF assms(1)] by (simp add: lcp_join_def Let_def)
  qed
  moreover have "f_arg (FsmSendIdent ty s g) = f_arg g" "f_arg (FsmSendTimeRemaining ty w g) = f_arg g"
    for s w g by (simp_all add: FsmSendIdent_def FsmSendTimeRemaining_def FsmOutputMbuf_def Let_def)
  ultimately show ?thesis
    using assms(2) by (simp add: lcp_enter_network_def Let_def split: option.split)
qed

lemma thread_new_phase:
  assumes "fsm_keeps ty thread_idle" "thread_idle (f_arg f)"
  shows "thread_idle (f_arg (LcpNewPhase ty new f))"
proof -
  have start: "thread_idle (f_arg (AuthStart ty g))" if "thread_idle (f_arg g)" for g
  proof (cases "lp_peer_auth (the_lcp g) = 0 \<and> lp_want_auth (the_lcp g) = 0")
    case True
    with that show ?thesis
      by (auto simp: AuthStart_def LcpAuthResult_def Let_def thread_idle_def
          intro!: thread_enter [OF assms(1), unfolded thread_idle_def])
  next
    case False
    then show ?thesis
      using that by (simp add: AuthStart_def Let_def thread_idle_def del: de_Morgan_conj)
  qed
  show ?thesis
    using assms(2) thread_enter [OF assms(1), of "lcp_leave_phase new f"]
      start [of "lcp_leave_phase new f"]
      start [of "link_call (CallPhysSetAccm x y) (lcp_leave_phase new f)" for x y]
    by (cases new) (simp_all add: LcpNewPhase_def Let_def thread_idle_def)
qed

lemma lcp_type_keeps:
  assumes "\<And>old new. keeps thread_idle (\<lambda>f. ns f old new)"
  shows "fsm_keeps (lcp_type ns) thread_idle"
  by unfold_locales
    (use assms in \<open>auto simp: lcp_type_def keeps_def thread_idle_def LcpLayerDown_def LcpLayerStart_def
      LcpLayerFinish_def AuthStop_def LcpBuildConfigReq_def LcpFailure_def
      call0_def Let_def\<close>)

lemma gLcpFsmType_keeps: "fsm_keeps (gLcpFsmType n) thread_idle"
proof (induction n)
  case 0
  show ?case
    unfolding gLcpFsmType.simps by (rule lcp_type_keeps) (simp add: keeps_def thread_idle_def)
next
  case (Suc n)
  have "keeps thread_idle (\<lambda>f. LcpNewState (gLcpFsmType n) f old new)" for old new
    using thread_new_phase [OF Suc]
    by (auto simp: keeps_def LcpNewState_def thread_idle_def split: phase_step.split)
  then show ?case by (simp add: gLcpFsmType.simps lcp_type_keeps)
qed

interpretation lcp_thread: fsm_settled lcp_fsm thread_idle "\<lambda>_. True"
proof (intro fsm_settled.intro fsm_keeps_all.intro fsm_settled_axioms.intro fsm_keeps_all_axioms.intro)
  show "fsm_stable lcp_fsm" by (rule lcp.fsm_stable_axioms)
  show "fsm_keeps lcp_fsm thread_idle" by (simp add: lcp_fsm_def gLcpFsmType_keeps)
  show "fsm_carries lcp_fsm (\<lambda>_. True)" by (rule carries_True)
  show "f_state f = ST_OPENED \<Longrightarrow> thread_idle (f_arg (call0 (LayerUp lcp_fsm) f)) \<or>
      f_state (call0 (LayerUp lcp_fsm) f) = ST_OPENED" for f
    using lcp.h_LayerUp by (simp add: harmless_def)
qed (auto simp: lcp_fsm_def numeral_2_eq_2 gLcpFsmType.simps lcp_type_def keeps_def thread_idle_def
    call0_def LcpLayerDown_def AuthStop_def LcpRecvProtoRej_def LcpRecvIdent_def Let_def
    split: option.split)

end
