(* ===== verification/Lcp_Echo.thy ===== *)
theory Lcp_Echo
  imports Lcp_Phases Fsm_Echo
begin

text \<open>
  The keep-alive of LCP, the one automaton whose intervals are set. LCP does not leave the
  automaton alone, but it keeps the contract \<open>fsm_stopping\<close>: the failure of an open link moves it
  to the termination phase and takes it out of its bundle, and comes back to the automaton unchanged.
\<close>

text \<open>The steps of a failure in Opened: the change of state, and what follows it.\<close>

lemma lcp_terminates:
  fixes f :: "link fsm"
  defines "h \<equiv> FsmNewState lcp_fsm ST_STOPPING f"
  assumes "f_state f = ST_OPENED"
  shows "f_state h = ST_STOPPING" "\<not> TimerStarted (f_echoTimer h)"
    "lp_phase (the_lcp f) = PHASE_NETWORK \<Longrightarrow>
      lp_phase (the_lcp h) = PHASE_TERMINATE \<and> \<not> lk_joined_bund (f_arg h)"
proof -
  have move: "phase_move ST_OPENED ST_STOPPING = Move PHASE_TERMINATE" by simp
  note defs = h_def FsmNewState_def lcp_fsm_def numeral_2_eq_2 assms(2) LcpNewState_def move Let_def
  show "f_state h = ST_STOPPING" by (simp add: h_def)
  show "\<not> TimerStarted (f_echoTimer h)"
    by (simp add: defs TimerStop2_def TimerStarted_def del: phase_move.simps)
  assume "lp_phase (the_lcp f) = PHASE_NETWORK"
  then show "lp_phase (the_lcp h) = PHASE_TERMINATE \<and> \<not> lk_joined_bund (f_arg h)"
    by (simp add: defs LcpNewPhase_def lcp_leave_phase_def AuthCleanup_def upd_params_def
        bund_leave_def link_defs upd_arg_def del: phase_move.simps)
qed

lemma lcp_after_move:
  fixes f :: "link fsm" and v :: short
  defines "h \<equiv> fsm_UnConfigure lcp_fsm (FsmLayerDown lcp_fsm (FsmSendTerminateReq lcp_fsm
    (FsmInitRestartCounter lcp_fsm v f)))"
  shows "f_state h = f_state f" "f_echoTimer h = f_echoTimer f"
    "lp_phase (the_lcp h) = lp_phase (the_lcp f)" "lk_joined_bund (f_arg h) = lk_joined_bund (f_arg f)"
  by (simp_all add: h_def lcp_fsm_def fsm_UnConfigure_def FsmLayerDown_def call0_def
      LcpLayerDown_def AuthStop_def FsmSendTerminateReq_def FsmInitRestartCounter_def
      FsmOutput_def FsmOutputMbuf_def fsm_TimerStart_def fsm_abort_def link_defs upd_arg_def Let_def
      split: option.split)

text \<open>The failure of LCP in Opened.\<close>

lemma lcp_failure_opened:
  assumes "f_state f = ST_OPENED"
  shows "f_state (FsmFailure lcp_fsm r f) = ST_STOPPING"
    "\<not> TimerStarted (f_echoTimer (FsmFailure lcp_fsm r f))"
    "lp_phase (the_lcp f) = PHASE_NETWORK \<Longrightarrow>
      lp_phase (the_lcp (FsmFailure lcp_fsm r f)) = PHASE_TERMINATE \<and>
      \<not> lk_joined_bund (f_arg (FsmFailure lcp_fsm r f))"
proof -
  define g where "g = LcpFailure (emit (EvFailure r) f) r"
  have g: "f_state g = ST_OPENED" "lp_phase (the_lcp g) = lp_phase (the_lcp f)"
    using assms by (simp_all add: g_def LcpFailure_def link_call_def upd_arg_def)
  have "Failure lcp_fsm = Some LcpFailure" by (simp add: lcp_fsm_def)
  then have fail: "FsmFailure lcp_fsm r f = fsm_UnConfigure lcp_fsm (FsmLayerDown lcp_fsm
      (FsmSendTerminateReq lcp_fsm (FsmInitRestartCounter lcp_fsm
        (maxterminate (f_conf (FsmNewState lcp_fsm ST_STOPPING g)))
        (FsmNewState lcp_fsm ST_STOPPING g))))"
    using g(1) by (simp add: FsmFailure_def g_def [symmetric] Let_def)
  show "f_state (FsmFailure lcp_fsm r f) = ST_STOPPING"
    "\<not> TimerStarted (f_echoTimer (FsmFailure lcp_fsm r f))"
    "lp_phase (the_lcp f) = PHASE_NETWORK \<Longrightarrow>
      lp_phase (the_lcp (FsmFailure lcp_fsm r f)) = PHASE_TERMINATE \<and>
      \<not> lk_joined_bund (f_arg (FsmFailure lcp_fsm r f))"
    unfolding fail lcp_after_move using lcp_terminates [OF g(1)] g(2) by simp_all
qed

lemma lcp_listens [simp]:
  "arg_has_bund lcp_fsm = lk_has_bund" "arg_recvFrames lcp_fsm = lk_recvFrames"
  by (simp_all add: lcp_fsm_def numeral_2_eq_2 gLcpFsmType.simps lcp_type_def)

interpretation lcp_echo: fsm_stopping lcp_fsm
  by unfold_locales (use lcp_failure_opened in auto)

end
