(* ===== verification/Msoft.thy ===== *)
theory Msoft
  imports Link
begin

unbundle bit_operations_syntax

text \<open>
  The Microsoft hashes and keys of \<open>src/src/msoft.c\<close> over MD4, SHA-1 and DES, which come
  from the cryptographic library and are an argument here: functions of the octets hashed, and of
  a key and a block of eight octets.
\<close>

record crypto =
  cy_md4 :: "byte list \<Rightarrow> byte list"
  cy_md5 :: "byte list \<Rightarrow> byte list"
  cy_sha1 :: "byte list \<Rightarrow> byte list"
  cy_des :: "byte list \<Rightarrow> byte list \<Rightarrow> byte list"   \<comment> \<open>key, clear text\<close>

text \<open>The constants, with the lengths the code gives to \<open>SHA1_Update\<close>.\<close>

definition MS_MAGIC_1 :: "byte list" where
  "MS_MAGIC_1 = ascii ''This is the MPPE Master Key''"

definition MS_MAGIC_2 :: "byte list" where
  "MS_MAGIC_2 = ascii ''On the client side, this is the send key; on the server side, it is the receive key.''"

definition MS_MAGIC_3 :: "byte list" where
  "MS_MAGIC_3 = ascii ''On the client side, this is the receive key; on the server side, it is the send key.''"

definition MS_AR_MAGIC_1 :: "byte list" where
  "MS_AR_MAGIC_1 = ascii ''Magic server to client signing constant''"

definition MS_AR_MAGIC_2 :: "byte list" where
  "MS_AR_MAGIC_2 = ascii ''Pad to make it do more than one iteration''"

text \<open>The key of seven octets spread over eight, the low bit of each left for parity.\<close>

definition des_key :: "byte list \<Rightarrow> byte list" where
  "des_key k =
     [k ! 0 AND 0xfe,
      push_bit 7 (k ! 0) OR drop_bit 1 (k ! 1),
      push_bit 6 (k ! 1) OR drop_bit 2 (k ! 2),
      push_bit 5 (k ! 2) OR drop_bit 3 (k ! 3),
      push_bit 4 (k ! 3) OR drop_bit 4 (k ! 4),
      push_bit 3 (k ! 4) OR drop_bit 5 (k ! 5),
      push_bit 2 (k ! 5) OR drop_bit 6 (k ! 6),
      push_bit 1 (k ! 6)]"

definition DesEncrypt :: "crypto \<Rightarrow> byte list \<Rightarrow> byte list \<Rightarrow> byte list" where
  "DesEncrypt cy clear key0 = cy_des cy (des_key key0) clear"

text \<open>\<open>toupper\<close> in the C locale.\<close>

definition to_upper :: "byte \<Rightarrow> byte" where
  "to_upper c = (if 0x61 \<le> c \<and> c \<le> 0x7a then c - 0x20 else c)"

definition LMPasswordHash :: "crypto \<Rightarrow> byte list \<Rightarrow> byte list" where
  "LMPasswordHash cy password =
     (let clear = ascii ''KGS!@#$%''; p = take 14 (map to_upper (cstr password));
          up = p @ replicate (14 - length p) 0
      in DesEncrypt cy clear (take 7 up) @ DesEncrypt cy clear (drop 7 up))"

text \<open>The characters as little-endian 16-bit words, 128 at most. \<open>*s\<close> is a signed \<open>char\<close>; only
  its low eight bits survive the shift by eight and the truncation to 16 bits.\<close>

definition NTPasswordHash :: "crypto \<Rightarrow> byte list \<Rightarrow> byte list" where
  "NTPasswordHash cy password =
     cy_md4 cy (concat (map (\<lambda>c. [c, 0]) (take 128 (cstr password))))"

definition NTPasswordHashHash :: "crypto \<Rightarrow> byte list \<Rightarrow> byte list" where
  "NTPasswordHashHash cy nthash = cy_md4 cy (take 16 nthash)"

definition ChallengeResponse :: "crypto \<Rightarrow> byte list \<Rightarrow> byte list \<Rightarrow> byte list" where
  "ChallengeResponse cy chal pwHash =
     (let buf = take 16 pwHash @ replicate 5 0; c = take 8 chal
      in DesEncrypt cy c (take 7 buf) @ DesEncrypt cy c (take 7 (drop 7 buf)) @
         DesEncrypt cy c (drop 14 buf))"

definition NTChallengeResponse :: "crypto \<Rightarrow> byte list \<Rightarrow> byte list \<Rightarrow> byte list" where
  "NTChallengeResponse cy chal nthash = ChallengeResponse cy chal nthash"

definition ChallengeHash :: "crypto \<Rightarrow> byte list \<Rightarrow> byte list \<Rightarrow> byte list \<Rightarrow> byte list" where
  "ChallengeHash cy peerchal authchal username =
     take 8 (cy_sha1 cy (take 16 peerchal @ take 16 authchal @ cstr username))"

definition GenerateNTResponse ::
  "crypto \<Rightarrow> byte list \<Rightarrow> byte list \<Rightarrow> byte list \<Rightarrow> byte list \<Rightarrow> byte list" where
  "GenerateNTResponse cy authchal peerchal username nthash =
     ChallengeResponse cy (ChallengeHash cy peerchal authchal username) nthash"

definition GenerateAuthenticatorResponse ::
  "crypto \<Rightarrow> byte list \<Rightarrow> byte list \<Rightarrow> byte list \<Rightarrow> byte list \<Rightarrow> byte list \<Rightarrow> byte list" where
  "GenerateAuthenticatorResponse cy nthash ntresp peerchal authchal username =
     (let hash = cy_md4 cy (take 16 nthash);
          digest = cy_sha1 cy (take 16 hash @ take 24 ntresp @ MS_AR_MAGIC_1);
          chal = ChallengeHash cy peerchal authchal username
      in cy_sha1 cy (take 20 digest @ chal @ MS_AR_MAGIC_2))"

section \<open>MPPE keys\<close>

text \<open>Each key replaces the 16 octets of \<open>h\<close>.\<close>

definition MsoftGetStartKey :: "crypto \<Rightarrow> byte list \<Rightarrow> byte list \<Rightarrow> byte list" where
  "MsoftGetStartKey cy chal h = take 16 (cy_sha1 cy (take 16 h @ take 16 h @ take 8 chal))"

definition MsoftGetMasterKey :: "crypto \<Rightarrow> byte list \<Rightarrow> byte list \<Rightarrow> byte list" where
  "MsoftGetMasterKey cy resp h = take 16 (cy_sha1 cy (take 16 h @ take 24 resp @ MS_MAGIC_1))"

definition MsoftGetAsymetricStartKey :: "crypto \<Rightarrow> byte list \<Rightarrow> bool \<Rightarrow> byte list" where
  "MsoftGetAsymetricStartKey cy h server_recv =
     take 16 (cy_sha1 cy (take 16 h @ replicate 40 0 @
       (if server_recv then MS_MAGIC_2 else MS_MAGIC_3) @ replicate 40 0xf2))"

lemma magic_lengths:
  "length MS_MAGIC_1 = 27" "length MS_MAGIC_2 = 84" "length MS_MAGIC_3 = 84"
  "length MS_AR_MAGIC_1 = 39" "length MS_AR_MAGIC_2 = 41"
  by (simp_all add: MS_MAGIC_1_def MS_MAGIC_2_def MS_MAGIC_3_def MS_AR_MAGIC_1_def
      MS_AR_MAGIC_2_def ascii_def)

text \<open>Every bit of the seven octets of a DES key reaches the key of eight: it can be read back from
  the upper seven bits of each octet.\<close>

definition des_unkey :: "byte list \<Rightarrow> byte list" where
  "des_unkey k =
     [(k ! 0 AND 0xfe) OR drop_bit 7 (k ! 1),
      push_bit 1 (k ! 1 AND 0x7e) OR drop_bit 6 (k ! 2),
      push_bit 2 (k ! 2 AND 0x3e) OR drop_bit 5 (k ! 3),
      push_bit 3 (k ! 3 AND 0x1e) OR drop_bit 4 (k ! 4),
      push_bit 4 (k ! 4 AND 0x0e) OR drop_bit 3 (k ! 5),
      push_bit 5 (k ! 5 AND 0x06) OR drop_bit 2 (k ! 6),
      push_bit 6 (k ! 6 AND 0x02) OR drop_bit 1 (k ! 7)]"

lemma byte_bit_cases:
  "(n :: nat) < LENGTH(8) \<Longrightarrow> n = 0 \<or> n = 1 \<or> n = 2 \<or> n = 3 \<or> n = 4 \<or> n = 5 \<or> n = 6 \<or> n = 7" 
  by simp linarith

lemmas byte_bits = bit_or_iff bit_and_iff bit_push_bit_iff bit_drop_bit_eq possible_bit_def o_def

lemma des_unkey_octets:
  fixes a b c d e f g :: byte
  shows "(((a AND 0xfe) AND 0xfe) AND 0xfe) OR drop_bit 7 ((push_bit 7 a OR drop_bit 1 b) AND 0xfe) = a"
   "push_bit 1 (((push_bit 7 a OR drop_bit 1 b) AND 0xfe) AND 0x7e) OR drop_bit 6 ((push_bit 6 b OR drop_bit 2 c) AND 0xfe) = b"
   "push_bit 2 (((push_bit 6 b OR drop_bit 2 c) AND 0xfe) AND 0x3e) OR drop_bit 5 ((push_bit 5 c OR drop_bit 3 d) AND 0xfe) = c"
   "push_bit 3 (((push_bit 5 c OR drop_bit 3 d) AND 0xfe) AND 0x1e) OR drop_bit 4 ((push_bit 4 d OR drop_bit 4 e) AND 0xfe) = d"
   "push_bit 4 (((push_bit 4 d OR drop_bit 4 e) AND 0xfe) AND 0x0e) OR drop_bit 3 ((push_bit 3 e OR drop_bit 5 f) AND 0xfe) = e"
   "push_bit 5 (((push_bit 3 e OR drop_bit 5 f) AND 0xfe) AND 0x06) OR drop_bit 2 ((push_bit 2 f OR drop_bit 6 g) AND 0xfe) = f"
   "push_bit 6 (((push_bit 2 f OR drop_bit 6 g) AND 0xfe) AND 0x02) OR drop_bit 1 (push_bit 1 g AND 0xfe) = g"
   by (rule bit_word_eqI, unfold byte_bits, drule byte_bit_cases, elim disjE; simp add: numeral_2_eq_2 [symmetric] numeral_3_eq_3 [symmetric] del: Suc_eq_numeral)+

lemma nth_of_eight:
  "(x0 # xs) ! 0 = x0" "(x0 # x1 # xs) ! 1 = x1" "(x0 # x1 # x2 # xs) ! 2 = x2"
  "(x0 # x1 # x2 # x3 # xs) ! 3 = x3" "(x0 # x1 # x2 # x3 # x4 # xs) ! 4 = x4"
  "(x0 # x1 # x2 # x3 # x4 # x5 # xs) ! 5 = x5" "(x0 # x1 # x2 # x3 # x4 # x5 # x6 # xs) ! 6 = x6"
  "(x0 # x1 # x2 # x3 # x4 # x5 # x6 # x7 # xs) ! 7 = x7"
  by simp_all

text \<open>DES ignores the low bit of every octet of its key. Spreading the seven octets of a key over
  eight loses nothing even so: they can be read back from the upper seven bits of the eight octets,
  so different halves of a password hash give different DES keys.\<close>

theorem msoft_des_key_roundtrip:
  "des_unkey (map (\<lambda>x. x AND 0xfe) (des_key [a, b, c, d, e, f, g])) = [a, b, c, d, e, f, g]"
  by (simp only: des_key_def des_unkey_def nth_of_eight list.map des_unkey_octets)

end
