(* ===== verification/Auth.thy ===== *)
theory Auth
  imports Lcp Msoft
begin

unbundle bit_operations_syntax

text \<open>
  Authentication: the requests to the back ends and their answers (\<open>src/src/auth.c\<close>) and
  the finish handlers of PAP, CHAP and EAP. A request is an \<open>authdata\<close>; the thread that works on
  one is \<open>au_thread\<close>, and its end is an event of its own (\<open>AuthAsyncFinish\<close>). The back ends
  that are other programs or libraries, the regular expressions, the repeater and the
  cryptographic library are arguments, in \<open>auth_env\<close>. An access outside a received packet sets
  \<open>f_aborted\<close>, like a failed assertion.
\<close>

section \<open>The environment\<close>

datatype link_act = LINK_ACTION_FORWARD | LINK_ACTION_BUNDLE | LINK_ACTION_DROP

record linkaction =
  la_action :: link_act
  la_regex :: "byte list"
  la_arg :: "byte list"

record auth_env =
  ev_crypto :: crypto
  ev_actions :: "linkaction list"
  ev_regexec :: "byte list \<Rightarrow> byte list \<Rightarrow> bool"    \<comment> \<open>the pattern matches the login\<close>
  ev_rep_fails :: "byte list \<Rightarrow> bool"              \<comment> \<open>\<open>RepCreate\<close> fails\<close>
  ev_max_logins :: nat                             \<comment> \<open>\<open>gMaxLogins\<close>\<close>
  ev_max_logins_ci :: bool
  ev_logins :: "byte list list"                    \<comment> \<open>the names of the open bundles\<close>
  ev_no_thread :: bool                             \<comment> \<open>\<open>pthread_create\<close> fails\<close>
  ev_external :: "authdata \<Rightarrow> authdata \<times> bool"     \<comment> \<open>and whether it returned an error\<close>
  ev_radius :: "authdata \<Rightarrow> authdata \<times> bool"
  ev_radius_eap :: "authdata \<Rightarrow> authdata"
  ev_pam :: "authdata \<Rightarrow> authdata"
  ev_opie :: "authdata \<Rightarrow> authdata"
  ev_passwd :: "byte list \<Rightarrow> byte list option"     \<comment> \<open>\<open>getpwnam\<close>: the hashed password\<close>
  ev_crypt :: "byte list \<Rightarrow> byte list \<Rightarrow> byte list"

text \<open>\<open>LinkMatchAction\<close> of \<open>link.c\<close> for the stages 2 and 3: the argument of the first action
  whose pattern is empty or matches.\<close>

definition MATCH_DROP :: "byte list" where "MATCH_DROP = ascii ''##DROP##''"

fun find_action :: "(byte list \<Rightarrow> byte list \<Rightarrow> bool) \<Rightarrow> byte list \<Rightarrow> linkaction list \<Rightarrow> linkaction option"
where
  "find_action rx login [] = None"
| "find_action rx login (a # as) =
     (if la_regex a = [] \<or> rx (la_regex a) login then Some a else find_action rx login as)"

definition LinkMatchAction :: "auth_env \<Rightarrow> nat \<Rightarrow> byte list \<Rightarrow> byte list option" where
  "LinkMatchAction env stage login =
     (case ev_actions env of
        [] \<Rightarrow> None
      | a # as \<Rightarrow>
          (if stage = 1
           then (if as = [] \<and> la_regex a = []
                 then (case la_action a of
                         LINK_ACTION_FORWARD \<Rightarrow> Some (la_arg a)
                       | LINK_ACTION_DROP \<Rightarrow> Some MATCH_DROP
                       | LINK_ACTION_BUNDLE \<Rightarrow> None)
                 else None)
           else (case find_action (ev_regexec env) login (a # as) of
                   None \<Rightarrow> None
                 | Some b \<Rightarrow>
                     (case la_action b of
                        LINK_ACTION_DROP \<Rightarrow> Some MATCH_DROP
                      | LINK_ACTION_FORWARD \<Rightarrow> if stage = 2 then Some (la_arg b) else None
                      | LINK_ACTION_BUNDLE \<Rightarrow> if stage = 3 then Some (la_arg b) else None))))"

section \<open>Options and messages\<close>

abbreviation (input) "AUTH_CONF_RADIUS_AUTH \<equiv> (1 :: nat)"
abbreviation (input) "AUTH_CONF_INTERNAL \<equiv> (3 :: nat)"
abbreviation (input) "AUTH_CONF_EXT_AUTH \<equiv> (4 :: nat)"
abbreviation (input) "AUTH_CONF_SYSTEM_AUTH \<equiv> (6 :: nat)"
abbreviation (input) "AUTH_CONF_PAM_AUTH \<equiv> (8 :: nat)"
abbreviation (input) "AUTH_CONF_OPIE \<equiv> (10 :: nat)"
abbreviation (input) "AUTH_CONF_ACCT_MANDATORY \<equiv> (11 :: nat)"
abbreviation (input) "EAP_CONF_RADIUS \<equiv> (0 :: nat)"

definition AUTH_MSG_WELCOME :: "byte list" where "AUTH_MSG_WELCOME = ascii ''Welcome''"
definition AUTH_MSG_INVALID :: "byte list" where "AUTH_MSG_INVALID = ascii ''Login incorrect''"
definition AUTH_MSG_BAD_PACKET :: "byte list" where
  "AUTH_MSG_BAD_PACKET = ascii ''Incorrectly formatted packet''"
definition AUTH_MSG_NOT_ALLOWED :: "byte list" where
  "AUTH_MSG_NOT_ALLOWED = ascii ''Login not allowed for this account''"
definition AUTH_MSG_NOT_EXPECTED :: "byte list" where
  "AUTH_MSG_NOT_EXPECTED = ascii ''Unexpected packet''"
definition AUTH_MSG_ACCT_DISAB :: "byte list" where "AUTH_MSG_ACCT_DISAB = ascii ''Account disabled''"
definition AUTH_MSG_RESTR_HOURS :: "byte list" where
  "AUTH_MSG_RESTR_HOURS = ascii ''Login hours restricted''"

definition ms_chap :: "authdata \<Rightarrow> bool" where
  "ms_chap d = (ad_proto d = PROTO_CHAP \<and> ad_alg d \<in> {CHAP_ALG_MSOFT, CHAP_ALG_MSOFTv2})"

fun mschap_code :: "why_fail \<Rightarrow> byte list \<times> byte list" where
  "mschap_code AUTH_FAIL_ACCT_DISABLED = (ascii ''647'', AUTH_MSG_ACCT_DISAB)"
| "mschap_code AUTH_FAIL_NO_PERMISSION = (ascii ''649'', AUTH_MSG_NOT_ALLOWED)"
| "mschap_code AUTH_FAIL_RESTRICTED_HOURS = (ascii ''646'', AUTH_MSG_RESTR_HOURS)"
| "mschap_code _ = (ascii ''691'', AUTH_MSG_INVALID)"

fun fail_mesg :: "why_fail \<Rightarrow> byte list" where
  "fail_mesg AUTH_FAIL_ACCT_DISABLED = AUTH_MSG_ACCT_DISAB"
| "fail_mesg AUTH_FAIL_NO_PERMISSION = AUTH_MSG_NOT_ALLOWED"
| "fail_mesg AUTH_FAIL_RESTRICTED_HOURS = AUTH_MSG_RESTR_HOURS"
| "fail_mesg AUTH_FAIL_NOT_EXPECTED = AUTH_MSG_NOT_EXPECTED"
| "fail_mesg AUTH_FAIL_INVALID_PACKET = AUTH_MSG_BAD_PACKET"
| "fail_mesg AUTH_FAIL_INVALID_LOGIN = AUTH_MSG_INVALID"

text \<open>The buffers of the callers have 64 octets.\<close>

definition AuthFailMsg :: "authdata \<Rightarrow> nat \<Rightarrow> byte list" where
  "AuthFailMsg d len =
     (if ms_chap d
      then (case ad_mschap_error d of
              Some e \<Rightarrow> strlcpy len e
            | None \<Rightarrow>
                (let (code, mesg) = mschap_code (ad_why_fail d);
                     mesg = (case ad_reply_message d of Some m \<Rightarrow> cstr m | None \<Rightarrow> mesg)
                 in strlcpy len (ascii ''E='' @ code @ ascii '' R=0 M='' @ mesg)))
      else (case ad_reply_message d of
              Some m \<Rightarrow> strlcpy len m
            | None \<Rightarrow> strlcpy len (fail_mesg (ad_why_fail d))))"

section \<open>Requests\<close>

definition AuthDataNew :: "link fsm \<Rightarrow> authdata" where
  "AuthDataNew f =
     \<lparr>ad_proto = 0, ad_alg = 0, ad_id = 0, ad_code = 0, ad_status = AUTH_STATUS_UNDEF,
      ad_why_fail = AUTH_FAIL_INVALID_LOGIN, ad_reply_message = None, ad_mschap_error = None,
      ad_mschapv2resp = None, ad_finish = FinishNone, ad_params = au_params (the_auth f),
      ad_options = au_conf_options (the_auth f), ad_eap_radius = False\<rparr>"

text \<open>\<open>AuthFinish\<close>: one direction is done; stop and tell LCP when it failed or both are.\<close>

definition AuthFinish :: "auth_side \<Rightarrow> bool \<Rightarrow> link fsm \<Rightarrow> link fsm" where
  "AuthFinish which ok f =
     (let f = upd_auth (\<lambda>a. case which of
                AUTH_SELF_TO_PEER \<Rightarrow> a\<lparr>au_self_to_peer := 0\<rparr>
              | AUTH_PEER_TO_SELF \<Rightarrow> a\<lparr>au_peer_to_self := 0\<rparr>) f
      in if \<not> ok then LcpAuthResult lcp_fsm False (AuthStop f)
         else if au_peer_to_self (the_auth f) = 0 \<and> au_self_to_peer (the_auth f) = 0
         then LcpAuthResult lcp_fsm True (AuthStop f)
         else f)"

definition AuthTimeout :: "link fsm \<Rightarrow> link fsm" where
  "AuthTimeout f = LcpAuthResult lcp_fsm False (AuthStop f)"

definition lower :: "byte \<Rightarrow> byte" where
  "lower c = (if 0x41 \<le> c \<and> c \<le> 0x5a then c + 0x20 else c)"

definition same_login :: "auth_env \<Rightarrow> byte list \<Rightarrow> byte list \<Rightarrow> bool" where
  "same_login env x y =
     (if ev_max_logins_ci env then map lower (cstr x) = map lower (cstr y) else cstr x = cstr y)"

text \<open>\<open>AuthPreChecks\<close>: no empty name, and not too many logins of one name. It returns whether
  the request may go on.\<close>

definition AuthPreChecks :: "auth_env \<Rightarrow> authdata \<Rightarrow> authdata \<times> bool" where
  "AuthPreChecks env d =
     (let name = ap_authname (ad_params d);
          no = d\<lparr>ad_status := AUTH_STATUS_FAIL, ad_why_fail := AUTH_FAIL_INVALID_LOGIN\<rparr>
      in if name = [] then (no, False)
         else if ev_max_logins env \<noteq> 0 \<and>
           ev_max_logins env \<le> length (filter (same_login env name) (ev_logins env))
         then (no, False)
         else (d, True))"

section \<open>The back ends\<close>

definition auth_fail :: "why_fail \<Rightarrow> authdata \<Rightarrow> authdata" where
  "auth_fail why d = d\<lparr>ad_status := AUTH_STATUS_FAIL, ad_why_fail := why\<rparr>"

definition AuthInternal :: "(byte list \<Rightarrow> byte list option) \<Rightarrow> authdata \<Rightarrow> authdata" where
  "AuthInternal secret d =
     (let name = ap_authname (ad_params d) in
      case (if name = [] then None else secret name) of
        None \<Rightarrow> auth_fail AUTH_FAIL_INVALID_LOGIN d
      | Some p \<Rightarrow> d\<lparr>ad_params := (ad_params d)\<lparr>ap_password := strlcpy 64 p\<rparr>,
                     ad_status := AUTH_STATUS_UNDEF\<rparr>)"

text \<open>\<open>strstr\<close>, and \<open>Hex2Bin\<close> and \<open>HexVal\<close> of \<open>util.c\<close>: \<open>AuthSystem\<close> reads the hash from
  the fifth octet of the entry on.\<close>

fun has_sub :: "byte list \<Rightarrow> byte list \<Rightarrow> bool" where
  "has_sub pat [] = (pat = [])"
| "has_sub pat (x # xs) = (take (length pat) (x # xs) = pat \<or> has_sub pat xs)"

definition HexVal :: "byte \<Rightarrow> byte" where
  "HexVal c =
     (if 0x30 \<le> c \<and> c \<le> 0x39 then c - 0x30
      else if 0x61 \<le> c \<and> c \<le> 0x7a then c - 0x61 + 10
      else if 0x41 \<le> c \<and> c \<le> 0x5a then c - 0x41 + 10 else - 1)"

fun Hex2Bin :: "byte list \<Rightarrow> byte list" where
  "Hex2Bin (x # y # xs) = (16 * HexVal x + HexVal y) # Hex2Bin xs"
| "Hex2Bin _ = []"

text \<open>The octets after \<open>Hex2Bin\<close>'s result are what the heap holds: \<open>junk\<close>.\<close>

definition nt_hash_of_entry :: "byte list \<Rightarrow> byte list \<Rightarrow> byte list" where
  "nt_hash_of_entry junk pw = take 16 (Hex2Bin (drop 4 (cstr pw)) @ junk @ replicate 16 0)"

definition AuthSystem :: "auth_env \<Rightarrow> byte list \<Rightarrow> authdata \<Rightarrow> authdata" where
  "AuthSystem env junk d =
     (case ev_passwd env (ap_authname (ad_params d)) of
        None \<Rightarrow> auth_fail AUTH_FAIL_INVALID_LOGIN d
      | Some pw \<Rightarrow>
          (if ad_proto d = PROTO_PAP
           then (if cstr (ev_crypt env (ap_peer_pass (ad_params d)) pw) = cstr pw
                 then d\<lparr>ad_status := AUTH_STATUS_SUCCESS\<rparr>
                 else auth_fail AUTH_FAIL_INVALID_LOGIN d)
           else if ms_chap d
           then (if \<not> has_sub (ascii ''$3$$'') (cstr pw) then auth_fail AUTH_FAIL_INVALID_LOGIN d
                 else
                   (let h = nt_hash_of_entry junk pw
                    in d\<lparr>ad_params := (ad_params d)\<lparr>ms_nt_hash := h,
                           ms_nt_hash_hash := NTPasswordHashHash (ev_crypto env) h,
                           ms_has_nt_hash := True\<rparr>,
                         ad_status := AUTH_STATUS_UNDEF\<rparr>))
           else auth_fail AUTH_FAIL_NOT_EXPECTED d))"

text \<open>One back end of \<open>AuthAsync\<close>: when it is enabled, mark it and run it; stop there when it
  decided or leaves the comparison to the protocol.\<close>

definition back_end :: "nat \<Rightarrow> (authdata \<Rightarrow> authdata) \<Rightarrow> authdata \<times> bool \<Rightarrow> authdata \<times> bool" where
  "back_end n run db =
     (if snd db \<or> \<not> Enabled (ad_options (fst db)) n then db
      else
        (let d = run ((fst db)\<lparr>ad_params := (ad_params (fst db))\<lparr>ap_authentic := n\<rparr>\<rparr>)
         in (d, ad_status d = AUTH_STATUS_SUCCESS \<or> ad_status d = AUTH_STATUS_UNDEF)))"

text \<open>An external program may also fail; RADIUS ends the search only with success, and takes EAP
  packets whatever the options say.\<close>

definition try_external :: "auth_env \<Rightarrow> authdata \<Rightarrow> authdata \<times> bool" where
  "try_external env d =
     (if \<not> Enabled (ad_options d) AUTH_CONF_EXT_AUTH then (d, False)
      else
        (let (d, err) = ev_external env
               (d\<lparr>ad_params := (ad_params d)\<lparr>ap_authentic := AUTH_CONF_EXT_AUTH\<rparr>\<rparr>)
         in (d, \<not> err \<and> (ad_status d = AUTH_STATUS_SUCCESS \<or> ad_status d = AUTH_STATUS_UNDEF))))"

definition try_radius :: "auth_env \<Rightarrow> authdata \<times> bool \<Rightarrow> authdata \<times> bool" where
  "try_radius env db =
     (let d = fst db;
          marked = d\<lparr>ad_params := (ad_params d)\<lparr>ap_authentic := AUTH_CONF_RADIUS_AUTH\<rparr>\<rparr>
      in if snd db then db
         else if ad_proto d = PROTO_EAP \<and> ad_eap_radius d then (ev_radius_eap env marked, True)
         else if Enabled (ad_options d) AUTH_CONF_RADIUS_AUTH
         then (let (d, err) = ev_radius env marked
               in (d, \<not> err \<and> ad_status d = AUTH_STATUS_SUCCESS))
         else db)"

definition AuthAsync :: "auth_env \<Rightarrow> link \<Rightarrow> authdata \<Rightarrow> authdata" where
  "AuthAsync env l d =
     (let db = try_radius env (try_external env d);
          db = back_end AUTH_CONF_PAM_AUTH (ev_pam env) db;
          db = back_end AUTH_CONF_SYSTEM_AUTH (AuthSystem env (lk_stack l)) db;
          db = back_end AUTH_CONF_OPIE (ev_opie env) db;
          db = back_end AUTH_CONF_INTERNAL (AuthInternal (lk_secret l)) db
      in if snd db then fst db else auth_fail AUTH_FAIL_INVALID_LOGIN (fst db))"

end
