(* ===== verification/Auth_Input.thy ===== *)
theory Auth_Input
  imports Auth
begin

unbundle bit_operations_syntax

text \<open>
  Receiving authentication packets: \<open>AuthInput\<close>, \<open>AuthAsyncStart\<close> and
  \<open>AuthAsyncFinish\<close> of \<open>src/src/auth.c\<close>, \<open>PapInput\<close> of \<open>pap.c\<close>, \<open>ChapInput\<close>,
  \<open>ChapHash\<close> and \<open>ChapHashAgree\<close> of \<open>chap.c\<close>, \<open>EapInput\<close> and the RADIUS proxy of
  \<open>eap.c\<close>, with the finish handlers. Arrays on the stack that a packet fills in part hold
  \<open>lk_stack\<close> behind it.
\<close>

section \<open>PAP\<close>

definition reply_or_welcome :: "authdata \<Rightarrow> byte list" where
  "reply_or_welcome d =
     (case ad_reply_message d of Some m \<Rightarrow> cstr m | None \<Rightarrow> AUTH_MSG_WELCOME)"

definition pap_good :: "authdata \<Rightarrow> link fsm \<Rightarrow> link fsm" where
  "pap_good d f = AuthFinish AUTH_PEER_TO_SELF True
     (AuthOutput PROTO_PAP PAP_ACK (ad_id d) (reply_or_welcome d) True 0 f)"

definition pap_bad :: "authdata \<Rightarrow> link fsm \<Rightarrow> link fsm" where
  "pap_bad d f = AuthFinish AUTH_PEER_TO_SELF False
     (AuthOutput PROTO_PAP PAP_NAK (ad_id d) (AuthFailMsg d 64) True 0 f)"

definition pap_match :: "authparams \<Rightarrow> bool" where
  "pap_match p = (ap_authname p = ap_peer_name p \<and> ap_password p = ap_peer_pass p)"

definition PapInputFinish :: "authdata \<Rightarrow> link fsm \<Rightarrow> link fsm" where
  "PapInputFinish d f = (case ad_status d of
     AUTH_STATUS_BUSY \<Rightarrow> f
   | AUTH_STATUS_FAIL \<Rightarrow> pap_bad d f
   | AUTH_STATUS_SUCCESS \<Rightarrow> pap_good d f
   | AUTH_STATUS_UNDEF \<Rightarrow>
       (if pap_match (au_params (the_auth f)) then pap_good d f
        else pap_bad (d\<lparr>ad_why_fail := AUTH_FAIL_INVALID_LOGIN\<rparr>) f))"

section \<open>CHAP\<close>

definition stack_array :: "link \<Rightarrow> nat \<Rightarrow> byte list \<Rightarrow> byte list" where
  "stack_array l n xs = take n (xs @ drop (length xs) (lk_stack l) @ replicate n 0)"

text \<open>The secret as the algorithm wants it: the password, or its NT hash, which is kept.\<close>

definition ChapGetSecret :: "crypto \<Rightarrow> byte \<Rightarrow> byte list \<Rightarrow> link fsm \<Rightarrow> byte list \<times> link fsm" where
  "ChapGetSecret cy alg password f =
     (if alg = CHAP_ALG_MD5 then (password, f)
      else
        (let h = NTPasswordHash cy password;
             f = (if ms_has_nt_hash (au_params (the_auth f)) then f
                  else upd_params (\<lambda>p. p\<lparr>ms_nt_hash := h, ms_nt_hash_hash := NTPasswordHashHash cy h,
                         ms_lm_hash := LMPasswordHash cy password, ms_has_nt_hash := True,
                         ms_has_lm_hash := True\<rparr>) f)
         in (ms_nt_hash (au_params (the_auth f)), f)))"

definition after_backslash :: "byte list \<Rightarrow> byte list" where
  "after_backslash s = (if 0x5c \<in> set s then rev (takeWhile (\<lambda>c. c \<noteq> 0x5c) (rev s)) else s)"

text \<open>\<open>ChapHash\<close>: the value of a response. \<open>buf\<close> is what the array held before: for MS-CHAPv2 of
  the peer it holds the peer's challenge.\<close>

definition ChapHash ::
  "crypto \<Rightarrow> byte \<Rightarrow> byte list \<Rightarrow> byte \<Rightarrow> byte list \<Rightarrow> byte list \<Rightarrow> byte list \<Rightarrow> nat \<Rightarrow> bool \<Rightarrow> link \<Rightarrow>
     byte list option \<times> link"
where
  "ChapHash cy alg buf i username secret chal clen local l =
     (if alg = CHAP_ALG_MD5
      then (Some (take 16 (cy_md5 cy ([i] @ cstr secret @ take clen chal))), l)
      else if alg = CHAP_ALG_MSOFT
      then (Some (replicate 24 0 @ NTChallengeResponse cy chal secret @ [1]), l)
      else if alg = CHAP_ALG_MSOFTv2
      then
        (let user = after_backslash (cstr username);
             (peer, l) = (if local then ChapGenRandom 16 l else (take 16 buf, l));
             reserved = (if local then replicate 8 0 else take 8 (drop 16 buf));
             flags = (if local then 0 else buf ! 48)
         in (Some (peer @ reserved @ GenerateNTResponse cy chal peer user secret @ [flags]), l))
      else (None, l))"

definition ChapHashAgree :: "byte \<Rightarrow> byte list \<Rightarrow> byte list \<Rightarrow> bool" where
  "ChapHashAgree alg self peer =
     (if alg = CHAP_ALG_MD5 then self = peer
      else if alg = CHAP_ALG_MSOFT
      then length self = 49 \<and> length peer = 49 \<and> self ! 48 = 1 \<and> peer ! 48 = 1 \<and>
           take 24 (drop 24 self) = take 24 (drop 24 peer)
      else if alg = CHAP_ALG_MSOFTv2
      then length self = 49 \<and> length peer = 49 \<and>
           take 24 (drop 24 self) = take 24 (drop 24 peer)
      else False)"

definition hex_digit :: "nat \<Rightarrow> byte" where
  "hex_digit n = (if n < 10 then 0x30 + of_nat n else 0x41 + of_nat (n - 10))"

definition hex_bytes :: "byte list \<Rightarrow> byte list" where
  "hex_bytes xs = concat (map (\<lambda>b. [hex_digit (unat b div 16), hex_digit (unat b mod 16)]) xs)"

text \<open>The buffer of the reply has 128 octets.\<close>

definition chap_ack_mesg :: "byte \<Rightarrow> authdata \<Rightarrow> byte list" where
  "chap_ack_mesg alg d =
     strlcpy 128 (case (if alg = CHAP_ALG_MSOFTv2 then ad_mschapv2resp d else None) of
       Some m \<Rightarrow> m | None \<Rightarrow> reply_or_welcome d)"

text \<open>With MS-CHAPv2 a good response is answered with the authenticator response.\<close>

definition mschapv2_mesg :: "crypto \<Rightarrow> authdata \<Rightarrow> authparams \<Rightarrow> byte list" where
  "mschapv2_mesg cy d p =
     (let v = cp_value p;
          r = GenerateAuthenticatorResponse cy (ms_nt_hash p) (take 24 (drop 24 v)) (take 16 v)
                (cp_chal p) (ap_authname p);
          hex = hex_bytes (take 20 r)
      in strlcpy 128 (case ad_reply_message d of
           Some m \<Rightarrow> ascii ''S='' @ hex @ ascii '' M='' @ cstr m
         | None \<Rightarrow> ascii ''S='' @ hex))"

definition chap_answer :: "byte \<Rightarrow> byte \<Rightarrow> byte \<Rightarrow> byte list \<Rightarrow> link fsm \<Rightarrow> link fsm" where
  "chap_answer chap_code eap_code i mesg f =
     (let proto = ch_proto (au_chap (the_auth f))
      in AuthOutput proto (if proto = PROTO_CHAP then chap_code else eap_code) i mesg False
           EAP_TYPE_MD5CHAL f)"

definition chap_good :: "authdata \<Rightarrow> byte list \<Rightarrow> link fsm \<Rightarrow> link fsm" where
  "chap_good d mesg f =
     (let p = au_params (the_auth f);
          f = (if lk_originate (f_arg f) = LINK_ORIGINATE_REMOTE
                  \<and> au_peer_to_self_alg (the_auth f) = CHAP_ALG_MSOFTv2
                  \<and> ms_ntResp p = replicate 24 0
               then upd_params (\<lambda>p. p\<lparr>ms_ntResp := take 24 (drop 24 (cp_value p))\<rparr>) f else f)
      in AuthFinish AUTH_PEER_TO_SELF True (chap_answer CHAP_SUCCESS EAP_SUCCESS (ad_id d) mesg f))"

definition chap_bad :: "authdata \<Rightarrow> link fsm \<Rightarrow> link fsm" where
  "chap_bad d f = AuthFinish AUTH_PEER_TO_SELF False
     (chap_answer CHAP_FAILURE EAP_FAILURE (ad_id d) (AuthFailMsg d 64) f)"

text \<open>The comparison: \<open>None\<close> when there is no hash, else whether the response agrees with it.\<close>

definition chap_agrees ::
  "crypto \<Rightarrow> byte \<Rightarrow> byte \<Rightarrow> authparams \<Rightarrow> byte list \<Rightarrow> link \<Rightarrow> bool option" where
  "chap_agrees cy alg i p secret l =
     (let buf = stack_array l 64 (if alg = CHAP_ALG_MSOFTv2 then take 16 (cp_value p) else []);
          hash = fst (ChapHash cy alg buf i (ap_authname p) secret (cp_chal p)
                        (length (cp_chal p)) False l)
      in map_option (\<lambda>h. cp_chal p \<noteq> [] \<and>
           ChapHashAgree alg h (take (cp_value_len p) (cp_value p))) hash)"

definition chap_verify :: "crypto \<Rightarrow> authdata \<Rightarrow> link fsm \<Rightarrow> bool option \<times> link fsm" where
  "chap_verify cy d f =
     (let alg = au_peer_to_self_alg (the_auth f); p = au_params (the_auth f);
          sf = ChapGetSecret cy alg (ap_password p) f
      in (chap_agrees cy alg (ad_id d) p (fst sf) (f_arg (snd sf)), snd sf))"

definition ChapInputFinish :: "crypto \<Rightarrow> authdata \<Rightarrow> link fsm \<Rightarrow> link fsm" where
  "ChapInputFinish cy d f =
     (let alg = au_peer_to_self_alg (the_auth f); mesg = chap_ack_mesg alg d in
      case ad_status d of
        AUTH_STATUS_BUSY \<Rightarrow> f
      | AUTH_STATUS_FAIL \<Rightarrow> chap_bad d f
      | AUTH_STATUS_SUCCESS \<Rightarrow> chap_good d mesg f
      | AUTH_STATUS_UNDEF \<Rightarrow>
          (case chap_verify cy d f of
             (None, f) \<Rightarrow> chap_bad (d\<lparr>ad_why_fail := AUTH_FAIL_INVALID_PACKET\<rparr>) f
           | (Some ok, f) \<Rightarrow>
               (if \<not> ok then chap_bad (d\<lparr>ad_why_fail := AUTH_FAIL_INVALID_LOGIN\<rparr>) f
                else chap_good d (if alg = CHAP_ALG_MSOFTv2
                       then mschapv2_mesg cy d (au_params (the_auth f)) else mesg) f)))"

section \<open>EAP over RADIUS\<close>

definition EapRadiusSendMsg :: "link fsm \<Rightarrow> link fsm" where
  "EapRadiusSendMsg f =
     (case ap_eapmsg (au_params (the_auth f)) of
        None \<Rightarrow> f | Some m \<Rightarrow> link_call (CallAuthFrame PROTO_EAP m) f)"

definition eap_req_timer_start :: "link fsm \<Rightarrow> link fsm" where
  "eap_req_timer_start = auth_timer_start (\<lambda>a. eap_reqTimer (au_eap a))
     (\<lambda>t a. a\<lparr>au_eap := (au_eap a)\<lparr>eap_reqTimer := t\<rparr>\<rparr>)"

definition EapRadiusProxyFinish :: "authdata \<Rightarrow> link fsm \<Rightarrow> link fsm" where
  "EapRadiusProxyFinish d f =
     (let code = (if ad_status d = AUTH_STATUS_SUCCESS then EAP_SUCCESS else EAP_FAILURE);
          f = (if ap_eapmsg (au_params (the_auth f)) = None
               then upd_params (\<lambda>p. p\<lparr>ap_eapmsg := Some ([code, ad_id d] @ be16 4)\<rparr>) f else f);
          f = EapRadiusSendMsg (upd_eap (\<lambda>e. e\<lparr>eap_retry := AUTH_RETRIES\<rparr>) f);
          f = (if ad_status d = AUTH_STATUS_UNDEF then eap_req_timer_start f else f)
      in case ad_status d of
           AUTH_STATUS_FAIL \<Rightarrow> AuthFinish AUTH_PEER_TO_SELF False f
         | AUTH_STATUS_SUCCESS \<Rightarrow> AuthFinish AUTH_PEER_TO_SELF True f
         | _ \<Rightarrow> f)"

definition EapRadiusSendMsgTimeout :: "link fsm \<Rightarrow> link fsm" where
  "EapRadiusSendMsgTimeout f =
     (let f = upd_eap (\<lambda>e. e\<lparr>eap_retry := eap_retry e - 1\<rparr>) f in
      if 0 <s eap_retry (au_eap (the_auth f))
      then EapRadiusSendMsg (eap_req_timer_start f) else f)"

section \<open>The thread\<close>

definition auth_finish_call :: "auth_env \<Rightarrow> authdata \<Rightarrow> link fsm \<Rightarrow> link fsm" where
  "auth_finish_call env d f = (case ad_finish d of
     FinishNone \<Rightarrow> fsm_abort f
   | PapInputFinish_fn \<Rightarrow> PapInputFinish d f
   | ChapInputFinish_fn \<Rightarrow> ChapInputFinish (ev_crypto env) d f
   | EapRadiusProxyFinish_fn \<Rightarrow> EapRadiusProxyFinish d f)"

text \<open>Handing the connection over to a repeater, and closing LCP.\<close>

definition auth_forward :: "auth_env \<Rightarrow> byte list \<Rightarrow> link fsm \<Rightarrow> link fsm" where
  "auth_forward env rept f =
     (if ev_rep_fails env rept then link_call CallPhysClose f
      else LcpClose (LcpDown (link_call CallRepeat (upd_arg (\<lambda>l. l\<lparr>lk_rep := True\<rparr>) f))))"

definition AuthAsyncStart :: "auth_env \<Rightarrow> authdata \<Rightarrow> link fsm \<Rightarrow> link fsm" where
  "AuthAsyncStart env d f =
     (case LinkMatchAction env 2 (ap_authname (ad_params d)) of
        Some rept \<Rightarrow>
          (if rept = MATCH_DROP then link_call CallPhysClose f else auth_forward env rept f)
      | None \<Rightarrow>
          (if au_thread (the_auth f) \<noteq> None
           then auth_finish_call env (d\<lparr>ad_status := AUTH_STATUS_BUSY\<rparr>) f
           else
             (let (d, ok) = AuthPreChecks env d in
              if \<not> ok then auth_finish_call env d f
              else if ev_no_thread env
              then auth_finish_call env (auth_fail AUTH_FAIL_NOT_EXPECTED d) f
              else upd_auth (\<lambda>a. a\<lparr>au_thread := Some d\<rparr>) f)))"

text \<open>The thread is done: the parameters it found replace those of the link.\<close>

definition AuthAsyncFinish :: "auth_env \<Rightarrow> authdata \<Rightarrow> link fsm \<Rightarrow> link fsm" where
  "AuthAsyncFinish env d f =
     (let f = upd_params (\<lambda>_. ad_params d) f;
          action = ap_action (ad_params d);
          d = d\<lparr>ad_params := params_zero\<rparr>
      in if action = ascii ''drop''
         then auth_finish_call env (auth_fail AUTH_FAIL_INVALID_LOGIN d) f
         else if take 8 action = ascii ''forward '' then auth_forward env (drop 8 action) f
         else auth_finish_call env d f)"

text \<open>The event: the thread runs \<open>AuthAsync\<close>, then the finisher, unless it was canceled.\<close>

definition auth_thread_done :: "auth_env \<Rightarrow> link fsm \<Rightarrow> link fsm" where
  "auth_thread_done env f =
     (case au_thread (the_auth f) of
        None \<Rightarrow> f
      | Some d \<Rightarrow> AuthAsyncFinish env (AuthAsync env (f_arg f) d)
                    (upd_auth (\<lambda>a. a\<lparr>au_thread := None\<rparr>) f))"

section \<open>Packets of PAP\<close>

text \<open>Reading an octet of the packet: \<open>None\<close> outside it.\<close>

definition octet :: "byte list \<Rightarrow> nat \<Rightarrow> byte option" where
  "octet xs i = (if i < length xs then Some (xs ! i) else None)"

text \<open>A parser reads outside the packet, finds it malformed, or returns the fields.\<close>

datatype 'a parsed = Overrun | Malformed | Fields 'a

definition parse_octets :: "byte list \<Rightarrow> nat \<Rightarrow> nat \<Rightarrow> (byte list \<Rightarrow> 'a parsed) \<Rightarrow> 'a parsed" where
  "parse_octets xs i n k = (if i + n \<le> length xs then k (take n (drop i xs)) else Overrun)"

definition pap_fields :: "byte list \<Rightarrow> nat \<Rightarrow> (byte list \<times> byte list) parsed" where
  "pap_fields xs len =
     (if len < 1 then Malformed
      else case octet xs 0 of
        None \<Rightarrow> Overrun
      | Some n \<Rightarrow>
          (if 1 + unat n \<ge> len then Malformed
           else case octet xs (1 + unat n) of
             None \<Rightarrow> Overrun
           | Some m \<Rightarrow>
               (if unat n + 1 + unat m + 1 > len then Malformed
                else parse_octets xs 1 (unat n) (\<lambda>name.
                     parse_octets xs (1 + unat n + 1) (unat m) (\<lambda>pass.
                       Fields (cstr name, cstr pass))))))"

definition pkt_octets :: "pkt \<Rightarrow> byte list" where
  "pkt_octets bp = (case bp of None \<Rightarrow> [] | Some xs \<Rightarrow> xs)"

text \<open>\<open>ShowMesg\<close> copies at most 255 of the \<open>len\<close> octets that begin at \<open>i\<close> to log them: whether they
  are octets of the packet.\<close>

definition ShowMesg :: "byte list \<Rightarrow> nat \<Rightarrow> nat \<Rightarrow> bool" where
  "ShowMesg xs i len \<longleftrightarrow> len = 0 \<or> i + min len 255 \<le> length xs"

text \<open>The message of an Ack or a Nak: the length in front of it is made larger when it is smaller than
  the rest of the packet, and not looked at when it is larger.\<close>

definition pap_message :: "byte list \<Rightarrow> nat \<Rightarrow> bool" where
  "pap_message xs len =
     (len = 0 \<or>
      (case octet xs 0 of
         None \<Rightarrow> False
       | Some m \<Rightarrow> ShowMesg xs 1 (if unat m < len - 1 then len - 1 else unat m)))"

definition PapInput :: "auth_env \<Rightarrow> authdata \<Rightarrow> pkt \<Rightarrow> u16 \<Rightarrow> link fsm \<Rightarrow> link fsm" where
  "PapInput env d bp len f =
     (let a = the_auth f in
      if ad_code d = PAP_REQUEST then
        (if au_peer_to_self a \<noteq> PROTO_PAP then
           (if lp_want_auth (the_lcp f) = PROTO_PAP \<and> au_peer_to_self a = 0
            then AuthOutput PROTO_PAP PAP_ACK (ad_id d) AUTH_MSG_WELCOME True 0 f
            else PapInputFinish (d\<lparr>ad_why_fail := AUTH_FAIL_NOT_EXPECTED\<rparr>) f)
         else case pap_fields (pkt_octets bp) (unat len) of
           Overrun \<Rightarrow> fsm_abort f
         | Malformed \<Rightarrow> pap_bad (d\<lparr>ad_why_fail := AUTH_FAIL_INVALID_PACKET\<rparr>) f
         | Fields (name, pass) \<Rightarrow>
             AuthAsyncStart env
               (d\<lparr>ad_params := (ad_params d)\<lparr>ap_peer_name := strlcpy 64 name,
                    ap_peer_pass := strlcpy 64 pass, ap_authname := strlcpy 64 name,
                    ap_password := []\<rparr>,
                  ad_finish := PapInputFinish_fn\<rparr>) f)
      else if ad_code d = PAP_ACK \<or> ad_code d = PAP_NAK then
        (if au_self_to_peer a \<noteq> PROTO_PAP then f
         else
           (let f = upd_pap PapStop f in
            if pap_message (pkt_octets bp) (unat len)
            then AuthFinish AUTH_SELF_TO_PEER (ad_code d = PAP_ACK) f else fsm_abort f))
      else f)"

section \<open>Packets of CHAP\<close>

definition CHAP_MAX_NAME :: nat where "CHAP_MAX_NAME = 64"
definition CHAP_MAX_VAL :: nat where "CHAP_MAX_VAL = 64"

text \<open>\<open>ChapParsePkt\<close>: the name of the peer and the value.\<close>

definition ChapParsePkt :: "pkt \<Rightarrow> nat \<Rightarrow> (byte list \<times> byte list) parsed" where
  "ChapParsePkt bp len =
     (case bp of
        None \<Rightarrow> Malformed
      | Some xs \<Rightarrow>
          (if len < 1 then Malformed
           else case octet xs 0 of
             None \<Rightarrow> Overrun
           | Some v \<Rightarrow>
               (if unat v < 1 \<or> unat v > CHAP_MAX_VAL \<or> len < unat v + 1
                   \<or> len - unat v - 1 > CHAP_MAX_NAME
                then Malformed
                else parse_octets xs (1 + unat v) (len - unat v - 1) (\<lambda>name.
                     parse_octets xs 1 (unat v) (\<lambda>value. Fields (cstr name, value))))))"

text \<open>A challenge with our own identifying octets must name the other side as its origin.\<close>

definition chal_orig_fails :: "origination \<Rightarrow> byte list \<Rightarrow> bool" where
  "chal_orig_fails orig value =
     (if length value < 3 then False
      else
        (let chalOrig = drop_bit 6 (value ! 0) AND 0x03
         in [value ! 0 AND 0x3f, value ! 1, value ! 2] = gIdBytes \<and>
            (case orig of
               LINK_ORIGINATE_LOCAL \<Rightarrow> chalOrig \<noteq> originate_number LINK_ORIGINATE_REMOTE
             | LINK_ORIGINATE_REMOTE \<Rightarrow> chalOrig \<noteq> originate_number LINK_ORIGINATE_LOCAL
             | LINK_ORIGINATE_UNKNOWN \<Rightarrow> False)))"

definition ChapSendResponse :: "link fsm \<Rightarrow> link fsm" where
  "ChapSendResponse f =
     (let f = upd_chap (\<lambda>c. c\<lparr>ch_respTimer := TimerStop2 (ch_respTimer c)\<rparr>) f in
      case ch_resp (au_chap (the_auth f)) of
        None \<Rightarrow> fsm_abort f
      | Some resp \<Rightarrow>
          (let f = chap_answer CHAP_RESPONSE EAP_RESPONSE (ch_resp_id (au_chap (the_auth f))) resp f
           in if lp_phase (the_lcp f) = PHASE_AUTHENTICATE
              then auth_timer_start (\<lambda>a. ch_respTimer (au_chap a))
                     (\<lambda>t a. a\<lparr>au_chap := (au_chap a)\<lparr>ch_respTimer := t\<rparr>\<rparr>)
                     (upd_chap (\<lambda>c. c\<lparr>ch_respTimer :=
                        TimerInit2 (retry_load f) (ch_respTimer c)\<rparr>) f)
              else f))"

text \<open>The name to answer with and the secret that goes with it.\<close>

definition chap_name :: "link \<Rightarrow> byte list \<Rightarrow> byte list" where
  "chap_name l peer_name =
     (if au_conf_authname (lk_auth l) \<noteq> [] then au_conf_authname (lk_auth l) else peer_name)"

definition chap_password :: "link \<Rightarrow> byte list \<Rightarrow> byte list option" where
  "chap_password l name =
     (let a = lk_auth l; name = strlcpy 64 name in
      if au_conf_authname a = name \<and> au_conf_password a \<noteq> []
      then Some (strlcpy 64 (au_conf_password a))
      else if name = [] then None else map_option (strlcpy 64) (lk_secret l name))"

text \<open>What MPPE needs later of an answered challenge.\<close>

definition remember_answer :: "byte \<Rightarrow> byte list \<Rightarrow> byte list \<Rightarrow> link fsm \<Rightarrow> link fsm" where
  "remember_answer alg value hash f =
     (if lk_originate (f_arg f) \<noteq> LINK_ORIGINATE_LOCAL then f
      else if alg = CHAP_ALG_MSOFT
      then upd_params (\<lambda>p. p\<lparr>ms_msChal := take 8 value @ drop 8 (ms_msChal p)\<rparr>) f
      else if alg = CHAP_ALG_MSOFTv2
      then upd_params (\<lambda>p. p\<lparr>ms_msChal := take 16 value, ms_ntResp := take 24 (drop 24 hash)\<rparr>) f
      else f)"

definition chap_respond ::
  "crypto \<Rightarrow> byte \<Rightarrow> byte list \<Rightarrow> byte list \<Rightarrow> byte list \<Rightarrow> link fsm \<Rightarrow> link fsm" where
  "chap_respond cy i name password value f =
     (let alg = au_self_to_peer_alg (the_auth f);
          arr = stack_array (f_arg f) CHAP_MAX_VAL value;
          (secret, f) = ChapGetSecret cy alg password f;
          (hash, l) = ChapHash cy alg (stack_array (f_arg f) CHAP_MAX_VAL []) i name secret arr
                        (length value) True (f_arg f);
          f = f\<lparr>f_arg := l\<rparr>
      in case hash of
           None \<Rightarrow> f
         | Some h \<Rightarrow>
             ChapSendResponse
               (upd_chap (\<lambda>c. c\<lparr>ch_resp := Some ([of_nat (length h)] @ h @ name), ch_resp_id := i\<rparr>)
                 (remember_answer alg arr h f)))"

definition chap_challenge :: "crypto \<Rightarrow> authdata \<Rightarrow> pkt \<Rightarrow> nat \<Rightarrow> link fsm \<Rightarrow> link fsm" where
  "chap_challenge cy d bp len f =
     (case ChapParsePkt bp len of
        Overrun \<Rightarrow> fsm_abort f
      | Malformed \<Rightarrow> f
      | Fields (peer_name, value) \<Rightarrow>
          (let name = chap_name (f_arg f) peer_name in
           if value = cp_chal (ad_params d) then f
           else if chal_orig_fails (lk_originate (f_arg f)) value then f
           else case chap_password (f_arg f) name of
             None \<Rightarrow> f
           | Some p \<Rightarrow> chap_respond cy (ad_id d) name p value f))"

text \<open>The domain in front of the name of a Microsoft client is dropped unless the link keeps it.\<close>

definition strip_domain :: "link \<Rightarrow> byte list \<Rightarrow> byte list" where
  "strip_domain l name =
     (if \<not> Enabled (lk_options l) LINK_CONF_MSDOMAIN \<and>
         au_peer_to_self_alg (lk_auth l) \<in> {CHAP_ALG_MSOFT, CHAP_ALG_MSOFTv2}
      then after_backslash name else name)"

definition chap_response :: "auth_env \<Rightarrow> authdata \<Rightarrow> pkt \<Rightarrow> nat \<Rightarrow> link fsm \<Rightarrow> link fsm" where
  "chap_response env d bp len f =
     (let d = d\<lparr>ad_alg := au_peer_to_self_alg (the_auth f)\<rparr>;
          f = upd_chap (\<lambda>c. c\<lparr>ch_chalTimer := TimerStop2 (ch_chalTimer c)\<rparr>) f
      in case ChapParsePkt bp len of
           Overrun \<Rightarrow> fsm_abort f
         | Malformed \<Rightarrow>
             ChapInputFinish (ev_crypto env) (d\<lparr>ad_why_fail := AUTH_FAIL_INVALID_PACKET\<rparr>) f
         | Fields (peer_name, value) \<Rightarrow>
             AuthAsyncStart env
               (d\<lparr>ad_params := (ad_params d)\<lparr>
                    cp_value := value @ drop (length value) (cp_value (ad_params d)),
                    cp_value_len := length value,
                    ap_authname := strlcpy 64 (strip_domain (f_arg f) peer_name)\<rparr>,
                  ad_finish := ChapInputFinish_fn\<rparr>) f)"

definition ChapInput :: "auth_env \<Rightarrow> authdata \<Rightarrow> pkt \<Rightarrow> nat \<Rightarrow> link fsm \<Rightarrow> link fsm" where
  "ChapInput env d bp len f =
     (let f = upd_chap (\<lambda>c. c\<lparr>ch_proto := ad_proto d\<rparr>) f in
      if ad_code d = CHAP_CHALLENGE then chap_challenge (ev_crypto env) d bp len f
      else if ad_code d = CHAP_RESPONSE then chap_response env d bp len f
      else if ad_code d = CHAP_SUCCESS \<or> ad_code d = CHAP_FAILURE then
        (let f = upd_chap (\<lambda>c. c\<lparr>ch_respTimer := TimerStop2 (ch_respTimer c), ch_resp := None\<rparr>) f in
         if au_self_to_peer (the_auth f) \<noteq> PROTO_CHAP \<or> lp_phase (the_lcp f) \<noteq> PHASE_AUTHENTICATE
         then f
         else if ShowMesg (pkt_octets bp) 0 len
         then AuthFinish AUTH_SELF_TO_PEER (ad_code d = CHAP_SUCCESS) f else fsm_abort f)
      else if ad_code d = CHAP_MS_V1_CHANGE_PW \<or> ad_code d = CHAP_MS_V2_CHANGE_PW
      then chap_bad (d\<lparr>ad_why_fail := AUTH_FAIL_NOT_EXPECTED\<rparr>) f
      else f)"

section \<open>Packets of EAP\<close>

text \<open>The first slot that is in use.\<close>

fun first_type :: "byte list \<Rightarrow> nat \<Rightarrow> (nat \<times> byte) option" where
  "first_type [] i = None"
| "first_type (t # ts) i = (if t \<noteq> 0 then Some (i, t) else first_type ts (i + 1))"

definition EapSendRequest :: "byte \<Rightarrow> link fsm \<Rightarrow> link fsm" where
  "EapSendRequest ty f =
     (case (if ty = 0 then first_type (eap_want_types (au_eap (the_auth f))) 0 else Some (0, ty)) of
        None \<Rightarrow> AuthFinish AUTH_PEER_TO_SELF False f
      | Some (i, t) \<Rightarrow>
          (let f = upd_eap (\<lambda>e. e\<lparr>eap_want_types := (eap_want_types e)[i := 0]\<rparr>) f in
           if t = EAP_TYPE_MD5CHAL
           then chap_first_challenge
                  (upd_auth (\<lambda>a. a\<lparr>au_chap := (au_chap a)\<lparr>ch_proto := PROTO_EAP\<rparr>,
                                   au_peer_to_self_alg := CHAP_ALG_MD5\<rparr>) f)
           else AuthFinish AUTH_PEER_TO_SELF False f))"

definition EapSendNak :: "byte \<Rightarrow> link fsm \<Rightarrow> link fsm" where
  "EapSendNak i f =
     (case first_type (eap_peer_types (au_eap (the_auth f))) 0 of
        None \<Rightarrow> AuthFinish AUTH_SELF_TO_PEER False f
      | Some (j, t) \<Rightarrow>
          AuthOutput PROTO_EAP EAP_RESPONSE i [t] False EAP_TYPE_NAK
            (upd_eap (\<lambda>e. e\<lparr>eap_peer_types := (eap_peer_types e)[j := 0]\<rparr>) f))"

definition EapTypeSupported :: "byte \<Rightarrow> bool" where
  "EapTypeSupported ty = (ty \<in> {EAP_TYPE_IDENT, EAP_TYPE_NOTIF, EAP_TYPE_NAK, EAP_TYPE_MD5CHAL})"

text \<open>An identity in a packet whose header says that it has no body is copied from a null pointer.\<close>

definition EapRadiusProxy :: "auth_env \<Rightarrow> authdata \<Rightarrow> pkt \<Rightarrow> u16 \<Rightarrow> link fsm \<Rightarrow> link fsm" where
  "EapRadiusProxy env d bp len f =
     (let xs = pkt_octets bp; ty = (if xs = [] then 0 else xs ! 0);
          ident = (ad_code d = EAP_RESPONSE \<and> ty = EAP_TYPE_IDENT);
          f = (if ident
               then upd_eap (\<lambda>e. e\<lparr>eap_identTimer := TimerStop2 (eap_identTimer e),
                      eap_identity := cstr (take (min (unat len - 1) 63) (drop 1 xs))\<rparr>) f
               else f);
          f = upd_eap (\<lambda>e. e\<lparr>eap_reqTimer := TimerStop2 (eap_reqTimer e)\<rparr>) f
      in if length xs < unat len \<or> ident \<and> len = 0 then fsm_abort f
         else AuthAsyncStart env
           (d\<lparr>ad_params := (ad_params d)\<lparr>
                ap_eapmsg := Some ([ad_code d, ad_id d] @ be16 (len + 4) @ take (unat len) xs),
                ap_authname := eap_identity (au_eap (the_auth f))\<rparr>,
              ad_eap_radius := True, ad_finish := EapRadiusProxyFinish_fn\<rparr>) f)"

text \<open>The packet behind the type, handed to CHAP.\<close>

definition eap_to_chap :: "auth_env \<Rightarrow> authdata \<Rightarrow> byte \<Rightarrow> byte list \<Rightarrow> u16 \<Rightarrow> link fsm \<Rightarrow> link fsm"
where
  "eap_to_chap env d code xs len =
     ChapInput env (d\<lparr>ad_code := code\<rparr>) (Some (drop 1 xs)) (unat (len - 1))"

definition eap_request :: "auth_env \<Rightarrow> authdata \<Rightarrow> byte \<Rightarrow> byte list \<Rightarrow> u16 \<Rightarrow> link fsm \<Rightarrow> link fsm"
where
  "eap_request env d ty xs len f =
     (if ty = EAP_TYPE_IDENT
      then AuthOutput PROTO_EAP EAP_RESPONSE (ad_id d) (au_conf_authname (the_auth f)) False
             EAP_TYPE_IDENT f
      else if ty = EAP_TYPE_NAK \<or> ty = EAP_TYPE_NOTIF then AuthFinish AUTH_SELF_TO_PEER False f
      else if EapTypeSupported ty \<and> ty \<in> set (eap_peer_types (au_eap (the_auth f)))
      then eap_to_chap env d CHAP_CHALLENGE xs len
             (upd_auth (\<lambda>a. a\<lparr>au_self_to_peer_alg := CHAP_ALG_MD5\<rparr>) f)
      else EapSendNak (ad_id d) f)"

text \<open>A Nak without the type wanted is read through a null pointer.\<close>

definition eap_response :: "auth_env \<Rightarrow> authdata \<Rightarrow> byte \<Rightarrow> byte list \<Rightarrow> u16 \<Rightarrow> link fsm \<Rightarrow> link fsm"
where
  "eap_response env d ty xs len f =
     (if ty = EAP_TYPE_IDENT
      then EapSendRequest 0
             (upd_eap (\<lambda>e. e\<lparr>eap_identTimer := TimerStop2 (eap_identTimer e)\<rparr>) f)
      else if ty = EAP_TYPE_NOTIF then f
      else if ty = EAP_TYPE_NAK
      then (case (if len \<le> 1 then None else octet xs 1) of
              None \<Rightarrow> fsm_abort f
            | Some t \<Rightarrow> EapSendRequest (if EapTypeSupported t then t else 0) f)
      else if ty = EAP_TYPE_MD5CHAL then eap_to_chap env d CHAP_RESPONSE xs len f
      else AuthFinish AUTH_PEER_TO_SELF False f)"

definition EapInput :: "auth_env \<Rightarrow> authdata \<Rightarrow> pkt \<Rightarrow> u16 \<Rightarrow> link fsm \<Rightarrow> link fsm" where
  "EapInput env d bp len f =
     (let xs = pkt_octets bp; ty = (if xs = [] then 0 else xs ! 0) in
      if Enabled (eap_options (au_eap (the_auth f))) EAP_CONF_RADIUS
      then EapRadiusProxy env d bp len f
      else if ad_code d = EAP_REQUEST then eap_request env d ty xs len f
      else if ad_code d = EAP_RESPONSE then eap_response env d ty xs len f
      else if ad_code d = EAP_SUCCESS then AuthFinish AUTH_SELF_TO_PEER True f
      else if ad_code d = EAP_FAILURE then AuthFinish AUTH_SELF_TO_PEER False f
      else AuthFinish AUTH_PEER_TO_SELF False f)"

section \<open>All packets\<close>

text \<open>The length of the header may cut the packet short, never extend it.\<close>

definition auth_length :: "byte list \<Rightarrow> u16 option" where
  "auth_length xs =
     (let len = of_nat (length xs) :: u16 in
      if unat len < 4 then None
      else
        (let flen = of_be16 (xs ! 2) (xs ! 3) in
         if len > flen then (if unat flen < 4 then None else Some (flen - 4)) else Some (len - 4)))"

definition AuthInput :: "auth_env \<Rightarrow> u16 \<Rightarrow> pkt \<Rightarrow> link fsm \<Rightarrow> link fsm" where
  "AuthInput env proto bp f =
     (if lp_phase (the_lcp f) \<notin> {PHASE_AUTHENTICATE, PHASE_NETWORK} then f
      else
        (let xs = pkt_octets bp in
         case auth_length xs of
           None \<Rightarrow> f
         | Some len \<Rightarrow>
             (let body = (if length xs = 4 then None else Some (drop 4 xs));
                  d = (AuthDataNew f)\<lparr>ad_proto := proto, ad_id := xs ! 1, ad_code := xs ! 0\<rparr>
              in if proto = PROTO_PAP then PapInput env d body len f
                 else if proto = PROTO_CHAP then ChapInput env d body (unat len) f
                 else if proto = PROTO_EAP then EapInput env d body len f
                 else fsm_abort f)))"

section \<open>Defaults\<close>

definition AuthInit :: "auth \<Rightarrow> auth" where
  "AuthInit a = a\<lparr>au_conf_timeout := 40,
     au_conf_options := Enable AUTH_CONF_ACCT_MANDATORY (Enable AUTH_CONF_INTERNAL (au_conf_options a)),
     au_eap := (au_eap a)\<lparr>eap_options := Accept 1 (Disable 1 (eap_options (au_eap a)))\<rparr>\<rparr>"

end
