(* ===== verification/Auth_Facts.thy ===== *)
theory Auth_Facts
  imports Lcp_Thread Auth_Input
begin

unbundle bit_operations_syntax

text \<open>
  Authentication and LCP together: no packet, timer or finished request leaves LCP in a state that
  its contract does not allow, or the program has stopped at an assertion or an access outside a
  packet. A \<^emph>\<open>live\<close> link is one in Opened whose state fits; the operations of PAP, CHAP and EAP
  keep the part of the link the contract speaks of (\<open>link_frame\<close>) until they report a result.
\<close>

section \<open>Frames\<close>

definition link_frame :: "link fsm \<Rightarrow> unit fsm \<times> lcpstate \<times> bool \<times> (u16 \<times> u16) \<times> authdata option" where
  "link_frame f = (ctl f, lk_lcp (f_arg f), lk_joined_bund (f_arg f), auth_owed (f_arg f), the_thread f)"

definition fit :: "link fsm \<Rightarrow> bool" where
  "fit f \<longleftrightarrow> lcp.sound f \<and> lcp_thread.settled f"

definition fine :: "link fsm \<Rightarrow> bool" where
  "fine f \<longleftrightarrow> f_aborted f \<or> fit f"

definition live :: "link fsm \<Rightarrow> bool" where
  "live f \<longleftrightarrow> fit f \<and> f_state f = ST_OPENED"

lemma frame_fit:
  assumes "link_frame g = link_frame f"
  shows "fit g = fit f" "f_state g = f_state f" "live g = live f" "f_aborted g = f_aborted f"
    "lk_lcp (f_arg g) = lk_lcp (f_arg f)" "the_thread g = the_thread f"
    "auth_owed (f_arg g) = auth_owed (f_arg f)"
proof -
  from assms have ctl: "ctl g = ctl f" by (simp add: link_frame_def)
  note eqs = ctl_fields [OF ctl]
  from eqs show "f_state g = f_state f" "f_aborted g = f_aborted f" by simp_all
  from assms show "lk_lcp (f_arg g) = lk_lcp (f_arg f)" "the_thread g = the_thread f"
    "auth_owed (f_arg g) = auth_owed (f_arg f)" by (simp_all add: link_frame_def)
  have "lcp_good s (f_arg g) = lcp_good s (f_arg f)" for s
    using assms by (intro lcp_good_same) (simp_all add: link_frame_def)
  then show "fit g = fit f"
    using assms eqs
    by (simp add: fit_def lcp.sound_def lcp.calm_def primed_def lcp_thread.settled_def
        thread_idle_def link_frame_def)
  then show "live g = live f" using eqs by (simp add: live_def)
qed

lemma frame_of_auth: "auth_frame g = auth_frame f \<Longrightarrow> the_thread g = the_thread f \<Longrightarrow> link_frame g = link_frame f"
  by (simp add: auth_frame_def link_frame_def)

lemma frame_upd_auth:
  "\<lbrakk>\<And>a. au_peer_to_self (h a) = au_peer_to_self a; \<And>a. au_self_to_peer (h a) = au_self_to_peer a;
    \<And>a. au_thread (h a) = au_thread a\<rbrakk> \<Longrightarrow> link_frame (upd_auth h f) = link_frame f"
  by (simp add: link_frame_def upd_auth_def auth_owed_def)

lemma frame_ops [simp]:
  "link_frame (link_call c f) = link_frame f" "link_frame (upd_pap g1 f) = link_frame f"
  "link_frame (upd_chap g2 f) = link_frame f" "link_frame (upd_eap g3 f) = link_frame f"
  "link_frame (upd_params g4 f) = link_frame f"
  "link_frame (AuthOutput proto code i xs b t f) = link_frame f"
  "link_frame (chap_answer c1 c2 i xs f) = link_frame f"
  by (rule frame_of_auth; simp add: chap_answer_def Let_def)+

lemma frame_timer:
  assumes "t_func (sel (the_auth f))" "\<And>t a. au_peer_to_self (upd t a) = au_peer_to_self a"
    "\<And>t a. au_self_to_peer (upd t a) = au_self_to_peer a" "\<And>t a. au_thread (upd t a) = au_thread a"
  shows "link_frame (auth_timer_start sel upd f) = link_frame f"
  using assms by (simp add: auth_timer_start_def TimerStart2_def frame_upd_auth)

text \<open>A timer that has no handler is an assertion.\<close>

lemma timer_or_abort:
  assumes "\<And>t a. au_peer_to_self (upd t a) = au_peer_to_self a"
    "\<And>t a. au_self_to_peer (upd t a) = au_self_to_peer a" "\<And>t a. au_thread (upd t a) = au_thread a"
  shows "f_aborted (auth_timer_start sel upd f) \<or> link_frame (auth_timer_start sel upd f) = link_frame f"
  using assms frame_timer [of sel f upd]
  by (cases "t_func (sel (the_auth f))") (simp_all add: auth_timer_start_def TimerStart2_def fsm_abort_def)

lemma frame_stop:
  "auth_owed (f_arg (AuthStop f)) = auth_owed (f_arg f)" "lk_lcp (f_arg (AuthStop f)) = lk_lcp (f_arg f)"
  "live f \<Longrightarrow> live (AuthStop f)" "fit f \<Longrightarrow> fit (AuthStop f)" "f_state (AuthStop f) = f_state f"
proof -
  show "auth_owed (f_arg (AuthStop f)) = auth_owed (f_arg f)"
    "lk_lcp (f_arg (AuthStop f)) = lk_lcp (f_arg f)" "f_state (AuthStop f) = f_state f"
    by (simp_all add: AuthStop_def auth_owed_def) (simp add: upd_auth_def)
  have "lcp.sound f \<Longrightarrow> lcp.sound (AuthStop f)"
    by (simp add: lcp.sound_def lcp.calm_def AuthStop_def)
  moreover have "thread_idle (f_arg (AuthStop f))" by (simp add: AuthStop_def thread_idle_def)
  ultimately show "fit f \<Longrightarrow> fit (AuthStop f)" "live f \<Longrightarrow> live (AuthStop f)"
    by (simp_all add: fit_def live_def lcp_thread.settled_def) (simp_all add: AuthStop_def)
qed

section \<open>Reporting a result\<close>

lemma settled_opened: "f_state f = ST_OPENED \<Longrightarrow> lcp_thread.settled f"
  by (simp add: lcp_thread.settled_def)

lemma settled_enter:
  assumes "f_state f = ST_OPENED"
  shows "lcp_thread.settled (lcp_enter_network lcp_fsm f)"
proof -
  have join: "lcp_thread.settled (lcp_join lcp_fsm g)" if "f_state g = ST_OPENED" for g
    using that
    by (simp add: lcp_join_def Let_def settled_opened lcp_thread.settled_Failure)
  have "f_state (FsmSendIdent lcp_fsm s g) = f_state g"
    "f_state (FsmSendTimeRemaining lcp_fsm w g) = f_state g" for s w g
    by (simp_all add: FsmSendIdent_def FsmSendTimeRemaining_def FsmOutputMbuf_def)
  then show ?thesis
    using assms by (auto simp: lcp_enter_network_def Let_def intro!: join split: option.split)
qed

lemma result_fit:
  assumes "live f" "success \<longrightarrow> auth_owed (f_arg f) = (0, 0)"
  shows "fit (LcpAuthResult lcp_fsm success f)"
proof -
  have opened: "f_state f = ST_OPENED" "lcp.sound f" using assms(1) by (simp_all add: live_def fit_def)
  then have "lcp_good ST_OPENED (f_arg f)" using lcp.sound_good by metis
  then have "f_state (lcp_leave_phase PHASE_NETWORK f) = ST_OPENED"
    if "lp_phase (the_lcp f) \<noteq> PHASE_NETWORK"
    using that opened by (subst leave_phase) (auto simp: lcp_good_def)
  then have "lcp_thread.settled (LcpAuthResult lcp_fsm success f)"
    using opened
    by (simp add: LcpAuthResult_def settled_enter settled_opened lcp_thread.settled_Failure)
  with auth_result_sound [OF opened(2,1) assms(2)] show ?thesis by (simp add: fit_def)
qed

lemma failure_fit: "fit f \<Longrightarrow> fit (LcpAuthResult lcp_fsm False f)"
  using frame_fit(1) [OF frame_ops(1), of CallReasonAuth f]
  by (simp add: LcpAuthResult_def fit_def lcp.sound_Failure lcp_thread.settled_Failure)

lemma timeout_fit: "fit f \<Longrightarrow> fit (AuthTimeout f)"
  by (simp add: AuthTimeout_def failure_fit frame_stop)

lemma AuthFinish_fit:
  assumes "live f"
  shows "fit (AuthFinish which ok f)"
proof -
  define g where "g = upd_auth (\<lambda>a. case which of AUTH_SELF_TO_PEER \<Rightarrow> a\<lparr>au_self_to_peer := 0\<rparr>
    | AUTH_PEER_TO_SELF \<Rightarrow> a\<lparr>au_peer_to_self := 0\<rparr>) f"
  have g: "the_lcp g = the_lcp f" "lk_joined_bund (f_arg g) = lk_joined_bund (f_arg f)"
    "auth_owed (f_arg f) = (0, 0) \<longrightarrow> auth_owed (f_arg g) = (0, 0)" "ctl g = ctl f"
    by (cases which; simp add: g_def upd_auth_def auth_owed_def)+
  have "lcp_good s (f_arg f) \<Longrightarrow> lcp_good s (f_arg g)" for s
    using g by (auto simp: lcp_good_def)
  moreover note ctl_fields [OF g(4)]
  ultimately have live: "live g"
    using assms by (auto simp: live_def fit_def lcp.sound_def lcp.calm_def primed_def lcp_thread.settled_def)
  have "AuthFinish which ok f = (if \<not> ok then LcpAuthResult lcp_fsm False (AuthStop g)
      else if auth_owed (f_arg g) = (0, 0) then LcpAuthResult lcp_fsm True (AuthStop g) else g)"
    by (simp only: AuthFinish_def Let_def g_def auth_owed_def prod.inject)
  then show ?thesis
    using live by (auto simp: frame_stop live_def intro!: result_fit failure_fit)
qed

section \<open>PAP, CHAP and EAP\<close>

lemma fit_fine: "fit f \<Longrightarrow> fine f" by (simp add: fine_def)

lemma fit_not_aborted: "fit f \<Longrightarrow> \<not> f_aborted f"
  using lcp.sound_good by (simp add: fit_def)

lemma live_fit: "live f \<Longrightarrow> fit f" by (simp add: live_def)

lemmas live_ops [simp] = frame_ops [THEN frame_fit(3)]

lemma pap_answers_fit: "live f \<Longrightarrow> fit (pap_good d f)" "live f \<Longrightarrow> fit (pap_bad d f)"
  by (simp_all add: pap_good_def pap_bad_def AuthFinish_fit)

lemma PapInputFinish_fit: "live f \<Longrightarrow> fit (PapInputFinish d f)"
  by (auto simp: PapInputFinish_def pap_answers_fit live_fit split: auth_status.split)

lemma chap_answers_fit: "live f \<Longrightarrow> fit (chap_good d mesg f)" "live f \<Longrightarrow> fit (chap_bad d f)"
  by (simp_all add: chap_good_def chap_bad_def AuthFinish_fit Let_def)

lemma frame_secret [simp]: "link_frame (snd (ChapGetSecret cy alg p f)) = link_frame f"
  by (simp add: ChapGetSecret_def Let_def)

lemma frame_verify [simp]: "link_frame (snd (chap_verify cy d f)) = link_frame f"
  by (simp add: chap_verify_def Let_def)

lemma ChapInputFinish_fit:
  assumes "live f"
  shows "fit (ChapInputFinish cy d f)"
proof -
  have "live (snd (chap_verify cy d f))" using assms by (simp only: frame_fit(3) [OF frame_verify])
  then show ?thesis
    using assms
    by (auto simp: ChapInputFinish_def Let_def chap_answers_fit live_fit case_prod_beta
        split: auth_status.split option.split)
qed

lemma frame_fine:
  assumes "fit f" "f_aborted g \<or> link_frame g = link_frame f"
  shows "fine g"
  using assms frame_fit(1) [of g f] by (auto simp: fine_def)

lemma req_timer_or_abort:
  "f_aborted (eap_req_timer_start f) \<or> link_frame (eap_req_timer_start f) = link_frame f"
  unfolding eap_req_timer_start_def by (rule timer_or_abort) simp_all

lemma frame_send_msg [simp]: "link_frame (EapRadiusSendMsg f) = link_frame f"
  by (simp add: EapRadiusSendMsg_def split: option.split)

lemma EapRadiusProxyFinish_fine:
  assumes "live f"
  shows "fine (EapRadiusProxyFinish d f)"
proof -
  define code where "code = (if ad_status d = AUTH_STATUS_SUCCESS then EAP_SUCCESS else EAP_FAILURE)"
  define f1 where "f1 = (if ap_eapmsg (au_params (the_auth f)) = None
     then upd_params (\<lambda>p. p\<lparr>ap_eapmsg := Some ([code, ad_id d] @ be16 4)\<rparr>) f else f)"
  define f2 where "f2 = EapRadiusSendMsg (upd_eap (\<lambda>e. e\<lparr>eap_retry := AUTH_RETRIES\<rparr>) f1)"
  have "link_frame f2 = link_frame f" by (simp add: f2_def f1_def)
  then have f2: "live f2" using assms frame_fit(3) by blast
  then have "fine (eap_req_timer_start f2)"
    using frame_fine [OF live_fit [OF f2] req_timer_or_abort] by blast
  moreover have "EapRadiusProxyFinish d f =
      (let f = (if ad_status d = AUTH_STATUS_UNDEF then eap_req_timer_start f2 else f2)
       in case ad_status d of
           AUTH_STATUS_FAIL \<Rightarrow> AuthFinish AUTH_PEER_TO_SELF False f
         | AUTH_STATUS_SUCCESS \<Rightarrow> AuthFinish AUTH_PEER_TO_SELF True f
         | _ \<Rightarrow> f)"
    by (simp only: EapRadiusProxyFinish_def f2_def f1_def code_def Let_def)
  ultimately show ?thesis
    using f2 by (cases "ad_status d") (simp_all add: AuthFinish_fit fit_fine live_fit)
qed

section \<open>Requests\<close>

lemma finish_call_fine: "live f \<Longrightarrow> fine (auth_finish_call env d f)"
  by (simp add: auth_finish_call_def PapInputFinish_fit ChapInputFinish_fit fit_fine
      EapRadiusProxyFinish_fine split: auth_finish.split) (simp add: fine_def fsm_abort_def)

lemma finish_call_fit:
  "live f \<Longrightarrow> ad_finish d \<in> {PapInputFinish_fn, ChapInputFinish_fn} \<Longrightarrow> fit (auth_finish_call env d f)"
  by (auto simp: auth_finish_call_def PapInputFinish_fit ChapInputFinish_fit)

lemma forward_fit:
  assumes "fit f"
  shows "fit (auth_forward env rept f)"
proof -
  have "link_frame (link_call CallRepeat (upd_arg (\<lambda>l. l\<lparr>lk_rep := True\<rparr>) f)) = link_frame f"
    by simp (simp add: link_frame_def auth_owed_def)
  then have "fit (link_call CallRepeat (upd_arg (\<lambda>l. l\<lparr>lk_rep := True\<rparr>) f))"
    using assms frame_fit(1) by blast
  then have "fit (LcpClose (LcpDown (link_call CallRepeat (upd_arg (\<lambda>l. l\<lparr>lk_rep := True\<rparr>) f))))"
    unfolding LcpClose_def LcpDown_def fit_def
    by (intro conjI lcp.sound_Close lcp.sound_Down lcp_thread.settled_admin) simp_all
  then show ?thesis
    using assms frame_fit(1) [OF frame_ops(1), of CallPhysClose f] by (simp add: auth_forward_def)
qed

lemma thread_start_fit:
  assumes "live f"
  shows "fit (upd_auth (\<lambda>a. a\<lparr>au_thread := Some d\<rparr>) f)"
proof -
  have "f_state f = ST_OPENED" "lcp.sound f" using assms by (simp_all add: live_def fit_def)
  then show ?thesis
    by (simp add: fit_def settled_opened lcp.sound_def lcp.calm_def)
qed

lemma precheck_finish [simp]: "ad_finish (fst (AuthPreChecks env d)) = ad_finish d"
  by (simp add: AuthPreChecks_def Let_def)

lemma AuthAsyncStart_fine:
  assumes "live f"
  shows "fine (AuthAsyncStart env d f)"
    "ad_finish d \<in> {PapInputFinish_fn, ChapInputFinish_fn} \<Longrightarrow> fit (AuthAsyncStart env d f)"
  using assms forward_fit [OF live_fit [OF assms]] finish_call_fine [OF assms]
    finish_call_fit [OF assms] thread_start_fit [OF assms] live_fit [of "link_call CallPhysClose f"]
  by (auto simp: AuthAsyncStart_def auth_fail_def case_prod_beta fit_fine Let_def split: option.split)

section \<open>The parsers stay inside the packet\<close>

lemma pap_fields_inside: "len \<le> length xs \<Longrightarrow> pap_fields xs len \<noteq> Overrun"
  by (auto simp: pap_fields_def octet_def parse_octets_def)

lemma chap_parse_inside:
  "len \<le> length (pkt_octets bp) \<Longrightarrow> ChapParsePkt bp len \<noteq> Overrun"
  by (auto simp: ChapParsePkt_def octet_def parse_octets_def pkt_octets_def split: option.split)

lemma auth_length_inside:
  assumes "auth_length xs = Some len"
  shows "unat len + 4 \<le> length xs"
proof -
  let ?n = "of_nat (length xs) :: u16"
  have n: "unat ?n \<le> length xs" by (simp add: unat_of_nat)
  have minus: "unat (w - 4) = unat w - 4" if "4 \<le> unat w" for w :: u16
    using that by (simp add: unat_sub word_le_nat_alt)
  show ?thesis
    using assms n minus [of ?n] minus [of "of_be16 (xs ! 2) (xs ! 3)"]
    by (auto simp: auth_length_def Let_def word_less_nat_alt split: if_splits)
qed

section \<open>Every packet\<close>

lemma pap_message_inside:
  assumes "len \<le> length xs"
  shows "pap_message xs len \<longleftrightarrow> len = 0 \<or> unat (xs ! 0) < length xs"
proof -
  have "unat (xs ! 0) < 2 ^ LENGTH(8)" by (rule unsigned_less)
  then show ?thesis
    using assms by (cases len) (auto simp: pap_message_def octet_def ShowMesg_def)
qed

text \<open>An Ack or a Nak we wait for whose message is longer than the packet is read behind it.\<close>

definition pap_behind :: "authdata \<Rightarrow> byte list \<Rightarrow> u16 \<Rightarrow> link fsm \<Rightarrow> bool" where
  "pap_behind d xs len f \<longleftrightarrow> (ad_code d = PAP_ACK \<or> ad_code d = PAP_NAK) \<and>
     au_self_to_peer (the_auth f) = PROTO_PAP \<and> len \<noteq> 0 \<and> length xs \<le> unat (xs ! 0)"

lemma PapInput_fit:
  assumes "live f" "unat len \<le> length (pkt_octets bp)"
  shows "if pap_behind d (pkt_octets bp) len f then f_aborted (PapInput env d bp len f)
    else fit (PapInput env d bp len f)"
proof -
  define g where "g = upd_pap PapStop f"
  have g: "live g" using assms(1) by (simp add: g_def)
  have len: "unat len = 0 \<longleftrightarrow> len = 0" by (simp add: unat_eq_0)
  show ?thesis
    using assms(1) g pap_fields_inside [OF assms(2)] pap_message_inside [OF assms(2)]
    unfolding PapInput_def Let_def g_def [symmetric]
    by (auto simp: pap_behind_def len fsm_abort_def PapInputFinish_fit pap_answers_fit
        AuthFinish_fit live_fit AuthAsyncStart_fine(2) split: parsed.split)
qed

lemma frame_remember [simp]: "link_frame (remember_answer alg v h f) = link_frame f"
  by (simp add: remember_answer_def)

lemma frame_hash_link:
  "link_frame (f\<lparr>f_arg := snd (ChapHash cy alg buf i u s c n b (f_arg f))\<rparr>) = link_frame f"
  by (simp add: ChapHash_def ChapGenRandom_def Let_def case_prod_beta link_frame_def auth_owed_def)

lemma resp_timer_frame:
  "link_frame (auth_timer_start (\<lambda>a. ch_respTimer (au_chap a))
     (\<lambda>t a. a\<lparr>au_chap := (au_chap a)\<lparr>ch_respTimer := t\<rparr>\<rparr>)
     (upd_chap (\<lambda>c. c\<lparr>ch_respTimer := TimerInit2 n (ch_respTimer c)\<rparr>) f)) = link_frame f"
  by (simp add: frame_timer)

lemma frame_response:
  "link_frame (ChapSendResponse f) = link_frame f \<or> f_aborted (ChapSendResponse f)"
  by (simp add: ChapSendResponse_def Let_def resp_timer_frame fsm_abort_def del: TimerInit2_def
      split: option.split)

lemma frame_response_some:
  assumes "ch_resp (au_chap (the_auth f)) = Some r"
  shows "link_frame (ChapSendResponse f) = link_frame f"
  using assms by (simp add: ChapSendResponse_def Let_def resp_timer_frame)

lemma frame_respond: "link_frame (chap_respond cy i name p value f) = link_frame f"
proof -
  define alg where "alg = au_self_to_peer_alg (the_auth f)"
  define arr where "arr = stack_array (f_arg f) CHAP_MAX_VAL value"
  define sf where "sf = ChapGetSecret cy alg p f"
  define buf where "buf = stack_array (f_arg (snd sf)) CHAP_MAX_VAL []"
  define hl where "hl = ChapHash cy alg buf i name (fst sf) arr (length value) True (f_arg (snd sf))"
  define f1 where "f1 = (snd sf)\<lparr>f_arg := snd hl\<rparr>"
  have f1: "link_frame f1 = link_frame f"
    by (simp add: f1_def hl_def sf_def frame_hash_link)
  have "chap_respond cy i name p value f = (case fst hl of
          None \<Rightarrow> f1
        | Some h \<Rightarrow> ChapSendResponse
            (upd_chap (\<lambda>c. c\<lparr>ch_resp := Some ([of_nat (length h)] @ h @ name), ch_resp_id := i\<rparr>)
              (remember_answer alg arr h f1)))"
    by (simp only: chap_respond_def Let_def case_prod_beta alg_def arr_def buf_def sf_def hl_def f1_def)
  also have "link_frame \<dots> = link_frame f"
    using f1 by (simp add: frame_response_some split: option.split)
  finally show ?thesis .
qed

lemma chap_challenge_fit:
  assumes "live f"
  shows "ChapParsePkt bp len \<noteq> Overrun \<Longrightarrow> fit (chap_challenge cy d bp len f)"
    "fine (chap_challenge cy d bp len f)"
proof -
  have "fit (chap_respond cy i name p v f)" for i name p v
    using frame_fit(1) [OF frame_respond] live_fit [OF assms] by simp
  then show "ChapParsePkt bp len \<noteq> Overrun \<Longrightarrow> fit (chap_challenge cy d bp len f)"
    "fine (chap_challenge cy d bp len f)"
    using live_fit [OF assms]
    by (auto simp: chap_challenge_def Let_def fit_fine split: parsed.split option.split)
      (simp add: fine_def fsm_abort_def)
qed

lemma chap_response_fit:
  assumes "live f"
  shows "ChapParsePkt bp len \<noteq> Overrun \<Longrightarrow> fit (chap_response env d bp len f)"
    "fine (chap_response env d bp len f)"
proof -
  define g where "g = upd_chap (\<lambda>c. c\<lparr>ch_chalTimer := TimerStop2 (ch_chalTimer c)\<rparr>) f"
  have g: "live g" using assms by (simp add: g_def)
  then show "ChapParsePkt bp len \<noteq> Overrun \<Longrightarrow> fit (chap_response env d bp len f)"
    "fine (chap_response env d bp len f)"
    unfolding chap_response_def Let_def g_def [symmetric]
    by (auto simp: ChapInputFinish_fit AuthAsyncStart_fine(2) fit_fine split: parsed.split)
      (simp add: fine_def fsm_abort_def)
qed

lemma ChapInput_fit:
  assumes "live f"
  shows "len \<le> length (pkt_octets bp) \<Longrightarrow> fit (ChapInput env d bp len f)"
    "fine (ChapInput env d bp len f)"
proof -
  define g where "g = upd_chap (\<lambda>c. c\<lparr>ch_proto := ad_proto d\<rparr>) f"
  define h where "h = upd_chap (\<lambda>c. c\<lparr>ch_respTimer := TimerStop2 (ch_respTimer c), ch_resp := None\<rparr>) g"
  have g: "live g" "live h" using assms by (simp_all add: g_def h_def)
  then show "len \<le> length (pkt_octets bp) \<Longrightarrow> fit (ChapInput env d bp len f)"
    "fine (ChapInput env d bp len f)"
    unfolding ChapInput_def Let_def g_def [symmetric] h_def [symmetric]
    by (auto simp: chap_challenge_fit chap_response_fit chap_answers_fit AuthFinish_fit live_fit
        fit_fine chap_parse_inside ShowMesg_def) (simp_all add: fine_def fsm_abort_def)
qed

lemma EapSendRequest_fit:
  assumes "live f"
  shows "fit (EapSendRequest ty f)"
proof -
  have chal: "link_frame (chap_first_challenge g) = link_frame g"
    if "au_peer_to_self_alg (the_auth g) = CHAP_ALG_MD5" for g
    using that by (intro frame_of_auth auth_frame_first_challenge) (simp_all add: chap_alg_known_def)
  define g where "g i = upd_eap (\<lambda>e. e\<lparr>eap_want_types := (eap_want_types e)[i := 0]\<rparr>) f" for i
  define h where "h i = upd_auth (\<lambda>a. a\<lparr>au_chap := (au_chap a)\<lparr>ch_proto := PROTO_EAP\<rparr>,
       au_peer_to_self_alg := CHAP_ALG_MD5\<rparr>) (g i)" for i
  have "link_frame (chap_first_challenge (h i)) = link_frame f" for i
    by (subst chal) (simp_all add: h_def g_def frame_upd_auth)
  then have "fit (chap_first_challenge (h i))" for i
    using frame_fit(1) live_fit [OF assms] by blast
  moreover have "fit (AuthFinish AUTH_PEER_TO_SELF False (g i))" for i
    using assms by (intro AuthFinish_fit) (simp add: g_def)
  ultimately show ?thesis
    using assms
    by (auto simp: EapSendRequest_def Let_def AuthFinish_fit g_def h_def split: option.split)
qed

lemma EapSendNak_fit: "live f \<Longrightarrow> fit (EapSendNak i f)"
  by (auto simp: EapSendNak_def AuthFinish_fit live_fit split: option.split)

lemma eap_to_chap_fine: "live f \<Longrightarrow> fine (eap_to_chap env d code xs len f)"
  by (simp add: eap_to_chap_def ChapInput_fit)

lemma eap_request_fine:
  assumes "live f"
  shows "fine (eap_request env d ty xs len f)"
proof -
  have "live (upd_auth (\<lambda>a. a\<lparr>au_self_to_peer_alg := CHAP_ALG_MD5\<rparr>) f)"
    using assms by (simp add: frame_fit(3) [OF frame_upd_auth])
  then show ?thesis
    using assms by (simp add: eap_request_def AuthFinish_fit eap_to_chap_fine EapSendNak_fit
        fit_fine live_fit)
qed

lemma eap_response_fine: "live f \<Longrightarrow> fine (eap_response env d ty xs len f)"
  by (auto simp: eap_response_def AuthFinish_fit EapSendRequest_fit eap_to_chap_fine fit_fine live_fit
      split: option.split) (simp_all add: fine_def fsm_abort_def)

lemma EapRadiusProxy_fine:
  assumes "live f"
  shows "fine (EapRadiusProxy env d bp len f)"
  using assms
  by (simp add: EapRadiusProxy_def Let_def AuthAsyncStart_fine(1)) (simp add: fine_def fsm_abort_def)

lemma EapInput_fine: "live f \<Longrightarrow> fine (EapInput env d bp len f)"
  by (simp add: EapInput_def Let_def EapRadiusProxy_fine eap_request_fine eap_response_fine
      AuthFinish_fit fit_fine)

text \<open>A packet is looked at only while the link is open.\<close>

lemma phase_live:
  assumes "fit f" "lp_phase (the_lcp f) \<in> {PHASE_AUTHENTICATE, PHASE_NETWORK}"
  shows "live f"
proof -
  have "phase_ok (f_state f) (lp_phase (the_lcp f))"
    using lcp.sound_good [of f] assms(1) by (simp add: fit_def lcp_good_def del: phase_ok.simps)
  with assms show ?thesis by (auto simp: live_def split: if_splits)
qed

text \<open>Of a whole packet, with its header of four octets.\<close>

definition pap_message_behind :: "u16 \<Rightarrow> pkt \<Rightarrow> link fsm \<Rightarrow> bool" where
  "pap_message_behind proto bp f \<longleftrightarrow>
     (let xs = pkt_octets bp in
      proto = PROTO_PAP \<and> lp_phase (the_lcp f) \<in> {PHASE_AUTHENTICATE, PHASE_NETWORK} \<and>
      au_self_to_peer (the_auth f) = PROTO_PAP \<and> (xs ! 0 = PAP_ACK \<or> xs ! 0 = PAP_NAK) \<and>
      (case auth_length xs of None \<Rightarrow> False | Some len \<Rightarrow> len \<noteq> 0) \<and>
      length xs < 5 + unat (xs ! 4))"

lemma AuthInput_fine:
  assumes "fit f"
  shows "fine (AuthInput env proto bp f)"
    "proto = PROTO_PAP \<or> proto = PROTO_CHAP \<Longrightarrow>
      if pap_message_behind proto bp f then f_aborted (AuthInput env proto bp f)
      else fit (AuthInput env proto bp f)"
proof -
  let ?xs = "pkt_octets bp"
  let ?body = "if length ?xs = 4 then None else Some (drop 4 ?xs)"
  let ?d = "(AuthDataNew f)\<lparr>ad_proto := proto, ad_id := ?xs ! 1, ad_code := ?xs ! 0\<rparr>"
  let ?good = "if pap_message_behind proto bp f then f_aborted (AuthInput env proto bp f)
      else fit (AuthInput env proto bp f)"
  have body: "pkt_octets ?body = drop 4 ?xs" by (simp add: pkt_octets_def)
  have input: "AuthInput env proto bp f = (case auth_length ?xs of None \<Rightarrow> f | Some len \<Rightarrow>
      (if proto = PROTO_PAP then PapInput env ?d ?body len f
       else if proto = PROTO_CHAP then ChapInput env ?d ?body (unat len) f
       else if proto = PROTO_EAP then EapInput env ?d ?body len f else fsm_abort f))"
    if "lp_phase (the_lcp f) \<in> {PHASE_AUTHENTICATE, PHASE_NETWORK}"
    by (simp only: AuthInput_def Let_def that not_True_eq_False if_False)
  have inside: "unat len \<le> length (pkt_octets ?body)" "4 \<le> length ?xs" if "auth_length ?xs = Some len" for len
    using auth_length_inside [OF that] unfolding body by simp_all
  show "fine (AuthInput env proto bp f)" "proto = PROTO_PAP \<or> proto = PROTO_CHAP \<Longrightarrow> ?good"
  proof (atomize (full), cases "lp_phase (the_lcp f) \<in> {PHASE_AUTHENTICATE, PHASE_NETWORK}")
    case True
    note live = phase_live [OF assms True]
    show "fine (AuthInput env proto bp f) \<and> (proto = PROTO_PAP \<or> proto = PROTO_CHAP \<longrightarrow> ?good)"
    proof (cases "auth_length ?xs")
      case None
      then show ?thesis
        using assms by (simp add: input [OF True] fit_fine pap_message_behind_def Let_def)
    next
      case (Some len)
      have behind: "pap_message_behind proto bp f \<longleftrightarrow>
          proto = PROTO_PAP \<and> pap_behind ?d (pkt_octets ?body) len f"
      proof (cases "len = 0")
        case False
        then have "4 < length ?xs"
          using auth_length_inside [OF Some] unat_gt_0 [of len] by linarith
        then show ?thesis
          using True Some unfolding body
          by (auto simp: pap_message_behind_def pap_behind_def Let_def)
      qed (simp add: pap_message_behind_def pap_behind_def Some)
      have "if pap_behind ?d (pkt_octets ?body) len f then f_aborted (PapInput env ?d ?body len f)
          else fit (PapInput env ?d ?body len f)"
        by (rule PapInput_fit [OF live inside(1) [OF Some]])
      moreover have "fit (ChapInput env ?d ?body (unat len) f)"
        by (rule ChapInput_fit(1) [OF live inside(1) [OF Some]])
      moreover have "fine (EapInput env ?d ?body len f)" by (rule EapInput_fine [OF live])
      moreover have "fine (fsm_abort f)" by (simp add: fine_def fsm_abort_def)
      ultimately show ?thesis
        unfolding input [OF True] Some option.case behind by (auto simp: fine_def split: if_splits)
    qed
  qed (use assms in \<open>simp add: AuthInput_def fit_fine pap_message_behind_def\<close>)
qed

section \<open>The thread and the timers\<close>

lemma thread_done_fine:
  assumes "fit f"
  shows "fine (auth_thread_done env f)"
proof (cases "the_thread f")
  case None
  then show ?thesis using assms by (simp add: auth_thread_done_def fit_fine)
next
  case (Some d)
  then have opened: "f_state f = ST_OPENED"
    using assms by (simp add: fit_def lcp_thread.settled_def thread_idle_def)
  define g where "g = upd_auth (\<lambda>a. a\<lparr>au_thread := None\<rparr>) f"
  have g: "live g"
    using assms opened
    by (simp add: live_def fit_def settled_opened g_def lcp.sound_def lcp.calm_def)
  have "fine (AuthAsyncFinish env e g)" for e
  proof -
    have "live (upd_params (\<lambda>_. ad_params e) g)" using g by simp
    then show ?thesis
      by (simp add: AuthAsyncFinish_def Let_def finish_call_fine forward_fit fit_fine live_fit)
  qed
  then show ?thesis using Some by (simp add: auth_thread_done_def g_def)
qed

lemma frame_pap_request [simp]: "link_frame (PapSendRequest f) = link_frame f"
  by (simp only: PapSendRequest_def Let_def frame_ops)

lemma frame_ident_request [simp]: "link_frame (EapSendIdentRequest f) = link_frame f"
  by (simp only: EapSendIdentRequest_def Let_def frame_ops)

lemma challenge_or_abort:
  "f_aborted (ChapSendChallenge f) \<or> link_frame (ChapSendChallenge f) = link_frame f"
proof -
  have same: "f_aborted (ChapSendChallenge f) = f_aborted (chap_make_challenge f)"
    "auth_frame (ChapSendChallenge f) = auth_frame (chap_make_challenge f)"
    by (simp_all add: ChapSendChallenge_def Let_def AuthOutput_def upd_chap_def) (simp add: auth_frame_def auth_owed_def upd_auth_def)
  show ?thesis
  proof (cases "chap_alg_known f \<or> cp_chal (au_params (the_auth f)) \<noteq> []")
    case True
    moreover have "cp_chal (au_params (the_auth f)) \<noteq> [] \<Longrightarrow> chap_make_challenge f = f"
      by (simp add: chap_make_challenge_def Let_def)
    ultimately have "auth_frame (chap_make_challenge f) = auth_frame f"
      using auth_frame_make_challenge [of f] by metis
    then show ?thesis using same(2) frame_of_auth [of "ChapSendChallenge f" f] by simp
  next
    case False
    then have "chap_make_challenge f = fsm_abort f"
      by (simp add: chap_make_challenge_def chap_alg_known_def Let_def)
    then show ?thesis using same(1) by (simp add: fsm_abort_def)
  qed
qed

definition carries :: "link fsm \<Rightarrow> link fsm \<Rightarrow> bool" where
  "carries f g \<longleftrightarrow> f_aborted g \<or> link_frame g = link_frame f"

lemma carries_refl [simp]: "carries f f"
  by (simp add: carries_def)

lemma carries_frame: "link_frame h = link_frame g \<Longrightarrow> carries f h = carries f g"
  using frame_fit(4) [of h g] by (auto simp: carries_def)

lemmas carries_ops [simp] = frame_ops [THEN carries_frame] frame_pap_request [THEN carries_frame]
  frame_ident_request [THEN carries_frame] frame_send_msg [THEN carries_frame]

lemma carries_trans: "carries f g \<Longrightarrow> carries g h \<Longrightarrow> carries f h"
  using frame_fit(4) [of h g] by (auto simp: carries_def)

lemma carries_fine: "fit f \<Longrightarrow> carries f g \<Longrightarrow> fine g"
  using frame_fine by (simp add: carries_def)

lemma carries_timer [simp]:
  assumes "carries f g" "\<And>t a. au_peer_to_self (upd t a) = au_peer_to_self a"
    "\<And>t a. au_self_to_peer (upd t a) = au_self_to_peer a" "\<And>t a. au_thread (upd t a) = au_thread a"
  shows "carries f (auth_timer_start sel upd g)"
  using assms(1) timer_or_abort [of upd sel g, OF assms(2-4)]
  by (intro carries_trans [OF assms(1)]) (simp add: carries_def)

lemma carries_sends [simp]:
  assumes "carries f g"
  shows "carries f (ChapSendChallenge g)" "carries f (ChapSendResponse g)"
proof -
  have "carries g (ChapSendChallenge g)" "carries g (ChapSendResponse g)"
    using challenge_or_abort [of g] frame_response [of g] by (auto simp: carries_def)
  then show "carries f (ChapSendChallenge g)" "carries f (ChapSendResponse g)"
    using carries_trans [OF assms] by simp_all
qed

lemma timeouts_carry:
  assumes "carries f g"
  shows "carries f (PapTimeout g)" "carries f (EapIdentTimeout g)"
    "carries f (EapRadiusSendMsgTimeout g)" "carries f (ChapChalTimeout g)"
  using assms
  by (simp_all add: PapTimeout_def EapIdentTimeout_def EapRadiusSendMsgTimeout_def
      ChapChalTimeout_def eap_timer_start_def eap_req_timer_start_def Let_def)

section \<open>A link's events\<close>

text \<open>A step of a link: one of LCP's automaton; a packet of an authentication protocol; the end of
  the thread; a timer of the authentication; or a change of the link by somebody else, who leaves
  LCP's state, the membership of the bundle and the authentications owed alone. The environment
  may be another one at each step. A program that has stopped takes no step.\<close>

inductive link_step :: "link fsm \<Rightarrow> link fsm \<Rightarrow> bool" where
  link_fsm: "fsm_step lcp_fsm f g \<Longrightarrow> link_step f g"
| link_packet: "link_step f (AuthInput env proto bp f)"
| link_thread: "link_step f (auth_thread_done env f)"
| link_auth_timeout: "TimerStarted (au_timer (the_auth f)) \<Longrightarrow>
    link_step f (AuthTimeout (upd_auth (\<lambda>a. a\<lparr>au_timer := timer_fired (au_timer a)\<rparr>) f))"
| link_pap_timeout: "TimerStarted (pap_timer (au_pap (the_auth f))) \<Longrightarrow>
    link_step f (PapTimeout (upd_pap (\<lambda>p. p\<lparr>pap_timer := timer_fired (pap_timer p)\<rparr>) f))"
| link_chal_timeout: "TimerStarted (ch_chalTimer (au_chap (the_auth f))) \<Longrightarrow>
    link_step f (ChapChalTimeout (upd_chap (\<lambda>c. c\<lparr>ch_chalTimer := timer_fired (ch_chalTimer c)\<rparr>) f))"
| link_resp_timeout: "TimerStarted (ch_respTimer (au_chap (the_auth f))) \<Longrightarrow>
    link_step f (ChapSendResponse (upd_chap (\<lambda>c. c\<lparr>ch_respTimer := timer_fired (ch_respTimer c)\<rparr>) f))"
| link_ident_timeout: "TimerStarted (eap_identTimer (au_eap (the_auth f))) \<Longrightarrow>
    link_step f (EapIdentTimeout (upd_eap (\<lambda>e. e\<lparr>eap_identTimer := timer_fired (eap_identTimer e)\<rparr>) f))"
| link_req_timeout: "TimerStarted (eap_reqTimer (au_eap (the_auth f))) \<Longrightarrow>
    link_step f (EapRadiusSendMsgTimeout
      (upd_eap (\<lambda>e. e\<lparr>eap_reqTimer := timer_fired (eap_reqTimer e)\<rparr>) f))"
| link_other: "lk_lcp l = lk_lcp (f_arg f) \<Longrightarrow> lk_joined_bund l = lk_joined_bund (f_arg f) \<Longrightarrow>
    auth_owed l = auth_owed (f_arg f) \<Longrightarrow> au_thread (lk_auth l) = the_thread f \<Longrightarrow>
    link_step f (f\<lparr>f_arg := l\<rparr>)"

inductive link_reachable :: "link fsm \<Rightarrow> link fsm \<Rightarrow> bool" for f0 where
  link_start: "link_reachable f0 f0"
| link_next: "link_reachable f0 f \<Longrightarrow> \<not> f_aborted f \<Longrightarrow> link_step f g \<Longrightarrow> link_reachable f0 g"

lemma link_step_fine:
  assumes "link_step f g" "fit f"
  shows "fine g"
  using assms
proof (induction rule: link_step.induct)
  case (link_fsm f g)
  then show ?case
    using lcp.sound_step lcp_thread.settled_step by (simp add: fine_def fit_def)
next
  case (link_auth_timeout f)
  then have "fit (upd_auth (\<lambda>a. a\<lparr>au_timer := timer_fired (au_timer a)\<rparr>) f)"
    by (simp add: frame_fit(1) [OF frame_upd_auth])
  then show ?case by (simp add: timeout_fit fit_fine)
next
  case (link_other l f)
  then have "link_frame (f\<lparr>f_arg := l\<rparr>) = link_frame f" by (simp add: link_frame_def ctl_def)
  then show ?case using link_other.prems frame_fit(1) by (blast intro: fit_fine)
qed (simp_all add: AuthInput_fine thread_done_fine carries_fine timeouts_carry)

lemma link_reachable_fine: "link_reachable f0 f \<Longrightarrow> fit f0 \<Longrightarrow> fine f"
proof (induction rule: link_reachable.induct)
  case link_start
  then show ?case by (rule fit_fine)
next
  case (link_next f g)
  then show ?case using link_step_fine by (simp add: fine_def)
qed

lemma lcp_init_fit: "\<not> lk_joined_bund l \<Longrightarrow> fit (LcpInit junk l)"
  by (simp add: fit_def lcp.sound_def lcp.calm_def lcp_good_def lcp_thread.settled_def thread_idle_def
      LcpInit_def FsmInit_def lcp_zero_def auth_zero_def auth_known_def)

lemma link_reachable_fit:
  "link_reachable (LcpInit junk l) f \<Longrightarrow> \<not> lk_joined_bund l \<Longrightarrow> \<not> f_aborted f \<Longrightarrow> fit f"
  using link_reachable_fine [of "LcpInit junk l" f] by (simp add: lcp_init_fit fine_def)

end
