(* ===== verification/Ipcp_Claims.thy ===== *)
theory Ipcp_Claims
  imports Ipcp_Facts
begin

unbundle bit_operations_syntax

text \<open>
  The properties of IPCP and of the address pools, with their witnesses.
\<close>

section \<open>Requests accepted\<close>

lemma decode_opt_ipaddr:
  assumes "opt_type opt = TY_IPADDR" "\<not> Enabled (ic_options (f_arg f)) IPCP_CONF_PRETENDIP"
    "f_nakBuf (ipcp_decode_opt MODE_REQ f opt) = []" "f_rejBuf (ipcp_decode_opt MODE_REQ f opt) = []"
  shows "addr_allowed (ip_peer_allow (f_arg f)) (opt_ip opt) \<and> opt_ip opt \<noteq> 0"
  using assms nak_nonempty rej_nonempty
  by (auto simp: ipcp_decode_opt_def Let_def ipcp_ipaddr_def addr_allowed_def
      FsmFindOptInfo_def gIpcpConfOpts_def split: if_splits)

lemma decode_ipaddr:
  assumes "list_all opt_ok opts" "opt \<in> set opts" "opt_type opt = TY_IPADDR"
    "\<not> Enabled (ic_options (f_arg f)) IPCP_CONF_PRETENDIP"
    "f_nakBuf (IpcpDecodeConfig f opts MODE_REQ) = []"
    "f_rejBuf (IpcpDecodeConfig f opts MODE_REQ) = []"
  shows "addr_allowed (ip_peer_allow (f_arg f)) (opt_ip opt) \<and> opt_ip opt \<noteq> 0"
proof -
  let ?side = "\<lambda>b. (ic_options b, ip_peer_allow b)"
  let ?P = "\<lambda>s. \<not> Enabled (fst s) IPCP_CONF_PRETENDIP \<longrightarrow>
    addr_allowed (snd s) (opt_ip opt) \<and> opt_ip opt \<noteq> 0"
  have "?P (?side (f_arg f))"
  proof (rule ipcp_dec.accepted [where side = ?side and opts = opts])
    show "?side (f_arg (ipcp_decode_opt MODE_REQ f opt)) = ?side (f_arg f)" for f opt
      using decode_opt_side [of MODE_REQ f opt] by (simp add: pool_side_def)
    show "?P (?side (f_arg f))"
      if "f_nakBuf (ipcp_decode_opt MODE_REQ f opt) = []"
        "f_rejBuf (ipcp_decode_opt MODE_REQ f opt) = []" for f
      using decode_opt_ipaddr [OF assms(3) _ that] by simp
  qed (use assms in \<open>simp_all add: IpcpDecodeConfig_def\<close>)
  with assms(4) show ?thesis by simp
qed

section \<open>Requests\<close>

definition mk_opt :: "byte \<Rightarrow> byte list \<Rightarrow> fsmoption" where
  "mk_opt t xs = \<lparr>opt_type = t, opt_len = of_nat (length xs + 2), opt_data = xs\<rparr>"

lemma conf_value_mk:
  "length xs \<le> 253 \<Longrightarrow> FsmConfValue t xs = opts_bytes [mk_opt t xs] \<and> opt_ok (mk_opt t xs)"
  using conf_value_opt [of xs t] by (simp add: mk_opt_def)

text \<open>The options a request is meant to hold.\<close>

definition ipcp_request_opts :: "ipcp_bund \<Rightarrow> fsmoption list" where
  "ipcp_request_opts b =
     [mk_opt TY_IPADDR (be32 (ip_want_addr b)) .
        _ \<leftarrow> [()], \<not> IPCP_REJECTED b TY_IPADDR \<or> ip_want_addr b = 0] @
     [mk_opt TY_COMPPROTO (vj_bytes (ip_want_comp b)) .
        _ \<leftarrow> [()], vj_proto (ip_want_comp b) \<noteq> 0 \<and> \<not> IPCP_REJECTED b TY_COMPPROTO] @
     [mk_opt t (be32 v) .
        (s, t, v) \<leftarrow> [(IPCP_CONF_REQPRIDNS, TY_PRIMARYDNS, fst (ip_want_dns b)),
                    (IPCP_CONF_REQSECDNS, TY_SECONDARYDNS, snd (ip_want_dns b)),
                    (IPCP_CONF_REQPRINBNS, TY_PRIMARYNBNS, fst (ip_want_nbns b)),
                    (IPCP_CONF_REQSECNBNS, TY_SECONDARYNBNS, snd (ip_want_nbns b))],
        Enabled (ic_options b) s \<and> \<not> IPCP_REJECTED b t]"

lemma request_opts_bytes:
  "ipcp_request b = opts_bytes (ipcp_request_opts b) \<and> list_all opt_ok (ipcp_request_opts b)
     \<and> length (ipcp_request_opts b) \<le> 6"
proof -
  have v: "FsmConfValue t (be32 w) = opts_bytes [mk_opt t (be32 w)]" "opt_ok (mk_opt t (be32 w))" for t w
    using conf_value_mk [of "be32 w" t] by simp_all
  have w: "FsmConfValue t (vj_bytes x) = opts_bytes [mk_opt t (vj_bytes x)]"
    "opt_ok (mk_opt t (vj_bytes x))" for t x
    using conf_value_mk [of "vj_bytes x" t] by (simp_all add: vj_bytes_def)
  show ?thesis
    by (simp add: ipcp_request_def ipcp_request_opts_def build_server_def v w)
qed

section \<open>An example bundle\<close>

text \<open>A bundle with the pool \<open>"p"\<close>, for the witnesses: 10.0.0.1 is free, 10.0.0.2 lent.\<close>

definition vj_example :: ipcpvjcomp where
  "vj_example = \<lparr>vj_proto = 0, vj_maxchan = 0, vj_compcid = 0\<rparr>"

definition ncps_example :: ncps where
  "ncps_example = \<lparr>nc_started = 0, nc_en_ipcp = True, nc_en_ipv6cp = True, if_open = False,
     if_dod = False, if_up = False, if_ip_up = False, if_ipv6_up = False, nc_ip_fails = False,
     nc_ipv6_fails = False, nc_calls = []\<rparr>"

definition bund_example :: ipcp_bund where
  "bund_example =
     \<lparr>ic_options = \<lparr>oi_enable = 1, oi_accept = 1\<rparr>,
      ic_self_allow = \<lparr>r_addr = in_addrtou_addr 0x0A000064, r_width = 32\<rparr>,
      ic_peer_allow = range_zero, ic_self_ippool = [], ic_ippool = ''p'',
      ic_peer_dns = (0x08080808, 0), ic_peer_nbns = (0, 0), ip_want_addr = 0, ip_peer_addr = 0,
      ip_self_allow = range_zero, ip_peer_allow = range_zero, ip_self_ippool_used = False,
      ip_ippool_used = False, ip_peer_comp = vj_example, ip_want_comp = vj_example,
      ip_want_dns = (0, 0), ip_want_nbns = (0, 0), ip_peer_reject = 0, bp_range_valid = False,
      bp_range = range_zero, bp_ippool = [], bp_ippool_used = False, bp_vjc_enable = False,
      bp_peer_dns = (0, 0), bp_peer_nbns = (0, 0), ib_retry_timeout = 2, ib_recvFrames = None,
      ib_ncps = ncps_example, ib_enableIP = False, ib_enableVJComp = False,
      ib_enableVJDecomp = False, ib_ng = [], ib_failures = [],
      ib_pools = [\<lparr>p_name = ''p'', p_recs = [\<lparr>pr_ip = 0x0A000001, pr_used = False\<rparr>,
                                             \<lparr>pr_ip = 0x0A000002, pr_used = True\<rparr>]\<rparr>],
      vjc_min_channels = 4, vjc_max_channels = 16\<rparr>"

lemma range_zero_fine [simp]: "range_fine range_zero"
  by (simp add: range_fine_def range_zero_def u_addr_zero_def u_addrempty_def)

lemma bund_example_ok:
  "ipcp_ok bund_example" "no_lease bund_example" "0 \<notin> pool_has q (ib_pools bund_example)"
  "\<not> Enabled (ic_options bund_example) IPCP_CONF_PRETENDIP"
  by (simp_all add: bund_example_def ipcp_ok_def no_lease_def pools_ok_def pool_has_def
      range_fine_def range4_def range_zero_def u_addr_zero_def u_addrempty_def Enabled_def
      mask_test_def)

section \<open>Properties\<close>

text \<open>C6: IPCP gives back what it borrowed. From configuration (an address for each side may come
  from a pool) through any sequence of received options, in whatever mode they are decoded, to
  unconfiguration, the set of lent addresses of every pool is again what it was, provided
  \<open>pretend-ip\<close> is off and no pool holds 0.0.0.0.\<close>

theorem ipcp_pool_returned:
  assumes "ipcp_ok b" "no_lease b" "\<forall>q. 0 \<notin> pool_has q (ib_pools b)"
    "\<not> Enabled (ic_options b) IPCP_CONF_PRETENDIP"
    "f_arg f = ipcp_configure b"
  shows "pool_lent q (ib_pools (ipcp_unconfigure (f_arg
           (foldl (\<lambda>f (opts, md). IpcpDecodeConfig f opts md) f session)))) = pool_lent q (ib_pools b)"
proof -
  let ?d = "\<lambda>f (opts, md). IpcpDecodeConfig f opts md"
  have opts: "ic_options (ipcp_configure b) = ic_options b"
    by (simp add: ipcp_configure_def configure_rest_def configure_peer_def configure_self_def
        ipcp_pool_get_def case_prod_beta Let_def split: option.split)
  have "leases_ok (f_arg (foldl ?d f session)) \<and>
      pool_side (f_arg (foldl ?d f session)) = pool_side (f_arg f)"
    if "leases_ok (f_arg f)" "\<not> Enabled (ic_options (f_arg f)) IPCP_CONF_PRETENDIP" for f
    using that
  proof (induction session arbitrary: f)
    case (Cons om session)
    obtain opts md where om: "om = (opts, md)" by fastforce
    show ?case
      using Cons.IH [OF leases_decode [OF Cons.prems, of opts md]] decode_side [of f opts md]
      by (simp add: om)
  qed simp
  from this [of f] show ?thesis
    using unconfigure_lent [OF configure_leases(1,2) [OF assms(1-3)]]
      configure_leases [OF assms(1-3)] assms(4,5) opts by (metis (no_types, lifting))
qed

theorem ipcp_pool_returned_witness:
  "pool_lent ''p'' (ib_pools (ipcp_unconfigure (f_arg
     (foldl (\<lambda>f (opts, md). IpcpDecodeConfig f opts md)
        (FsmInit [] (ipcp_configure bund_example))
        [([mk_opt TY_IPADDR (be32 0x0A000009)], MODE_REQ)]))))
   = pool_lent ''p'' (ib_pools bund_example)"
  by (rule ipcp_pool_returned)
    (simp_all only: bund_example_ok FsmInit_def fsm.simps simp_thms not_False_eq_True)

text \<open>C14: A Configure-Request is accepted only with addresses we allow: if decoding it leaves nothing
  to Nak or reject, every IP-Address option in it is nonzero and lies in the range configured for
  the peer (with \<open>pretend-ip\<close> off).\<close>

theorem ipcp_accepts_only_allowed:
  assumes "f_nakBuf (FsmDecodeBuffer gIpcpFsmType buf MODE_REQ f) = []"
    "f_rejBuf (FsmDecodeBuffer gIpcpFsmType buf MODE_REQ f) = []"
    "\<not> Enabled (ic_options (f_arg f)) IPCP_CONF_PRETENDIP"
    "opt \<in> set (FsmExtractOptions FSM_MAX_OPTS buf)" "opt_type opt = TY_IPADDR"
  shows "addr_allowed (ip_peer_allow (f_arg f)) (opt_ip opt) \<and> opt_ip opt \<noteq> 0"
  using decode_ipaddr [OF extract_ok assms(4,5), of "f\<lparr>f_ackBuf := [], f_nakBuf := [], f_rejBuf := []\<rparr>"] assms
  by (simp add: FsmDecodeBuffer_def gIpcpFsmType_def)

lemma example_request_extract:
  "FsmExtractOptions FSM_MAX_OPTS [3, 6, 10, 0, 0, 1] = [mk_opt TY_IPADDR [10, 0, 0, 1]]"
  using extract_opts_bytes [of "[mk_opt TY_IPADDR [10, 0, 0, 1]]" FSM_MAX_OPTS "[]"]
  by (simp add: mk_opt_def opt_ok_def opt_bytes_def FSM_MAX_OPTS_def)

lemma example_peer_range:
  "ip_peer_allow (ipcp_configure bund_example) = host_range 0x0A000001"
  "ic_options (ipcp_configure bund_example) = \<lparr>oi_enable = 1, oi_accept = 1\<rparr>"
  by (simp_all add: bund_example_def ipcp_configure_def configure_self_def configure_peer_def
      configure_rest_def ipcp_pool_get_def host_range_def)

lemma example_opt_ip:
  "opt_ip \<lparr>opt_type = TY_IPADDR, opt_len = l, opt_data = [10, 0, 0, 1]\<rparr> = 0x0A000001"
  by (simp add: opt_ip_def of_be32_def)

lemma example_request_decoded:
  "f_nakBuf (FsmDecodeBuffer gIpcpFsmType [3, 6, 10, 0, 0, 1] MODE_REQ
     (FsmInit [] (ipcp_configure bund_example))) = []"
  "f_rejBuf (FsmDecodeBuffer gIpcpFsmType [3, 6, 10, 0, 0, 1] MODE_REQ
     (FsmInit [] (ipcp_configure bund_example))) = []"
proof -
  have r: "IpAddrInRange (host_range 0x0A000001) (in_addrtou_addr 0x0A000001) = Some True"
    using host_range_allowed [of "0x0A000001" "0x0A000001"] by (simp add: addr_allowed_def)
  show "f_nakBuf (FsmDecodeBuffer gIpcpFsmType [3, 6, 10, 0, 0, 1] MODE_REQ
      (FsmInit [] (ipcp_configure bund_example))) = []"
    "f_rejBuf (FsmDecodeBuffer gIpcpFsmType [3, 6, 10, 0, 0, 1] MODE_REQ
      (FsmInit [] (ipcp_configure bund_example))) = []"
    using r
    by (simp_all add: FsmDecodeBuffer_def gIpcpFsmType_def IpcpDecodeConfig_def FsmAck_def
        example_request_extract ipcp_decode_opt_def FsmFindOptInfo_def gIpcpConfOpts_def
        mk_opt_def ipcp_ipaddr_def example_opt_ip FsmInit_def
        example_peer_range Let_def)
qed

theorem ipcp_accepts_only_allowed_witness:
  "addr_allowed (ip_peer_allow (ipcp_configure bund_example)) 0x0A000001"
  using ipcp_accepts_only_allowed [OF example_request_decoded,
      of "mk_opt TY_IPADDR [10, 0, 0, 1]"]
  by (simp add: FsmInit_def example_peer_range Enabled_def mask_test_bit example_request_extract
      mk_opt_def example_opt_ip bit_simps)

text \<open>C7: Once IPCP is up, both addresses in use are ones the configuration allows, whatever was
  negotiated: an address outside its range is replaced by our own.\<close>

theorem ipcp_up_in_range:
  assumes "range4 (ip_self_allow (f_arg f))" "range4 (ip_peer_allow (f_arg f))"
  shows "addrs_ok (f_arg (IpcpLayerUp f))"
  using ipcp_layer_up_addrs [OF assms] by (simp add: IpcpLayerUp_def upd_arg_def)

theorem ipcp_up_in_range_witness:
  "addrs_ok (f_arg (IpcpLayerUp (FsmInit [] (ipcp_configure bund_example))))"
  by (rule ipcp_up_in_range)
    (simp_all add: FsmInit_def bund_example_def ipcp_configure_def configure_self_def
      configure_peer_def configure_rest_def ipcp_pool_get_def range4_def)

text \<open>What IPCP sends is what a receiver reads: the octets of a request decode to the options
  it is meant to hold, all well formed, at most six of them, in at most 36 octets (the buffer of
  \<open>FsmSendConfigReq\<close> has 256).\<close>

theorem ipcp_request_roundtrip:
  "FsmExtractOptions FSM_MAX_OPTS (ipcp_request b) = ipcp_request_opts b \<and>
   list_all opt_ok (ipcp_request_opts b) \<and> length (ipcp_request b) \<le> 36"
proof -
  have "length (ipcp_request b) \<le> 36"
    by (simp add: ipcp_request_def build_server_def FsmConfValue_def vj_bytes_def)
  then show ?thesis
    using request_opts_bytes [of b]
      extract_opts_bytes [of "ipcp_request_opts b" FSM_MAX_OPTS "[]"]
    by (simp add: FSM_MAX_OPTS_def)
qed

text \<open>Decoding never writes past the Ack, Nak and Reject buffers of 256 octets, whatever
  octets arrive.\<close>

theorem ipcp_buffers_bounded:
  "bufs_ok (FsmDecodeBuffer gIpcpFsmType buf MODE_REQ f)"
  by (rule ipcp_dec.buffers_bounded)

text \<open>A fault of \<open>IpcpConfigure\<close>: a bundle that once had the only address of a pool keeps it in
  \<open>peer_allow\<close>. When the pool has meanwhile lent the address to somebody else, the next
  configuration offers it to the peer all the same, without a lease.\<close>

theorem ipcp_stale_pool_address:
  assumes "ic_ippool b = pool" "pool \<noteq> []" "ic_self_ippool b = []" "bp_ippool b = []"
    "\<not> bp_range_valid b" "no_lease b"
    "ib_pools b = [\<lparr>p_name = pool, p_recs = [\<lparr>pr_ip = s, pr_used = False\<rparr>]\<rparr>]"
  shows "let b2 = ipcp_unconfigure (ipcp_configure b);
             (ps, r) = IPPoolGet pool (ib_pools b2);
             b3 = ipcp_configure (b2\<lparr>ib_pools := ps\<rparr>)
         in r = Some (in_addrtou_addr s) \<and> pool_lent pool ps = {s} \<and>
            ip_peer_addr b3 = s \<and> \<not> ip_ippool_used b3"
  using assms
  by (simp add: ipcp_configure_def configure_self_def configure_peer_def configure_rest_def
      ipcp_pool_get_def ipcp_unconfigure_def no_lease_def u_addrtoin_addr_def pool_lent_def
      del: set_filter)

theorem ipcp_stale_pool_address_witness:
  "let b = bund_example\<lparr>ib_pools := [\<lparr>p_name = ''p'', p_recs = [\<lparr>pr_ip = 7, pr_used = False\<rparr>]\<rparr>]\<rparr>;
       b2 = ipcp_unconfigure (ipcp_configure b);
       (ps, r) = IPPoolGet ''p'' (ib_pools b2);
       b3 = ipcp_configure (b2\<lparr>ib_pools := ps\<rparr>)
   in r = Some (in_addrtou_addr 7) \<and> pool_lent ''p'' ps = {7} \<and>
      ip_peer_addr b3 = 7 \<and> \<not> ip_ippool_used b3"
  unfolding Let_def [of "bund_example\<lparr>ib_pools := _\<rparr>"]
  by (rule ipcp_stale_pool_address) (simp_all add: bund_example_def no_lease_def)

end
