(* ===== verification/Fsm_Claims.thy ===== *)
theory Fsm_Claims
  imports Ipcp_Claims Fsm_Layers
begin

unbundle bit_operations_syntax

text \<open>
  The properties of the automaton. Those about the control part hold for every protocol
  that keeps the contract \<open>fsm_quiet\<close>: its callbacks leave the automaton alone. IPCP, IPV6CP and
  ECP do, by interpretation. LCP and CCP do not: a callback of LCP's (\<open>LcpNewState\<close>, when the
  bundle refuses the link) and one of CCP's (\<open>CcpLayerUp\<close>) make their own automaton fail; what
  holds of them is in \<open>Lcp_Claims\<close>, \<open>Auth_Claims\<close> and \<open>Ccp_Claims\<close>. The witnesses run IPCP.
\<close>

section \<open>Instances for the witnesses\<close>

definition fsm_example :: "ipcp_bund fsm" where
  "fsm_example = (FsmInit [] bund_example)\<lparr>f_conf := f_conf (FsmInit [] bund_example)\<rparr>"

lemma ipcp_quiet: "fsm_quiet gIpcpFsmType"
  by (rule ipcp.fsm_quiet_axioms)




definition waiting_example :: "ipcp_bund fsm" where
  "waiting_example = fsm_example\<lparr>f_state := ST_REQSENT, f_restart := 3,
     f_timer := \<lparr>t_event = True, t_recurring = False, t_load = 2000, t_func = True\<rparr>\<rparr>"

lemma waiting_example:
  "timers_ok waiting_example" "waiting (f_state waiting_example)"
  "nat (sint (f_restart waiting_example)) < 4"
  by (simp_all add: waiting_example_def fsm_example_def FsmInit_def timers_ok_def waiting_def
      FSM_MAXFAILURE_def word_sless_alt timer_zero_def TimerStarted_def)

text \<open>An option nobody knows, as a Configure-Request holding nothing else.\<close>

lemma unknown_option_extract:
  "FsmExtractOptions FSM_MAX_OPTS [200, 2] = [\<lparr>opt_type = 200, opt_len = 2, opt_data = []\<rparr>]"
  using extract_opts_bytes [of "[\<lparr>opt_type = 200, opt_len = 2, opt_data = []\<rparr>]" FSM_MAX_OPTS "[]"]
  by (simp add: opt_ok_def opt_bytes_def FSM_MAX_OPTS_def)

lemma unknown_option_event:
  "rcr_event gIpcpFsmType (Some [200, 2]) (fsm_example\<lparr>f_state := ST_OPENED, f_failure := 0\<rparr>)
     = RXJminus"
  by (simp add: rcr_event_def rcr_decoded_def FsmDecodeBuffer_def gIpcpFsmType_def pk_data_def
      IpcpDecodeConfig_def unknown_option_extract ipcp_decode_opt_def FsmFindOptInfo_def
      gIpcpConfOpts_def FsmRej_def FSM_BUFFER_SIZE_def opt_bytes_def fsm_example_def FsmInit_def
      word_sle_eq)

section \<open>Control\<close>



text \<open>C5: Negotiation ends, for a protocol whose callbacks leave the automaton alone (\<open>fsm_quiet\<close>: IPCP,
  IPV6CP, ECP). If the peer is silent, one timeout more than the restart counter
  takes a waiting automaton to its resting state (Closed from Closing, Stopped from the others),
  and the layer below is told that it is no longer needed, except that a passive automaton that
  was not terminating keeps it.\<close>

theorem fsm_silence_ends:
  assumes "fsm_quiet ty" "timers_ok f" "waiting (f_state f)" "nat (sint (f_restart f)) < n"
  shows "f_state (silence ty n f) = (if f_state f = ST_CLOSING then ST_CLOSED else ST_STOPPED) \<and>
    layers (silence ty n f) = layers f @
      (if f_state f \<in> {ST_CLOSING, ST_STOPPING} \<or> \<not> conf_passive (f_conf f)
       then [EvLayerFinish] else [])"
  using fsm_quiet.silence_ends [OF assms] assms(3) by (simp add: gives_up_def gives_up_layers_def)

theorem fsm_silence_ends_witness:
  "f_state (silence gIpcpFsmType 4 waiting_example) = ST_STOPPED"
  using fsm_silence_ends [OF ipcp_quiet waiting_example(1,2), of 4] waiting_example(3)
  by (simp add: waiting_example_def)









text \<open>The excepted case, a fault of \<open>FsmRecvConfigReq\<close>: in Opened, when the peer sends a
  request we cannot accept and the failure counter has run out, the layer is taken down twice
  (once for the renegotiation, once more by \<open>FsmFailure\<close>).\<close>

theorem fsm_double_layer_down:
  assumes "fsm_quiet ty" "f_state f = ST_OPENED" "rcr_event ty bp f = RXJminus"
  shows "f_state (FsmRecvConfigReq ty i bp f) = ST_STOPPING \<and>
    layers (FsmRecvConfigReq ty i bp f) = layers f @ [EvLayerDown, EvLayerDown]"
  using fsm_quiet.table_ConfigReq_worn_out [OF assms] by blast

theorem fsm_double_layer_down_witness:
  "layers (FsmRecvConfigReq gIpcpFsmType 1 (Some [200, 2])
       (fsm_example\<lparr>f_state := ST_OPENED, f_failure := 0\<rparr>))
     = layers (fsm_example\<lparr>f_state := ST_OPENED, f_failure := 0\<rparr>) @ [EvLayerDown, EvLayerDown]"
  using fsm_double_layer_down [OF ipcp_quiet _ unknown_option_event] by simp

section \<open>Frames\<close>

text \<open>Control packets round-trip. What \<open>FsmOutput\<close> sends, with any padding the link appends,
  is taken apart by the input routine into the same code, identifier and payload.\<close>

theorem fsm_frame_roundtrip:
  assumes "length p + 4 < 65536"
  shows "\<exists>fr. f_trace (FsmOutput ty code i p f) =
      f_trace f @ [EvFrame (ty_link_layer ty) (ty_proto ty) fr] \<and>
    fsm_decap (Some (fr @ pad)) = Some (code, i, if p = [] \<and> pad = [] then None else Some p)"
proof (intro exI conjI)
  show "f_trace (FsmOutput ty code i p f) = f_trace f @
      [EvFrame (ty_link_layer ty) (ty_proto ty) (fsm_header code i (length p) @ p)]"
    by (auto simp: FsmOutput_def FsmOutputMbuf_def pk_push_def pk_data_def)
  show "fsm_decap (Some ((fsm_header code i (length p) @ p) @ pad)) =
      Some (code, i, if p = [] \<and> pad = [] then None else Some p)"
    using decap_header [OF assms] by simp
qed

theorem fsm_frame_roundtrip_witness:
  "\<exists>fr. f_trace (FsmOutput gIpcpFsmType 1 7 [3, 6, 10, 0, 0, 1] fsm_example) =
      f_trace fsm_example @ [EvFrame (ty_link_layer gIpcpFsmType) (ty_proto gIpcpFsmType) fr] \<and>
    fsm_decap (Some (fr @ [0, 0])) =
      Some (1, 7, if [3, 6, 10, 0, 0, 1 :: byte] = [] \<and> [0, 0 :: byte] = [] then None
                  else Some [3, 6, 10, 0, 0, 1])"
  by (rule fsm_frame_roundtrip) simp

text \<open>C38: Options round-trip. Well-formed options, written one after the other, are read back as they
  were (up to the 100 the decoder takes); and whatever octets arrive, the options read are well
  formed and are, octet for octet, a prefix of them.\<close>

theorem fsm_options_roundtrip:
  "(list_all opt_ok opts \<and> length opts \<le> FSM_MAX_OPTS \<longrightarrow>
      FsmExtractOptions FSM_MAX_OPTS (opts_bytes opts) = opts) \<and>
   list_all opt_ok (FsmExtractOptions FSM_MAX_OPTS data) \<and>
   (\<exists>rest. data = opts_bytes (FsmExtractOptions FSM_MAX_OPTS data) @ rest)"
  using extract_opts_bytes [of opts FSM_MAX_OPTS "[]"] extract_ok extract_prefix by auto

theorem fsm_options_roundtrip_witness:
  "FsmExtractOptions FSM_MAX_OPTS (opts_bytes [mk_opt 3 [10, 0, 0, 1], mk_opt 7 []]) =
     [mk_opt 3 [10, 0, 0, 1], mk_opt 7 []]"
  using fsm_options_roundtrip [of "[mk_opt 3 [10, 0, 0, 1], mk_opt 7 []]"]
  by (simp add: mk_opt_def opt_ok_def FSM_MAX_OPTS_def)

text \<open>A fault of \<open>FsmInput\<close>. A packet with an unknown code is answered by a Code-Reject
  that holds its payload only, not its header. An automaton of the same kind that
  receives the Code-Reject therefore takes the first octet of the payload for the rejected
  code, and closes down when that octet happens to be a code it cannot do without.\<close>

theorem fsm_code_reject_misread:
  assumes "fsm_decap bp = Some (code, i, Some (c # xs))" "\<not> known_code ty code"
    "length xs + 5 < 65536" "known_code ty CODE_CODEREJ" "RecvCodeRej ty = None"
  shows "\<exists>fr. f_trace (FsmInput ty bp f) = f_trace f @ [EvFrame (ty_link_layer ty) (ty_proto ty) fr] \<and>
    FsmInput ty (Some fr) g =
      (if coderej_fatal c then FsmFailure ty FAIL_RECD_CODEREJ g else FsmRecvRxjPlus ty g)"
proof (intro exI conjI)
  let ?fr = "fsm_header CODE_CODEREJ (f_rejid f) (length (c # xs)) @ (c # xs)"
  show "f_trace (FsmInput ty bp f) = f_trace f @ [EvFrame (ty_link_layer ty) (ty_proto ty) ?fr]"
    using assms(1,2) by (simp add: FsmInput_def FsmOutputMbuf_def pk_push_def pk_data_def)
  have "fsm_decap (Some ?fr) = Some (CODE_CODEREJ, f_rejid f, Some (c # xs))"
    using decap_header [of "c # xs" CODE_CODEREJ "f_rejid f" "[]"] assms(3) by simp
  then show "FsmInput ty (Some ?fr) g =
      (if coderej_fatal c then FsmFailure ty FAIL_RECD_CODEREJ g else FsmRecvRxjPlus ty g)"
    using assms(4,5)
    by (simp add: FsmInput_def fsm_action_def FsmRecvCodeRej_def pk_read_def pk_data_def)
qed

theorem fsm_code_reject_misread_witness:
  "\<exists>fr. f_trace (FsmInput gIpcpFsmType (Some [99, 1, 0, 5, 1]) fsm_example) =
      f_trace fsm_example @ [EvFrame (ty_link_layer gIpcpFsmType) (ty_proto gIpcpFsmType) fr] \<and>
    FsmInput gIpcpFsmType (Some fr) fsm_example =
      (if coderej_fatal 1 then FsmFailure gIpcpFsmType FAIL_RECD_CODEREJ fsm_example
       else FsmRecvRxjPlus gIpcpFsmType fsm_example)"
  by (rule fsm_code_reject_misread [where code = 99 and i = 1 and xs = "[]"])
    (simp_all add: decap_Cons of_be16_def known_code_def NUM_FSM_CODES_def gIpcpFsmType_def
      IPCP_KNOWN_CODES_def bit_simps)

text \<open>A fault of \<open>FsmCheckMagic\<close>. For a packet of fewer than four octets the magic number
  compared is partly what the stack happens to hold: the same one-octet Echo-Request is harmless or
  brings the link down, depending on it.\<close>

theorem fsm_magic_of_short_packet:
  assumes "check_magic (f_conf f)" "arg_peer_magic ty (f_arg f) = 0"
  shows "fst (FsmCheckMagic ty (Some [0]) (f\<lparr>f_uninit := [0, 0, 0, 0]\<rparr>)) =
      f\<lparr>f_uninit := [0, 0, 0, 0]\<rparr> \<and>
    fst (FsmCheckMagic ty (Some [0]) (f\<lparr>f_uninit := [0, 0, 0, 1]\<rparr>)) =
      FsmFailure ty FAIL_RECD_BADMAGIC (f\<lparr>f_uninit := [0, 0, 0, 1]\<rparr>)"
  using assms by (simp add: FsmCheckMagic_def pk_read_def pk_data_def of_be32_def Let_def)

theorem fsm_magic_of_short_packet_witness:
  "fst (FsmCheckMagic gIpcpFsmType (Some [0])
     (fsm_example\<lparr>f_conf := (f_conf fsm_example)\<lparr>check_magic := True\<rparr>, f_uninit := [0, 0, 0, 1]\<rparr>)) =
   FsmFailure gIpcpFsmType FAIL_RECD_BADMAGIC
     (fsm_example\<lparr>f_conf := (f_conf fsm_example)\<lparr>check_magic := True\<rparr>, f_uninit := [0, 0, 0, 1]\<rparr>)"
  using fsm_magic_of_short_packet [of "fsm_example\<lparr>f_conf := (f_conf fsm_example)\<lparr>check_magic := True\<rparr>\<rparr>"
      gIpcpFsmType]
  by (simp add: gIpcpFsmType_def)

end
