(* ===== verification/Base_Claims.thy ===== *)
theory Base_Claims
  imports Mbuf IpPool Vars Bund_Ncps
begin

unbundle bit_operations_syntax

text \<open>
  The properties of the components below the protocols: packet buffers, address ranges, address
  pools, option sets and the bundle's interface flags.
\<close>

section \<open>Packet buffers\<close>

definition mbuf_example :: "mbuf option" where
  "mbuf_example = Some \<lparr>mb_mem = [0, 1, 2, 3, 4, 5], mb_offset = 1, mb_cnt = 4\<rparr>"

lemma mbuf_example: "mb_ok mbuf_example" "mb_data mbuf_example = [1, 2, 3, 4]"
  by (simp_all add: mbuf_example_def mbuf_ok_def mbuf_data_def)

text \<open>C35: Reading, truncating, copying and splitting a packet buffer stay inside its allocation (the
  model's result is \<open>None\<close> where an octet outside it would be touched) and do to the live octets
  what \<open>take\<close> and \<open>drop\<close> do to a list.\<close>

theorem mbuf_operations_refine:
  assumes "mb_ok bp" "0 \<le> n" "0 \<le> off"
  shows "(\<exists>bp'. mbread bp n = Some (bp', take (nat n) (mb_data bp)) \<and> mb_ok bp' \<and>
      mb_data bp' = drop (nat n) (mb_data bp)) \<and>
    (\<exists>bp'. mbtrunc bp n = Some bp' \<and> mb_ok bp' \<and> mb_data bp' = take (nat n) (mb_data bp)) \<and>
    mbcopy bp off n = Some (take (nat n) (drop (nat off) (mb_data bp))) \<and>
    (\<exists>nb bp'. mbsplit fill bp n = Some (nb, bp') \<and> mb_ok nb \<and> mb_ok bp' \<and>
      mb_data bp' = take (nat n) (mb_data bp) \<and> mb_data nb = drop (nat n) (mb_data bp))"
  using mbread_refines [OF assms(1,2)] mbtrunc_refines [OF assms(1,2)]
    mbcopy_refines [OF assms(1,3,2)] mbsplit_refines [OF assms(1,2)] by blast

theorem mbuf_operations_refine_witness: "mbcopy mbuf_example 1 2 = Some [2, 3]"
  using mbuf_operations_refine [OF mbuf_example(1), of 2 1] by (simp add: mbuf_example)

text \<open>C34: Writing into a packet buffer (\<open>mbcopyback\<close>), also in front of its first octet or past its
  last one, reallocates where there is no room, never touches memory outside the
  allocation and leaves the old octets with the new ones laid over them.\<close>

theorem mbuf_write_refines:
  assumes "mb_ok bp" "0 \<le> off + int (length xs)" "off \<le> int (length (mb_data bp))"
  shows "\<exists>b. mbcopyback fill bp off xs = Some (Some b) \<and> mbuf_ok b \<and>
    mbuf_data b = take (nat off) (mb_data bp) @ xs @ drop (nat (off + int (length xs))) (mb_data bp)"
  using mbcopyback_refines [OF assms] .

theorem mbuf_write_refines_witness:
  "\<exists>b. mbcopyback (\<lambda>_. 0) mbuf_example (- 2) [8, 9] = Some (Some b) \<and> mbuf_ok b \<and>
     mbuf_data b = [8, 9, 1, 2, 3, 4]"
  using mbuf_write_refines [OF mbuf_example(1), of "- 2" "[8, 9]" "\<lambda>_. 0"] by (simp add: mbuf_example)

text \<open>A header pushed in front of a packet is read back as it was, and leaves the packet as
  it was.\<close>

theorem mbuf_header_roundtrip:
  assumes "mb_ok bp"
  shows "\<exists>b1 b2. mb_push fill h bp = Some b1 \<and> mbread b1 (int (length h)) = Some (b2, h) \<and>
    mb_ok b2 \<and> mb_data b2 = mb_data bp"
  using mb.push_pull [OF assms, of fill h] .

theorem mbuf_header_roundtrip_witness:
  "\<exists>b1 b2. mb_push (\<lambda>_. 0) [7] mbuf_example = Some b1 \<and> mbread b1 (int (length [7 :: byte])) = Some (b2, [7]) \<and>
    mb_ok b2 \<and> mb_data b2 = mb_data mbuf_example"
  by (rule mbuf_header_roundtrip [OF mbuf_example(1)])

section \<open>Address ranges\<close>

text \<open>An IPv4 address is in a range exactly when the leading \<open>width\<close> bits agree (an empty range has
  every address), for every width up to 32.\<close>

theorem ip_range4_prefix:
  assumes "a_family (r_addr r) = AF_INET" "a_family a = AF_INET" "r_width r \<le> 32"
  shows "IpAddrInRange r a = Some (ip4 (r_addr r) = 0 \<or>
    drop_bit (32 - unat (r_width r)) (ip4 a) = drop_bit (32 - unat (r_width r)) (ip4 (r_addr r)))"
proof (cases "ip4 (r_addr r) = 0")
  case True
  then show ?thesis using assms(1) by (simp add: IpAddrInRange_def u_rangeempty_def u_addrempty_def)
next
  case False
  then show ?thesis using in_range4 [OF assms(1,2) False assms(3)] by simp
qed

theorem ip_range4_prefix_witness:
  "IpAddrInRange (in_addrtou_range 0x0A000100 24) (in_addrtou_addr 0x0A0001FF) = Some True"
  using ip_range4_prefix [of "in_addrtou_range 0x0A000100 24" "in_addrtou_addr 0x0A0001FF"]
  by (simp add: in_addrtou_range_def)

lemma ceiling8: "(n :: nat) mod 8 \<noteq> 0 \<Longrightarrow> (n + 7) div 8 = Suc (n div 8)"
proof -
  assume "n mod 8 \<noteq> 0"
  then have "(n mod 8 + 7) div 8 = 1" by (intro div_nat_eqI) (simp_all add: less_imp_le_nat)
  then show ?thesis by (simp add: div_add1_eq [of n 7])
qed

text \<open>A fault of \<open>IpAddrInRange\<close>: for an IPv6 range whose width is above 8 and not a multiple of 8,
  an address that agrees in the whole octets makes the mask be shifted by a negative amount,
  which C leaves undefined.\<close>

theorem ip_range6_undefined:
  assumes "a_family (r_addr r) = AF_INET6" "a_family a = AF_INET6" "\<not> u_rangeempty r"
    "8 < unat (r_width r)" "unat (r_width r) < 128" "unat (r_width r) mod 8 \<noteq> 0"
    "take (unat (r_width r) div 8) (a_u a) = take (unat (r_width r) div 8) (a_u (r_addr r))"
    "length (a_u a) = 16" "length (a_u (r_addr r)) = 16"
  shows "IpAddrInRange r a = None"
proof -
  let ?w = "unat (r_width r)" let ?k = "?w div 8"
  have eq: "a_u a ! j = a_u (r_addr r) ! j" if "j < ?k" for j
    using assms(7) that by (metis nth_take)
  have "in_range6 (?k - m) (Suc m) (r_width r) (a_u (r_addr r)) (a_u a) = None" if "m \<le> ?k" for m
    using that
  proof (induction m)
    case 0
    have "?w \<noteq> ?k * 8" "\<not> ?k * 8 + 7 < ?w" using assms(6) by presburger+
    then show ?case using assms(4) by simp
  next
    case (Suc m)
    then have "?k - Suc m < ?k" "Suc (?k - Suc m) = ?k - m" by auto
    moreover have "(?k - Suc m) * 8 + 7 < ?w" using Suc.prems assms(4) by linarith
    ultimately show ?case using Suc eq [of "?k - Suc m"] by simp
  qed
  from this [of ?k] have "in_range6 0 (Suc ?k) (r_width r) (a_u (r_addr r)) (a_u a) = None" by simp
  moreover have "(?w + 7) div 8 = Suc ?k" using ceiling8 [OF assms(6)] .
  ultimately show ?thesis using assms(1-3) by (simp add: IpAddrInRange_def)
qed

theorem ip_range6_undefined_witness:
  "IpAddrInRange (in6_addrtou_range (0xFE # 0x80 # replicate 14 0) 10)
     (in6_addrtou_addr (0xFE # 0x90 # replicate 14 0)) = None"
  by (rule ip_range6_undefined)
    (simp_all add: in6_addrtou_range_def in6_addrtou_addr_def u_rangeempty_def u_addrempty_def)

section \<open>Masks\<close>

lemma high_bit: "x AND 0x80000000 \<noteq> 0 \<longleftrightarrow> bit (x :: u32) 31"
proof -
  have "(0x80000000 :: u32) = push_bit 31 1" by (simp add: push_bit_eq_mult)
  then show ?thesis using mask_test_bit [of x 31] by (simp add: mask_test_def)
qed

lemma leading_ones_prefix:
  "k < n \<Longrightarrow> k \<le> 32 \<Longrightarrow> leading_ones n (push_bit (32 - k) (-1)) w = w + of_nat k"
proof (induction k arbitrary: n w)
  case 0
  have "push_bit 32 (-1 :: u32) = 0" by (rule bit_word_eqI) (auto simp: bit_simps)
  with 0 show ?case by (cases n) simp_all
next
  case (Suc k)
  then obtain m where m: "n = Suc m" "k < m" by (cases n) auto
  have "bit (push_bit (32 - Suc k) (-1 :: u32)) 31" using Suc.prems by (simp add: bit_simps)
  moreover have "push_bit 1 (push_bit (32 - Suc k) (-1 :: u32)) = push_bit (32 - k) (-1)"
  proof -
    have "1 + (32 - Suc k) = 32 - k" using Suc.prems by simp
    then show ?thesis by (simp only: push_bit_push_bit)
  qed
  ultimately show ?case
    using Suc.IH [of m "w + 1"] m Suc.prems by (simp add: high_bit ac_simps del: push_bit_minus_one)
qed

text \<open>Prefix lengths round-trip through net masks: for every width from 1 to 32 the mask
  \<open>widthtoin_addr\<close> makes is one whose width \<open>in_addrtowidth\<close> reads back.\<close>

theorem ip_width_roundtrip:
  assumes "1 \<le> w" "w \<le> 32"
  shows "map_option in_addrtowidth (widthtoin_addr w) = Some w"
proof -
  have w: "unat w \<le> 32" "w \<noteq> 0" using assms by (auto simp: word_le_nat_alt)
  have m: "(0xFFFFFFFF :: u32) = -1" by simp
  have "leading_ones 33 (push_bit (32 - unat w) (-1)) 0 = w"
    using leading_ones_prefix [of "unat w" 33 0] w by simp
  then show ?thesis
    using assms w by (simp add: widthtoin_addr_def in_addrtowidth_def m not_less)
qed

theorem ip_width_roundtrip_witness: "map_option in_addrtowidth (widthtoin_addr 24) = Some 24"
  by (rule ip_width_roundtrip) simp_all

section \<open>Address pools\<close>

definition pools_example :: ippools where
  "pools_example = [\<lparr>p_name = ''p'', p_recs = [\<lparr>pr_ip = 1, pr_used = True\<rparr>, \<lparr>pr_ip = 2, pr_used = False\<rparr>]\<rparr>]"

lemma pools_example_ok: "pools_ok pools_example"
  by (simp add: pools_example_def pools_ok_def)

text \<open>Lending. \<open>IPPoolGet\<close> fails exactly when every address of the pool is lent; otherwise it
  lends an address of the pool that was not lent, marks that one and changes nothing else. So no
  address is lent twice at a time.\<close>

theorem pool_get_lends_free:
  assumes "pools_ok ps" "IPPoolGet pool ps = (ps', r)"
  shows "(case r of
      None \<Rightarrow> pool_has pool ps \<subseteq> pool_lent pool ps
    | Some a \<Rightarrow> ip4 a \<in> pool_has pool ps - pool_lent pool ps \<and>
        pool_lent pool ps' = insert (ip4 a) (pool_lent pool ps)) \<and>
    (\<forall>q. q \<noteq> pool \<longrightarrow> pool_recs q ps' = pool_recs q ps) \<and> pools_ok ps'"
  using get_exhausted [OF assms(2,1)] get_lends [OF _ assms(1), of pool ps'] assms(2)
    other_pools(1) [of _ pool ps] pools_ok_get [OF assms(1), of pool]
  by (auto split: option.split)

theorem pool_get_lends_free_witness:
  "ip4 (in_addrtou_addr 2) \<in> pool_has ''p'' pools_example - pool_lent ''p'' pools_example"
proof -
  have "IPPoolGet ''p'' pools_example =
      ([\<lparr>p_name = ''p'', p_recs = [\<lparr>pr_ip = 1, pr_used = True\<rparr>, \<lparr>pr_ip = 2, pr_used = True\<rparr>]\<rparr>],
       Some (in_addrtou_addr 2))"
    by (simp add: pools_example_def)
  from pool_get_lends_free [OF pools_example_ok this] show ?thesis by simp
qed

text \<open>C36: Growing a pool. Adding a range of at most 65536 addresses to a pool without duplicates and
  without 0.0.0.0 keeps its records (and which of them are lent) and appends, unlent and once
  each, exactly the addresses of the range it did not have; the memory allocated is enough.\<close>

theorem pool_add_range:
  assumes "pools_ok ps" "pool \<in> set (map p_name ps)" "0 \<notin> pool_has pool ps"
    "0 \<le> range_count lo hi" "range_count lo hi \<le> 65536"
  shows "\<exists>ps'. IPPoolAdd pool lo hi ps = Some ps' \<and> pools_ok ps' \<and>
    pool_recs pool ps' = pool_recs pool ps @ map (\<lambda>a. \<lparr>pr_ip = a, pr_used = False\<rparr>)
      (filter (\<lambda>a. a \<notin> pool_has pool ps) (addrs_from lo (nat (range_count lo hi))))"
proof -
  let ?c = "range_count lo hi"
  have add: "\<exists>ps'. pool_add pool lo ?c ps = Some ps' \<and> pool_recs pool ps' = rs'"
    if "pool \<in> set (map p_name ps)" "pool_add_recs lo ?c (pool_recs pool ps) = Some rs'" for ps rs'
    using that
  proof (induction ps)
    case (Cons p ps)
    then show ?case by (cases "p_name p = pool") auto
  qed simp
  have "pool_add_recs lo ?c (pool_recs pool ps) = Some (pool_recs pool ps @
      map (\<lambda>a. \<lparr>pr_ip = a, pr_used = False\<rparr>)
        (filter (\<lambda>a. a \<notin> pr_ip ` set (pool_recs pool ps)) (addrs_from lo (nat ?c))))"
    using pool_add_recs_ok [OF pools_ok_recs [OF assms(1)]] assms(3-5)
    by (simp add: pool_has_def)
  from add [OF assms(2) this] obtain ps' where
    ps': "pool_add pool lo ?c ps = Some ps'" "pool_recs pool ps' = pool_recs pool ps @
      map (\<lambda>a. \<lparr>pr_ip = a, pr_used = False\<rparr>)
        (filter (\<lambda>a. a \<notin> pr_ip ` set (pool_recs pool ps)) (addrs_from lo (nat ?c)))"
    by blast
  moreover have "IPPoolAdd pool lo hi ps = Some ps'"
    using ps'(1) assms(2,5) by (simp add: IPPoolAdd_def)
  ultimately show ?thesis
    using pools_ok_add assms(1) by (auto simp: pool_has_def)
qed

theorem pool_add_range_witness:
  "\<exists>ps'. IPPoolAdd ''p'' 2 4 pools_example = Some ps' \<and> pools_ok ps' \<and>
    pool_recs ''p'' ps' = pool_recs ''p'' pools_example @ map (\<lambda>a. \<lparr>pr_ip = a, pr_used = False\<rparr>)
      (filter (\<lambda>a. a \<notin> pool_has ''p'' pools_example) (addrs_from 2 (nat (range_count 2 4))))"
  by (rule pool_add_range [OF pools_example_ok])
    (simp_all add: pools_example_def pool_has_def range_count_def)

text \<open>A fault of \<open>IPPoolAdd\<close>. The records are counted without 0.0.0.0 but copied with it, so once a
  pool holds 0.0.0.0 an addition of nothing new overruns the allocation; and any range that ends before
  it begins does too (or asks for a negative amount), whatever the pool holds.\<close>

theorem pool_add_overrun:
  assumes "pool \<in> set (map p_name ps)"
    "0 \<in> pool_has pool ps \<and> range_count lo hi = 0 \<or> range_count lo hi < 0"
  shows "IPPoolAdd pool lo hi ps = None"
proof -
  have "pool_add_recs lo (range_count lo hi) (pool_recs pool ps) = None"
    using assms(2) pool_add_recs_zero pool_add_recs_backwards by (auto simp: pool_has_def)
  moreover have "pool_add pool lo c ps = None"
    if "pool_add_recs lo c (pool_recs pool ps) = None" for c
    using that by (induction ps) (auto split: if_splits)
  ultimately show ?thesis using assms by (auto simp: IPPoolAdd_def)
qed

theorem pool_add_overrun_witness: "IPPoolAdd ''p'' 9 3 pools_example = None"
  by (rule pool_add_overrun) (simp_all add: pools_example_def range_count_def)

section \<open>Option sets\<close>

text \<open>The commands \<open>yes\<close> and \<open>no\<close>. They change exactly the options their arguments name (by an
  unambiguous prefix in either case): what we want for all of them, what the peer
  may have for those where that applies.\<close>

theorem vars_yes_no:
  assumes "x < 32"
  shows "(Enabled (YesCommand av cl opt) x \<longleftrightarrow> Enabled opt x \<or> x \<in> ci_option ` named av cl) \<and>
    (Acceptable (YesCommand av cl opt) x \<longleftrightarrow>
       Acceptable opt x \<or> x \<in> ci_option ` {c \<in> named av cl. ci_peered c}) \<and>
    (Enabled (NoCommand av cl opt) x \<longleftrightarrow> Enabled opt x \<and> x \<notin> ci_option ` named av cl) \<and>
    (Acceptable (NoCommand av cl opt) x \<longleftrightarrow>
       Acceptable opt x \<and> x \<notin> ci_option ` {c \<in> named av cl. ci_peered c})"
  using assms by (simp add: YesCommand_def NoCommand_def Do_ENABLE Do_DISABLE Do_ACCEPT Do_DENY)

definition conflist_example :: "confinfo list" where
  "conflist_example = [\<lparr>ci_peered = True, ci_option = 0, ci_name = ''vjcomp''\<rparr>,
     \<lparr>ci_peered = False, ci_option = 5, ci_name = ''pretend-ip''\<rparr>]"

theorem vars_yes_no_witness:
  "Enabled (YesCommand [''PRET''] conflist_example \<lparr>oi_enable = 0, oi_accept = 0\<rparr>) 5"
proof -
  have "named [''PRET''] conflist_example = {conflist_example ! 1}"
    by (simp add: named_Cons FindOpt_def conflist_example_def tolower_def)
  then show ?thesis
    using vars_yes_no [of 5 "[''PRET'']" conflist_example "\<lparr>oi_enable = 0, oi_accept = 0\<rparr>"]
    by (simp add: conflist_example_def)
qed

section \<open>The bundle\<close>

definition ncps_start :: ncps where
  "ncps_start = \<lparr>nc_started = 0, nc_en_ipcp = True, nc_en_ipv6cp = True, if_open = True,
     if_dod = False, if_up = False, if_ip_up = False, if_ipv6_up = False, nc_ip_fails = False,
     nc_ipv6_fails = False, nc_calls = []\<rparr>"

text \<open>C37: The interface follows its protocols: it is marked up exactly while one address family is
  up, and dial-on-demand only while it is up; IPCP and IPV6CP joining and any
  protocol leaving keep this, also when the interface refuses an address family.\<close>

theorem bund_interface_invariant:
  assumes "iface_ok b"
  shows "iface_ok (BundNcpsJoin NCP_IPCP b) \<and> iface_ok (BundNcpsJoin NCP_IPV6CP b) \<and>
    iface_ok (BundNcpsLeave p b)"
  using iface_ok_join_one [OF assms] iface_ok_leave [OF assms] by blast

theorem bund_interface_invariant_witness: "iface_ok (BundNcpsJoin NCP_IPCP ncps_start)"
proof -
  have "iface_ok ncps_start" by (simp add: iface_ok_def ncps_start_def)
  from bund_interface_invariant [OF this] show ?thesis by blast
qed

text \<open>The bundle's links are closed exactly when the last protocol that keeps it alive has
  finished; starting and finishing one protocol does not touch the others.\<close>

theorem bund_last_protocol_closes:
  assumes "p \<noteq> NCP_NONE"
  shows "(bit (nc_started (BundNcpsFinish p b)) n \<longleftrightarrow> bit (nc_started b) n \<and> n + 1 \<noteq> ncp_number p) \<and>
    (bit (nc_started (BundNcpsStart p b)) n \<longleftrightarrow> bit (nc_started b) n \<or> n + 1 = ncp_number p) \<and>
    nc_calls (BundNcpsFinish p b) = nc_calls b @
      (if nc_started (BundNcpsFinish p b) = 0 then [BundCloseLinks] else [])"
  using ncps_started_bits [of p b n] bit_ncp_mask [OF assms, of n]
  by (simp add: BundNcpsFinish_def Let_def)

theorem bund_last_protocol_closes_witness:
  "nc_calls (BundNcpsFinish NCP_IPCP (BundNcpsStart NCP_IPCP ncps_start)) = [BundCloseLinks]"
  using bund_last_protocol_closes [of NCP_IPCP "BundNcpsStart NCP_IPCP ncps_start" 0]
  by (simp add: ncps_start_def BundNcpsStart_def nc_started_finish ncp_mask_def)

end
