(* ===== verification/Ipv6cp_Claims.thy ===== *)
theory Ipv6cp_Claims
  imports Ipv6cp_Facts
begin

unbundle bit_operations_syntax

text \<open>The properties of IPV6CP: what it accepts, and what it takes for itself.\<close>

definition v6_example :: ipv6cp_bund where
  "v6_example = \<lparr>v6_options = \<lparr>oi_enable = 0, oi_accept = 0\<rparr>, v6_myintid = [2, 0, 0, 0, 0, 0, 0, 1],
     v6_hisintid = replicate 8 0, v6_peer_reject = 0, v6_retry_timeout = 2, v6_recvFrames = None,
     v6_ncps = \<lparr>nc_started = 0, nc_en_ipcp = False, nc_en_ipv6cp = True, if_open = False,
       if_dod = False, if_up = False, if_ip_up = False, if_ipv6_up = False, nc_ip_fails = False,
       nc_ipv6_fails = False, nc_calls = []\<rparr>, v6_enableIPv6 = False,
     v6_set_configs = 0, v6_failures = [], v6_ether = None, v6_random = (\<lambda>n. 5), v6_drawn = 0\<rparr>"

abbreviation (input) "id_opt xs \<equiv> \<lparr>opt_type = TY_INTIDENT, opt_len = 10, opt_data = xs\<rparr>"

text \<open>A Configure-Request that IPV6CP accepts asks for an interface identifier that is neither
  zero nor our own; and what it proposes in place of such a one has eight octets, is not zero and
  has the universal bit clear.\<close>

theorem ipv6cp_accepts_only_allowed:
  assumes "f' = FsmDecodeBuffer gIpv6cpFsmType buf MODE_REQ f" "f_nakBuf f' = []" "f_rejBuf f' = []"
    "opt \<in> set (FsmExtractOptions FSM_MAX_OPTS buf)" "opt_type opt = TY_INTIDENT"
  shows "take 8 (opt_data opt) \<noteq> v6_myintid (f_arg f') \<and>
    \<not> list_all (\<lambda>x. x = 0) (take 8 (opt_data opt)) \<and>
    length (fst (CreateInterfaceID True b)) = 8 \<and>
    \<not> list_all (\<lambda>x. x = 0) (fst (CreateInterfaceID True b)) \<and>
    \<not> bit (hd (fst (CreateInterfaceID True b))) 1"
proof -
  let ?f = "f\<lparr>f_ackBuf := [], f_nakBuf := [], f_rejBuf := []\<rparr>"
  let ?opts = "FsmExtractOptions FSM_MAX_OPTS buf"
  let ?P = "\<lambda>i. take 8 (opt_data opt) \<noteq> i \<and> \<not> list_all (\<lambda>x. x = 0) (take 8 (opt_data opt))"
  have f': "f' = foldl (ipv6cp_decode_opt MODE_REQ) ?f ?opts"
    using assms(1) by (simp only: ipv6cp_dec.decode_buffer)
  have keeps: "v6_myintid (f_arg (foldl (ipv6cp_decode_opt MODE_REQ) g os)) = v6_myintid (f_arg g)" for g os
    by (induction os arbitrary: g) (simp_all only: foldl.simps request_keeps_myintid)
  have "?P (v6_myintid (f_arg ?f))"
  proof (rule ipv6cp_dec.accepted [where side = v6_myintid and P = ?P and opts = ?opts and f = ?f])
    fix g assume "f_nakBuf (ipv6cp_decode_opt MODE_REQ g opt) = []"
      "f_rejBuf (ipv6cp_decode_opt MODE_REQ g opt) = []"
    then show "?P (v6_myintid (f_arg g))" using decode_opt_intident [OF assms(5)] by blast
  qed (use assms(2-4) in \<open>simp_all only: f' request_keeps_myintid extract_ok\<close>)
  then show ?thesis by (simp only: f' keeps random_id not_False_eq_True simp_thms)
qed

lemma example_id_request:
  "FsmExtractOptions FSM_MAX_OPTS [1, 10, 2, 0, 0, 0, 0, 0, 0, 9] = [id_opt [2, 0, 0, 0, 0, 0, 0, 9]]"
  using extract_opts_bytes [of "[id_opt [2, 0, 0, 0, 0, 0, 0, 9]]" FSM_MAX_OPTS "[]"]
  by (simp add: opt_ok_def opt_bytes_def FSM_MAX_OPTS_def)

lemma example_id_decoded:
  "f_nakBuf (FsmDecodeBuffer gIpv6cpFsmType [1, 10, 2, 0, 0, 0, 0, 0, 0, 9] MODE_REQ
     (FsmInit [] v6_example)) = []"
  "f_rejBuf (FsmDecodeBuffer gIpv6cpFsmType [1, 10, 2, 0, 0, 0, 0, 0, 0, 9] MODE_REQ
     (FsmInit [] v6_example)) = []"
  by (simp_all add: ipv6cp_dec.decode_buffer example_id_request ipv6cp_decode_opt_def opt_checked_def
      FsmFindOptInfo_def gIpv6cpConfOpts_def ipv6cp_intident_def FsmAck_def FsmInit_def v6_example_def
      Let_def)

theorem ipv6cp_accepts_only_allowed_witness:
  "[2, 0, 0, 0, 0, 0, 0, 9] \<noteq> v6_myintid (f_arg (FsmDecodeBuffer gIpv6cpFsmType
     [1, 10, 2, 0, 0, 0, 0, 0, 0, 9] MODE_REQ (FsmInit [] v6_example)))"
  using ipv6cp_accepts_only_allowed [OF refl example_id_decoded, of "id_opt [2, 0, 0, 0, 0, 0, 0, 9]"]
  by (simp add: example_id_request)

text \<open>A fault of \<open>Ipv6cpDecodeConfig\<close>: what a Nak suggests becomes our identifier unseen, were it
  zero or the one the peer itself uses, so that both ends may get the same link-local address.\<close>

theorem ipv6cp_nak_adopts_anything:
  assumes "length xs = 8"
  shows "v6_myintid (f_arg (ipv6cp_decode_opt MODE_NAK f (id_opt xs))) = xs"
  using assms
  by (simp add: ipv6cp_decode_opt_def opt_checked_def FsmFindOptInfo_def gIpv6cpConfOpts_def
      ipv6cp_intident_def Let_def)

theorem ipv6cp_nak_adopts_anything_witness:
  "v6_myintid (f_arg (ipv6cp_decode_opt MODE_NAK (FsmInit [] v6_example) (id_opt (replicate 8 0)))) =
     v6_hisintid v6_example"
  using ipv6cp_nak_adopts_anything [of "replicate 8 0" "FsmInit [] v6_example"]
  by (simp add: v6_example_def)

end
