(* ===== verification/Lcp_Claims.thy ===== *)
theory Lcp_Claims
  imports Lcp_Phases Lcp_Echo Ipcp_Facts Ipv6cp_Facts
begin

unbundle bit_operations_syntax

text \<open>
  The properties of LCP: what it accepts, how it calls itself, its request, its keep-alive.
\<close>

section \<open>An example\<close>

text \<open>A link without options but an acceptance of every kind of authentication.\<close>

definition link_example :: link where
  "link_example = \<lparr>lk_options = \<lparr>oi_enable = 0, oi_accept = 0x1f\<rparr>, lk_mrru = 0, lk_accmap = 0,
     lk_retry_timeout = 2, lk_ident = None, lk_originate = LINK_ORIGINATE_REMOTE,
     lk_joined_bund = False, lk_has_bund = False, lk_rep = False, lk_num_redial = 0,
     lk_openTimer = timer_zero, lk_recvFrames = None, lk_join = JoinRefused, ph_mtu = 1500,
     ph_mru_conf = 1500, ph_mru = 1500, ph_type_mru = None, ph_sync = True, lk_magic = (\<lambda>n. 7),
     lk_magic_pos = 0, lk_secret = (\<lambda>name. None), lk_stack = [], lk_random = (\<lambda>n. 9),
     lk_random_pos = 0, lk_self_discrim = \<lparr>d_class = 3, d_bytes = [1, 2]\<rparr>, lk_lcp = lcp_zero,
     lk_auth = auth_zero, lk_calls = []\<rparr>"

section \<open>Nesting\<close>

text \<open>C11: LCP calls itself to a depth of two at most: a descriptor that answers any larger number of
  nested changes of state is the same as the one the operations use.\<close>

theorem lcp_nesting_bounded:
  "gLcpFsmType (n + 2) = lcp_fsm"
  using lcp_levels [of n] by (simp add: numeral_2_eq_2)

section \<open>Options\<close>

text \<open>C12: A Configure-Request that LCP accepts (no Nak, no Reject) asks for an MRU and an MRRU of 296
  at least, multilink only when it is enabled, a magic number other than ours, and an
  authentication protocol in the table that we accept; it holds no callback and no vendor option.\<close>

theorem lcp_accepts_only_allowed:
  assumes "f' = FsmDecodeBuffer lcp_fsm buf MODE_REQ f" "f_nakBuf f' = []" "f_rejBuf f' = []"
    "opt \<in> set (FsmExtractOptions FSM_MAX_OPTS buf)"
  shows "lcp_acceptable opt (lcp_wants (f_arg f'))"
proof -
  let ?f = "lcp_forget MODE_REQ (f\<lparr>f_ackBuf := [], f_nakBuf := [], f_rejBuf := []\<rparr>)"
  let ?opts = "FsmExtractOptions FSM_MAX_OPTS buf"
  have f': "f' = foldl (lcp_decode_opt MODE_REQ) ?f ?opts"
    using assms(1) by (simp only: lcp_dec.decode_buffer)
  have keeps: "lcp_wants (f_arg (foldl (lcp_decode_opt MODE_REQ) g os)) = lcp_wants (f_arg g)" for g os
    by (induction os arbitrary: g) (simp_all only: foldl.simps request_keeps_wants)
  have "lcp_acceptable opt (lcp_wants (f_arg ?f))"
    by (rule lcp_dec.accepted [where side = lcp_wants and P = "lcp_acceptable opt" and opts = ?opts])
      (use assms(2-4) in \<open>simp_all only: f' request_keeps_wants decode_opt_acceptable extract_ok\<close>)
  then show ?thesis by (simp only: f' keeps)
qed

lemma example_mru_request:
  "FsmExtractOptions FSM_MAX_OPTS [1, 4, 5, 220] =
     [\<lparr>opt_type = TY_MRU, opt_len = 4, opt_data = [5, 220]\<rparr>]"
  using extract_opts_bytes [of "[\<lparr>opt_type = TY_MRU, opt_len = 4, opt_data = [5, 220]\<rparr>]"
      FSM_MAX_OPTS "[]"]
  by (simp add: opt_ok_def opt_bytes_def FSM_MAX_OPTS_def)

lemma example_mru: "of_be16 5 220 = 1500"
  by (rule word_unat_eq_iff [THEN iffD2]) (simp add: unat_of_be16)

lemma example_mru_decoded:
  "f_nakBuf (FsmDecodeBuffer lcp_fsm [1, 4, 5, 220] MODE_REQ (LcpInit [] link_example)) = [] \<and>
   f_rejBuf (FsmDecodeBuffer lcp_fsm [1, 4, 5, 220] MODE_REQ (LcpInit [] link_example)) = []"
  by (simp only: lcp_dec.decode_buffer example_mru_request)
    (simp add: example_mru lcp_decode_opt_def opt_checked_def FsmFindOptInfo_def gLcpConfOpts_def lcp_opt_def
      lcp_opt_body_def lcp_mru_def get_be16_def LCP_MIN_MRU_def FsmAck_def lcp_forget_def
      LcpInit_def FsmInit_def upd_lcp_def upd_arg_def lcp_zero_def Let_def)

theorem lcp_accepts_only_allowed_witness:
  "LCP_MIN_MRU \<le> get_be16 [5, 220]"
  using lcp_accepts_only_allowed [OF refl conjunct1 [OF example_mru_decoded]
      conjunct2 [OF example_mru_decoded], of "\<lparr>opt_type = TY_MRU, opt_len = 4, opt_data = [5, 220]\<rparr>"]
  by (simp add: example_mru_request lcp_acceptable_def)

section \<open>Keep-alives\<close>

text \<open>C40: A dead link is noticed, in time and not too early. LCP is open in the network phase with its
  keep-alive timer running (\<open>listening\<close>) and the count of quiet intervals at 0, and nothing more is
  received on its link: the frame counter stands still. After \<open>n\<close> timeouts, fewer than 32768, it is in
  Stopping if \<open>n\<close> is at least 2 and \<open>n\<close> intervals of \<open>echo_int\<close> seconds, which is not negative, reach
  \<open>echo_max\<close>, and still Opened otherwise. When it has given up, the link is in the termination
  phase and out of its bundle.\<close>

theorem lcp_keepalive_gives_up:
  assumes "listening lcp_fsm f" "f_quietCount f = 0" "lp_phase (lk_lcp (f_arg f)) = PHASE_NETWORK"
    "0 \<le> sint (echo_int (f_conf f))" "n < 32768"
  shows "if 1 < n \<and> sint (echo_max (f_conf f)) \<le> int n * sint (echo_int (f_conf f))
    then f_state (echo_ticks lcp_fsm n f) = ST_STOPPING \<and>
      lp_phase (lk_lcp (f_arg (echo_ticks lcp_fsm n f))) = PHASE_TERMINATE \<and>
      \<not> lk_joined_bund (f_arg (echo_ticks lcp_fsm n f))
    else f_state (echo_ticks lcp_fsm n f) = ST_OPENED"
  using lcp_echo.echo_ticks_count [OF assms(1,2,4,5)] lcp_failure_opened assms(3)
  by (auto simp: listening_def gives_up_at_def split: if_splits)

text \<open>A link in its bundle, with the intervals LCP starts with: 5 and 40 seconds.\<close>

definition echo_example :: "link fsm" where
  "echo_example = (LcpInit [] link_example)\<lparr>f_state := ST_OPENED,
     f_arg := link_example\<lparr>lk_has_bund := True, lk_joined_bund := True,
       lk_lcp := lcp_zero\<lparr>lp_phase := PHASE_NETWORK\<rparr>\<rparr>,
     f_echoTimer := \<lparr>t_event = True, t_recurring = True, t_load = 5000, t_func = True\<rparr>\<rparr>"

lemma echo_example:
  "listening lcp_fsm echo_example" "f_quietCount echo_example = 0"
  "lp_phase (lk_lcp (f_arg echo_example)) = PHASE_NETWORK"
  "echo_int (f_conf echo_example) = 5" "echo_max (f_conf echo_example) = 40"
  by (simp_all add: echo_example_def listening_def link_example_def LcpInit_def
      FsmInit_def TimerStarted_def LCP_ECHO_INTERVAL_def LCP_ECHO_TIMEOUT_def)

theorem lcp_keepalive_gives_up_witness:
  "f_state (echo_ticks lcp_fsm 7 echo_example) = ST_OPENED \<and>
   f_state (echo_ticks lcp_fsm 8 echo_example) = ST_STOPPING"
  using lcp_keepalive_gives_up [OF echo_example(1-3), of 7]
    lcp_keepalive_gives_up [OF echo_example(1-3), of 8]
  by (simp add: echo_example(4,5))

section \<open>Requests\<close>

text \<open>The request, as options.\<close>

definition conf_opt :: "byte \<Rightarrow> byte list \<Rightarrow> fsmoption" where
  "conf_opt ty bytes = \<lparr>opt_type = ty, opt_len = of_nat (length bytes + 2), opt_data = bytes\<rparr>"

definition lcp_auth_opts :: "lcpstate \<Rightarrow> fsmoption list" where
  "lcp_auth_opts p =
     (if lp_want_auth p = PROTO_PAP \<or> lp_want_auth p = PROTO_EAP
      then [conf_opt TY_AUTHPROTO (be16 (lp_want_auth p))]
      else if lp_want_auth p = PROTO_CHAP
      then [conf_opt TY_AUTHPROTO (be16 PROTO_CHAP @ [lp_want_alg p])] else [])"

definition lcp_request_opts :: "link \<Rightarrow> fsmoption list" where
  "lcp_request_opts l =
     (let p = lk_lcp l; ok = (\<lambda>t. \<not> LCP_PEER_REJECTED p t) in
      (if lp_want_acfcomp p \<and> ok TY_ACFCOMP then [conf_opt TY_ACFCOMP []] else []) @
      (if lp_want_protocomp p \<and> ok TY_PROTOCOMP then [conf_opt TY_PROTOCOMP []] else []) @
      (if \<not> ph_sync l \<and> ok TY_ACCMAP then [conf_opt TY_ACCMAP (be32 (lp_want_accmap p))] else []) @
      (if ok TY_MRU then [conf_opt TY_MRU (be16 (lp_want_mru p))] else []) @
      (if lp_want_magic p \<noteq> 0 \<and> ok TY_MAGICNUM
       then [conf_opt TY_MAGICNUM (be32 (lp_want_magic p))] else []) @
      (if lp_want_callback p \<and> ok TY_CALLBACK then [conf_opt TY_CALLBACK [0]] else []) @
      lcp_auth_opts p @
      (if Enabled (lk_options l) LINK_CONF_MULTILINK \<and> ok TY_MRRU
       then [conf_opt TY_MRRU (be16 (lp_want_mrru p))] @
            (if lp_want_shortseq p \<and> ok TY_SHORTSEQNUM then [conf_opt TY_SHORTSEQNUM []] else []) @
            (if ok TY_ENDPOINTDISC
             then [conf_opt TY_ENDPOINTDISC (discrim_bytes (lk_self_discrim l))] else [])
       else []))"

lemma conf_opt_bytes:
  assumes "length bytes \<le> 253"
  shows "FsmConfValue ty bytes = opts_bytes [conf_opt ty bytes]" "opt_ok (conf_opt ty bytes)"
  using conf_value_opt [OF assms, of ty] by (simp_all add: conf_opt_def)

lemma conf_opt_type [simp]: "opt_type (conf_opt ty bytes) = ty"
  by (simp add: conf_opt_def)

lemma opts_bytes_if: "opts_bytes (if b then xs else []) = (if b then opts_bytes xs else [])"
  by simp

lemma length_conf_value: "length (FsmConfValue ty bytes) = length bytes + 2"
  by (simp add: FsmConfValue_def)

lemma length_append_le: "length xs \<le> a \<Longrightarrow> length ys \<le> b \<Longrightarrow> length (xs @ ys) \<le> a + b"
  by simp

lemma length_if_le: "length xs \<le> a \<Longrightarrow> length (if b then xs else []) \<le> a"
  by simp

lemma lcp_auth_opts_bytes:
  "lcp_auth_value p = opts_bytes (lcp_auth_opts p)" "list_all opt_ok (lcp_auth_opts p)"
  "length (lcp_auth_opts p) \<le> 1" "length (lcp_auth_value p) \<le> 5"
  "\<forall>opt\<in>set (lcp_auth_opts p). opt_type opt = TY_AUTHPROTO"
  by (simp_all add: lcp_auth_value_def lcp_auth_opts_def conf_opt_bytes)
    (simp_all add: conf_opt_def opt_bytes_def)

lemma lcp_request_opts_bytes:
  assumes "length (d_bytes (lk_self_discrim l)) \<le> 20"
  shows "lcp_request l = opts_bytes (lcp_request_opts l)" "list_all opt_ok (lcp_request_opts l)"
    "length (lcp_request_opts l) \<le> 10"
proof -
  have d: "length (discrim_bytes (lk_self_discrim l)) \<le> 253"
    using assms by (simp add: discrim_bytes_def)
  note cv = conf_opt_bytes [of "[]"] conf_opt_bytes [of "[0]"] conf_opt_bytes [of "be16 x" for x]
    conf_opt_bytes [of "be32 w" for w] conf_opt_bytes [OF d]
  show "lcp_request l = opts_bytes (lcp_request_opts l)"
    unfolding lcp_request_def lcp_request_opts_def Let_def opts_bytes_simps(3) opts_bytes_if
      lcp_auth_opts_bytes(1)
    using cv by (simp only: length_be16 length_be32) simp
  show "list_all opt_ok (lcp_request_opts l)"
    using cv by (simp add: lcp_request_opts_def Let_def lcp_auth_opts_bytes)
  have "length (lcp_request_opts l) \<le> 1 + (1 + (1 + (1 + (1 + (1 + (1 + (1 + (1 + 1))))))))"
    unfolding lcp_request_opts_def Let_def
    by (intro length_append_le length_if_le lcp_auth_opts_bytes) simp_all
  then show "length (lcp_request_opts l) \<le> 10" by simp
qed

text \<open>What LCP sends is what a receiver reads: the octets of a request decode to the options it is
  meant to hold, in at most 57 octets; and no option the peer rejected is asked for again, the
  authentication protocol excepted, which LCP insists on. (A discriminator has at most 20 octets.)\<close>

theorem lcp_request_roundtrip:
  assumes "length (d_bytes (lk_self_discrim l)) \<le> 20"
  shows "FsmExtractOptions FSM_MAX_OPTS (lcp_request l) = lcp_request_opts l \<and>
    length (lcp_request l) \<le> 57 \<and>
    (\<forall>opt\<in>set (lcp_request_opts l).
       opt_type opt = TY_AUTHPROTO \<or> \<not> LCP_PEER_REJECTED (lk_lcp l) (opt_type opt))"
proof (intro conjI)
  note r = lcp_request_opts_bytes [OF assms]
  show "FsmExtractOptions FSM_MAX_OPTS (lcp_request l) = lcp_request_opts l"
    using r extract_opts_bytes [of "lcp_request_opts l" FSM_MAX_OPTS "[]"]
    by (simp add: FSM_MAX_OPTS_def)
  have "length (lcp_request l) \<le> 2 + (2 + (6 + (4 + (6 + (3 + (5 + (4 + (2 + 23))))))))"
    unfolding lcp_request_def Let_def
    by (intro length_append_le length_if_le lcp_auth_opts_bytes)
      (use assms in \<open>simp_all add: length_conf_value discrim_bytes_def\<close>)
  then show "length (lcp_request l) \<le> 57" by simp
  show "\<forall>opt\<in>set (lcp_request_opts l).
       opt_type opt = TY_AUTHPROTO \<or> \<not> LCP_PEER_REJECTED (lk_lcp l) (opt_type opt)"
    using lcp_auth_opts_bytes(5) [of "lk_lcp l"]
    by (simp add: lcp_request_opts_def Let_def ball_Un) auto
qed

theorem lcp_request_roundtrip_witness:
  "FsmExtractOptions FSM_MAX_OPTS (lcp_request link_example) = lcp_request_opts link_example"
  using lcp_request_roundtrip [of link_example] by (simp add: link_example_def)

section \<open>A link that fails while it opens\<close>

text \<open>The failure inside the change of state closes the device and shuts the link's node down.\<close>

lemma failure_shuts:
  assumes "f_state f \<in> {ST_ACKRCVD, ST_ACKSENT}" "\<not> conf_passive (f_conf f)" "\<not> lk_rep (f_arg f)"
  shows "CallPhysClose \<in> set (lk_calls (f_arg (FsmFailure (gLcpFsmType (Suc n)) r f)))"
    "CallNgShutdown \<in> set (lk_calls (f_arg (FsmFailure (gLcpFsmType (Suc n)) r f)))"
    "lk_joined_bund (f_arg (FsmFailure (gLcpFsmType (Suc n)) r f)) = lk_joined_bund (f_arg f)"
proof -
  let ?ty = "gLcpFsmType (Suc n)"
  define f1 where "f1 = LcpFailure (emit (EvFailure r) f) r"
  define h where "h = FsmNewState ?ty ST_STOPPED f1"
  have f1: "f_state f1 = f_state f" "f_conf f1 = f_conf f" "lk_rep (f_arg f1) = lk_rep (f_arg f)"
    "lk_joined_bund (f_arg f1) = lk_joined_bund (f_arg f)"
    by (simp_all add: f1_def LcpFailure_def link_call_def upd_arg_def)
  have move: "phase_move (f_state f1) ST_STOPPED = NoMove" using assms(1) f1(1) by auto
  have "f_arg h = f_arg (link_call (CallShutdownCheck ST_STOPPED) f1)" "f_conf h = f_conf f1"
    using move assms(1) f1(1) by (auto simp add: h_def FsmNewState_def LcpNewState_def Let_def link_call_def upd_arg_def
        del: phase_move.simps)
  with f1 have h: "lk_rep (f_arg h) = lk_rep (f_arg f)" "f_conf h = f_conf f"
    "lk_joined_bund (f_arg h) = lk_joined_bund (f_arg f)"
    by (simp_all add: link_call_def upd_arg_def)
  have "FsmFailure ?ty r f = FsmLayerFinish ?ty h"
    using assms(1,2) f1(1) h(2)
    by (auto simp: FsmFailure_def f1_def [symmetric] h_def [symmetric] fsm_UnConfigure_def Let_def
        del: phase_move.simps)
  with assms(3) h show "CallPhysClose \<in> set (lk_calls (f_arg (FsmFailure ?ty r f)))"
    "CallNgShutdown \<in> set (lk_calls (f_arg (FsmFailure ?ty r f)))"
    "lk_joined_bund (f_arg (FsmFailure ?ty r f)) = lk_joined_bund (f_arg f)"
    by (simp_all add: FsmLayerFinish_def call0_def LcpLayerFinish_def AuthStop_def link_call_def
        upd_auth_def upd_arg_def Let_def)
qed

lemma enter_network_refused:
  assumes "f_state f \<in> {ST_ACKRCVD, ST_ACKSENT}" "\<not> conf_passive (f_conf f)" "\<not> lk_rep (f_arg f)"
    "lk_join (f_arg f) \<noteq> Joined"
  shows "CallPhysClose \<in> set (lk_calls (f_arg (lcp_enter_network (gLcpFsmType (Suc n)) f)))"
    "CallNgShutdown \<in> set (lk_calls (f_arg (lcp_enter_network (gLcpFsmType (Suc n)) f)))"
    "lk_joined_bund (f_arg (lcp_enter_network (gLcpFsmType (Suc n)) f)) = lk_joined_bund (f_arg f)"
proof -
  let ?ty = "gLcpFsmType (Suc n)"
  define f1 where "f1 = (case lk_ident (f_arg f) of None \<Rightarrow> f | Some s \<Rightarrow> FsmSendIdent ?ty s f)"
  define t where "t = ap_session_timeout (au_params (the_auth f1))"
  define f2 where "f2 = (if Enabled (lk_options (f_arg f1)) LINK_CONF_TIMEREMAIN \<and> t \<noteq> 0
    then FsmSendTimeRemaining ?ty t f1 else f1)"
  have f2: "f_state f2 = f_state f" "f_arg f2 = f_arg f" "f_conf f2 = f_conf f"
    by (simp_all add: f2_def f1_def FsmSendIdent_def FsmSendTimeRemaining_def FsmOutputMbuf_def
        Let_def split: option.split)
  define h where "h = link_call CallReasonJoin (bund_join f2)"
  have h: "f_state h = f_state f" "f_conf h = f_conf f" "\<not> lk_rep (f_arg h)"
    "lk_joined_bund (f_arg h) = lk_joined_bund (f_arg f)"
    using assms(3,4) f2 by (auto simp: h_def bund_join_def link_call_def upd_arg_def split: join_result.split)
  have j: "lk_join (f_arg (bund_join f2)) \<noteq> Joined"
    using assms(4) f2 by (simp add: bund_join_def link_call_def split: join_result.split)
  have "lcp_enter_network ?ty f = lcp_join ?ty f2"
    by (simp only: lcp_enter_network_def Let_def f2_def f1_def t_def)
  also have "\<dots> = FsmFailure ?ty FAIL_NEGOT_FAILURE h"
    using j by (simp add: lcp_join_def h_def Let_def)
  finally show "CallPhysClose \<in> set (lk_calls (f_arg (lcp_enter_network ?ty f)))"
    "CallNgShutdown \<in> set (lk_calls (f_arg (lcp_enter_network ?ty f)))"
    "lk_joined_bund (f_arg (lcp_enter_network ?ty f)) = lk_joined_bund (f_arg f)"
    using failure_shuts [of h n FAIL_NEGOT_FAILURE] assms(1,2) h by simp_all
qed

text \<open>A fault of LCP's re-entrancy: when nothing is to be authenticated and the bundle refuses the
  link, \<open>LcpNewPhase\<close> lets the automaton fail in the middle of its move to Opened. The failure
  closes the device and shuts the link's node down; then the outer move finishes all the same, so
  that LCP ends in Opened, in no bundle, over a closed device.\<close>

theorem lcp_join_failure_lost:
  assumes "f_state f \<in> {ST_ACKRCVD, ST_ACKSENT}" "lp_phase (lk_lcp (f_arg f)) = PHASE_ESTABLISH"
    "lp_peer_auth (lk_lcp (f_arg f)) = 0" "lp_want_auth (lk_lcp (f_arg f)) = 0"
    "lk_join (f_arg f) \<noteq> Joined" "\<not> conf_passive (f_conf f)" "\<not> lk_rep (f_arg f)"
    "\<not> lk_joined_bund (f_arg f)"
  shows "f_state (FsmNewState lcp_fsm ST_OPENED f) = ST_OPENED \<and>
    \<not> lk_joined_bund (f_arg (FsmNewState lcp_fsm ST_OPENED f)) \<and>
    CallPhysClose \<in> set (lk_calls (f_arg (FsmNewState lcp_fsm ST_OPENED f))) \<and>
    CallNgShutdown \<in> set (lk_calls (f_arg (FsmNewState lcp_fsm ST_OPENED f)))"
proof -
  let ?ty = "gLcpFsmType (Suc 0)"
  let ?e = "emit (EvState (f_state f) ST_OPENED) f"
  define f1 where "f1 = (let g = upd_lcp (\<lambda>p. p\<lparr>lp_phase := PHASE_AUTHENTICATE\<rparr>) ?e in
    if \<not> ph_sync (f_arg g)
    then link_call (CallPhysSetAccm (lp_peer_accmap (the_lcp g)) (lp_want_accmap (the_lcp g))) g
    else g)"
  define f2 where "f2 = upd_auth (\<lambda>a. a\<lparr>au_params := params_zero,
    au_self_to_peer := lp_peer_auth (the_lcp f1), au_peer_to_self := lp_want_auth (the_lcp f1),
    au_self_to_peer_alg := lp_peer_alg (the_lcp f1), au_peer_to_self_alg := lp_want_alg (the_lcp f1)\<rparr>) f1"
  define f3 where "f3 = upd_lcp (\<lambda>p. p\<lparr>lp_phase := PHASE_NETWORK\<rparr>) f2"
  have f1: "f_state f1 = f_state f" "f_conf f1 = f_conf f" "lk_rep (f_arg f1) = lk_rep (f_arg f)"
    "lk_join (f_arg f1) = lk_join (f_arg f)" "lk_joined_bund (f_arg f1) = lk_joined_bund (f_arg f)"
    "the_lcp f1 = (the_lcp f)\<lparr>lp_phase := PHASE_AUTHENTICATE\<rparr>"
    by (simp_all add: f1_def Let_def) (simp_all add: upd_lcp_def link_call_def upd_arg_def)
  then have f3: "f_state f3 = f_state f" "f_conf f3 = f_conf f" "lk_rep (f_arg f3) = lk_rep (f_arg f)"
    "lk_join (f_arg f3) = lk_join (f_arg f)" "lk_joined_bund (f_arg f3) = lk_joined_bund (f_arg f)"
    by (simp_all add: f3_def f2_def) (simp_all add: upd_lcp_def upd_auth_def upd_arg_def)
  have "AuthStart ?ty f1 = LcpAuthResult ?ty True f2"
    using f1(6) assms(3,4) by (simp add: AuthStart_def f2_def Let_def)
  also have "\<dots> = lcp_enter_network ?ty f3"
  proof -
    have "the_lcp f2 = the_lcp f1" by (simp add: f2_def upd_auth_def)
    then show ?thesis using f1(6) by (simp add: LcpAuthResult_def lcp_leave_phase_def f3_def Let_def)
  qed
  finally have start: "AuthStart ?ty f1 = lcp_enter_network ?ty f3" .
  have leave: "lcp_leave_phase PHASE_AUTHENTICATE ?e = upd_lcp (\<lambda>p. p\<lparr>lp_phase := PHASE_AUTHENTICATE\<rparr>) ?e"
    using assms(2) by (simp add: lcp_leave_phase_def Let_def)
  have move: "phase_move (f_state f) ST_OPENED = Move PHASE_AUTHENTICATE"
    using assms(1) by auto
  have new: "LcpNewState ?ty ?e (f_state f) ST_OPENED =
      link_call (CallShutdownCheck ST_OPENED) (lcp_enter_network ?ty f3)"
    by (simp only: LcpNewState_def move phase_step.simps LcpNewPhase_def lcp_phase.simps Let_def
        leave f1_def [unfolded Let_def, symmetric] start)
  have arg: "f_arg (FsmNewState lcp_fsm ST_OPENED f) =
      f_arg (link_call (CallShutdownCheck ST_OPENED) (lcp_enter_network ?ty f3))"
    using assms(1) by (auto simp: FsmNewState_def lcp_fsm_def numeral_2_eq_2 Let_def new)
  have "f_state (FsmNewState lcp_fsm ST_OPENED f) = ST_OPENED" by (rule lcp.phased_new_state_state)
  moreover have "\<not> lk_joined_bund (f_arg (lcp_enter_network ?ty f3))"
    "CallPhysClose \<in> set (lk_calls (f_arg (lcp_enter_network ?ty f3)))"
    "CallNgShutdown \<in> set (lk_calls (f_arg (lcp_enter_network ?ty f3)))"
    using enter_network_refused [of f3 0] f3 assms by simp_all
  ultimately show ?thesis by (simp add: arg) (simp add: link_call_def)
qed


theorem lcp_join_failure_lost_witness:
  "f_state (FsmNewState lcp_fsm ST_OPENED ((LcpInit [] (link_example))\<lparr>f_state := ST_ACKSENT,
     f_arg := link_example\<lparr>lk_lcp := lcp_zero\<lparr>lp_phase := PHASE_ESTABLISH\<rparr>\<rparr>\<rparr>)) = ST_OPENED"
  using lcp_join_failure_lost [of "(LcpInit [] (link_example))\<lparr>f_state := ST_ACKSENT,
      f_arg := link_example\<lparr>lk_lcp := lcp_zero\<lparr>lp_phase := PHASE_ESTABLISH\<rparr>\<rparr>\<rparr>"]
  by (simp add: link_example_def lcp_zero_def LcpInit_def FsmInit_def)

end
