(* ===== verification/Auth_Claims.thy ===== *)
theory Auth_Claims
  imports Auth_Facts Lcp_Claims
begin

unbundle bit_operations_syntax

text \<open>
  The properties of authentication, and those of LCP that hold whatever the authentication does.
\<close>

section \<open>Phases and the gate to the network\<close>

text \<open>C9: The phase of a link always is the one its automaton's state calls for (dead, establish,
  terminate; authenticate or network when it is open), the link is in a bundle only during the
  network phase, and a request is being worked on only while LCP is open: after every sequence of
  events of the automaton, received LCP, PAP, CHAP and EAP packets, finished requests and timeouts,
  LCP calling itself included.\<close>

theorem lcp_phase_follows_state:
  assumes "link_reachable (LcpInit junk l) f" "\<not> lk_joined_bund l" "\<not> f_aborted f"
  shows "phase_ok (f_state f) (lp_phase (lk_lcp (f_arg f))) \<and>
    (lk_joined_bund (f_arg f) \<longrightarrow> lp_phase (lk_lcp (f_arg f)) = PHASE_NETWORK) \<and>
    (au_thread (lk_auth (f_arg f)) \<noteq> None \<longrightarrow> f_state f = ST_OPENED)"
  using link_reachable_fit [OF assms] lcp.sound_good [of f]
  by (auto simp: fit_def lcp_good_def lcp_thread.settled_def thread_idle_def simp del: phase_ok.simps)

text \<open>A link that goes up, is opened and gets an empty Configure-Request and a Configure-Ack.\<close>

definition net_link :: link where
  "net_link = link_example\<lparr>lk_join := Joined\<rparr>"

definition net_up :: "link fsm" where
  "net_up = FsmInput lcp_fsm (Some [2, 1, 0, 4]) (FsmInput lcp_fsm (Some [1, 9, 0, 4])
     (FsmOpen lcp_fsm (FsmUp lcp_fsm (LcpInit [] net_link))))"

text \<open>What the examples look at, evaluated at once.\<close>

fun link_view :: "link fsm \<Rightarrow> fsm_state \<times> lcp_phase \<times> u16 \<times> u16 \<times> bool \<times> join_result \<times> bool" where
  "link_view f = (f_state f, lp_phase (the_lcp f), au_peer_to_self (the_auth f),
     au_self_to_peer (the_auth f), pap_match (au_params (the_auth f)), lk_join (f_arg f),
     Enabled (eap_options (au_eap (the_auth f))) EAP_CONF_RADIUS)"

lemma net_up_view: "link_view net_up = (ST_OPENED, PHASE_NETWORK, 0, 0, True, Joined, False)"
  unfolding net_up_def by code_simp

lemma net_up_phase: "f_state net_up = ST_OPENED" "lp_phase (the_lcp net_up) = PHASE_NETWORK"
  and net_up_no_radius: "\<not> Enabled (eap_options (au_eap (the_auth net_up))) EAP_CONF_RADIUS"
  using net_up_view by simp_all

lemma fsm_reachable_link:
  assumes "fsm_reachable lcp_fsm f0 f" "fit f0"
  shows "link_reachable f0 f \<and> fit f"
  using assms
proof (induction rule: fsm_reachable.induct)
  case reach_init
  then show ?case by (simp add: link_start)
next
  case (reach_step f g)
  then have "fit f" "link_reachable f0 f" by simp_all
  then show ?case
    using reach_step.hyps(2) lcp.sound_step lcp_thread.settled_step fit_not_aborted
    by (auto simp: fit_def intro: link_next link_fsm)
qed

lemma net_up_reachable: "link_reachable (LcpInit [] net_link) net_up" "\<not> f_aborted net_up"
proof -
  have "fsm_reachable lcp_fsm (LcpInit [] net_link) net_up"
    unfolding net_up_def
    by (rule reach_step [OF reach_step [OF reach_step [OF reach_step [OF reach_init step_up]
        step_open] step_input] step_input])
  moreover have "fit (LcpInit [] net_link)"
    by (rule lcp_init_fit) (simp add: net_link_def link_example_def)
  ultimately show "link_reachable (LcpInit [] net_link) net_up" "\<not> f_aborted net_up"
    using fsm_reachable_link fit_not_aborted by blast+
qed

lemma net_link_alone: "\<not> lk_joined_bund net_link"
  by (simp add: net_link_def link_example_def)

theorem lcp_phase_follows_state_witness:
  "lp_phase (lk_lcp (f_arg net_up)) = PHASE_AUTHENTICATE \<or> lp_phase (lk_lcp (f_arg net_up)) = PHASE_NETWORK"
  using lcp_phase_follows_state [OF net_up_reachable(1) net_link_alone net_up_reachable(2)]
    net_up_phase(1) by simp

text \<open>C10: A link is in the network phase only when no authentication is owed in either direction: each
  one that LCP had negotiated has been reported as finished. It holds after every sequence of
  events, for all packets of PAP, CHAP and EAP and all answers of the back ends.\<close>

theorem auth_network_gate:
  assumes "link_reachable (LcpInit junk l) f" "\<not> lk_joined_bund l" "\<not> f_aborted f"
    "lp_phase (lk_lcp (f_arg f)) = PHASE_NETWORK"
  shows "au_peer_to_self (lk_auth (f_arg f)) = 0 \<and> au_self_to_peer (lk_auth (f_arg f)) = 0"
  using link_reachable_fit [OF assms(1-3)] lcp.sound_good [of f] assms(4)
  by (simp add: fit_def lcp_good_def auth_owed_def)

theorem auth_network_gate_witness:
  "au_peer_to_self (lk_auth (f_arg net_up)) = 0 \<and> au_self_to_peer (lk_auth (f_arg net_up)) = 0"
  by (rule auth_network_gate [OF net_up_reachable(1) net_link_alone net_up_reachable(2) net_up_phase(2)])

text \<open>C18: What a peer can send as a PAP or CHAP packet, whatever its octets and whenever it sends them,
  makes the program read outside the packet (or fail an assertion) in one case only: a PAP Ack or
  Nak we wait for, with a body, whose first octet claims a longer message than the packet holds.
  \<open>PapInput\<close> makes the length larger where it means to limit it, and \<open>ShowMesg\<close> copies as much.\<close>

theorem auth_packets_in_bounds:
  assumes "link_reachable (LcpInit junk l) f" "\<not> lk_joined_bund l" "\<not> f_aborted f"
    "proto = PROTO_PAP \<or> proto = PROTO_CHAP"
  shows "f_aborted (AuthInput env proto bp f) \<longleftrightarrow>
    (let xs = pkt_octets bp in
     proto = PROTO_PAP \<and> lp_phase (lk_lcp (f_arg f)) \<in> {PHASE_AUTHENTICATE, PHASE_NETWORK} \<and>
     au_self_to_peer (lk_auth (f_arg f)) = PROTO_PAP \<and> (xs ! 0 = PAP_ACK \<or> xs ! 0 = PAP_NAK) \<and>
     (case auth_length xs of None \<Rightarrow> False | Some len \<Rightarrow> len \<noteq> 0) \<and>
     length xs < 5 + unat (xs ! 4))"
  using AuthInput_fine(2) [OF link_reachable_fit [OF assms(1-3)] assms(4), where env = env and bp = bp]
    fit_not_aborted [of "AuthInput env proto bp f"]
  unfolding pap_message_behind_def by (auto split: if_splits)

text \<open>A link whose peer has asked for PAP, and an Ack of five octets that claims a message of nine.\<close>

definition pap_up :: "link fsm" where
  "pap_up = FsmInput lcp_fsm (Some [2, 1, 0, 4])
     (FsmInput lcp_fsm (Some [1, 9, 0, 8, 3, 4, 0xc0, 0x23])
       (FsmOpen lcp_fsm (FsmUp lcp_fsm (LcpInit [] net_link))))"

lemma pap_up_view: "link_view pap_up = (ST_OPENED, PHASE_AUTHENTICATE, 0, PROTO_PAP, True, Joined, False)"
  unfolding pap_up_def by code_simp

lemma pap_up_reachable: "link_reachable (LcpInit [] net_link) pap_up" "\<not> f_aborted pap_up"
proof -
  have "fsm_reachable lcp_fsm (LcpInit [] net_link) pap_up"
    unfolding pap_up_def
    by (rule reach_step [OF reach_step [OF reach_step [OF reach_step [OF reach_init step_up]
        step_open] step_input] step_input])
  moreover have "fit (LcpInit [] net_link)"
    by (rule lcp_init_fit) (simp add: net_link_def link_example_def)
  ultimately show "link_reachable (LcpInit [] net_link) pap_up" "\<not> f_aborted pap_up"
    using fsm_reachable_link fit_not_aborted by blast+
qed

theorem auth_packets_in_bounds_witness:
  "\<not> f_aborted (AuthInput undefined PROTO_CHAP (Some [2, 7, 0, 9, 200, 1, 2]) net_up) \<and>
   f_aborted (AuthInput undefined PROTO_PAP (Some [2, 7, 0, 5, 9]) pap_up)"
proof -
  have "auth_length [2, 7, 0, 5, 9] = Some 1"
    by (simp add: auth_length_def of_be16_def)
  then show ?thesis
    using auth_packets_in_bounds [OF net_up_reachable(1) net_link_alone net_up_reachable(2),
        of PROTO_CHAP undefined "Some [2, 7, 0, 9, 200, 1, 2]"]
      auth_packets_in_bounds [OF pap_up_reachable(1) net_link_alone pap_up_reachable(2),
        of PROTO_PAP undefined "Some [2, 7, 0, 5, 9]"] pap_up_view
    by (simp add: pkt_octets_def)
qed

text \<open>Four octets are enough to crash the program while a link authenticates or is in the network phase,
  unless EAP is handed to RADIUS: an EAP Nak that names no type is read through a null pointer.\<close>

theorem eap_nak_without_type:
  assumes "lp_phase (the_lcp f) \<in> {PHASE_AUTHENTICATE, PHASE_NETWORK}"
    "\<not> Enabled (eap_options (au_eap (the_auth f))) EAP_CONF_RADIUS"
  shows "f_aborted (AuthInput env PROTO_EAP (Some [2, i, 0, 5, 3]) f)"
proof -
  have "auth_length [2, i, 0, 5, 3] = Some 1"
    by (simp add: auth_length_def of_be16_def)
  then show ?thesis
    using assms
    by (simp add: AuthInput_def Let_def pkt_octets_def EapInput_def eap_response_def fsm_abort_def)
qed

theorem eap_nak_without_type_witness:
  "f_aborted (AuthInput undefined PROTO_EAP (Some [2, 7, 0, 5, 3]) net_up)"
  by (rule eap_nak_without_type) (simp_all only: net_up_phase net_up_no_radius, simp_all)

section \<open>PAP\<close>

text \<open>C19: A peer of whom CHAP or EAP is required gets to the network phase without a name, a password
  or an answer to a challenge: \<open>PapInput\<close> hands a PAP request that is not expected to
  \<open>PapInputFinish\<close> instead of refusing it, which compares the parameters of the link, all still
  empty, with one another. A PAP request of four octets is acknowledged and the link joins its
  bundle.\<close>

theorem pap_bypasses_authentication:
  assumes "lp_phase (the_lcp f) = PHASE_AUTHENTICATE"
    "au_peer_to_self (the_auth f) = PROTO_CHAP \<or> au_peer_to_self (the_auth f) = PROTO_EAP"
    "au_self_to_peer (the_auth f) = 0" "pap_match (au_params (the_auth f))" "lk_join (f_arg f) = Joined"
  shows "let g = AuthInput env PROTO_PAP (Some [1, i, 0, 4]) f in
    lp_phase (the_lcp g) = PHASE_NETWORK \<and> lk_joined_bund (f_arg g) \<and>
    CallAuthFrame PROTO_PAP (auth_packet PROTO_PAP PAP_ACK i AUTH_MSG_WELCOME True 0)
      \<in> set (lk_calls (f_arg g))"
proof -
  define f1 where "f1 = AuthStop (upd_auth (\<lambda>a. a\<lparr>au_peer_to_self := 0\<rparr>)
    (AuthOutput PROTO_PAP PAP_ACK i AUTH_MSG_WELCOME True 0 f))"
  have f1: "the_lcp f1 = the_lcp f" "lk_join (f_arg f1) = Joined"
    "CallAuthFrame PROTO_PAP (auth_packet PROTO_PAP PAP_ACK i AUTH_MSG_WELCOME True 0)
      \<in> set (lk_calls (f_arg f1))"
    using assms(5) by (simp_all add: f1_def AuthStop_def AuthOutput_def upd_auth_def link_call_def)
  have "auth_length [1, i, 0, 4] = Some 0"
    by (simp add: auth_length_def of_be16_def)
  then have "AuthInput env PROTO_PAP (Some [1, i, 0, 4]) f = LcpAuthResult lcp_fsm True f1"
    using assms
    by (auto simp: AuthInput_def Let_def pkt_octets_def PapInput_def PapInputFinish_def
        AuthDataNew_def pap_good_def reply_or_welcome_def AuthFinish_def f1_def AuthOutput_def)
  also have "\<dots> = lcp_enter_network lcp_fsm (upd_lcp (\<lambda>p. p\<lparr>lp_phase := PHASE_NETWORK\<rparr>) f1)"
    using assms(1) f1(1) by (simp add: LcpAuthResult_def lcp_leave_phase_def Let_def)
  finally have eq: "AuthInput env PROTO_PAP (Some [1, i, 0, 4]) f =
      lcp_enter_network lcp_fsm (upd_lcp (\<lambda>p. p\<lparr>lp_phase := PHASE_NETWORK\<rparr>) f1)" .
  have send: "f_arg (FsmSendIdent ty s h) = f_arg h" "f_arg (FsmSendTimeRemaining ty w h) = f_arg h"
    for ty s w and h :: "link fsm"
    by (simp_all add: FsmSendIdent_def FsmSendTimeRemaining_def FsmOutputMbuf_def Let_def)
  have join: "lp_phase (the_lcp (lcp_join lcp_fsm h)) = lp_phase (the_lcp h) \<and>
      lk_joined_bund (f_arg (lcp_join lcp_fsm h)) \<and>
      set (lk_calls (f_arg h)) \<subseteq> set (lk_calls (f_arg (lcp_join lcp_fsm h)))"
    if "lk_join (f_arg h) = Joined" for h
    using that by (auto simp: lcp_join_def bund_join_def link_call_def Let_def)
  show ?thesis
    unfolding eq
    using f1 join [of "upd_lcp (\<lambda>p. p\<lparr>lp_phase := PHASE_NETWORK\<rparr>) f1"]
    by (auto simp: lcp_enter_network_def Let_def send upd_lcp_def lcp_join_def bund_join_def
        link_call_def split: option.split)
qed

text \<open>A link that demands CHAP, after the negotiation.\<close>

definition chap_link :: link where
  "chap_link = net_link\<lparr>lk_options := \<lparr>oi_enable = 2, oi_accept = 0\<rparr>\<rparr>"

definition chap_up :: "link fsm" where
  "chap_up = FsmInput lcp_fsm (Some [2, 1, 0, 4]) (FsmInput lcp_fsm (Some [1, 9, 0, 4])
     (FsmOpen lcp_fsm (FsmUp lcp_fsm (LcpInit [] chap_link))))"

lemma chap_up_view:
  "link_view chap_up = (ST_OPENED, PHASE_AUTHENTICATE, PROTO_CHAP, 0, True, Joined, False)"
  unfolding chap_up_def by code_simp

theorem pap_bypasses_authentication_witness:
  "lp_phase (the_lcp (AuthInput undefined PROTO_PAP (Some [1, 7, 0, 4]) chap_up)) = PHASE_NETWORK"
  using pap_bypasses_authentication [of chap_up undefined 7] chap_up_view by (simp add: Let_def)

end
