(* ===== verification/Auth_Logins.thy ===== *)
theory Auth_Logins
  imports Auth_Facts Lcp_Claims
begin

unbundle bit_operations_syntax

text \<open>
  What PAP and CHAP decide: which passwords PAP lets in with the secrets file as back end, that
  the responses the program computes are those it accepts, and that it answers no challenge it
  could have made itself.
\<close>

section \<open>PAP\<close>

text \<open>A PAP request as \<open>PapSendRequest\<close> builds it.\<close>

definition pap_request :: "byte \<Rightarrow> byte list \<Rightarrow> byte list \<Rightarrow> byte list" where
  "pap_request i name pass = auth_packet PROTO_PAP PAP_REQUEST i
     ([of_nat (length name)] @ name @ [of_nat (length pass)] @ pass) False 0"

text \<open>PAP is required, nothing is under way, and the secrets file is the only back end.\<close>

definition pap_login_ready :: "auth_env \<Rightarrow> link fsm \<Rightarrow> bool" where
  "pap_login_ready env f \<longleftrightarrow> lp_phase (the_lcp f) = PHASE_AUTHENTICATE \<and>
     au_peer_to_self (the_auth f) = PROTO_PAP \<and> au_thread (the_auth f) = None \<and>
     ap_action (au_params (the_auth f)) = [] \<and> ev_actions env = [] \<and> ev_max_logins env = 0 \<and>
     \<not> ev_no_thread env \<and> Enabled (au_conf_options (the_auth f)) AUTH_CONF_INTERNAL \<and>
     \<not> Enabled (au_conf_options (the_auth f)) AUTH_CONF_EXT_AUTH \<and>
     \<not> Enabled (au_conf_options (the_auth f)) AUTH_CONF_RADIUS_AUTH \<and>
     \<not> Enabled (au_conf_options (the_auth f)) AUTH_CONF_PAM_AUTH \<and>
     \<not> Enabled (au_conf_options (the_auth f)) AUTH_CONF_SYSTEM_AUTH \<and>
     \<not> Enabled (au_conf_options (the_auth f)) AUTH_CONF_OPIE"

definition pap_text :: "byte list \<Rightarrow> bool" where
  "pap_text s \<longleftrightarrow> length s < 64 \<and> 0 \<notin> set s"

lemma pap_text_copy: "pap_text s \<Longrightarrow> cstr s = s" "pap_text s \<Longrightarrow> strlcpy 64 s = s"
proof -
  show copy: "pap_text s \<Longrightarrow> cstr s = s"
    by (auto simp: pap_text_def cstr_def takeWhile_eq_all_conv)
  show "pap_text s \<Longrightarrow> strlcpy 64 s = s"
    using copy by (simp add: strlcpy_def) (simp add: pap_text_def)
qed

lemma unat_u16: "n < 65536 \<Longrightarrow> unat (of_nat n :: u16) = n"
  by (simp add: unat_of_nat take_bit_nat_eq_self)

lemma pap_request_length:
  assumes "pap_text name" "pap_text pass"
  shows "auth_length (pap_request i name pass) = Some (of_nat (2 + length name + length pass))"
proof -
  let ?n = "2 + length name + length pass"
  have n: "?n < 130" using assms by (simp add: pap_text_def)
  then have u: "unat (of_nat (4 + ?n) :: u16) = 4 + ?n" "unat (of_nat ?n :: u16) = ?n"
    by (intro unat_u16; simp)+
  have packet: "pap_request i name pass =
      [PAP_REQUEST, i] @ be16 (of_nat (4 + ?n)) @ [of_nat (length name)] @ name @ [of_nat (length pass)] @ pass"
    by (simp add: pap_request_def auth_packet_def Let_def)
  obtain a b where ab: "be16 (of_nat (4 + ?n)) = [a, b]" "of_be16 a b = of_nat (4 + ?n)"
    using that of_be16_be16 by (simp add: be16_def)
  have "length (pap_request i name pass) = 4 + ?n" unfolding packet ab(1) by simp
  moreover have "of_be16 (pap_request i name pass ! 2) (pap_request i name pass ! 3) = of_nat (4 + ?n)"
    unfolding packet ab(1) using ab(2) by simp
  ultimately show ?thesis using u(1) by (simp add: auth_length_def Let_def)
qed

lemma pap_request_fields:
  assumes "pap_text name" "pap_text pass"
  shows "pap_fields (drop 4 (pap_request i name pass)) (2 + length name + length pass) = Fields (name, pass)"
proof -
  have u: "unat (of_nat (length name) :: byte) = length name" "unat (of_nat (length pass) :: byte) = length pass"
    using assms by (simp_all add: pap_text_def unat_of_nat take_bit_nat_eq_self)
  have "drop 4 (pap_request i name pass) = [of_nat (length name)] @ name @ [of_nat (length pass)] @ pass"
    by (simp add: pap_request_def auth_packet_def Let_def be16_def)
  then show ?thesis
    using pap_text_copy(1) assms
    by (simp add: pap_fields_def octet_def parse_octets_def u nth_append)
qed

lemma invalid: "strlcpy 64 AUTH_MSG_INVALID = AUTH_MSG_INVALID"
  by (simp add: AUTH_MSG_INVALID_def ascii_def strlcpy_def cstr_def)

text \<open>C16: A PAP login is decided by the secrets file. It is about a link in the authentication phase
  that PAP is due on, with no request under way, no action configured and the file as the only back
  end, in a program without a login limit that can start a thread; and about names and passwords of
  at most 63 characters without a zero octet, the name not empty (an empty one is refused before
  the file is read). There the request is acknowledged, and the authentication of the peer reported
  as successful, exactly when the file has an entry for the name whose first 63 characters are the
  password; otherwise it is refused and reported as failed.\<close>

theorem pap_login_decided:
  assumes "pap_login_ready env f" "pap_text name" "pap_text pass" "name \<noteq> []"
  shows "\<exists>p. auth_thread_done env (AuthInput env PROTO_PAP (Some (pap_request i name pass)) f) =
    (let ok = (map_option (strlcpy 64) (lk_secret (f_arg f) name) = Some pass)
     in AuthFinish AUTH_PEER_TO_SELF ok
          (AuthOutput PROTO_PAP (if ok then PAP_ACK else PAP_NAK) i
             (if ok then AUTH_MSG_WELCOME else AUTH_MSG_INVALID) True 0
             (upd_params (\<lambda>_. p) f)))"
proof -
  define d where "d = (AuthDataNew f)\<lparr>ad_proto := PROTO_PAP, ad_id := i, ad_code := PAP_REQUEST\<rparr>"
  define e where "e = d\<lparr>ad_params := (ad_params d)\<lparr>ap_peer_name := name, ap_peer_pass := pass,
    ap_authname := name, ap_password := []\<rparr>, ad_finish := PapInputFinish_fn\<rparr>"
  let ?xs = "pap_request i name pass"
  define len where "len = (of_nat (2 + length name + length pass) :: u16)"
  have "unat len = 2 + length name + length pass"
    unfolding len_def using assms(2,3) by (intro unat_u16) (simp add: pap_text_def)
  then have fields: "pap_fields (drop 4 ?xs) (unat len) = Fields (name, pass)"
    using pap_request_fields [OF assms(2,3)] by simp
  have length: "auth_length ?xs = Some len"
    using pap_request_length [OF assms(2,3)] by (simp add: len_def)
  have head: "?xs ! 0 = PAP_REQUEST" "?xs ! 1 = i" "length ?xs \<noteq> 4"
    by (simp_all add: pap_request_def auth_packet_def Let_def be16_def)
  have "AuthInput env PROTO_PAP (Some ?xs) f = PapInput env d (Some (drop 4 ?xs)) len f"
    using assms(1) head length
    by (simp add: AuthInput_def pap_login_ready_def pkt_octets_def d_def Let_def del: One_nat_def)
  also have "\<dots> = AuthAsyncStart env e f"
    using assms(1) fields pap_text_copy(2) assms(2,3)
    by (simp add: PapInput_def Let_def pap_login_ready_def pkt_octets_def e_def d_def)
  also have "\<dots> = upd_auth (\<lambda>a. a\<lparr>au_thread := Some e\<rparr>) f"
    using assms(1,4)
    by (simp add: AuthAsyncStart_def LinkMatchAction_def AuthPreChecks_def pap_login_ready_def e_def)
  finally have start: "AuthInput env PROTO_PAP (Some ?xs) f = upd_auth (\<lambda>a. a\<lparr>au_thread := Some e\<rparr>) f" .
  define r where "r = map_option (strlcpy 64) (lk_secret (f_arg f) name)"
  define g where "g = (case r of
      None \<Rightarrow> auth_fail AUTH_FAIL_INVALID_LOGIN (e\<lparr>ad_params := (ad_params e)\<lparr>ap_authentic := AUTH_CONF_INTERNAL\<rparr>\<rparr>)
    | Some p \<Rightarrow> e\<lparr>ad_params := (ad_params e)\<lparr>ap_authentic := AUTH_CONF_INTERNAL, ap_password := p\<rparr>,
                  ad_status := AUTH_STATUS_UNDEF\<rparr>)"
  have run: "AuthAsync env l e = g" if "lk_secret l = lk_secret (f_arg f)" for l
    using that assms(1,4)
    by (cases "lk_secret (f_arg f) name")
      (simp_all add: AuthAsync_def try_external_def try_radius_def back_end_def AuthInternal_def
        g_def r_def auth_fail_def e_def d_def AuthDataNew_def pap_login_ready_def)
  have none: "upd_auth (\<lambda>a. a\<lparr>au_thread := None\<rparr>) (upd_auth (\<lambda>a. a\<lparr>au_thread := Some e\<rparr>) f) = f"
    using assms(1) by (cases "the_auth f") (simp add: upd_auth_def upd_arg_def pap_login_ready_def)
  have "auth_thread_done env (upd_auth (\<lambda>a. a\<lparr>au_thread := Some e\<rparr>) f) = AuthAsyncFinish env g f"
    using run [of "f_arg (upd_auth (\<lambda>a. a\<lparr>au_thread := Some e\<rparr>) f)"] none
    by (simp add: auth_thread_done_def) (simp add: upd_auth_def)
  moreover have "ap_action (ad_params g) = []"
    using assms(1)
    by (simp add: g_def e_def d_def AuthDataNew_def auth_fail_def pap_login_ready_def split: option.split)
  ultimately have "auth_thread_done env (upd_auth (\<lambda>a. a\<lparr>au_thread := Some e\<rparr>) f) =
      PapInputFinish (g\<lparr>ad_params := params_zero\<rparr>) (upd_params (\<lambda>_. ad_params g) f)"
    by (simp add: AuthAsyncFinish_def auth_finish_call_def ascii_def g_def e_def auth_fail_def Let_def
        split: option.split)
  also have "\<dots> = (let ok = (r = Some pass) in AuthFinish AUTH_PEER_TO_SELF ok
          (AuthOutput PROTO_PAP (if ok then PAP_ACK else PAP_NAK) i
             (if ok then AUTH_MSG_WELCOME else AUTH_MSG_INVALID) True 0
             (upd_params (\<lambda>_. ad_params g) f)))"
    by (cases r) (auto simp: PapInputFinish_def pap_match_def pap_good_def pap_bad_def AuthFailMsg_def
        ms_chap_def reply_or_welcome_def g_def e_def d_def AuthDataNew_def auth_fail_def Let_def invalid)
  finally show ?thesis unfolding start r_def by blast
qed

definition env_example :: auth_env where
  "env_example = \<lparr>ev_crypto = \<lparr>cy_md4 = take 16, cy_md5 = take 16, cy_sha1 = take 20, cy_des = (\<lambda>k b. b)\<rparr>,
     ev_actions = [], ev_regexec = (\<lambda>p s. p = s), ev_rep_fails = (\<lambda>r. True), ev_max_logins = 0,
     ev_max_logins_ci = False, ev_logins = [], ev_no_thread = False, ev_external = (\<lambda>d. (d, True)),
     ev_radius = (\<lambda>d. (d, True)), ev_radius_eap = (\<lambda>d. d), ev_pam = (\<lambda>d. d), ev_opie = (\<lambda>d. d),
     ev_passwd = (\<lambda>n. None), ev_crypt = (\<lambda>p s. p)\<rparr>"

definition pap_example :: "link fsm" where
  "pap_example = LcpInit [] (link_example\<lparr>lk_secret := (\<lambda>n. Some (n @ [55]))\<rparr>)"

definition pap_waiting :: "link fsm" where
  "pap_waiting = upd_auth (\<lambda>a. a\<lparr>au_peer_to_self := PROTO_PAP\<rparr>)
     (upd_lcp (\<lambda>p. p\<lparr>lp_phase := PHASE_AUTHENTICATE\<rparr>) pap_example)"

lemma pap_waiting_ready:
  "pap_login_ready env_example pap_waiting" "lk_secret (f_arg pap_waiting) [98] = Some [98, 55]"
  by (simp_all add: pap_login_ready_def env_example_def pap_waiting_def pap_example_def upd_auth_def
      upd_lcp_def LcpInit_def FsmInit_def auth_zero_def params_zero_def Enabled_def mask_test_def)

theorem pap_login_decided_witness:
  "\<exists>p. auth_thread_done env_example
       (AuthInput env_example PROTO_PAP (Some (pap_request 7 [98] [98, 55])) pap_waiting) =
     AuthFinish AUTH_PEER_TO_SELF True
       (AuthOutput PROTO_PAP PAP_ACK 7 AUTH_MSG_WELCOME True 0 (upd_params (\<lambda>_. p) pap_waiting))"
  using pap_login_decided [OF pap_waiting_ready(1), of "[98]" "[98, 55]" 7] pap_waiting_ready(2)
  by (simp add: pap_text_def strlcpy_def cstr_def Let_def)

section \<open>CHAP\<close>

text \<open>C17: A link whose direction is known never answers a challenge that it could have made itself, so
  nobody can use it to learn the response to its own challenge: a challenge of three octets or more as
  \<open>ChapGenRandom\<close> makes it, with the origination of this link, changes nothing and draws no
  packet.\<close>

theorem chap_refuses_own_challenge:
  assumes "ChapParsePkt bp len = Fields (peer, fst (ChapGenRandom n l))" "3 \<le> n"
    "lk_originate (f_arg f) = lk_originate l" "lk_originate l \<noteq> LINK_ORIGINATE_UNKNOWN"
  shows "chap_challenge cy d bp len f = f"
proof -
  let ?v = "fst (ChapGenRandom n l)"
  have n: "n = Suc (Suc (Suc (n - 3)))" using assms(2) by simp
  have v: "\<exists>vs. ?v = (0x3b OR push_bit 6 (originate_number (lk_originate l) AND 0x03)) # 0x1e # 0x68 # vs"
    by (subst n) (simp add: ChapGenRandom_def gIdBytes_def Let_def)
  then have "chal_orig_fails (lk_originate l) ?v"
    using assms(4) by (cases "lk_originate l") (auto simp: chal_orig_fails_def gIdBytes_def Let_def)
  then show ?thesis using assms(1,3) by (simp add: chap_challenge_def Let_def)
qed

theorem chap_refuses_own_challenge_witness:
  "chap_challenge undefined undefined (Some [3, 0xbb, 0x1e, 0x68, 98]) 5 pap_waiting = pap_waiting"
proof -
  have l: "lk_originate link_example = LINK_ORIGINATE_REMOTE"
    "lk_originate (f_arg pap_waiting) = LINK_ORIGINATE_REMOTE"
    by (simp_all add: link_example_def pap_waiting_def pap_example_def upd_auth_def upd_lcp_def
        LcpInit_def FsmInit_def)
  have "ChapParsePkt (Some [3, 0xbb, 0x1e, 0x68, 98]) 5 = Fields ([98], fst (ChapGenRandom 3 link_example))"
    by (simp add: ChapParsePkt_def octet_def parse_octets_def CHAP_MAX_VAL_def CHAP_MAX_NAME_def
        cstr_def ChapGenRandom_def gIdBytes_def l Let_def)
  then show ?thesis by (rule chap_refuses_own_challenge) (simp_all add: l)
qed

lemma after_backslash_again:
  "after_backslash (after_backslash s) = after_backslash s" "set (after_backslash s) \<subseteq> set s"
proof -
  have "0x5c \<notin> set (takeWhile (\<lambda>c. c \<noteq> 0x5c) xs)" for xs :: "byte list"
    by (auto dest: set_takeWhileD)
  then show "after_backslash (after_backslash s) = after_backslash s"
    by (simp add: after_backslash_def)
  show "set (after_backslash s) \<subseteq> set s"
    by (auto simp: after_backslash_def dest: set_takeWhileD)
qed

lemma cstr_id: "0 \<notin> set s \<Longrightarrow> cstr s = s"
  by (auto simp: cstr_def takeWhile_eq_all_conv)

lemma length_takeI: "n \<le> length xs \<Longrightarrow> length (take n xs) = n"
  by simp

lemma nt_response:
  assumes "\<And>k b. length (cy_des cy k b) = 8" "8 \<le> length chal"
  shows "length (NTChallengeResponse cy chal secret) = 24"
    "NTChallengeResponse cy (chal @ junk) secret = NTChallengeResponse cy chal secret"
    "length (GenerateNTResponse cy a peer user secret) = 24"
  using assms by (simp_all add: NTChallengeResponse_def GenerateNTResponse_def ChallengeResponse_def
      DesEncrypt_def Let_def)

text \<open>C15: The responses the program computes are the ones it accepts: for each of the three algorithms,
  a response made for a challenge with a secret and an identifier is found to agree by the end
  that knows the same secret and sent the challenge, with or without the domain in front of the
  name. DES makes blocks of eight octets.\<close>

theorem chap_response_accepted:
  assumes "alg \<in> {CHAP_ALG_MD5, CHAP_ALG_MSOFT, CHAP_ALG_MSOFTv2}" "\<And>k b. length (cy_des cy k b) = 8"
    "ChapHash cy alg buf i name secret (chal @ junk) (length chal) True l = (Some h, l')"
    "cp_chal p = chal" "16 \<le> length chal \<or> alg = CHAP_ALG_MSOFT \<and> length chal = 8"
    "take (cp_value_len p) (cp_value p) = h" "0 \<notin> set name"
    "ap_authname p = name \<or> ap_authname p = after_backslash name"
  shows "chap_agrees cy alg i p secret l2 = Some True"
proof -
  have user: "after_backslash (cstr (ap_authname p)) = after_backslash name"
  proof -
    have "0 \<notin> set (after_backslash name)" using assms(7) after_backslash_again(2) by blast
    then show ?thesis using assms(7,8) after_backslash_again(1) by (auto simp: cstr_id)
  qed
  have chal: "chal \<noteq> []" "8 \<le> length chal" using assms(5) by auto
  note nt = nt_response [OF assms(2) chal(2)]
  consider "alg = CHAP_ALG_MD5" | "alg = CHAP_ALG_MSOFT" | "alg = CHAP_ALG_MSOFTv2"
    using assms(1) by auto
  then show ?thesis
  proof cases
    case 1
    then show ?thesis using assms(3,4,6) chal(1) by (auto simp: chap_agrees_def ChapHash_def ChapHashAgree_def)
  next
    case 2
    then have "h = replicate 24 0 @ NTChallengeResponse cy chal secret @ [1]"
      using assms(3) nt(2) by (simp add: ChapHash_def)
    with 2 show ?thesis
      using assms(4,6) chal(1) nt(1) by (simp add: chap_agrees_def ChapHash_def ChapHashAgree_def nth_append)
  next
    case 3
    define peer where "peer = fst (ChapGenRandom 16 l)"
    have peer: "length peer = 16" by (simp add: peer_def ChapGenRandom_def gIdBytes_def Let_def)
    have auth: "GenerateNTResponse cy (chal @ junk) peer u secret = GenerateNTResponse cy chal peer u secret" for u
      using 3 assms(5) by (simp add: GenerateNTResponse_def ChallengeHash_def)
    have h: "h = peer @ replicate 8 0 @ GenerateNTResponse cy chal peer (after_backslash name) secret @ [0]"
      using 3 assms(3,7) auth by (simp add: ChapHash_def Let_def case_prod_beta peer_def cstr_id)
    then have "length h = 49" using peer nt(3) by simp
    then have "49 \<le> cp_value_len p" using assms(6) by auto
    then have "take 16 (cp_value p) = take 16 h" using assms(6) by (auto simp: min_def)
    then have v: "take 16 (cp_value p) = peer" using h peer by simp
    then have "take 16 (stack_array l2 64 (take 16 (cp_value p))) = peer"
      using peer by (simp add: stack_array_def)
    then have "fst (ChapHash cy alg (stack_array l2 64 (take 16 (cp_value p))) i (ap_authname p) secret
        chal (length chal) False l2) =
      Some (peer @ take 8 (drop 16 (stack_array l2 64 (take 16 (cp_value p)))) @
        GenerateNTResponse cy chal peer (after_backslash name) secret @
        [stack_array l2 64 (take 16 (cp_value p)) ! 48])"
      using 3 user by (simp add: ChapHash_def Let_def)
    moreover have "length (stack_array l2 64 (take 16 (cp_value p))) = 64"
      unfolding stack_array_def by (rule length_takeI) simp
    ultimately show ?thesis
      using 3 assms(4,6) chal(1) peer nt(3) h by (simp add: chap_agrees_def ChapHashAgree_def Let_def)
  qed
qed

definition crypto_example :: crypto where
  "crypto_example = \<lparr>cy_md4 = take 16, cy_md5 = take 16, cy_sha1 = take 20, cy_des = (\<lambda>k b. replicate 8 1)\<rparr>"

theorem chap_response_accepted_witness:
  "chap_agrees crypto_example CHAP_ALG_MD5 9
     (params_zero\<lparr>cp_chal := replicate 16 7, cp_value := 9 # 99 # replicate 14 7 @ replicate 48 0,
        cp_value_len := 16, ap_authname := [98]\<rparr>) [99] link_example = Some True"
  by (rule chap_response_accepted [where name = "[98]" and junk = "[]" and buf = "[]" and
        l = link_example and l' = link_example and h = "9 # 99 # replicate 14 7" and
        chal = "replicate 16 7"])
    (simp_all add: crypto_example_def ChapHash_def cstr_def)

end
