(* ===== verification/Pred1.thy ===== *)
theory Pred1
  imports Mbuf
begin

unbundle bit_operations_syntax

text \<open>
  The Predictor-1 compressor of \<open>src/src/ccp_pred1.c\<close> and the frame check sequence
  \<open>Crc16\<close> of \<open>src/src/util.c\<close>, as they are without the netgraph node. A guess table and the
  hash that indexes it make the state of one direction. Packets are octet lists; an access outside
  a packet or outside the buffer of the decompressor is \<open>None\<close>. The initial and the good value of
  the frame check sequence come from a system header and are arguments.
\<close>

section \<open>The frame check sequence\<close>

definition Crc16Table :: "u16 list" where
  "Crc16Table = [
     0x0000, 0x1189, 0x2312, 0x329b, 0x4624, 0x57ad, 0x6536, 0x74bf,
     0x8c48, 0x9dc1, 0xaf5a, 0xbed3, 0xca6c, 0xdbe5, 0xe97e, 0xf8f7,
     0x1081, 0x0108, 0x3393, 0x221a, 0x56a5, 0x472c, 0x75b7, 0x643e,
     0x9cc9, 0x8d40, 0xbfdb, 0xae52, 0xdaed, 0xcb64, 0xf9ff, 0xe876,
     0x2102, 0x308b, 0x0210, 0x1399, 0x6726, 0x76af, 0x4434, 0x55bd,
     0xad4a, 0xbcc3, 0x8e58, 0x9fd1, 0xeb6e, 0xfae7, 0xc87c, 0xd9f5,
     0x3183, 0x200a, 0x1291, 0x0318, 0x77a7, 0x662e, 0x54b5, 0x453c,
     0xbdcb, 0xac42, 0x9ed9, 0x8f50, 0xfbef, 0xea66, 0xd8fd, 0xc974,
     0x4204, 0x538d, 0x6116, 0x709f, 0x0420, 0x15a9, 0x2732, 0x36bb,
     0xce4c, 0xdfc5, 0xed5e, 0xfcd7, 0x8868, 0x99e1, 0xab7a, 0xbaf3,
     0x5285, 0x430c, 0x7197, 0x601e, 0x14a1, 0x0528, 0x37b3, 0x263a,
     0xdecd, 0xcf44, 0xfddf, 0xec56, 0x98e9, 0x8960, 0xbbfb, 0xaa72,
     0x6306, 0x728f, 0x4014, 0x519d, 0x2522, 0x34ab, 0x0630, 0x17b9,
     0xef4e, 0xfec7, 0xcc5c, 0xddd5, 0xa96a, 0xb8e3, 0x8a78, 0x9bf1,
     0x7387, 0x620e, 0x5095, 0x411c, 0x35a3, 0x242a, 0x16b1, 0x0738,
     0xffcf, 0xee46, 0xdcdd, 0xcd54, 0xb9eb, 0xa862, 0x9af9, 0x8b70,
     0x8408, 0x9581, 0xa71a, 0xb693, 0xc22c, 0xd3a5, 0xe13e, 0xf0b7,
     0x0840, 0x19c9, 0x2b52, 0x3adb, 0x4e64, 0x5fed, 0x6d76, 0x7cff,
     0x9489, 0x8500, 0xb79b, 0xa612, 0xd2ad, 0xc324, 0xf1bf, 0xe036,
     0x18c1, 0x0948, 0x3bd3, 0x2a5a, 0x5ee5, 0x4f6c, 0x7df7, 0x6c7e,
     0xa50a, 0xb483, 0x8618, 0x9791, 0xe32e, 0xf2a7, 0xc03c, 0xd1b5,
     0x2942, 0x38cb, 0x0a50, 0x1bd9, 0x6f66, 0x7eef, 0x4c74, 0x5dfd,
     0xb58b, 0xa402, 0x9699, 0x8710, 0xf3af, 0xe226, 0xd0bd, 0xc134,
     0x39c3, 0x284a, 0x1ad1, 0x0b58, 0x7fe7, 0x6e6e, 0x5cf5, 0x4d7c,
     0xc60c, 0xd785, 0xe51e, 0xf497, 0x8028, 0x91a1, 0xa33a, 0xb2b3,
     0x4a44, 0x5bcd, 0x6956, 0x78df, 0x0c60, 0x1de9, 0x2f72, 0x3efb,
     0xd68d, 0xc704, 0xf59f, 0xe416, 0x90a9, 0x8120, 0xb3bb, 0xa232,
     0x5ac5, 0x4b4c, 0x79d7, 0x685e, 0x1ce1, 0x0d68, 0x3ff3, 0x2e7a,
     0xe70e, 0xf687, 0xc41c, 0xd595, 0xa12a, 0xb0a3, 0x8238, 0x93b1,
     0x6b46, 0x7acf, 0x4854, 0x59dd, 0x2d62, 0x3ceb, 0x0e70, 0x1ff9,
     0xf78f, 0xe606, 0xd49d, 0xc514, 0xb1ab, 0xa022, 0x92b9, 0x8330,
     0x7bc7, 0x6a4e, 0x58d5, 0x495c, 0x3de3, 0x2c6a, 0x1ef1, 0x0f78]"

definition crc_octet :: "u16 \<Rightarrow> byte \<Rightarrow> u16" where
  "crc_octet crc b = drop_bit 8 crc XOR Crc16Table ! unat ((crc XOR ucast b) AND 0xff)"

fun Crc16 :: "u16 \<Rightarrow> byte list \<Rightarrow> u16" where
  "Crc16 crc [] = crc"
| "Crc16 crc (b # bs) = Crc16 (crc_octet crc b) bs"

text \<open>The same by the polynomial, a bit at a time.\<close>

definition crc_bit :: "u16 \<Rightarrow> u16" where
  "crc_bit c = (if bit c 0 then drop_bit 1 c XOR 0x8408 else drop_bit 1 c)"

definition crc_reference :: "u16 \<Rightarrow> byte list \<Rightarrow> u16" where
  "crc_reference crc bs = foldl (\<lambda>c b. (crc_bit ^^ 8) (c XOR ucast b)) crc bs"

text \<open>A step is linear, so the table is determined by its entries at the powers of two: it doubles
  with each of them.\<close>

lemma crc_bit_xor: "crc_bit (x XOR y) = crc_bit x XOR crc_bit y"
  by (simp add: crc_bit_def bit_simps drop_bit_xor xor.assoc xor.left_commute xor.commute)

lemma crc_steps_xor: "(crc_bit ^^ n) (x XOR y) = (crc_bit ^^ n) x XOR (crc_bit ^^ n) y"
  by (induction n) (simp_all add: crc_bit_xor)

definition doubled :: "u16 \<Rightarrow> u16 list \<Rightarrow> u16 list" where
  "doubled v xs = xs @ map (\<lambda>x. v XOR x) xs"

lemma crc_table_doubles:
  assumes "k < 16"
  shows "map (\<lambda>i. (crc_bit ^^ n) (of_nat i)) [0..<2 ^ Suc k] =
    doubled ((crc_bit ^^ n) (2 ^ k)) (map (\<lambda>i. (crc_bit ^^ n) (of_nat i)) [0..<2 ^ k])"
proof -
  have add: "(2 ^ k :: u16) + of_nat i = 2 ^ k XOR of_nat i" if "i < 2 ^ k" for i
  proof (rule disjunctive_add_eq_xor, rule bit_word_eqI)
    fix j
    have "\<not> bit i k" using that by (simp add: bit_iff_odd)
    then show "bit ((2 ^ k :: u16) AND of_nat i) j = bit (0 :: u16) j"
      by (auto simp: bit_simps)
  qed
  have "(crc_bit ^^ n) (of_nat i) = (crc_bit ^^ n) (2 ^ k) XOR (crc_bit ^^ n) (of_nat (i - 2 ^ k))"
    if "i < 2 * 2 ^ k" "2 ^ k \<le> i" for i
  proof -
    have "2 ^ k XOR of_nat (i - 2 ^ k) = (of_nat i :: u16)"
      using add [of "i - 2 ^ k"] that by (simp add: of_nat_diff)
    then show ?thesis by (simp add: crc_steps_xor [symmetric])
  qed
  then show ?thesis
    by (intro nth_equalityI) (auto simp: doubled_def nth_append not_less)
qed

lemma crc_table_built:
  "Crc16Table = doubled 0x8408 (doubled 0x4204 (doubled 0x2102 (doubled 0x1081 (doubled 0x8C48
     (doubled 0x4624 (doubled 0x2312 (doubled 0x1189 [0])))))))"
  by (simp add: doubled_def Crc16Table_def)

lemma crc_powers:
  "(crc_bit ^^ 8) 1 = 0x1189" "(crc_bit ^^ 8) 2 = 0x2312" "(crc_bit ^^ 8) 4 = 0x4624"
  "(crc_bit ^^ 8) 8 = 0x8C48" "(crc_bit ^^ 8) 16 = 0x1081" "(crc_bit ^^ 8) 32 = 0x2102"
  "(crc_bit ^^ 8) 64 = 0x4204" "(crc_bit ^^ 8) 128 = 0x8408" "(crc_bit ^^ 8) 0 = 0"
  by code_simp+

lemma crc_table: "Crc16Table = map (\<lambda>i. (crc_bit ^^ 8) (of_nat i)) [0..<256]"
proof -
  define T where "T k = map (\<lambda>i. (crc_bit ^^ 8) (of_nat i)) [0..<2 ^ k]" for k
  have step: "T (Suc k) = doubled ((crc_bit ^^ 8) (2 ^ k)) (T k)" if "k < 16" for k
    unfolding T_def by (rule crc_table_doubles [OF that])
  have "T 0 = [0]" by (simp add: T_def crc_powers)
  then have "T 1 = doubled 0x1189 [0]" using step [of 0] by (simp add: crc_powers)
  then have "T 2 = doubled 0x2312 (doubled 0x1189 [0])"
    using step [of 1] by (simp add: crc_powers numeral_2_eq_2)
  then have "T 3 = doubled 0x4624 (doubled 0x2312 (doubled 0x1189 [0]))"
    using step [of 2] by (simp add: crc_powers)
  then have "T 4 = doubled 0x8C48 (doubled 0x4624 (doubled 0x2312 (doubled 0x1189 [0])))"
    using step [of 3] by (simp add: crc_powers)
  then have "T 5 = doubled 0x1081 (doubled 0x8C48 (doubled 0x4624 (doubled 0x2312 (doubled 0x1189 [0]))))"
    using step [of 4] by (simp add: crc_powers)
  then have "T 6 = doubled 0x2102 (doubled 0x1081 (doubled 0x8C48 (doubled 0x4624 (doubled 0x2312
      (doubled 0x1189 [0])))))"
    using step [of 5] by (simp add: crc_powers)
  then have "T 7 = doubled 0x4204 (doubled 0x2102 (doubled 0x1081 (doubled 0x8C48 (doubled 0x4624
      (doubled 0x2312 (doubled 0x1189 [0]))))))"
    using step [of 6] by (simp add: crc_powers)
  then have "T 8 = Crc16Table" using step [of 7] by (simp add: crc_powers crc_table_built)
  then show ?thesis by (simp add: T_def)
qed

lemma crc_octet_reference: "crc_octet c b = (crc_bit ^^ 8) (c XOR ucast b)"
proof -
  define x where "x = c XOR ucast b"
  have shift: "(crc_bit ^^ n) (y AND NOT (mask 8)) = drop_bit n (y AND NOT (mask 8))" if "n \<le> 8" for n y
    using that
  proof (induction n)
    case (Suc n)
    then have "\<not> bit (drop_bit n (y AND NOT (mask 8))) 0" by (simp add: bit_simps)
    with Suc show ?case by (simp add: crc_bit_def)
  qed simp
  have split: "x = (x AND 0xff) XOR (x AND NOT (mask 8))"
    by (rule bit_word_eqI) (auto simp: bit_simps mask_eq_exp_minus_1)
  have "(crc_bit ^^ 8) x = (crc_bit ^^ 8) (x AND 0xff) XOR drop_bit 8 (x AND NOT (mask 8))"
    by (subst split) (simp only: crc_steps_xor shift)
  also have "(crc_bit ^^ 8) (x AND 0xff) = Crc16Table ! unat (x AND 0xff)"
  proof -
    have "x AND 0xff \<le> 0xff" by (rule word_and_le1)
    then have "unat (x AND 0xff) \<le> 255" by (simp add: word_le_nat_alt)
    then show ?thesis by (simp add: crc_table)
  qed
  also have "drop_bit 8 (x AND NOT (mask 8)) = drop_bit 8 c"
    by (rule bit_word_eqI) (auto simp: x_def bit_simps dest: bit_imp_le_length)
  finally show ?thesis by (simp add: crc_octet_def x_def xor.commute)
qed

text \<open>The complement of the value at the end of a frame, low octet first, gives the same value
  for every frame.\<close>

definition fcs_bytes :: "u16 \<Rightarrow> byte list" where
  "fcs_bytes fcs = [ucast fcs, ucast (drop_bit 8 fcs)]"

lemma Crc16_append [simp]: "Crc16 c (xs @ ys) = Crc16 (Crc16 c xs) ys"
  by (induction c xs rule: Crc16.induct) simp_all

lemma crc_residue: "Crc16 c (fcs_bytes (NOT c)) = 0xf0b8"
proof -
  have ff: "0xff = (mask 8 :: u16)" by (simp add: mask_eq_exp_minus_1)
  have lo: "(c XOR ucast (ucast (NOT c) :: byte)) AND 0xff = 0xff"
    unfolding ff by (rule bit_word_eqI) (auto simp: bit_simps)
  have "((drop_bit 8 c XOR k) XOR ucast (ucast (drop_bit 8 (NOT c)) :: byte)) AND mask 8
      = mask 8 XOR (k AND mask 8)" for k
    by (rule bit_word_eqI) (auto simp: bit_simps)
  then have hi: "((drop_bit 8 c XOR 0x0f78) XOR ucast (ucast (drop_bit 8 (NOT c)) :: byte)) AND 0xff
      = 0xff XOR (0x0f78 AND 0xff)" unfolding ff .
  have "drop_bit 8 (drop_bit 8 c) = 0"
    by (rule bit_word_eqI) (auto simp: bit_simps dest: bit_imp_le_length)
  then have drop: "drop_bit 8 (drop_bit 8 c XOR 0x0f78) = 0x000f" by (simp add: drop_bit_xor)
  have "crc_octet c (ucast (NOT c)) = drop_bit 8 c XOR 0x0f78"
    unfolding crc_octet_def lo by (simp add: Crc16Table_def)
  moreover have "crc_octet (drop_bit 8 c XOR 0x0f78) (ucast (drop_bit 8 (NOT c))) = 0xf0b8"
    unfolding crc_octet_def hi drop by (simp add: Crc16Table_def)
  ultimately show ?thesis by (simp add: fcs_bytes_def)
qed

section \<open>State\<close>

record pred1_stats =
  FramesPlain :: "64 word"
  FramesComp :: "64 word"
  FramesUncomp :: "64 word"
  InOctets :: "64 word"
  OutOctets :: "64 word"
  Errors :: "64 word"

record pred1info =
  iHash :: u16
  oHash :: u16
  InputGuessTable :: "u16 \<Rightarrow> byte"
  OutputGuessTable :: "u16 \<Rightarrow> byte"
  recv_stats :: pred1_stats
  xmit_stats :: pred1_stats

datatype comp_dir = COMP_DIR_XMIT | COMP_DIR_RECV

definition stats_zero :: pred1_stats where
  "stats_zero = \<lparr>FramesPlain = 0, FramesComp = 0, FramesUncomp = 0, InOctets = 0, OutOctets = 0,
     Errors = 0\<rparr>"

text \<open>\<open>Malloc\<close> clears what it allocates.\<close>

definition Pred1Init :: "comp_dir \<Rightarrow> pred1info \<Rightarrow> pred1info" where
  "Pred1Init dir p = (case dir of
     COMP_DIR_XMIT \<Rightarrow> p\<lparr>oHash := 0, OutputGuessTable := (\<lambda>_. 0)\<rparr>
   | COMP_DIR_RECV \<Rightarrow> p\<lparr>iHash := 0, InputGuessTable := (\<lambda>_. 0)\<rparr>)"

definition Pred1Cleanup :: "comp_dir \<Rightarrow> pred1info \<Rightarrow> pred1info" where
  "Pred1Cleanup dir p = (case dir of
     COMP_DIR_XMIT \<Rightarrow> p\<lparr>xmit_stats := stats_zero\<rparr>
   | COMP_DIR_RECV \<Rightarrow> p\<lparr>recv_stats := stats_zero\<rparr>)"

definition Pred1RecvResetReq :: "pred1info \<Rightarrow> pred1info" where
  "Pred1RecvResetReq p = (Pred1Init COMP_DIR_XMIT p)
     \<lparr>xmit_stats := (xmit_stats p)\<lparr>Errors := Errors (xmit_stats p) + 1\<rparr>\<rparr>"

definition Pred1SendResetReq :: "pred1info \<Rightarrow> pred1info" where
  "Pred1SendResetReq = Pred1Init COMP_DIR_RECV"

definition Pred1RecvResetAck :: "pred1info \<Rightarrow> pred1info" where
  "Pred1RecvResetAck = Pred1Init COMP_DIR_RECV"

definition Pred1SubtractBloat :: "int \<Rightarrow> int" where
  "Pred1SubtractBloat sz = sz - 4"

section \<open>Compressing\<close>

text \<open>A table and its hash.\<close>

type_synonym guess = "(u16 \<Rightarrow> byte) \<times> u16"

definition hash_step :: "u16 \<Rightarrow> byte \<Rightarrow> u16" where
  "hash_step h x = push_bit 4 h XOR ucast x"

text \<open>The octets of one flag octet: the state, the flags, the octets written and those left.\<close>

fun compress_octets ::
  "nat \<Rightarrow> guess \<Rightarrow> byte list \<Rightarrow> byte \<Rightarrow> byte list \<Rightarrow> guess \<times> byte \<times> byte list \<times> byte list"
where
  "compress_octets i g [] flags out = (g, flags, out, [])"
| "compress_octets i (t, h) (x # xs) flags out =
     (if 8 \<le> i then ((t, h), flags, out, x # xs)
      else if t h = x
      then compress_octets (i + 1) (t, hash_step h x) xs (flags OR push_bit i 1) out
      else compress_octets (i + 1) (t(h := x), hash_step h x) xs flags (out @ [x]))"

lemma compress_octets_rest:
  "compress_octets i g xs flags out = (g', flags', out', rest) \<Longrightarrow> length rest \<le> length xs"
  by (induction i g xs flags out rule: compress_octets.induct) (auto split: if_splits)

lemma compress_octets_less:
  "compress_octets 0 g (x # xs) flags out = (g', flags', out', rest) \<Longrightarrow> length rest \<le> length xs"
  by (cases g) (auto split: if_splits dest: compress_octets_rest)

function Compress :: "guess \<Rightarrow> byte list \<Rightarrow> guess \<times> byte list" where
  "Compress g [] = (g, [])"
| "Compress g (x # xs) =
     (case compress_octets 0 g (x # xs) 0 [] of
        (g, flags, out, rest) \<Rightarrow>
          (case Compress g rest of (g, out') \<Rightarrow> (g, flags # out @ out')))"
  by pat_completeness auto
termination
  by (relation "measure (\<lambda>(g, xs). length xs)")
    (auto simp del: compress_octets.simps dest!: compress_octets_less [OF sym])

section \<open>Decompressing\<close>

text \<open>The octets of one flag octet: \<open>n\<close> of its bits are left. The result is the state, the source and
  the room left, the octets written, and whether the room ran out.\<close>

fun decompress_octets ::
  "nat \<Rightarrow> guess \<Rightarrow> byte \<Rightarrow> byte list \<Rightarrow> nat \<Rightarrow> byte list \<Rightarrow> guess \<times> byte list \<times> nat \<times> byte list \<times> bool"
where
  "decompress_octets 0 g flags src dlen out = (g, src, dlen, out, False)"
| "decompress_octets (Suc n) (t, h) flags src dlen out =
     (if dlen = 0 then ((t, h), src, dlen, out, True)
      else if bit flags (7 - n)
      then decompress_octets n (t, hash_step h (t h)) flags src (dlen - 1) (out @ [t h])
      else case src of
        [] \<Rightarrow> ((t, h), [], dlen, out, False)
      | x # xs \<Rightarrow> decompress_octets n (t(h := x), hash_step h x) flags xs (dlen - 1) (out @ [x]))"

lemma decompress_octets_rest:
  "decompress_octets n g flags src dlen out = (g', rest, dlen', out', e) \<Longrightarrow> length rest \<le> length src"
  by (induction n g flags src dlen out rule: decompress_octets.induct)
    (auto split: if_splits list.splits)

text \<open>\<open>None\<close> for the \<open>-1\<close> of the code.\<close>

function Decompress :: "guess \<Rightarrow> byte list \<Rightarrow> nat \<Rightarrow> byte list \<Rightarrow> guess \<times> byte list option" where
  "Decompress g [] dlen out = (g, Some out)"
| "Decompress g (flags # src) dlen out =
     (case decompress_octets 8 g flags src dlen out of
        (g, rest, dlen, out, e) \<Rightarrow> if e then (g, None) else Decompress g rest dlen out)"
  by pat_completeness auto
termination
  by (relation "measure (\<lambda>(g, src, dlen, out). length src)")
    (auto dest!: decompress_octets_rest [OF sym])

lemma bit_flag: "j < 8 \<Longrightarrow> bit (flags OR 2 ^ j :: byte) i \<longleftrightarrow> bit flags i \<or> i = j"
  by (auto simp: bit_simps)

lemma decompress_octets_compressed:
  assumes "compress_octets i g xs flags out = (g', flags', out', rest)" "i \<le> 8"
    "\<forall>j\<ge>i. \<not> bit flags j"
  shows "\<exists>new. out' = out @ new \<and> (\<forall>j<i. bit flags' j = bit flags j) \<and>
    (\<forall>ys dlen acc. length xs - length rest \<le> dlen \<longrightarrow>
       (length xs - length rest < 8 - i \<longrightarrow> ys = [] \<and> length xs - length rest < dlen) \<longrightarrow>
       decompress_octets (8 - i) g flags' (new @ ys) dlen acc =
         (g', ys, dlen - (length xs - length rest), acc @ take (length xs - length rest) xs, False))"
  using assms
proof (induction i g xs flags out rule: compress_octets.induct)
  case (1 i g flags out)
  then show ?case by (cases "8 - i"; cases g) (auto intro!: exI [of _ "[]"])
next
  case (2 i t h x xs flags out)
  show ?case
  proof (cases "8 \<le> i")
    case True
    with 2 show ?thesis by auto
  next
    case False
    then obtain n where n: "8 - i = Suc n" "8 - (i + 1) = n" "7 - n = i"
      by (intro that [of "7 - i"]) auto
    show ?thesis
    proof (cases "t h = x")
      case True
      let ?flags = "flags OR push_bit i 1"
      have run: "compress_octets (i + 1) (t, hash_step h x) xs ?flags out = (g', flags', out', rest)"
        using 2(3) False True by simp
      have rest: "length rest \<le> length xs" using compress_octets_rest [OF run] .
      obtain new where new: "out' = out @ new" "\<forall>j<i + 1. bit flags' j = bit ?flags j"
        and dec: "\<And>ys dlen acc. length xs - length rest \<le> dlen \<Longrightarrow>
          (length xs - length rest < n \<Longrightarrow> ys = [] \<and> length xs - length rest < dlen) \<Longrightarrow>
          decompress_octets n (t, hash_step h x) flags' (new @ ys) dlen acc =
            (g', ys, dlen - (length xs - length rest), acc @ take (length xs - length rest) xs, False)"
        using 2(1) [OF False True run] False 2(5) n(2) by (auto simp: bit_flag)
      have "bit flags' i" using new(2) False by (simp add: bit_flag)
      then show ?thesis
        using new rest dec dec [where ys = "[]"] n True False
        by (intro exI [of _ new]) (auto simp: bit_flag Suc_diff_le)
    next
      case neq: False
      have run: "compress_octets (i + 1) (t(h := x), hash_step h x) xs flags (out @ [x])
          = (g', flags', out', rest)"
        using 2(3) False neq by simp
      have rest: "length rest \<le> length xs" using compress_octets_rest [OF run] .
      obtain new where new: "out' = (out @ [x]) @ new" "\<forall>j<i + 1. bit flags' j = bit flags j"
        and dec: "\<And>ys dlen acc. length xs - length rest \<le> dlen \<Longrightarrow>
          (length xs - length rest < n \<Longrightarrow> ys = [] \<and> length xs - length rest < dlen) \<Longrightarrow>
          decompress_octets n (t(h := x), hash_step h x) flags' (new @ ys) dlen acc =
            (g', ys, dlen - (length xs - length rest), acc @ take (length xs - length rest) xs, False)"
        using 2(2) [OF False neq run] False 2(5) n(2) by auto
      have "\<not> bit flags' i" using new(2) 2(5) by simp
      then show ?thesis
        using new rest dec dec [where ys = "[]"] n neq
        by (intro exI [of _ "x # new"]) (auto simp: Suc_diff_le)
    qed
  qed
qed

lemma compress_octets_takes:
  "compress_octets i g xs flags out = (g', flags', out', rest) \<Longrightarrow>
     rest = drop (8 - i) xs \<and> length out' \<le> length out + min (8 - i) (length xs)"
proof (induction i g xs flags out rule: compress_octets.induct)
  case (2 i t h x xs flags out)
  show ?case
  proof (cases "8 \<le> i")
    case False
    then have "8 - i = Suc (7 - i)" by simp
    with 2 False show ?thesis by (auto split: if_splits)
  qed (use 2 in auto)
qed simp

lemma Decompress_Compress:
  "Compress g xs = (g', out) \<Longrightarrow> length xs \<le> dlen \<Longrightarrow> 8 dvd dlen \<Longrightarrow>
     Decompress g out dlen acc = (g', Some (acc @ xs))"
proof (induction g xs arbitrary: g' out dlen acc rule: Compress.induct)
  case (2 g x xs)
  let ?xs = "x # xs"
  obtain g1 flags new rest where run: "compress_octets 0 g ?xs 0 [] = (g1, flags, new, rest)"
    by (metis prod_cases4)
  obtain out2 where more: "Compress g1 rest = (g', out2)" "out = flags # new @ out2"
    using 2(2) by (auto simp: run split: prod.splits)
  have rest: "rest = drop 8 ?xs" using compress_octets_takes [OF run] by simp
  have dvd: "8 \<le> dlen" using 2(3,4) by (cases dlen) (auto dest: dvd_imp_le)
  define n where "n = length ?xs - length rest"
  have n: "n = min 8 (length ?xs)" by (auto simp: n_def rest)
  have taken: "take n ?xs @ rest = ?xs" by (simp add: n rest min_def)
  have "n < 8 \<Longrightarrow> out2 = []" using more(1) n by (auto simp: rest min_def split: if_splits)
  moreover have "n \<le> dlen" "n < 8 \<Longrightarrow> n < dlen" using 2(3) dvd by (auto simp: n)
  ultimately have "decompress_octets 8 g flags (new @ out2) dlen acc
      = (g1, out2, dlen - n, acc @ take n ?xs, False)"
    using decompress_octets_compressed [OF run] unfolding n_def [symmetric] by auto
  then have step: "Decompress g out dlen acc = Decompress g1 out2 (dlen - n) (acc @ take n ?xs)"
    by (simp add: more(2))
  show ?case
  proof (cases "rest = []")
    case True
    with more(1) taken show ?thesis unfolding step by simp
  next
    case False
    then have "n = 8" "length rest \<le> dlen - n" "8 dvd dlen - n"
      using 2(3,4) dvd by (auto simp: n rest dvd_diff_nat)
    then show ?thesis
      using 2(1) [OF run [symmetric] refl refl more(1)] taken unfolding step by simp
  qed
qed simp

lemma Compress_length: "length (snd (Compress g xs)) \<le> length xs + (length xs + 7) div 8"
proof (induction g xs rule: Compress.induct)
  case (2 g x xs)
  obtain g1 flags new rest where run: "compress_octets 0 g (x # xs) 0 [] = (g1, flags, new, rest)"
    by (metis prod_cases4)
  have t: "rest = drop 8 (x # xs)" "length new \<le> min 8 (length (x # xs))"
    using compress_octets_takes [OF run] by simp_all
  have "length (snd (Compress g1 rest)) \<le> length rest + (length rest + 7) div 8"
    using 2(1) [OF run [symmetric] refl refl] .
  with t show ?case
    by (cases "length xs < 8") (auto simp: run split: prod.splits)
qed simp

section \<open>Packets\<close>

definition PRED1_DECOMP_BUF_SIZE :: nat where "PRED1_DECOMP_BUF_SIZE = 4096"

definition PRED1_MAX_BLOWUP :: "nat \<Rightarrow> nat" where "PRED1_MAX_BLOWUP n = n * 9 div 8 + 24"

text \<open>The octets of a frame that is not compressed are copied and learnt one by one: \<open>src\<close> is what is
  left to read from, \<open>room\<close> what is left to write to, \<open>out\<close> what was written. The code has neither
  bound; the result says which of the two ends it runs over, if any.\<close>

datatype sync_fault = ReadOutside | WriteOutside

fun SyncTable ::
  "guess \<Rightarrow> byte list \<Rightarrow> nat \<Rightarrow> nat \<Rightarrow> byte list \<Rightarrow> sync_fault + guess \<times> byte list \<times> byte list"
where
  "SyncTable g src room 0 out = Inr (g, src, out)"
| "SyncTable (t, h) [] room (Suc len) out = Inl ReadOutside"
| "SyncTable (t, h) (x # src) room (Suc len) out =
     (let t = (if t h \<noteq> x then t(h := x) else t) in
      if room = 0 then Inl WriteOutside
      else SyncTable (t, hash_step h x) src (room - 1) len (out @ [x]))"

text \<open>What it does to the table, when it does not run over.\<close>

fun sync_octets :: "guess \<Rightarrow> byte list \<Rightarrow> guess" where
  "sync_octets g [] = g"
| "sync_octets (t, h) (x # xs) = sync_octets (t(h := x), hash_step h x) xs"

lemma SyncTable_runs:
  "SyncTable g src room n out =
     (if n \<le> length src \<and> n \<le> room then Inr (sync_octets g (take n src), drop n src, out @ take n src)
      else if length src \<le> room then Inl ReadOutside else Inl WriteOutside)"
proof (induction g src room n out rule: SyncTable.induct)
  case (3 t h x src room len out)
  have "(if t h \<noteq> x then t(h := x) else t) = t(h := x)" by auto
  with 3 show ?case by (cases room) (simp_all add: Let_def)
qed simp_all

definition pred1_header :: "nat \<Rightarrow> byte list" where
  "pred1_header n = [of_nat (n div 256) AND 0x7f, of_nat n]"

definition Pred1Compress :: "u16 \<Rightarrow> byte list \<Rightarrow> pred1info \<Rightarrow> byte list \<times> pred1info" where
  "Pred1Compress initfcs plain p =
     (let orglen = length plain; hd = pred1_header orglen;
          fcs = NOT (Crc16 (Crc16 initfcs hd) plain);
          (g, out) = Compress (OutputGuessTable p, oHash p) plain;
          comp = (if length out < orglen then [hd ! 0 OR 0x80, hd ! 1] @ out else hd @ plain)
            @ fcs_bytes fcs;
          st = xmit_stats p
      in (comp, p\<lparr>OutputGuessTable := fst g, oHash := snd g,
           xmit_stats := (if length out < orglen
             then st\<lparr>FramesComp := FramesComp st + 1\<rparr> else st\<lparr>FramesUncomp := FramesUncomp st + 1\<rparr>)
             \<lparr>InOctets := InOctets st + of_nat orglen, FramesPlain := FramesPlain st + 1,
              OutOctets := OutOctets st + of_nat (length comp)\<rparr>\<rparr>))"

text \<open>The octets from the start of the decompressor's buffer to the end of its allocation.\<close>

definition pred1_room :: nat where
  "pred1_room = nat (mb_osize 4096 - (mb_osize 4096 - 4096) div 2)"

text \<open>An error counts, and a reset is asked for.\<close>

definition pred1_error :: "pred1info \<Rightarrow> (byte list option \<times> pred1info) option" where
  "pred1_error p = Some (None, Pred1SendResetReq
     (p\<lparr>recv_stats := (recv_stats p)\<lparr>Errors := Errors (recv_stats p) + 1\<rparr>\<rparr>))"

text \<open>The check of a frame whose data and trailing octets are known.\<close>

definition pred1_check ::
  "u16 \<Rightarrow> u16 \<Rightarrow> u16 \<Rightarrow> byte list \<Rightarrow> byte list \<Rightarrow> pred1info \<Rightarrow> (byte list option \<times> pred1info) option"
where
  "pred1_check initfcs goodfcs len uncomp trailer p =
     (if Crc16 (Crc16 (Crc16 initfcs (be16 len)) uncomp) trailer \<noteq> goodfcs then pred1_error p
      else Some (Some uncomp,
        p\<lparr>recv_stats := (recv_stats p)\<lparr>FramesPlain := FramesPlain (recv_stats p) + 1,
            OutOctets := OutOctets (recv_stats p) + ucast len\<rparr>\<rparr>))"

text \<open>\<open>None\<close> is an access outside the packet or the allocation. A compressed frame of less than four
  octets is one: \<open>orglen - 4\<close> is negative, and the loop of \<open>Decompress\<close>, which runs while it is
  not zero, reads on behind the packet.\<close>

definition Pred1Decompress ::
  "u16 \<Rightarrow> u16 \<Rightarrow> byte list \<Rightarrow> pred1info \<Rightarrow> (byte list option \<times> pred1info) option"
where
  "Pred1Decompress initfcs goodfcs frame p =
     (let orglen = length frame in
      if orglen < 2 then None
      else
        (let hd = of_be16 (frame ! 0) (frame ! 1); len = hd AND 0x7fff; n = unat len;
             st = recv_stats p; st = st\<lparr>InOctets := InOctets st + of_nat orglen\<rparr>
         in if bit hd 15 then
              (let p = p\<lparr>recv_stats := st\<lparr>FramesComp := FramesComp st + 1\<rparr>\<rparr> in
               if orglen < 4 then None
               else case Decompress (InputGuessTable p, iHash p) (take (orglen - 4) (drop 2 frame))
                           PRED1_DECOMP_BUF_SIZE [] of
                 (g, out) \<Rightarrow>
                   (let p = p\<lparr>InputGuessTable := fst g, iHash := snd g\<rparr> in
                    case out of
                         None \<Rightarrow> pred1_error p
                       | Some xs \<Rightarrow>
                           (if len \<noteq> of_nat (length xs) then pred1_error p
                            else pred1_check initfcs goodfcs len xs (drop (orglen - 2) frame) p)))
            else
              (let p = p\<lparr>recv_stats := st\<lparr>FramesUncomp := FramesUncomp st + 1\<rparr>\<rparr> in
               case SyncTable (InputGuessTable p, iHash p) (drop 2 frame) pred1_room n [] of
                 Inl _ \<Rightarrow> None
               | Inr (g, rest, xs) \<Rightarrow>
                   (if length rest < 2 then None
                    else pred1_check initfcs goodfcs len xs (take 2 rest)
                           (p\<lparr>InputGuessTable := fst g, iHash := snd g\<rparr>)))))"

section \<open>Sender and receiver\<close>

text \<open>The receiver's table is the sender's.\<close>

definition pred1_synced :: "pred1info \<Rightarrow> pred1info \<Rightarrow> bool" where
  "pred1_synced tx rx = (InputGuessTable rx = OutputGuessTable tx \<and> iHash rx = oHash tx)"

lemma compress_octets_syncs:
  "compress_octets i g xs flags out = (g', flags', out', rest) \<Longrightarrow> sync_octets g xs = sync_octets g' rest"
proof (induction i g xs flags out rule: compress_octets.induct)
  case (2 i t h x xs flags out)
  then show ?case by (auto split: if_splits)
qed simp

lemma Compress_syncs: "sync_octets g xs = fst (Compress g xs)"
proof (induction g xs rule: Compress.induct)
  case (2 g x xs)
  obtain g1 flags new rest where run: "compress_octets 0 g (x # xs) 0 [] = (g1, flags, new, rest)"
    by (metis prod_cases4)
  show ?case
    using 2(1) [OF run [symmetric] refl refl] compress_octets_syncs [OF run]
    by (simp add: run split: prod.splits)
qed simp

lemma small_bit: "n < 2 ^ m \<Longrightarrow> m \<le> j \<Longrightarrow> \<not> bit (n :: nat) j"
  by (metis bit_take_bit_iff not_le take_bit_nat_eq_self)

lemma pred1_header_be16:
  assumes "n \<le> 4096"
  shows "pred1_header n = be16 (of_nat n)" "bit (of_nat n :: u16) 15 = False"
    "of_nat n AND 0x7fff = (of_nat n :: u16)"
proof -
  have small: "\<not> bit n j" if "13 \<le> j" for j using assms that by (intro small_bit [of n 13]) simp_all
  then have big: "bit n j \<Longrightarrow> j < 13" for j using not_le by blast
  have "n div 256 = drop_bit 8 n" by (simp add: drop_bit_eq_div)
  then have "(of_nat (n div 256) AND 0x7f :: byte) = of_nat (drop_bit 8 n) AND mask 7"
    by (simp add: mask_eq_exp_minus_1)
  also have "\<dots> = ucast (drop_bit 8 (of_nat n :: u16))"
    by (rule bit_word_eqI) (auto simp: bit_simps dest: big)
  finally have "(of_nat (n div 256) AND 0x7f :: byte) = ucast (drop_bit 8 (of_nat n :: u16))" .
  moreover have "(of_nat n :: byte) = ucast (of_nat n :: u16)"
    by (rule bit_word_eqI) (auto simp: bit_simps)
  ultimately show "pred1_header n = be16 (of_nat n)" by (simp add: pred1_header_def be16_def)
  show "bit (of_nat n :: u16) 15 = False" by (simp add: bit_simps small)
  have "of_nat n AND mask 15 = (of_nat n :: u16)"
    by (rule bit_word_eqI) (auto simp: bit_simps dest: big)
  then show "of_nat n AND 0x7fff = (of_nat n :: u16)" by (simp add: mask_eq_exp_minus_1)
qed

lemma pred1_header_flag:
  fixes w :: u16
  assumes "\<not> bit w 15"
  shows "of_be16 (be16 w ! 0 OR 0x80) (be16 w ! 1) = w OR 0x8000" "bit (w OR 0x8000) 15"
    "(w OR 0x8000) AND 0x7fff = w AND 0x7fff"
proof -
  have c: "(0x8000 :: u16) = push_bit 15 1" "(0x7fff :: u16) = mask 15"
    by (simp_all add: push_bit_eq_mult mask_eq_exp_minus_1)
  have "push_bit 8 (ucast (ucast (drop_bit 8 w) OR 0x80 :: byte)) =
      push_bit 8 (ucast (ucast (drop_bit 8 w) :: byte)) OR (0x8000 :: u16)"
    by (simp add: unsigned_or_eq push_bit_or)
  then have "of_be16 (be16 w ! 0 OR 0x80) (be16 w ! 1)
      = of_be16 (ucast (drop_bit 8 w)) (ucast w) OR 0x8000"
    by (simp add: of_be16_def be16_def ac_simps)
  then show "of_be16 (be16 w ! 0 OR 0x80) (be16 w ! 1) = w OR 0x8000" by simp
  show "bit (w OR 0x8000) 15" unfolding c bit_or_iff bit_push_bit_iff by simp
  have "push_bit 15 1 AND mask 15 = (0 :: u16)"
    by (rule bit_word_eqI) (simp only: bit_and_iff bit_push_bit_iff bit_mask_iff bit_0_eq, auto)
  then show "(w OR 0x8000) AND 0x7fff = w AND 0x7fff"
    unfolding c by (simp only: bit.conj_disj_distrib2 or.right_neutral)
qed

text \<open>Frames that carry the check of their data pass it.\<close>

lemma pred1_check_good:
  "pred1_check initfcs 0xf0b8 len xs (fcs_bytes (NOT (Crc16 (Crc16 initfcs (be16 len)) xs))) p =
    Some (Some xs, p\<lparr>recv_stats := (recv_stats p)\<lparr>FramesPlain := FramesPlain (recv_stats p) + 1,
            OutOctets := OutOctets (recv_stats p) + ucast len\<rparr>\<rparr>)"
  by (simp add: pred1_check_def crc_residue)

lemma pred1_one_packet:
  assumes "length plain \<le> 4096" "pred1_synced tx rx"
  shows "\<exists>rx'. Pred1Decompress initfcs 0xf0b8 (fst (Pred1Compress initfcs plain tx)) rx =
      Some (Some plain, rx') \<and> pred1_synced (snd (Pred1Compress initfcs plain tx)) rx'"
proof -
  define n where "n = length plain"
  define w where "w = (of_nat n :: u16)"
  obtain g out where c: "Compress (OutputGuessTable tx, oHash tx) plain = (g, out)"
    by (metis surj_pair)
  define fcs where "fcs = fcs_bytes (NOT (Crc16 (Crc16 initfcs (be16 w)) plain))"
  have hd: "pred1_header n = be16 w" "\<not> bit w 15" "w AND 0x7fff = w" "unat w = n"
    using pred1_header_be16 [of n] assms(1) by (simp_all add: n_def w_def unat_of_nat_small)
  have len: "length fcs = 2" "n \<le> 4096" using assms(1) by (simp_all add: fcs_def fcs_bytes_def n_def)
  have rx: "(InputGuessTable rx, iHash rx) = (OutputGuessTable tx, oHash tx)"
    using assms(2) by (simp add: pred1_synced_def)
  have state: "OutputGuessTable (snd (Pred1Compress initfcs plain tx)) = fst g"
    "oHash (snd (Pred1Compress initfcs plain tx)) = snd g"
    by (simp_all add: Pred1Compress_def Let_def c)
  have frame: "fst (Pred1Compress initfcs plain tx) = (if length out < n
      then [be16 w ! 0 OR 0x80, be16 w ! 1] @ out else be16 w @ plain) @ fcs"
    by (simp add: Pred1Compress_def Let_def c n_def [symmetric] hd(1) fcs_def)
  show ?thesis
  proof (cases "length out < n")
    case True
    have dec: "Decompress (OutputGuessTable tx, oHash tx) out 4096 [] = (g, Some plain)"
      using Decompress_Compress [OF c, of 4096 "[]"] len(2) by (simp add: n_def)
    have "fst (Pred1Compress initfcs plain tx) = (be16 w ! 0 OR 0x80) # be16 w ! 1 # out @ fcs"
      using True frame by simp
    then show ?thesis
      using len hd pred1_header_flag [OF hd(2)] dec rx
      by (simp add: Pred1Decompress_def Let_def PRED1_DECOMP_BUF_SIZE_def w_def [symmetric]
          n_def [symmetric] pred1_check_good [of initfcs w plain, folded fcs_def] pred1_synced_def
          state del: of_nat_numeral)
  next
    case False
    have sync: "sync_octets (OutputGuessTable tx, oHash tx) plain = g"
      using Compress_syncs [of "(OutputGuessTable tx, oHash tx)" plain] c by simp
    have room: "n \<le> pred1_room"
      using len(2) by (simp add: pred1_room_def mb_osize_def mb_hdr_def)
    have "fst (Pred1Compress initfcs plain tx) = be16 w ! 0 # be16 w ! 1 # plain @ fcs"
      using False frame by (simp add: be16_def)
    then show ?thesis
      using len hd sync rx room
      by (simp add: Pred1Decompress_def SyncTable_runs Let_def w_def [symmetric] be16_def
          n_def [symmetric] pred1_check_good [of initfcs w plain, folded fcs_def] pred1_synced_def
          state)
  qed
qed

text \<open>A sender and a receiver of a sequence of packets.\<close>

fun pred1_send :: "u16 \<Rightarrow> pred1info \<Rightarrow> byte list list \<Rightarrow> byte list list" where
  "pred1_send initfcs tx [] = []"
| "pred1_send initfcs tx (x # xs) =
     (case Pred1Compress initfcs x tx of (frame, tx) \<Rightarrow> frame # pred1_send initfcs tx xs)"

fun pred1_receive :: "u16 \<Rightarrow> u16 \<Rightarrow> pred1info \<Rightarrow> byte list list \<Rightarrow> byte list option list option" where
  "pred1_receive initfcs goodfcs rx [] = Some []"
| "pred1_receive initfcs goodfcs rx (c # cs) =
     (case Pred1Decompress initfcs goodfcs c rx of
        None \<Rightarrow> None
      | Some (r, rx) \<Rightarrow> map_option ((#) r) (pred1_receive initfcs goodfcs rx cs))"

lemma pred1_room_value: "pred1_room = 4346"
  by (simp add: pred1_room_def mb_osize_def mb_hdr_def)

text \<open>The length in the header of a frame that is not compressed.\<close>

lemma plain_length:
  fixes w :: u16
  assumes "\<not> bit w 15"
  shows "w AND 0x7fff = w"
proof -
  have "j < 15" if "bit w j" for j
    using that assms bit_imp_le_length [OF that] by (cases "j = 15") auto
  then have "w AND mask 15 = w"
    by (intro bit_word_eqI) (auto simp: bit_simps)
  then show ?thesis by (simp add: mask_eq_exp_minus_1)
qed

section \<open>Properties\<close>

text \<open>C30: The frame check sequence computed through the table of 256 entries is the one that the
  polynomial of the standard defines, a bit at a time, for every message and every start value.\<close>

theorem crc16_equals_reference: "Crc16 crc bs = crc_reference crc bs"
  by (induction crc bs rule: Crc16.induct) (simp_all add: crc_reference_def crc_octet_reference)

text \<open>C29: Predictor-1 loses nothing: when sender and receiver start with the same tables, every
  sequence of packets of up to 4096 octets comes out as it went in, whatever mixture of compressed
  and plain frames the sender chose, because both sides learn the same guesses from each frame. The
  check of each frame succeeds with the good value that the standard gives.\<close>

theorem pred1_stream:
  assumes "pred1_synced tx rx" "\<forall>x \<in> set xs. length x \<le> 4096" "goodfcs = 0xf0b8"
  shows "pred1_receive initfcs goodfcs rx (pred1_send initfcs tx xs) = Some (map Some xs)"
  using assms(1,2)
proof (induction xs arbitrary: tx rx)
  case (Cons x xs)
  obtain rx' where "Pred1Decompress initfcs 0xf0b8 (fst (Pred1Compress initfcs x tx)) rx =
      Some (Some x, rx')" "pred1_synced (snd (Pred1Compress initfcs x tx)) rx'"
    using pred1_one_packet [of x tx rx initfcs] Cons.prems by auto
  then show ?case
    using Cons.IH [of "snd (Pred1Compress initfcs x tx)" rx'] Cons.prems assms(3)
    by (cases "Pred1Compress initfcs x tx") simp
qed simp

definition pred1_fresh :: pred1info where
  "pred1_fresh = Pred1Init COMP_DIR_XMIT (Pred1Init COMP_DIR_RECV
     \<lparr>iHash = 0, oHash = 0, InputGuessTable = (\<lambda>_. 0), OutputGuessTable = (\<lambda>_. 0),
      recv_stats = stats_zero, xmit_stats = stats_zero\<rparr>)"

theorem pred1_stream_witness:
  "pred1_receive 0xffff 0xf0b8 pred1_fresh
     (pred1_send 0xffff pred1_fresh [[0x21, 0x45], [], replicate 20 0, [0x21, 0x45]]) =
   Some (map Some [[0x21, 0x45], [], replicate 20 0, [0x21, 0x45]])"
  by (rule pred1_stream) (simp_all add: pred1_synced_def pred1_fresh_def Pred1Init_def)

text \<open>The compressor never writes outside the buffer it allocates for a frame: neither what it
  tries, flag octets included, nor what it sends.\<close>

theorem pred1_frames_fit:
  "2 + length (snd (Compress g plain)) + 2 \<le> PRED1_MAX_BLOWUP (length plain + 2) \<and>
   length (fst (Pred1Compress initfcs plain p)) \<le> PRED1_MAX_BLOWUP (length plain + 2)"
proof -
  have "(length plain + 2) * 9 div 8 = length plain + 2 + (length plain + 2) div 8"
    using div_mult_self1 [where b = "8 :: nat" and a = "length plain + 2" and c = "length plain + 2"]
    by (simp add: algebra_simps)
  then have room: "PRED1_MAX_BLOWUP (length plain + 2) = length plain + (length plain + 2) div 8 + 26"
    by (simp add: PRED1_MAX_BLOWUP_def)
  have fits: "2 + length (snd (Compress g' plain)) + 2 \<le> PRED1_MAX_BLOWUP (length plain + 2)" for g'
    using Compress_length [of g' plain] unfolding room by linarith
  have "length plain + 4 \<le> PRED1_MAX_BLOWUP (length plain + 2)" unfolding room by simp
  then have "length (fst (Pred1Compress initfcs plain p)) \<le> PRED1_MAX_BLOWUP (length plain + 2)"
    using fits [of "(OutputGuessTable p, oHash p)"]
    by (cases "Compress (OutputGuessTable p, oHash p) plain")
      (simp add: Pred1Compress_def Let_def fcs_bytes_def pred1_header_def)
  with fits show ?thesis by blast
qed

text \<open>C33: A fault of the decompressor: the length \<open>n\<close> a plain frame claims is compared neither with
  the packet nor with the buffer. (1) Of the frames the socket can deliver (two to 4346 octets),
  exactly those that do not hold the \<open>n\<close> octets they claim and the two of the check make it read
  behind the packet; no complete frame overruns the buffer. (2) But with any octets \<open>beyond\<close> in
  memory behind the packet, the copying loop writes behind the allocation of the buffer exactly
  when \<open>n\<close> is over 4346, given as much memory to read: six octets from the peer are enough.\<close>

theorem pred1_plain_overrun:
  assumes "2 \<le> length frame" "length frame \<le> 4346"
    "\<not> bit (of_be16 (frame ! 0) (frame ! 1)) 15" "n = unat (of_be16 (frame ! 0) (frame ! 1))"
  shows "(Pred1Decompress initfcs goodfcs frame p = None \<longleftrightarrow> length frame < n + 4) \<and>
    (SyncTable g (drop 2 frame @ beyond) pred1_room n [] = Inl WriteOutside \<longleftrightarrow>
       4346 < n \<and> 4346 < length (drop 2 frame @ beyond))"
proof -
  have n: "unat (of_be16 (frame ! 0) (frame ! 1) AND 0x7fff) = n"
    using plain_length [OF assms(3)] assms(4) by simp
  show ?thesis
    using assms(1-3) n
    by (auto simp: Pred1Decompress_def Let_def SyncTable_runs pred1_room_value pred1_check_def
        pred1_error_def)
qed

theorem pred1_plain_overrun_witness:
  "Pred1Decompress 0xffff 0xf0b8 [0x7f, 0xff, 1, 2, 3, 4] pred1_fresh = None \<and>
   SyncTable (\<lambda>_. 0, 0) (drop 2 [0x7f, 0xff, 1, 2, 3, 4] @ replicate 4343 0) pred1_room 32767 [] =
     Inl WriteOutside"
  using pred1_plain_overrun [of "[0x7f, 0xff, 1, 2, 3, 4]" 32767 "0xffff" "0xf0b8" pred1_fresh
      "(\<lambda>_. 0, 0)" "replicate 4343 0"]
  by (simp add: of_be16_def push_bit_eq_mult)

end
