(* ===== verification/Dese.thy ===== *)
theory Dese
  imports Mbuf
begin

unbundle bit_operations_syntax

text \<open>
  The two encryption types of ECP (\<open>src/src/ecp_dese.c\<close>, \<open>src/src/ecp_dese_bis.c\<close>): DES in
  cipher block chaining over 8-octet blocks, after a sequence number of two octets. DES comes from a
  library and is the record \<open>des_lib\<close>: \<open>DES_string_to_key\<close>, \<open>DES_set_key\<close>, and \<open>DES_cbc_encrypt\<close>
  on one block (whether to encrypt, the key schedule, the vector, the block; the vector is not
  updated, so the code does it). Octets of a new packet buffer that the code does not write
  are those of \<open>fill\<close>. Packets are octet lists.
\<close>

section \<open>State\<close>

record des_lib =
  DES_string_to_key :: "string \<Rightarrow> byte list"
  DES_set_key :: "byte list \<Rightarrow> byte list"
  DES_cbc_encrypt :: "bool \<Rightarrow> byte list \<Rightarrow> byte list \<Rightarrow> byte list \<Rightarrow> byte list"

text \<open>What the documentation says of it: blocks stay blocks, and decrypting undoes encrypting.\<close>

definition des_ok :: "des_lib \<Rightarrow> bool" where
  "des_ok L \<longleftrightarrow> (\<forall>ks iv b. length iv = 8 \<longrightarrow> length b = 8 \<longrightarrow>
     length (DES_cbc_encrypt L True ks iv b) = 8 \<and>
     DES_cbc_encrypt L False ks iv (DES_cbc_encrypt L True ks iv b) = b)"

record dese_stats =
  ds_FramesIn :: "64 word"
  ds_FramesOut :: "64 word"
  ds_OctetsIn :: "64 word"
  ds_OctetsOut :: "64 word"
  ds_Errors :: "64 word"

record desinfo =
  xmit_ivec :: "byte list"
  recv_ivec :: "byte list"
  xmit_seq :: u16
  recv_seq :: u16
  des_ks :: "byte list"
  des_recv_stats :: dese_stats
  des_xmit_stats :: dese_stats

datatype ecp_dir = ECP_DIR_XMIT | ECP_DIR_RECV

definition dese_stats_zero :: dese_stats where
  "dese_stats_zero = \<lparr>ds_FramesIn = 0, ds_FramesOut = 0, ds_OctetsIn = 0, ds_OctetsOut = 0, ds_Errors = 0\<rparr>"

definition DES_OVERHEAD :: nat where "DES_OVERHEAD = 2"

section \<open>Set-up\<close>

definition DesInit :: "ecp_dir \<Rightarrow> desinfo \<Rightarrow> desinfo" where
  "DesInit dir d = (case dir of
     ECP_DIR_XMIT \<Rightarrow> d\<lparr>xmit_seq := 0\<rparr> | ECP_DIR_RECV \<Rightarrow> d\<lparr>recv_seq := 0\<rparr>)"

definition DesConfigure :: "des_lib \<Rightarrow> string \<Rightarrow> desinfo \<Rightarrow> desinfo" where
  "DesConfigure L key d =
     d\<lparr>des_ks := DES_set_key L (DES_string_to_key L key), xmit_seq := 0, recv_seq := 0\<rparr>"

text \<open>\<open>size &= ~0x7\<close> on an \<open>int\<close>.\<close>

definition DesSubtractBloat :: "int \<Rightarrow> int" where
  "DesSubtractBloat sz = (sz - int DES_OVERHEAD) AND NOT 7"

definition DesCleanup :: "ecp_dir \<Rightarrow> desinfo \<Rightarrow> desinfo" where
  "DesCleanup dir d = (case dir of
     ECP_DIR_RECV \<Rightarrow> d\<lparr>des_recv_stats := dese_stats_zero\<rparr>
   | ECP_DIR_XMIT \<Rightarrow> d\<lparr>des_xmit_stats := dese_stats_zero\<rparr>)"

section \<open>Chaining\<close>

text \<open>The loops over the blocks of a packet: the vector is the last block of ciphertext.\<close>

function des_encrypt_blocks ::
  "des_lib \<Rightarrow> byte list \<Rightarrow> byte list \<Rightarrow> byte list \<Rightarrow> byte list \<times> byte list" where
  "des_encrypt_blocks L ks iv [] = ([], iv)"
| "des_encrypt_blocks L ks iv (x # xs) =
     (let c = DES_cbc_encrypt L True ks iv (take 8 (x # xs));
          (out, iv) = des_encrypt_blocks L ks c (drop 8 (x # xs))
      in (c @ out, iv))"
  by pat_completeness auto
termination by (relation "measure (\<lambda>(L, ks, iv, xs). length xs)") auto

function des_decrypt_blocks ::
  "des_lib \<Rightarrow> byte list \<Rightarrow> byte list \<Rightarrow> byte list \<Rightarrow> byte list \<times> byte list" where
  "des_decrypt_blocks L ks iv [] = ([], iv)"
| "des_decrypt_blocks L ks iv (x # xs) =
     (let p = DES_cbc_encrypt L False ks iv (take 8 (x # xs));
          (out, iv) = des_decrypt_blocks L ks (take 8 (x # xs)) (drop 8 (x # xs))
      in (p @ out, iv))"
  by pat_completeness auto
termination by (relation "measure (\<lambda>(L, ks, iv, xs). length xs)") auto

section \<open>DESE\<close>

definition roundup2 :: "nat \<Rightarrow> nat \<Rightarrow> nat" where
  "roundup2 x y = (x + (y - 1)) div y * y"

text \<open>The tail both types share: the sequence number, the encrypted octets, the statistics.\<close>

definition dese_seal :: "des_lib \<Rightarrow> nat \<Rightarrow> byte list \<Rightarrow> desinfo \<Rightarrow> byte list \<times> desinfo" where
  "dese_seal L plen body d =
     (let (out, iv) = des_encrypt_blocks L (des_ks d) (xmit_ivec d) body; st = des_xmit_stats d
      in (be16 (xmit_seq d) @ out,
          d\<lparr>xmit_seq := xmit_seq d + 1, xmit_ivec := iv,
            des_xmit_stats := st\<lparr>ds_FramesIn := ds_FramesIn st + 1,
              ds_OctetsIn := ds_OctetsIn st + of_nat plen, ds_FramesOut := ds_FramesOut st + 1,
              ds_OctetsOut := ds_OctetsOut st + of_nat (DES_OVERHEAD + length body)\<rparr>\<rparr>))"

definition DesEncrypt_dese ::
  "des_lib \<Rightarrow> (nat \<Rightarrow> byte) \<Rightarrow> byte list \<Rightarrow> desinfo \<Rightarrow> byte list \<times> desinfo" where
  "DesEncrypt_dese L fill plain d =
     (let plen = length plain; padlen = roundup2 plen 8 - plen
      in dese_seal L plen (plain @ map fill [plen..<plen + padlen]) d)"

text \<open>The checks of a received packet: its length, then its sequence number. On a wrong number the
  last block becomes the vector. \<open>body\<close> gets the decrypted octets.\<close>

definition dese_open ::
  "des_lib \<Rightarrow> byte list \<Rightarrow> (byte list \<Rightarrow> byte list) \<Rightarrow> desinfo \<Rightarrow> pkt \<times> desinfo" where
  "dese_open L cypher strip d =
     (let clen = int (length cypher) - int DES_OVERHEAD; st = des_recv_stats d;
          st = st\<lparr>ds_FramesIn := ds_FramesIn st + 1,
            ds_OctetsIn := ds_OctetsIn st + of_nat (length cypher)\<rparr>;
          bad = st\<lparr>ds_Errors := ds_Errors st + 1\<rparr> in
      if clen < 8 \<or> clen AND 7 \<noteq> 0 then (None, d\<lparr>des_recv_stats := bad\<rparr>)
      else
        (let sq = of_be16 (cypher ! 0) (cypher ! 1); body = drop DES_OVERHEAD cypher in
         if sq \<noteq> recv_seq d
         then (None, d\<lparr>recv_ivec := drop (nat clen - 8) body, recv_seq := sq + 1,
                 des_recv_stats := bad\<rparr>)
         else
           (let (out, iv) = des_decrypt_blocks L (des_ks d) (recv_ivec d) body; plain = strip out
            in (Some plain, d\<lparr>recv_seq := recv_seq d + 1, recv_ivec := iv,
                  des_recv_stats := st\<lparr>ds_FramesOut := ds_FramesOut st + 1,
                    ds_OctetsOut := ds_OctetsOut st + of_nat (length plain)\<rparr>\<rparr>))))"

definition DesDecrypt :: "des_lib \<Rightarrow> byte list \<Rightarrow> desinfo \<Rightarrow> pkt \<times> desinfo" where
  "DesDecrypt L cypher = dese_open L cypher (\<lambda>out. out)"

section \<open>DESE-bis\<close>

definition DeseBisInit :: "ecp_dir \<Rightarrow> desinfo \<Rightarrow> desinfo" where
  "DeseBisInit dir d = (case dir of
     ECP_DIR_XMIT \<Rightarrow> d\<lparr>xmit_seq := 0\<rparr> | ECP_DIR_RECV \<Rightarrow> d\<lparr>recv_seq := 0\<rparr>)"

definition DeseBisConfigure :: "des_lib \<Rightarrow> string \<Rightarrow> desinfo \<Rightarrow> desinfo" where
  "DeseBisConfigure L key d =
     d\<lparr>des_ks := DES_set_key L (DES_string_to_key L key), xmit_seq := 0, recv_seq := 0\<rparr>"

definition DeseBisSubtractBloat :: "int \<Rightarrow> int" where
  "DeseBisSubtractBloat sz = ((sz - int DES_OVERHEAD) AND NOT 7) - 1"

definition DeseBisCleanup :: "ecp_dir \<Rightarrow> desinfo \<Rightarrow> desinfo" where
  "DeseBisCleanup dir d = (case dir of
     ECP_DIR_RECV \<Rightarrow> d\<lparr>des_recv_stats := dese_stats_zero\<rparr>
   | ECP_DIR_XMIT \<Rightarrow> d\<lparr>des_xmit_stats := dese_stats_zero\<rparr>)"

text \<open>The length of the padding. A whole number of blocks is padded only when its last octet could
  be taken for padding. The octet looked at is that before the padding, which for an empty packet is
  the low octet of the sequence number.\<close>

definition bis_padlen :: "u16 \<Rightarrow> byte list \<Rightarrow> nat" where
  "bis_padlen sq plain =
     (let plen = length plain; padlen = roundup2 (plen + 1) 8 - plen;
          x = (be16 sq @ plain) ! (DES_OVERHEAD + plen - 1)
      in if padlen > 7 \<and> (x = 0 \<or> x > 8) then padlen - 8 else padlen)"

definition bis_pad :: "u16 \<Rightarrow> byte list \<Rightarrow> byte list" where
  "bis_pad sq plain = plain @ map (\<lambda>k. of_nat (k + 1)) [0..<bis_padlen sq plain]"

definition DeseBisEncrypt :: "des_lib \<Rightarrow> byte list \<Rightarrow> desinfo \<Rightarrow> byte list \<times> desinfo" where
  "DeseBisEncrypt L plain d =
     dese_seal L (length plain) (bis_pad (xmit_seq d) plain) d"

text \<open>Stripping the padding again.\<close>

definition bis_strip :: "byte list \<Rightarrow> byte list" where
  "bis_strip out =
     (let x = out ! (length out - 1)
      in if x > 0 \<and> x \<le> 8 then take (length out - unat x) out else out)"

definition DeseBisDecrypt :: "des_lib \<Rightarrow> byte list \<Rightarrow> desinfo \<Rightarrow> pkt \<times> desinfo" where
  "DeseBisDecrypt L cypher = dese_open L cypher bis_strip"

section \<open>There and back\<close>

lemma des_blocks_inverse:
  assumes "des_ok L"
  shows "8 dvd length xs \<Longrightarrow> length iv = 8 \<Longrightarrow>
    length (fst (des_encrypt_blocks L ks iv xs)) = length xs \<and>
    length (snd (des_encrypt_blocks L ks iv xs)) = 8 \<and>
    des_decrypt_blocks L ks iv (fst (des_encrypt_blocks L ks iv xs)) =
      (xs, snd (des_encrypt_blocks L ks iv xs)) \<and>
    (xs \<noteq> [] \<longrightarrow> snd (des_encrypt_blocks L ks iv xs) =
      drop (length xs - 8) (fst (des_encrypt_blocks L ks iv xs)))"
proof (induction "length xs" arbitrary: xs iv rule: less_induct)
  case less
  show ?case
  proof (cases xs)
    case (Cons x ys)
    then have len: "8 \<le> length xs" using less.prems(1) by (auto dest: dvd_imp_le)
    define c where "c = DES_cbc_encrypt L True ks iv (take 8 xs)"
    have c: "length c = 8" "DES_cbc_encrypt L False ks iv c = take 8 xs"
      using assms less.prems(2) len by (simp_all add: c_def des_ok_def)
    obtain out iv' where run: "des_encrypt_blocks L ks c (drop 8 xs) = (out, iv')" by fastforce
    have "8 dvd length (drop 8 xs)" using less.prems(1) by (simp add: dvd_diff_nat)
    then have IH: "length out = length (drop 8 xs)" "length iv' = 8"
      "des_decrypt_blocks L ks c out = (drop 8 xs, iv')"
      "drop 8 xs \<noteq> [] \<longrightarrow> iv' = drop (length (drop 8 xs) - 8) out"
      using less.hyps [of "drop 8 xs" c] c(1) len run by auto
    have enc: "des_encrypt_blocks L ks iv xs = (c @ out, iv')"
      using Cons run by (simp add: c_def Let_def)
    obtain z zs where z: "c = z # zs" using c(1) by (cases c) auto
    have "take 8 (z # zs @ out) = c" "drop 8 (z # zs @ out) = out"
      using c(1) z by simp_all
    then have "des_decrypt_blocks L ks iv (z # zs @ out) = (take 8 xs @ drop 8 xs, iv')"
      using c(2) IH(3) by (simp only: des_decrypt_blocks.simps(2) Let_def prod.case)
    then have "des_decrypt_blocks L ks iv (c @ out) = (take 8 xs @ drop 8 xs, iv')"
      by (simp only: z append_Cons)
    moreover have "iv' = drop (length xs - 8) (c @ out)"
    proof (cases "drop 8 xs = []")
      case True
      with run have "iv' = c" "out = []" by auto
      with True len show ?thesis by simp
    next
      case False
      then have "8 dvd length xs - 8" "length xs - 8 \<noteq> 0" using less.prems(1) by (auto simp: dvd_diff_nat)
      then have "8 \<le> length xs - 8" by (auto dest: dvd_imp_le)
      with False IH(4) c(1) show ?thesis by (simp add: drop_append)
    qed
    ultimately show ?thesis using enc IH(1,2) c(1) len by simp
  qed (use less.prems in simp)
qed

text \<open>A receiver that will understand the next packet of a sender.\<close>

definition in_sync :: "desinfo \<Rightarrow> desinfo \<Rightarrow> bool" where
  "in_sync d e \<longleftrightarrow> des_ks e = des_ks d \<and> recv_ivec e = xmit_ivec d \<and> recv_seq e = xmit_seq d \<and>
     length (xmit_ivec d) = 8"

lemma dese_seal_octets:
  fixes n :: nat
  assumes "des_ok L" "8 dvd length body" "length (xmit_ivec d) = 8" "body \<noteq> []"
  defines "s \<equiv> dese_seal L n body d"
  shows "length (fst s) = DES_OVERHEAD + length body"
    "fst s ! 0 = ucast (drop_bit 8 (xmit_seq d))" "fst s ! 1 = ucast (xmit_seq d)"
    "drop DES_OVERHEAD (fst s) = fst (des_encrypt_blocks L (des_ks d) (xmit_ivec d) body)"
    "xmit_ivec (snd s) = snd (des_encrypt_blocks L (des_ks d) (xmit_ivec d) body)"
    "xmit_seq (snd s) = xmit_seq d + 1" "des_ks (snd s) = des_ks d"
  using des_blocks_inverse [OF assms(1-3), of "des_ks d"]
  by (auto simp: s_def dese_seal_def Let_def case_prod_beta be16_def DES_OVERHEAD_def)

lemma dvd_8_bits: "(int n AND 7 \<noteq> 0) = (\<not> 8 dvd n)"
proof -
  have "int n AND 7 = int n mod 8"
    using take_bit_eq_mask [of 3 "int n"] by (simp add: take_bit_eq_mod mask_eq_exp_minus_1)
  then show ?thesis by presburger
qed

lemma dese_open_seal:
  fixes n :: nat and strip :: "byte list \<Rightarrow> byte list"
  assumes "des_ok L" "8 dvd length body" "body \<noteq> []" "length (xmit_ivec d) = 8"
    "des_ks e = des_ks d"
  defines "s \<equiv> dese_seal L n body d"
  defines "r \<equiv> dese_open L (fst s) strip e"
  shows "in_sync d e \<Longrightarrow> fst r = Some (strip body)"
    "recv_seq e \<noteq> xmit_seq d \<Longrightarrow> fst r = None"
    "in_sync d e \<or> recv_seq e \<noteq> xmit_seq d \<Longrightarrow> in_sync (snd s) (snd r)"
proof -
  note s = dese_seal_octets [OF assms(1,2,4,3), of n, folded s_def]
  note inv = des_blocks_inverse [OF assms(1,2,4), of "des_ks d"]
  have "8 \<le> length body" using assms(2,3) by (auto dest: dvd_imp_le)
  then have ok: "\<not> int (length (fst s)) - int DES_OVERHEAD < 8"
    "\<not> (int (length (fst s)) - int DES_OVERHEAD) AND 7 \<noteq> 0"
    using s(1) assms(2) by (simp_all add: dvd_8_bits)
  have sq: "of_be16 (fst s ! 0) (fst s ! 1) = xmit_seq d" using s(2,3) by simp
  have iv: "snd (des_encrypt_blocks L (des_ks d) (xmit_ivec d) body) =
      drop (nat (int (length (fst s)) - int DES_OVERHEAD) - 8) (drop DES_OVERHEAD (fst s))"
    using inv assms(3) s(1,4) by simp
  have r: "r = (let st = des_recv_stats e;
          st = st\<lparr>ds_FramesIn := ds_FramesIn st + 1,
            ds_OctetsIn := ds_OctetsIn st + of_nat (length (fst s))\<rparr>;
          bad = st\<lparr>ds_Errors := ds_Errors st + 1\<rparr> in
      if xmit_seq d \<noteq> recv_seq e
         then (None, e\<lparr>recv_ivec := xmit_ivec (snd s), recv_seq := xmit_seq d + 1,
                 des_recv_stats := bad\<rparr>)
         else
           (let (out, iv) = des_decrypt_blocks L (des_ks e) (recv_ivec e) (drop DES_OVERHEAD (fst s));
                plain = strip out
            in (Some plain, e\<lparr>recv_seq := recv_seq e + 1, recv_ivec := iv,
                  des_recv_stats := st\<lparr>ds_FramesOut := ds_FramesOut st + 1,
                    ds_OctetsOut := ds_OctetsOut st + of_nat (length plain)\<rparr>\<rparr>)))"
    unfolding r_def dese_open_def Let_def using ok by (simp only: if_False simp_thms sq s(5) iv)
  have dec: "in_sync d e \<Longrightarrow> des_decrypt_blocks L (des_ks e) (recv_ivec e) (drop DES_OVERHEAD (fst s)) =
      (body, xmit_ivec (snd s))"
    using inv s(4,5) by (simp add: in_sync_def)
  then show "in_sync d e \<Longrightarrow> fst r = Some (strip body)"
    by (simp add: r in_sync_def Let_def)
  show lost: "recv_seq e \<noteq> xmit_seq d \<Longrightarrow> fst r = None" by (simp add: r Let_def)
  have iv8: "length (xmit_ivec (snd s)) = 8" using inv s(5) by simp
  show "in_sync (snd s) (snd r)" if "in_sync d e \<or> recv_seq e \<noteq> xmit_seq d"
  proof (cases "recv_seq e = xmit_seq d")
    case True
    with that have "in_sync d e" by simp
    from True dec [OF this] iv8 assms(5) s(6,7) show ?thesis
      by (simp add: r in_sync_def Let_def)
  next
    case False
    with iv8 assms(5) s(6,7) show ?thesis by (simp add: r in_sync_def Let_def)
  qed
qed

section \<open>Padding\<close>

lemma roundup2_more: "roundup2 (n + 1) 8 - n = 8 - n mod 8"
proof -
  have "(n + 1 + (8 - 1)) div 8 = n div 8 + 1" by (simp add: add.commute)
  then show ?thesis using div_mult_mod_eq [of n 8] unfolding roundup2_def by linarith
qed

lemma roundup2_ge: "n \<le> roundup2 n 8"
  using div_mult_mod_eq [of "n + 7" 8] mod_less_divisor [of 8 "n + 7"]
  unfolding roundup2_def by linarith

lemma whole_blocks: "8 - n mod 8 > 7 \<longleftrightarrow> 8 dvd (n :: nat)"
  by presburger

lemma bis_padlen_value:
  assumes "plain \<noteq> []"
  shows "bis_padlen sq plain = (if 8 dvd length plain \<and> (last plain = 0 \<or> last plain > 8) then 0
    else 8 - length plain mod 8)"
proof -
  have "(be16 sq @ plain) ! (DES_OVERHEAD + length plain - 1) = last plain"
    using assms by (auto simp: nth_append DES_OVERHEAD_def last_conv_nth Suc_le_eq)
  then have "bis_padlen sq plain =
      (if 8 - length plain mod 8 > 7 \<and> (last plain = 0 \<or> last plain > 8)
       then 8 - length plain mod 8 - 8 else 8 - length plain mod 8)"
    by (simp only: bis_padlen_def Let_def roundup2_more)
  then show ?thesis unfolding whole_blocks by simp
qed

lemma bis_pad_whole: "plain \<noteq> [] \<Longrightarrow> 8 dvd length (bis_pad sq plain)"
  unfolding bis_pad_def using bis_padlen_value [of plain sq] by (cases "8 dvd length plain") (auto, presburger)

lemma bis_strip_pad:
  assumes "plain \<noteq> []"
  shows "bis_strip (bis_pad sq plain) = plain"
proof (cases "bis_padlen sq plain = 0")
  case True
  moreover have "last plain = 0 \<or> last plain > 8"
    using True bis_padlen_value [OF assms, of sq] by (auto split: if_splits)
  ultimately show ?thesis
    using assms by (auto simp: bis_pad_def bis_strip_def Let_def last_conv_nth)
next
  case False
  define p where "p = bis_padlen sq plain"
  have p: "1 \<le> p" "p \<le> 8" using False bis_padlen_value [OF assms, of sq] by (auto simp: p_def)
  let ?out = "plain @ map (\<lambda>k. of_nat (k + 1)) [0..<p] :: byte list"
  have last: "?out ! (length ?out - 1) = of_nat p"
    using p by (cases p) (simp_all add: nth_append)
  have "unat (of_nat p :: byte) = p" using p by (simp add: unat_of_nat_small)
  moreover from this have "(of_nat p :: byte) > 0" "(of_nat p :: byte) \<le> 8"
    using p by (simp_all add: word_less_nat_alt word_le_nat_alt)
  ultimately show ?thesis using last by (simp add: bis_pad_def bis_strip_def Let_def p_def [symmetric])
qed

section \<open>Packets there and back\<close>

definition des_pad :: "(nat \<Rightarrow> byte) \<Rightarrow> byte list \<Rightarrow> byte list" where
  "des_pad fill plain = plain @ map fill [length plain..<roundup2 (length plain) 8]"

lemma DesEncrypt_dese_seal:
  "DesEncrypt_dese L fill plain d = dese_seal L (length plain) (des_pad fill plain) d"
  "length (des_pad fill plain) = roundup2 (length plain) 8"
  by (simp_all add: DesEncrypt_dese_def Let_def des_pad_def roundup2_ge)

lemma des_packet:
  fixes fill :: "nat \<Rightarrow> byte"
  assumes "des_ok L" "plain \<noteq> []" "length (xmit_ivec d) = 8" "des_ks e = des_ks d"
  defines "s \<equiv> DesEncrypt_dese L fill plain d"
  defines "r \<equiv> DesDecrypt L (fst s) e"
  shows "in_sync d e \<Longrightarrow> fst r = Some (des_pad fill plain)"
    "recv_seq e \<noteq> xmit_seq d \<Longrightarrow> fst r = None"
    "in_sync d e \<or> recv_seq e \<noteq> xmit_seq d \<Longrightarrow> in_sync (snd s) (snd r)"
proof -
  have "8 dvd length (des_pad fill plain)" "des_pad fill plain \<noteq> []"
    using assms(2) by (auto simp: DesEncrypt_dese_seal(2) roundup2_def des_pad_def)
  note dese_open_seal [OF assms(1) this assms(3,4), of "length plain" "\<lambda>out. out"]
  then show "in_sync d e \<Longrightarrow> fst r = Some (des_pad fill plain)"
    "recv_seq e \<noteq> xmit_seq d \<Longrightarrow> fst r = None"
    "in_sync d e \<or> recv_seq e \<noteq> xmit_seq d \<Longrightarrow> in_sync (snd s) (snd r)"
    by (simp_all add: r_def s_def DesDecrypt_def DesEncrypt_dese_seal(1))
qed

lemma bis_packet:
  assumes "des_ok L" "plain \<noteq> []" "length (xmit_ivec d) = 8" "des_ks e = des_ks d"
  defines "s \<equiv> DeseBisEncrypt L plain d"
  defines "r \<equiv> DeseBisDecrypt L (fst s) e"
  shows "in_sync d e \<Longrightarrow> fst r = Some plain"
    "recv_seq e \<noteq> xmit_seq d \<Longrightarrow> fst r = None"
    "in_sync d e \<or> recv_seq e \<noteq> xmit_seq d \<Longrightarrow> in_sync (snd s) (snd r)"
proof -
  have "8 dvd length (bis_pad (xmit_seq d) plain)" "bis_pad (xmit_seq d) plain \<noteq> []"
    using assms(2) bis_pad_whole [OF assms(2)] by (simp_all add: bis_pad_def)
  note dese_open_seal [OF assms(1) this assms(3,4), of "length plain" bis_strip]
  then show "in_sync d e \<Longrightarrow> fst r = Some plain"
    "recv_seq e \<noteq> xmit_seq d \<Longrightarrow> fst r = None"
    "in_sync d e \<or> recv_seq e \<noteq> xmit_seq d \<Longrightarrow> in_sync (snd s) (snd r)"
    using bis_strip_pad [OF assms(2)]
    by (simp_all add: r_def s_def DeseBisDecrypt_def DeseBisEncrypt_def)
qed

text \<open>The room left for a packet is enough for it.\<close>

lemma and_not_7: "(i :: int) AND - 8 = 8 * (i div 8)"
proof -
  have "i AND NOT (mask 3) = push_bit 3 (drop_bit 3 i)"
    by (rule bit_eqI) (auto simp: bit_simps not_less)
  moreover have "NOT (mask 3 :: int) = - 8" by (simp add: mask_eq_exp_minus_1 not_int_def)
  ultimately show ?thesis by (simp add: push_bit_eq_mult drop_bit_eq_div)
qed

lemma length_seal:
  assumes "des_ok L" "8 dvd length body" "length (xmit_ivec d) = 8"
  shows "length (fst (dese_seal L n body d)) = DES_OVERHEAD + length body"
  using des_blocks_inverse [OF assms, of "des_ks d"]
  by (simp add: dese_seal_def Let_def case_prod_beta DES_OVERHEAD_def)

lemma des_fits:
  assumes "des_ok L" "length (xmit_ivec d) = 8" "int (length plain) \<le> DesSubtractBloat sz"
  shows "int (length (fst (DesEncrypt_dese L fill plain d))) \<le> sz"
proof -
  define k where "k = (sz - int DES_OVERHEAD) div 8"
  have k: "int (length plain) \<le> 8 * k" "8 * k + 2 \<le> sz"
    using assms(3) by (simp_all add: DesSubtractBloat_def and_not_7 k_def DES_OVERHEAD_def)
  have "int (roundup2 (length plain) 8) \<le> 8 * k"
  proof -
    have "int ((length plain + 7) div 8) \<le> k" using k(1) by (simp add: zdiv_int)
    then show ?thesis by (simp add: roundup2_def)
  qed
  then show ?thesis
    using k(2) assms(1,2) by (simp add: DesEncrypt_dese_seal length_seal roundup2_def DES_OVERHEAD_def)
qed

lemma bis_fits:
  assumes "des_ok L" "length (xmit_ivec d) = 8" "int (length plain) \<le> DeseBisSubtractBloat sz"
    "plain \<noteq> []"
  shows "int (length (fst (DeseBisEncrypt L plain d))) \<le> sz"
proof -
  define k where "k = (sz - int DES_OVERHEAD) div 8"
  have k: "int (length plain) \<le> 8 * k - 1" "8 * k + 2 \<le> sz"
    using assms(3) by (simp_all add: DeseBisSubtractBloat_def and_not_7 k_def DES_OVERHEAD_def)
  have "int (length plain) + (8 - int (length plain) mod 8) \<le> 8 * k"
    using k(1) by presburger
  then have "int (length plain + bis_padlen (xmit_seq d) plain) \<le> 8 * k"
    using k(1) bis_padlen_value [OF assms(4), of "xmit_seq d"] by (auto simp: of_nat_diff zmod_int)
  then show ?thesis
    using k(2) assms(1,2) bis_pad_whole [OF assms(4), of "xmit_seq d"]
    by (simp add: DeseBisEncrypt_def length_seal DES_OVERHEAD_def) (simp add: bis_pad_def)
qed

end
