(* ===== verification/Ecp.thy ===== *)
theory Ecp
  imports Ipv6cp Fsm_Phase Dese
begin

unbundle bit_operations_syntax

text \<open>
  ECP (\<open>src/src/ecp.c\<close>): which of the encryption types is used in each direction, and the path of the
  packets through it. A pointer into \<open>gEncTypes\<close> is an index, \<open>None\<close> for NULL. The record
  \<open>ecp_bund\<close> is what the callbacks reach through \<open>fp->arg\<close>; the calls of the netgraph node, of the bundle
  and of the other protocols are recorded in \<open>ec_calls\<close>. \<open>random ()\<close> is a stream with a
  position; two host integers are stored, here of a little-endian machine.
\<close>

section \<open>State\<close>

definition PROTO_ECP :: u16 where "PROTO_ECP = 0x8053"

definition ECP_MAXFAILURE :: short where "ECP_MAXFAILURE = 7"

definition ECP_OVERHEAD :: int where "ECP_OVERHEAD = 2"

definition ECP_MAX_KEY :: nat where "ECP_MAX_KEY = 32"

abbreviation (input) "ECP_TY_DESE \<equiv> (1 :: byte)"
abbreviation (input) "ECP_TY_DESE_bis \<equiv> (3 :: byte)"

definition ECP_KNOWN_CODES :: u16 where
  "ECP_KNOWN_CODES = push_bit 1 1 OR push_bit 2 1 OR push_bit 3 1 OR push_bit 4 1
     OR push_bit 5 1 OR push_bit 6 1 OR push_bit 7 1 OR push_bit 14 1 OR push_bit 15 1"

datatype ecp_effect =
  EcSetConfig | EcUpdateParams | EcConnect ecp_dir | EcDisconnect ecp_dir | EcFailIpcp | EcFailIpv6cp

record ecp_bund =
  ec_key :: string
  ec_xmit :: "nat option"
  ec_recv :: "nat option"
  ec_self_reject :: u32
  ec_peer_reject :: u32
  ec_options :: optinfo
  ec_des :: desinfo
  ec_desebis :: desinfo
  ec_xmit_resets :: u32
  ec_recv_resets :: u32
  ec_crypt_reqd :: bool            \<comment> \<open>the bundle's option \<open>BUND_CONF_CRYPT_REQD\<close>\<close>
  ec_enableEncryption :: bool
  ec_enableDecryption :: bool
  ec_calls :: "ecp_effect list"
  ec_retry_timeout :: short
  ec_recvFrames :: "u32 option"
  ec_lib :: des_lib
  ec_fill :: "nat \<Rightarrow> byte"
  ec_random :: "nat \<Rightarrow> u32"
  ec_drawn :: nat

definition ecp_call :: "ecp_effect \<Rightarrow> ecp_bund \<Rightarrow> ecp_bund" where
  "ecp_call c b = b\<lparr>ec_calls := ec_calls b @ [c]\<rparr>"

definition ECP_PEER_REJ :: "nat \<Rightarrow> ecp_bund \<Rightarrow> ecp_bund" where
  "ECP_PEER_REJ x b = b\<lparr>ec_peer_reject := mask_set (ec_peer_reject b) x\<rparr>"

definition ECP_SELF_REJ :: "nat \<Rightarrow> ecp_bund \<Rightarrow> ecp_bund" where
  "ECP_SELF_REJ x b = b\<lparr>ec_self_reject := mask_set (ec_self_reject b) x\<rparr>"

definition ECP_PEER_REJECTED :: "ecp_bund \<Rightarrow> nat \<Rightarrow> bool" where
  "ECP_PEER_REJECTED b x = mask_test (ec_peer_reject b) x"

definition ECP_SELF_REJECTED :: "ecp_bund \<Rightarrow> nat \<Rightarrow> bool" where
  "ECP_SELF_REJECTED b x = mask_test (ec_self_reject b) x"

section \<open>Encryption types\<close>

record enctype =
  en_name :: string
  en_type :: byte
  en_Init :: "(ecp_dir \<Rightarrow> ecp_bund \<Rightarrow> ecp_bund) option"
  en_Configure :: "(ecp_bund \<Rightarrow> ecp_bund) option"
  en_UnConfigure :: "(ecp_bund \<Rightarrow> ecp_bund) option"
  en_SubtractBloat :: "(int \<Rightarrow> int) option"
  en_Cleanup :: "(ecp_dir \<Rightarrow> ecp_bund \<Rightarrow> ecp_bund) option"
  en_BuildConfigReq :: "ecp_bund \<Rightarrow> ecp_bund \<times> byte list"
  en_DecodeConfig :: "fsmoption \<Rightarrow> mode \<Rightarrow> ecp_bund fsm \<Rightarrow> ecp_bund fsm"
  en_SendResetReq :: "(ecp_bund \<Rightarrow> pkt \<times> ecp_bund) option"
  en_RecvResetReq :: "(byte \<Rightarrow> pkt \<Rightarrow> ecp_bund \<Rightarrow> pkt \<times> ecp_bund) option"
  en_RecvResetAck :: "(byte \<Rightarrow> pkt \<Rightarrow> ecp_bund \<Rightarrow> ecp_bund) option"
  en_Encrypt :: "(byte list \<Rightarrow> ecp_bund \<Rightarrow> pkt \<times> ecp_bund) option"
  en_Decrypt :: "(byte list \<Rightarrow> ecp_bund \<Rightarrow> pkt \<times> ecp_bund) option"

definition upd_des :: "(desinfo \<Rightarrow> desinfo) \<Rightarrow> ecp_bund \<Rightarrow> ecp_bund" where
  "upd_des g b = b\<lparr>ec_des := g (ec_des b)\<rparr>"

definition upd_desebis :: "(desinfo \<Rightarrow> desinfo) \<Rightarrow> ecp_bund \<Rightarrow> ecp_bund" where
  "upd_desebis g b = b\<lparr>ec_desebis := g (ec_desebis b)\<rparr>"

text \<open>Two values of \<open>random ()\<close> make a vector.\<close>

definition draw_ivec :: "ecp_bund \<Rightarrow> byte list \<times> ecp_bund" where
  "draw_ivec b =
     (host32 (ec_random b (ec_drawn b)) @ host32 (ec_random b (ec_drawn b + 1)),
      b\<lparr>ec_drawn := ec_drawn b + 2\<rparr>)"

definition DesBuildConfigReq :: "ecp_bund \<Rightarrow> ecp_bund \<times> byte list" where
  "DesBuildConfigReq b =
     (let (iv, b) = draw_ivec b
      in (upd_des (\<lambda>d. d\<lparr>xmit_ivec := iv\<rparr>) b, FsmConfValue ECP_TY_DESE iv))"

definition DeseBisBuildConfigReq :: "ecp_bund \<Rightarrow> ecp_bund \<times> byte list" where
  "DeseBisBuildConfigReq b =
     (let (iv, b) = draw_ivec b
      in (upd_desebis (\<lambda>d. d\<lparr>xmit_ivec := iv\<rparr>) b, FsmConfValue ECP_TY_DESE_bis iv))"

definition DesDecodeConfigReq :: "fsmoption \<Rightarrow> mode \<Rightarrow> ecp_bund fsm \<Rightarrow> ecp_bund fsm" where
  "DesDecodeConfigReq opt md f =
     (if opt_len opt \<noteq> 10 then (if md = MODE_REQ then FsmRej opt f else f)
      else case md of
        MODE_REQ \<Rightarrow> FsmAck opt (upd_arg (upd_des (\<lambda>d. d\<lparr>recv_ivec := take 8 (opt_data opt)\<rparr>)) f)
      | _ \<Rightarrow> f)"

definition DeseBisDecodeConfigReq :: "fsmoption \<Rightarrow> mode \<Rightarrow> ecp_bund fsm \<Rightarrow> ecp_bund fsm" where
  "DeseBisDecodeConfigReq opt md f =
     (if opt_len opt \<noteq> 10 then (if md = MODE_REQ then FsmRej opt f else f)
      else case md of
        MODE_REQ \<Rightarrow> FsmAck opt (upd_arg (upd_desebis (\<lambda>d. d\<lparr>recv_ivec := take 8 (opt_data opt)\<rparr>)) f)
      | _ \<Rightarrow> f)"

definition gDeseEncType :: enctype where
  "gDeseEncType =
     \<lparr>en_name = ''dese-old'', en_type = ECP_TY_DESE,
      en_Init = Some (\<lambda>dir. upd_des (DesInit dir)),
      en_Configure = Some (\<lambda>b. upd_des (DesConfigure (ec_lib b) (ec_key b)) b),
      en_UnConfigure = None, en_SubtractBloat = Some DesSubtractBloat,
      en_Cleanup = Some (\<lambda>dir. upd_des (DesCleanup dir)),
      en_BuildConfigReq = DesBuildConfigReq, en_DecodeConfig = DesDecodeConfigReq,
      en_SendResetReq = None, en_RecvResetReq = None, en_RecvResetAck = None,
      en_Encrypt = Some (\<lambda>plain b. case DesEncrypt_dese (ec_lib b) (ec_fill b) plain (ec_des b) of
        (c, d) \<Rightarrow> (Some c, b\<lparr>ec_des := d\<rparr>)),
      en_Decrypt = Some (\<lambda>cypher b. case DesDecrypt (ec_lib b) cypher (ec_des b) of
        (p, d) \<Rightarrow> (p, b\<lparr>ec_des := d\<rparr>))\<rparr>"

definition gDeseBisEncType :: enctype where
  "gDeseBisEncType =
     \<lparr>en_name = ''dese-bis'', en_type = ECP_TY_DESE_bis,
      en_Init = Some (\<lambda>dir. upd_desebis (DeseBisInit dir)),
      en_Configure = Some (\<lambda>b. upd_desebis (DeseBisConfigure (ec_lib b) (ec_key b)) b),
      en_UnConfigure = None, en_SubtractBloat = Some DeseBisSubtractBloat,
      en_Cleanup = Some (\<lambda>dir. upd_desebis (DeseBisCleanup dir)),
      en_BuildConfigReq = DeseBisBuildConfigReq, en_DecodeConfig = DeseBisDecodeConfigReq,
      en_SendResetReq = None, en_RecvResetReq = None, en_RecvResetAck = None,
      en_Encrypt = Some (\<lambda>plain b. case DeseBisEncrypt (ec_lib b) plain (ec_desebis b) of
        (c, d) \<Rightarrow> (Some c, b\<lparr>ec_desebis := d\<rparr>)),
      en_Decrypt = Some (\<lambda>cypher b. case DeseBisDecrypt (ec_lib b) cypher (ec_desebis b) of
        (p, d) \<Rightarrow> (p, b\<lparr>ec_desebis := d\<rparr>))\<rparr>"

text \<open>In order of preference.\<close>

definition gEncTypes :: "enctype list" where
  "gEncTypes = [gDeseBisEncType, gDeseEncType]"

definition ecp_gConfList :: "confinfo list" where
  "ecp_gConfList = map (\<lambda>k. \<lparr>ci_peered = True, ci_option = k, ci_name = en_name (gEncTypes ! k)\<rparr>)
     [0..<length gEncTypes]"

fun find_type :: "enctype list \<Rightarrow> byte \<Rightarrow> nat \<Rightarrow> nat option" where
  "find_type [] t k = None"
| "find_type (et # ets) t k = (if en_type et = t then Some k else find_type ets t (k + 1))"

definition EcpFindType :: "byte \<Rightarrow> nat option" where
  "EcpFindType t = find_type gEncTypes t 0"

text \<open>A call through \<open>xmit\<close> or \<open>recv\<close>, when the pointer and the member are not NULL.\<close>

definition enc_call ::
  "nat option \<Rightarrow> (enctype \<Rightarrow> 'c option) \<Rightarrow> ('c \<Rightarrow> ecp_bund \<Rightarrow> ecp_bund) \<Rightarrow> ecp_bund \<Rightarrow> ecp_bund" where
  "enc_call t member run b = (case t of None \<Rightarrow> b
     | Some k \<Rightarrow> (case member (gEncTypes ! k) of None \<Rightarrow> b | Some c \<Rightarrow> run c b))"

section \<open>Configuration\<close>

definition ecp_forget :: "ecp_bund \<Rightarrow> ecp_bund" where
  "ecp_forget b = b\<lparr>ec_xmit := None, ec_recv := None, ec_self_reject := 0, ec_peer_reject := 0\<rparr>"

definition EcpConfigure :: "ecp_bund fsm \<Rightarrow> ecp_bund fsm" where
  "EcpConfigure = upd_arg (\<lambda>b. ecp_forget
     (foldl (\<lambda>b et. case en_Configure et of None \<Rightarrow> b | Some c \<Rightarrow> c b) b gEncTypes))"

definition EcpUnConfigure :: "ecp_bund fsm \<Rightarrow> ecp_bund fsm" where
  "EcpUnConfigure = upd_arg (\<lambda>b. ecp_forget
     (foldl (\<lambda>b et. case en_UnConfigure et of None \<Rightarrow> b | Some c \<Rightarrow> c b) b gEncTypes))"

definition ecp_request_type :: "ecp_bund \<times> byte list \<Rightarrow> nat \<Rightarrow> ecp_bund \<times> byte list" where
  "ecp_request_type bc k =
     (let (b, cp) = bc in
      if Enabled (ec_options b) k \<and> \<not> ECP_PEER_REJECTED b k
      then (let (b, xs) = en_BuildConfigReq (gEncTypes ! k) b
            in (b\<lparr>ec_xmit := (if ec_xmit b = None then Some k else ec_xmit b)\<rparr>, cp @ xs))
      else (b, cp))"

definition EcpBuildConfigReq :: "ecp_bund fsm \<Rightarrow> ecp_bund fsm \<times> byte list" where
  "EcpBuildConfigReq f =
     (let (b, cp) = foldl ecp_request_type ((f_arg f)\<lparr>ec_xmit := None\<rparr>, []) [0..<length gEncTypes]
      in (f\<lparr>f_arg := b\<rparr>, cp))"

text \<open>One option of the loop in \<open>EcpDecodeConfig\<close>: whether the type accepted or rejected it shows in
  the sizes of the answer buffers.\<close>

definition ecp_req_opt :: "nat \<Rightarrow> fsmoption \<Rightarrow> ecp_bund fsm \<Rightarrow> ecp_bund fsm" where
  "ecp_req_opt k opt f =
     (let b = f_arg f; dec = en_DecodeConfig (gEncTypes ! k) opt in
      if \<not> Acceptable (ec_options b) k \<or> ECP_SELF_REJECTED b k
         \<or> (ec_recv b \<noteq> None \<and> ec_recv b \<noteq> Some k)
      then FsmRej opt (dec MODE_NOP f)
      else
        (let g = dec MODE_REQ f in
         if length (f_rejBuf g) \<noteq> length (f_rejBuf f) then upd_arg (ECP_SELF_REJ k) g
         else if length (f_ackBuf g) \<noteq> length (f_ackBuf f)
         then upd_arg (\<lambda>b. b\<lparr>ec_recv := Some k\<rparr>) g else g))"

definition ecp_decode_opt :: "mode \<Rightarrow> ecp_bund fsm \<Rightarrow> fsmoption \<Rightarrow> ecp_bund fsm" where
  "ecp_decode_opt md f opt =
     (case EcpFindType (opt_type opt) of
        None \<Rightarrow> (if md = MODE_REQ then FsmRej opt f else f)
      | Some k \<Rightarrow>
          (case md of
             MODE_REQ \<Rightarrow> ecp_req_opt k opt f
           | MODE_REJ \<Rightarrow> upd_arg (ECP_PEER_REJ k) (en_DecodeConfig (gEncTypes ! k) opt md f)
           | _ \<Rightarrow> en_DecodeConfig (gEncTypes ! k) opt md f))"

definition ecp_forget_recv :: "mode \<Rightarrow> ecp_bund fsm \<Rightarrow> ecp_bund fsm" where
  "ecp_forget_recv md f = (if md = MODE_REQ then upd_arg (\<lambda>b. b\<lparr>ec_recv := None\<rparr>) f else f)"

definition EcpDecodeConfig :: "ecp_bund fsm \<Rightarrow> fsmoption list \<Rightarrow> mode \<Rightarrow> ecp_bund fsm" where
  "EcpDecodeConfig f opts md = foldl (ecp_decode_opt md) (ecp_forget_recv md f) opts"

section \<open>Up and down\<close>

definition ecp_set_config :: "bool \<Rightarrow> bool \<Rightarrow> ecp_bund \<Rightarrow> ecp_bund" where
  "ecp_set_config en de b =
     ecp_call EcUpdateParams (ecp_call EcSetConfig
       (b\<lparr>ec_enableEncryption := en, ec_enableDecryption := de\<rparr>))"

definition ecp_layer_up :: "ecp_bund \<Rightarrow> ecp_bund" where
  "ecp_layer_up b =
     (let b = enc_call (ec_xmit b) en_Init (\<lambda>c. c ECP_DIR_XMIT) b;
          b = enc_call (ec_recv b) en_Init (\<lambda>c. c ECP_DIR_RECV) b;
          b = enc_call (ec_recv b) en_Decrypt (\<lambda>_. ecp_call (EcConnect ECP_DIR_RECV)) b;
          b = enc_call (ec_xmit b) en_Encrypt (\<lambda>_. ecp_call (EcConnect ECP_DIR_XMIT)) b
      in ecp_set_config (ec_xmit b \<noteq> None) (ec_recv b \<noteq> None) b)"

definition EcpLayerUp :: "ecp_bund fsm \<Rightarrow> ecp_bund fsm" where
  "EcpLayerUp = upd_arg ecp_layer_up"

definition ecp_layer_down :: "ecp_bund \<Rightarrow> ecp_bund" where
  "ecp_layer_down b =
     (let b = ecp_set_config False False b;
          b = enc_call (ec_xmit b) en_Encrypt (\<lambda>_. ecp_call (EcDisconnect ECP_DIR_XMIT)) b;
          b = enc_call (ec_recv b) en_Decrypt (\<lambda>_. ecp_call (EcDisconnect ECP_DIR_RECV)) b;
          b = enc_call (ec_xmit b) en_Cleanup (\<lambda>c. c ECP_DIR_XMIT) b;
          b = enc_call (ec_recv b) en_Cleanup (\<lambda>c. c ECP_DIR_RECV) b
      in b\<lparr>ec_xmit_resets := 0, ec_recv_resets := 0\<rparr>)"

definition EcpLayerDown :: "ecp_bund fsm \<Rightarrow> ecp_bund fsm" where
  "EcpLayerDown = upd_arg ecp_layer_down"

definition EcpFailure :: "ecp_bund fsm \<Rightarrow> fsmfail \<Rightarrow> ecp_bund fsm" where
  "EcpFailure f reason = upd_arg (\<lambda>b.
     if ec_crypt_reqd b then ecp_call EcFailIpv6cp (ecp_call EcFailIpcp b) else b) f"

section \<open>Resets\<close>

definition EcpRecvResetAck :: "ecp_bund fsm \<Rightarrow> byte \<Rightarrow> pkt \<Rightarrow> ecp_bund fsm" where
  "EcpRecvResetAck f i bp =
     upd_arg (\<lambda>b. enc_call (ec_recv b) en_RecvResetAck (\<lambda>c. c i bp) b) f"

text \<open>The answer to a Reset-Request needs the protocol number, which the type has.\<close>

definition EcpRecvResetReq :: "ecp_bund fsmtype \<Rightarrow> ecp_bund fsm \<Rightarrow> byte \<Rightarrow> pkt \<Rightarrow> ecp_bund fsm" where
  "EcpRecvResetReq ty f i bp =
     (let f = upd_arg (\<lambda>b. b\<lparr>ec_xmit_resets := ec_xmit_resets b + 1\<rparr>) f; b = f_arg f;
          (bp, b) = (case ec_xmit b of None \<Rightarrow> (None, b)
            | Some k \<Rightarrow> (case en_RecvResetReq (gEncTypes ! k) of None \<Rightarrow> (None, b) | Some c \<Rightarrow> c i bp b))
      in FsmOutputMbuf ty CODE_RESETACK i bp (f\<lparr>f_arg := b\<rparr>))"

definition EcpSendResetReq :: "ecp_bund fsmtype \<Rightarrow> ecp_bund fsm \<Rightarrow> ecp_bund fsm" where
  "EcpSendResetReq ty f =
     (case ec_recv (f_arg f) of
        None \<Rightarrow> fsm_abort f
      | Some k \<Rightarrow>
          (let b = (f_arg f)\<lparr>ec_recv_resets := ec_recv_resets (f_arg f) + 1\<rparr>;
               (bp, b) = (case en_SendResetReq (gEncTypes ! k) of None \<Rightarrow> (None, b) | Some c \<Rightarrow> c b)
           in FsmOutputMbuf ty CODE_RESETREQ (f_reqid f) bp
                (f\<lparr>f_arg := b, f_reqid := f_reqid f + 1\<rparr>)))"

section \<open>The protocol type and the operations\<close>

text \<open>The part of the type descriptor that \<open>FsmOutputMbuf\<close> reads.\<close>

definition ecp_type :: "(ecp_bund fsm \<Rightarrow> byte \<Rightarrow> pkt \<Rightarrow> ecp_bund fsm) option \<Rightarrow> ecp_bund fsmtype" where
  "ecp_type reset =
     \<lparr>ty_name = ''ECP'', ty_proto = PROTO_ECP, ty_known_codes = ECP_KNOWN_CODES,
      ty_link_layer = False, NewState = None, LayerUp = Some EcpLayerUp,
      LayerDown = Some EcpLayerDown, LayerStart = None, LayerFinish = None,
      BuildConfigReq = EcpBuildConfigReq, DecodeConfig = EcpDecodeConfig,
      Configure = Some EcpConfigure, UnConfigure = Some EcpUnConfigure,
      SendTerminateReq = None, SendTerminateAck = None, RecvCodeRej = None, RecvProtoRej = None,
      Failure = Some EcpFailure, RecvResetReq = reset, RecvResetAck = Some EcpRecvResetAck,
      RecvIdent = None, RecvDiscReq = None, RecvTimeRemain = None, RecvVendor = None,
      arg_retry_timeout = ec_retry_timeout, arg_want_magic = (\<lambda>_. 0), arg_peer_magic = (\<lambda>_. 0),
      arg_has_bund = (\<lambda>_. True), arg_recvFrames = ec_recvFrames\<rparr>"

definition gEcpFsmType :: "ecp_bund fsmtype" where
  "gEcpFsmType = ecp_type (Some (EcpRecvResetReq (ecp_type None)))"

definition EcpInit :: "byte list \<Rightarrow> ecp_bund \<Rightarrow> ecp_bund fsm" where
  "EcpInit junk b =
     (let d = \<lparr>xmit_ivec = replicate 8 0, recv_ivec = replicate 8 0, xmit_seq = 0, recv_seq = 0,
                des_ks = [], des_recv_stats = dese_stats_zero, des_xmit_stats = dese_stats_zero\<rparr>;
          f = FsmInit junk
            (b\<lparr>ec_key := '''', ec_xmit := None, ec_recv := None, ec_self_reject := 0,
               ec_peer_reject := 0, ec_options := \<lparr>oi_enable = 0, oi_accept = 0\<rparr>, ec_des := d,
               ec_desebis := d, ec_xmit_resets := 0, ec_recv_resets := 0\<rparr>)
      in f\<lparr>f_conf := (f_conf f)\<lparr>maxfailure := ECP_MAXFAILURE\<rparr>\<rparr>)"

definition EcpUp :: "ecp_bund fsm \<Rightarrow> ecp_bund fsm" where
  "EcpUp = FsmUp gEcpFsmType"

definition EcpDown :: "ecp_bund fsm \<Rightarrow> ecp_bund fsm" where
  "EcpDown = FsmDown gEcpFsmType"

definition EcpOpen :: "ecp_bund fsm \<Rightarrow> ecp_bund fsm" where
  "EcpOpen = FsmOpen gEcpFsmType"

definition EcpClose :: "ecp_bund fsm \<Rightarrow> ecp_bund fsm" where
  "EcpClose = FsmClose gEcpFsmType"

definition EcpInput :: "pkt \<Rightarrow> ecp_bund fsm \<Rightarrow> ecp_bund fsm" where
  "EcpInput bp = FsmInput gEcpFsmType bp"

definition EcpOpenCmd :: "bool \<Rightarrow> ecp_bund fsm \<Rightarrow> unit + ecp_bund fsm" where
  "EcpOpenCmd tmpl f = (if tmpl then Inl () else Inr (FsmOpen gEcpFsmType f))"

definition EcpCloseCmd :: "bool \<Rightarrow> ecp_bund fsm \<Rightarrow> unit + ecp_bund fsm" where
  "EcpCloseCmd tmpl f = (if tmpl then Inl () else Inr (FsmClose gEcpFsmType f))"

datatype ecp_set =
  SET_EC_KEY | SET_EC_ACCEPT | SET_EC_DENY | SET_EC_ENABLE | SET_EC_DISABLE | SET_EC_YES | SET_EC_NO

definition EcpSetCommand :: "ecp_set \<Rightarrow> string list \<Rightarrow> ecp_bund \<Rightarrow> ecp_bund option" where
  "EcpSetCommand cmd av b =
     (if av = [] then None
      else case cmd of
        SET_EC_KEY \<Rightarrow>
          (if length av \<noteq> 1 then None else Some (b\<lparr>ec_key := take (ECP_MAX_KEY - 1) (hd av)\<rparr>))
      | SET_EC_ACCEPT \<Rightarrow> Some (b\<lparr>ec_options := AcceptCommand av ecp_gConfList (ec_options b)\<rparr>)
      | SET_EC_DENY \<Rightarrow> Some (b\<lparr>ec_options := DenyCommand av ecp_gConfList (ec_options b)\<rparr>)
      | SET_EC_ENABLE \<Rightarrow> Some (b\<lparr>ec_options := EnableCommand av ecp_gConfList (ec_options b)\<rparr>)
      | SET_EC_DISABLE \<Rightarrow> Some (b\<lparr>ec_options := DisableCommand av ecp_gConfList (ec_options b)\<rparr>)
      | SET_EC_YES \<Rightarrow> Some (b\<lparr>ec_options := YesCommand av ecp_gConfList (ec_options b)\<rparr>)
      | SET_EC_NO \<Rightarrow> Some (b\<lparr>ec_options := NoCommand av ecp_gConfList (ec_options b)\<rparr>))"

section \<open>The data path\<close>

definition EcpDataOutput :: "byte list \<Rightarrow> ecp_bund \<Rightarrow> pkt \<times> ecp_bund" where
  "EcpDataOutput plain b =
     (case ec_xmit b of None \<Rightarrow> (None, b)
      | Some k \<Rightarrow> (case en_Encrypt (gEncTypes ! k) of None \<Rightarrow> (None, b) | Some c \<Rightarrow> c plain b))"

definition EcpDataInput :: "byte list \<Rightarrow> ecp_bund \<Rightarrow> pkt \<times> ecp_bund" where
  "EcpDataInput cypher b =
     (case ec_recv b of None \<Rightarrow> (None, b)
      | Some k \<Rightarrow> (case en_Decrypt (gEncTypes ! k) of None \<Rightarrow> (None, b) | Some c \<Rightarrow> c cypher b))"

text \<open>\<open>(s) > ST_CLOSING || ((s) & 1)\<close>: the states after an Open.\<close>

fun OPEN_STATE :: "fsm_state \<Rightarrow> bool" where
  "OPEN_STATE ST_INITIAL = False"
| "OPEN_STATE ST_CLOSED = False"
| "OPEN_STATE ST_CLOSING = False"
| "OPEN_STATE _ = True"

definition EcpSubtractBloat :: "ecp_bund fsm \<Rightarrow> int \<Rightarrow> int" where
  "EcpSubtractBloat f sz =
     (let opened = OPEN_STATE (f_state f);
          sz = (case ec_xmit (f_arg f) of None \<Rightarrow> sz
            | Some k \<Rightarrow> (case en_SubtractBloat (gEncTypes ! k) of None \<Rightarrow> sz
                | Some g \<Rightarrow> if opened then g sz else sz))
      in if opened then sz - ECP_OVERHEAD else sz)"

section \<open>The contracts of the automaton\<close>

lemma gEncTypes_nth [simp]:
  "gEncTypes ! 0 = gDeseBisEncType" "gEncTypes ! Suc 0 = gDeseEncType" "length gEncTypes = 2"
  by (simp_all add: gEncTypes_def)

lemma EcpFindType_cases:
  obtains "EcpFindType t = None"
  | "EcpFindType t = Some 0" "t = ECP_TY_DESE_bis"
  | "EcpFindType t = Some (Suc 0)" "t = ECP_TY_DESE"
  by (cases "t = ECP_TY_DESE_bis"; cases "t = ECP_TY_DESE")
    (auto simp: EcpFindType_def gEncTypes_def gDeseBisEncType_def gDeseEncType_def intro: that)

text \<open>What the two decoders do.\<close>

lemma des_decode_ctl [simp]:
  "ctl (DesDecodeConfigReq opt md f) = ctl f" "ctl (DeseBisDecodeConfigReq opt md f) = ctl f"
  by (cases md; simp add: DesDecodeConfigReq_def DeseBisDecodeConfigReq_def)+

lemma des_decode_other [simp]:
  "md \<noteq> MODE_REQ \<Longrightarrow> DesDecodeConfigReq opt md f = f"
  "md \<noteq> MODE_REQ \<Longrightarrow> DeseBisDecodeConfigReq opt md f = f"
  by (cases md; simp add: DesDecodeConfigReq_def DeseBisDecodeConfigReq_def)+

lemma des_decode_req:
  "opt_len opt \<noteq> 10 \<Longrightarrow> DesDecodeConfigReq opt MODE_REQ f = FsmRej opt f"
  "opt_len opt \<noteq> 10 \<Longrightarrow> DeseBisDecodeConfigReq opt MODE_REQ f = FsmRej opt f"
  "opt_len opt = 10 \<Longrightarrow> \<exists>g. DesDecodeConfigReq opt MODE_REQ f = FsmAck opt (upd_arg g f)"
  "opt_len opt = 10 \<Longrightarrow> \<exists>g. DeseBisDecodeConfigReq opt MODE_REQ f = FsmAck opt (upd_arg g f)"
  by (auto simp: DesDecodeConfigReq_def DeseBisDecodeConfigReq_def)

lemma enc_decoder:
  assumes "EcpFindType t = Some k"
  shows "en_DecodeConfig (gEncTypes ! k) = DesDecodeConfigReq \<or>
    en_DecodeConfig (gEncTypes ! k) = DeseBisDecodeConfigReq"
  using assms
  by (cases t rule: EcpFindType_cases) (auto simp: gDeseBisEncType_def gDeseEncType_def)

lemma enc_decode:
  assumes "EcpFindType t = Some k"
  shows "ctl (en_DecodeConfig (gEncTypes ! k) opt md f) = ctl f"
    "md \<noteq> MODE_REQ \<Longrightarrow> en_DecodeConfig (gEncTypes ! k) opt md f = f"
    "opt_len opt \<noteq> 10 \<Longrightarrow> en_DecodeConfig (gEncTypes ! k) opt MODE_REQ f = FsmRej opt f"
    "opt_len opt = 10 \<Longrightarrow> \<exists>g. en_DecodeConfig (gEncTypes ! k) opt MODE_REQ f = FsmAck opt (upd_arg g f)"
  by (rule disjE [OF enc_decoder [OF assms]]; simp add: des_decode_req)+

interpretation ecp_dec: option_decoder ecp_decode_opt
proof
  fix md opt and f :: "ecp_bund fsm"
  show "ctl (ecp_decode_opt md f opt) = ctl f"
    by (cases "EcpFindType (opt_type opt)"; cases md)
      (simp_all add: ecp_decode_opt_def ecp_req_opt_def Let_def enc_decode(1))
  show "md \<noteq> MODE_REQ \<Longrightarrow> bufs (ecp_decode_opt md f opt) = bufs f"
    by (cases "EcpFindType (opt_type opt)"; cases md) (simp_all add: ecp_decode_opt_def enc_decode(2))
  show "answered opt f (ecp_decode_opt MODE_REQ f opt)"
  proof (cases "EcpFindType (opt_type opt)")
    case (Some k)
    then have "bufs (en_DecodeConfig (gEncTypes ! k) opt MODE_REQ f) = bufs (FsmRej opt f) \<or>
        bufs (en_DecodeConfig (gEncTypes ! k) opt MODE_REQ f) = bufs (FsmAck opt f)"
      using enc_decode(3,4) [OF Some, of opt f] by (cases "opt_len opt = 10") (auto simp: upd_arg_def)
    with Some show ?thesis
      by (auto simp: ecp_decode_opt_def ecp_req_opt_def Let_def answered_def enc_decode(2))
  qed (simp add: ecp_decode_opt_def)
qed

interpretation ecp_dec: decoding_type ecp_decode_opt gEcpFsmType ecp_forget_recv
  by unfold_locales (simp_all add: gEcpFsmType_def ecp_type_def EcpDecodeConfig_def ecp_forget_recv_def)

lemma EcpDecodeConfig_ctl:
  "ctl (EcpDecodeConfig f opts md) = ctl f" "bufs (EcpDecodeConfig f opts MODE_NOP) = bufs f"
  by (simp_all add: EcpDecodeConfig_def ecp_dec.all_ctl ecp_dec.all_quiet ecp_forget_recv_def)

lemma EcpBuildConfigReq_ctl:
  "ctl (fst (EcpBuildConfigReq f)) = ctl f" "bufs (fst (EcpBuildConfigReq f)) = bufs f"
  by (simp_all add: EcpBuildConfigReq_def case_prod_beta)

lemma EcpRecvResetReq_sent: "sent f (EcpRecvResetReq ty f i bp)"
  unfolding EcpRecvResetReq_def Let_def case_prod_beta by (rule sent_output) simp

interpretation ecp: fsm_configured gEcpFsmType EcpConfigure EcpUnConfigure
  by unfold_locales
    (auto simp: gEcpFsmType_def ecp_type_def call0_def EcpLayerUp_def EcpLayerDown_def EcpFailure_def
      EcpDecodeConfig_ctl EcpBuildConfigReq_ctl EcpConfigure_def EcpUnConfigure_def
      EcpRecvResetAck_def EcpRecvResetReq_sent)

section \<open>The state stays well formed\<close>

text \<open>The pointers are NULL or point into the table, and the vectors to send with are blocks.\<close>

definition ecp_typed :: "ecp_bund \<Rightarrow> bool" where
  "ecp_typed b \<longleftrightarrow> ec_xmit b \<in> {None, Some 0, Some 1} \<and> ec_recv b \<in> {None, Some 0, Some 1} \<and>
     length (xmit_ivec (ec_des b)) = 8 \<and> length (xmit_ivec (ec_desebis b)) = 8"

lemma ecp_typed_calls [simp]: "ecp_typed (ecp_call c b) = ecp_typed b"
  by (simp add: ecp_typed_def ecp_call_def)

lemma ecp_typed_upd:
  assumes "\<And>d. xmit_ivec (g d) = xmit_ivec d"
  shows "ecp_typed (upd_des g b) = ecp_typed b" "ecp_typed (upd_desebis g b) = ecp_typed b"
  using assms by (simp_all add: ecp_typed_def upd_des_def upd_desebis_def)

lemma ecp_typed_forget: "ecp_typed b \<Longrightarrow> ecp_typed (ecp_forget b)"
  by (simp add: ecp_typed_def ecp_forget_def)

lemma enc_call_typed:
  assumes "t \<in> {None, Some 0, Some 1}" "ecp_typed b"
    "\<And>k c b. k \<in> {0, 1} \<Longrightarrow> member (gEncTypes ! k) = Some c \<Longrightarrow> ecp_typed b \<Longrightarrow> ecp_typed (run c b)"
  shows "ecp_typed (enc_call t member run b)"
  using assms(1,2) assms(3) [of 0] assms(3) [of "Suc 0"]
  by (auto simp: enc_call_def split: option.split)

lemma enc_init_typed:
  "k \<in> {0, 1} \<Longrightarrow> en_Init (gEncTypes ! k) = Some c \<Longrightarrow> ecp_typed b \<Longrightarrow> ecp_typed (c dir b)"
  "k \<in> {0, 1} \<Longrightarrow> en_Cleanup (gEncTypes ! k) = Some c \<Longrightarrow> ecp_typed b \<Longrightarrow> ecp_typed (c dir b)"
  by (auto simp: gDeseBisEncType_def gDeseEncType_def DesInit_def DeseBisInit_def DesCleanup_def
      DeseBisCleanup_def ecp_typed_upd split: ecp_dir.split)

lemma typed_index: "ecp_typed b \<Longrightarrow> ec_xmit b \<in> {None, Some 0, Some 1} \<and> ec_recv b \<in> {None, Some 0, Some 1}"
  by (simp add: ecp_typed_def)

lemma ecp_set_config_typed: "ecp_typed b \<Longrightarrow> ecp_typed (ecp_set_config en de b)"
  by (simp add: ecp_set_config_def ecp_call_def ecp_typed_def)

lemma ecp_layers_typed:
  assumes "ecp_typed b"
  shows "ecp_typed (ecp_layer_up b)" "ecp_typed (ecp_layer_down b)"
proof -
  note call = enc_call_typed [OF conjunct1 [OF typed_index]] enc_call_typed [OF conjunct2 [OF typed_index]]
  show "ecp_typed (ecp_layer_up b)"
    unfolding ecp_layer_up_def Let_def
    by (intro ecp_set_config_typed call assms) (simp_all add: enc_init_typed)
  have "ecp_typed (b\<lparr>ec_xmit_resets := 0, ec_recv_resets := 0\<rparr>) = ecp_typed b" for b
    by (simp add: ecp_typed_def)
  then show "ecp_typed (ecp_layer_down b)"
    unfolding ecp_layer_down_def Let_def
    by simp (intro ecp_set_config_typed call assms; simp add: enc_init_typed)
qed

lemma ecp_configure_typed:
  "ecp_typed (f_arg f) \<Longrightarrow> ecp_typed (f_arg (EcpConfigure f))"
  "ecp_typed (f_arg f) \<Longrightarrow> ecp_typed (f_arg (EcpUnConfigure f))"
  by (auto intro!: ecp_typed_forget simp: EcpConfigure_def EcpUnConfigure_def gEncTypes_def
      gDeseBisEncType_def gDeseEncType_def ecp_typed_upd DesConfigure_def DeseBisConfigure_def)

lemma ecp_request_typed:
  assumes "ecp_typed (fst bc)" "k \<in> {0, Suc 0}"
  shows "ecp_typed (fst (ecp_request_type bc k))"
  using assms
  by (auto simp: ecp_request_type_def case_prod_beta Let_def gDeseBisEncType_def gDeseEncType_def
      DesBuildConfigReq_def DeseBisBuildConfigReq_def draw_ivec_def upd_des_def upd_desebis_def
      ecp_typed_def host32_def)

lemma ecp_build_typed:
  assumes "ecp_typed (f_arg f)"
  shows "ecp_typed (f_arg (fst (EcpBuildConfigReq f)))"
proof -
  have upt: "[0..<2] = [0, Suc 0]" by (simp add: upt_rec)
  have "ecp_typed (fst ((f_arg f)\<lparr>ec_xmit := None\<rparr>, [] :: byte list))"
    using assms by (simp add: ecp_typed_def)
  then show ?thesis
    by (simp add: EcpBuildConfigReq_def upt case_prod_beta ecp_request_typed)
qed

lemma ecp_decode_opt_typed:
  assumes "ecp_typed (f_arg f)"
  shows "ecp_typed (f_arg (ecp_decode_opt md f opt))"
proof (cases "EcpFindType (opt_type opt)")
  case (Some k)
  have "EcpFindType (opt_type opt) = None \<or> k \<in> {0, Suc 0}"
    using Some by (cases "opt_type opt" rule: EcpFindType_cases) auto
  with Some have k: "k \<in> {0, Suc 0}" by simp
  have dec: "ecp_typed (f_arg (en_DecodeConfig (gEncTypes ! k) opt md f))" for md
    by (rule disjE [OF enc_decoder [OF Some]]; cases md)
      (simp_all add: DesDecodeConfigReq_def DeseBisDecodeConfigReq_def ecp_typed_upd assms)
  have recv: "ecp_typed (b\<lparr>ec_recv := Some k\<rparr>)" if "ecp_typed b" for b
    using that k by (auto simp: ecp_typed_def)
  have "ecp_typed (ECP_SELF_REJ k b) = ecp_typed b" "ecp_typed (ECP_PEER_REJ k b) = ecp_typed b" for b
    by (simp_all add: ecp_typed_def ECP_SELF_REJ_def ECP_PEER_REJ_def)
  then show ?thesis
    using Some dec recv
    by (cases md) (simp_all add: ecp_decode_opt_def ecp_req_opt_def Let_def)
qed (simp add: ecp_decode_opt_def assms)

lemma ecp_decode_typed:
  assumes "ecp_typed (f_arg f)"
  shows "ecp_typed (f_arg (EcpDecodeConfig f opts md))"
proof -
  have "ecp_typed (f_arg (foldl (ecp_decode_opt md) g opts))" if "ecp_typed (f_arg g)" for g
    using that by (induction opts arbitrary: g) (simp_all add: ecp_decode_opt_typed)
  moreover have "ecp_typed (f_arg (ecp_forget_recv md f))"
    using assms by (simp add: ecp_forget_recv_def ecp_typed_def)
  ultimately show ?thesis by (simp add: EcpDecodeConfig_def)
qed

lemma ecp_reset_typed:
  assumes "ecp_typed (f_arg f)"
  shows "ecp_typed (f_arg (EcpRecvResetReq ty f i bp))" "ecp_typed (f_arg (EcpRecvResetAck f i bp))"
proof -
  note members = gDeseBisEncType_def gDeseEncType_def
  have "ecp_typed (b\<lparr>ec_xmit_resets := n\<rparr>) = ecp_typed b" for b n by (simp add: ecp_typed_def)
  then show "ecp_typed (f_arg (EcpRecvResetReq ty f i bp))"
    using assms typed_index [OF assms]
    by (auto simp: EcpRecvResetReq_def Let_def FsmOutputMbuf_def case_prod_beta members)
  show "ecp_typed (f_arg (EcpRecvResetAck f i bp))"
    using assms typed_index [OF assms]
    by (auto simp: EcpRecvResetAck_def enc_call_def members)
qed

lemma ecp_reset_harmless: "harmless (\<lambda>_. ecp_typed) (\<lambda>f. EcpRecvResetReq ty f i bp)"
  by (rule harmlessI)
    (simp_all add: ecp_reset_typed, simp_all add: EcpRecvResetReq_def Let_def FsmOutputMbuf_def case_prod_beta)

lemma ecp_calls_harmless:
  "harmless (\<lambda>_. ecp_typed) EcpLayerUp" "harmless (\<lambda>_. ecp_typed) EcpLayerDown"
  "harmless (\<lambda>_. ecp_typed) EcpConfigure" "harmless (\<lambda>_. ecp_typed) EcpUnConfigure"
  "harmless (\<lambda>_. ecp_typed) (\<lambda>f. fst (EcpBuildConfigReq f))"
  "harmless (\<lambda>_. ecp_typed) (\<lambda>f. EcpDecodeConfig f opts md)"
  "harmless (\<lambda>_. ecp_typed) (\<lambda>f. EcpFailure f r)"
  "harmless (\<lambda>_. ecp_typed) (\<lambda>f. EcpRecvResetAck f i bp)"
  by (auto intro!: harmless_ctl simp: EcpBuildConfigReq_ctl EcpDecodeConfig_ctl ecp_build_typed
      ecp_decode_typed ecp_configure_typed ecp_reset_typed)
    (auto simp: EcpLayerUp_def EcpLayerDown_def ecp_layers_typed EcpFailure_def EcpConfigure_def
      EcpUnConfigure_def EcpRecvResetAck_def)

interpretation ecp_ph: fsm_phased gEcpFsmType "\<lambda>_. ecp_typed"
  by unfold_locales
    (auto simp: gEcpFsmType_def ecp_type_def ecp_reset_harmless ecp_calls_harmless)

end
