(* ===== verification/Ecp_Claims.thy ===== *)
theory Ecp_Claims
  imports Ecp
begin

unbundle bit_operations_syntax

text \<open>
  The properties of ECP: what is accepted, that two ends that negotiated understand each other's
  packets, that a lost packet costs only one more, that packets keep to the size promised, and that
  the protocol comes up without any encryption.
\<close>

section \<open>Packets in sequence\<close>

fun ecp_send :: "byte list list \<Rightarrow> ecp_bund \<Rightarrow> pkt list \<times> ecp_bund" where
  "ecp_send [] b = ([], b)"
| "ecp_send (p # ps) b =
     (let (c, b) = EcpDataOutput p b; (cs, b) = ecp_send ps b in (c # cs, b))"

fun ecp_receive :: "pkt list \<Rightarrow> ecp_bund \<Rightarrow> pkt list \<times> ecp_bund" where
  "ecp_receive [] b = ([], b)"
| "ecp_receive (c # cs) b =
     (let (p, b) = EcpDataInput (pk_data c) b; (ps, b) = ecp_receive cs b in (p # ps, b))"

text \<open>The two ends use the same type and key, and the receiver has the vector and the number of the
  sender's next packet; or, but for these two, anything.\<close>

definition ecp_matched :: "ecp_bund \<Rightarrow> ecp_bund \<Rightarrow> bool" where
  "ecp_matched a b \<longleftrightarrow> des_ok (ec_lib a) \<and> ec_lib b = ec_lib a \<and> ec_recv b = ec_xmit a \<and>
     (ec_xmit a = Some 0 \<and> des_ks (ec_desebis b) = des_ks (ec_desebis a) \<and>
        length (xmit_ivec (ec_desebis a)) = 8 \<or>
      ec_xmit a = Some 1 \<and> des_ks (ec_des b) = des_ks (ec_des a) \<and>
        length (xmit_ivec (ec_des a)) = 8)"

definition ecp_cipher :: "nat option \<Rightarrow> ecp_bund \<Rightarrow> desinfo" where
  "ecp_cipher t b = (if t = Some 0 then ec_desebis b else ec_des b)"

definition ecp_sync :: "ecp_bund \<Rightarrow> ecp_bund \<Rightarrow> bool" where
  "ecp_sync a b \<longleftrightarrow> ecp_matched a b \<and>
     in_sync (ecp_cipher (ec_xmit a) a) (ecp_cipher (ec_xmit a) b)"

text \<open>What arrives: DESE does not tell the padding from the packet.\<close>

definition ecp_arrives :: "ecp_bund \<Rightarrow> byte list \<Rightarrow> pkt" where
  "ecp_arrives a p = Some (if ec_xmit a = Some 0 then p else des_pad (ec_fill a) p)"

lemma enc_members [simp]:
  "en_Encrypt gDeseBisEncType = Some (\<lambda>plain b. case DeseBisEncrypt (ec_lib b) plain (ec_desebis b) of
        (c, d) \<Rightarrow> (Some c, b\<lparr>ec_desebis := d\<rparr>))"
  "en_Decrypt gDeseBisEncType = Some (\<lambda>cypher b. case DeseBisDecrypt (ec_lib b) cypher (ec_desebis b) of
        (p, d) \<Rightarrow> (p, b\<lparr>ec_desebis := d\<rparr>))"
  "en_Encrypt gDeseEncType = Some (\<lambda>plain b. case DesEncrypt_dese (ec_lib b) (ec_fill b) plain (ec_des b) of
        (c, d) \<Rightarrow> (Some c, b\<lparr>ec_des := d\<rparr>))"
  "en_Decrypt gDeseEncType = Some (\<lambda>cypher b. case DesDecrypt (ec_lib b) cypher (ec_des b) of
        (p, d) \<Rightarrow> (p, b\<lparr>ec_des := d\<rparr>))"
  by (simp_all add: gDeseBisEncType_def gDeseEncType_def)

text \<open>What one packet does.\<close>

definition ecp_packet_ok :: "ecp_bund \<Rightarrow> ecp_bund \<Rightarrow> byte list \<Rightarrow> bool" where
  "ecp_packet_ok a b p \<longleftrightarrow>
     (let s = EcpDataOutput p a; r = EcpDataInput (pk_data (fst s)) b
      in fst r = (if ecp_sync a b then ecp_arrives a p else None) \<and> ecp_sync (snd s) (snd r) \<and>
        ec_xmit (snd s) = ec_xmit a \<and> ec_fill (snd s) = ec_fill a)"

lemma bis_packet_ok:
  assumes "ecp_matched a b" "p \<noteq> []" "ec_xmit a = Some 0"
    "ecp_sync a b \<or> recv_seq (ecp_cipher (ec_xmit a) b) \<noteq> xmit_seq (ecp_cipher (ec_xmit a) a)"
  shows "ecp_packet_ok a b p"
proof -
  from assms(1,3) have m: "des_ok (ec_lib a)" "length (xmit_ivec (ec_desebis a)) = 8"
    "des_ks (ec_desebis b) = des_ks (ec_desebis a)" "ec_lib b = ec_lib a" "ec_recv b = Some 0"
    by (auto simp: ecp_matched_def)
  let ?d = "ec_desebis a" and ?e = "ec_desebis b"
  obtain c d' where c: "DeseBisEncrypt (ec_lib a) p ?d = (c, d')" by fastforce
  obtain q e' where q: "DeseBisDecrypt (ec_lib a) c ?e = (q, e')" by fastforce
  have s: "EcpDataOutput p a = (Some c, a\<lparr>ec_desebis := d'\<rparr>)"
    "EcpDataInput c b = (q, b\<lparr>ec_desebis := e'\<rparr>)"
    using assms(3) m c q by (simp_all add: EcpDataOutput_def EcpDataInput_def)
  have sync: "ecp_sync a b = in_sync ?d ?e"
    using assms(1,3) by (simp add: ecp_sync_def ecp_cipher_def)
  note one = bis_packet [OF m(1) assms(2) m(2,3), unfolded c q prod.sel]
  have "in_sync d' e'"
    using one(3) assms(3,4) unfolding sync by (auto simp: ecp_cipher_def c)
  moreover have "des_ks d' = des_ks ?d"
    using c by (auto simp: DeseBisEncrypt_def dese_seal_def Let_def case_prod_beta)
  ultimately have "ecp_sync (a\<lparr>ec_desebis := d'\<rparr>) (b\<lparr>ec_desebis := e'\<rparr>)"
    using m assms(1,3) by (auto simp: ecp_sync_def ecp_matched_def ecp_cipher_def in_sync_def)
  moreover have "q = (if ecp_sync a b then ecp_arrives a p else None)"
    using one(1,2) assms(3,4) unfolding sync by (auto simp: ecp_arrives_def ecp_cipher_def c)
  ultimately show ?thesis by (simp add: ecp_packet_ok_def s)
qed

lemma des_packet_ok:
  assumes "ecp_matched a b" "p \<noteq> []" "ec_xmit a = Some 1"
    "ecp_sync a b \<or> recv_seq (ecp_cipher (ec_xmit a) b) \<noteq> xmit_seq (ecp_cipher (ec_xmit a) a)"
  shows "ecp_packet_ok a b p"
proof -
  from assms(1,3) have m: "des_ok (ec_lib a)" "length (xmit_ivec (ec_des a)) = 8"
    "des_ks (ec_des b) = des_ks (ec_des a)" "ec_lib b = ec_lib a" "ec_recv b = Some 1"
    by (auto simp: ecp_matched_def)
  let ?d = "ec_des a" and ?e = "ec_des b"
  obtain c d' where c: "DesEncrypt_dese (ec_lib a) (ec_fill a) p ?d = (c, d')" by fastforce
  obtain q e' where q: "DesDecrypt (ec_lib a) c ?e = (q, e')" by fastforce
  have s: "EcpDataOutput p a = (Some c, a\<lparr>ec_des := d'\<rparr>)"
    "EcpDataInput c b = (q, b\<lparr>ec_des := e'\<rparr>)"
    using assms(3) m c q by (simp_all add: EcpDataOutput_def EcpDataInput_def)
  have sync: "ecp_sync a b = in_sync ?d ?e"
    using assms(1,3) by (simp add: ecp_sync_def ecp_cipher_def)
  note one = des_packet [OF m(1) assms(2) m(2,3), of "ec_fill a", unfolded c q prod.sel]
  have "in_sync d' e'"
    using one(3) assms(3,4) unfolding sync by (auto simp: ecp_cipher_def c)
  moreover have "des_ks d' = des_ks ?d"
    using c by (auto simp: DesEncrypt_dese_def dese_seal_def Let_def case_prod_beta)
  ultimately have "ecp_sync (a\<lparr>ec_des := d'\<rparr>) (b\<lparr>ec_des := e'\<rparr>)"
    using m assms(1,3) by (auto simp: ecp_sync_def ecp_matched_def ecp_cipher_def in_sync_def)
  moreover have "q = (if ecp_sync a b then ecp_arrives a p else None)"
    using one(1,2) assms(3,4) unfolding sync by (auto simp: ecp_arrives_def ecp_cipher_def c)
  ultimately show ?thesis by (simp add: ecp_packet_ok_def s)
qed

lemma ecp_packet:
  assumes "ecp_matched a b" "p \<noteq> []"
    "ecp_sync a b \<or> recv_seq (ecp_cipher (ec_xmit a) b) \<noteq> xmit_seq (ecp_cipher (ec_xmit a) a)"
  shows "ecp_packet_ok a b p"
proof -
  from assms(1) consider "ec_xmit a = Some 0" | "ec_xmit a = Some 1"
    by (auto simp: ecp_matched_def)
  then show ?thesis using bis_packet_ok des_packet_ok assms by cases blast+
qed

lemma ecp_stream:
  assumes "ecp_sync a b" "[] \<notin> set ps"
  shows "fst (ecp_receive (fst (ecp_send ps a)) b) = map (ecp_arrives a) ps"
  using assms
proof (induction ps arbitrary: a b)
  case (Cons p ps)
  obtain c a' where c: "EcpDataOutput p a = (c, a')" by fastforce
  obtain q b' where q: "EcpDataInput (pk_data c) b = (q, b')" by fastforce
  have "ecp_packet_ok a b p" using Cons.prems by (intro ecp_packet) (auto simp: ecp_sync_def)
  then have step: "q = ecp_arrives a p" "ecp_sync a' b'" "ec_xmit a' = ec_xmit a" "ec_fill a' = ec_fill a"
    using Cons.prems(1) c q by (simp_all add: ecp_packet_ok_def)
  moreover have "ecp_arrives a' = ecp_arrives a"
    by (rule ext) (simp add: ecp_arrives_def step(3,4))
  ultimately show ?case
    using Cons.IH [OF step(2)] Cons.prems(2) c q by (simp add: case_prod_beta)
qed simp

section \<open>Agreement\<close>

lemma ecp_accepts_opt:
  assumes "f_rejBuf (ecp_decode_opt MODE_REQ f opt) = []"
  obtains k where "EcpFindType (opt_type opt) = Some k" "opt_len opt = 10"
    "Acceptable (ec_options (f_arg f)) k" "ec_recv (f_arg f) = None \<or> ec_recv (f_arg f) = Some k"
    "ecp_decode_opt MODE_REQ f opt =
      (let g = en_DecodeConfig (gEncTypes ! k) opt MODE_REQ f
       in if length (f_ackBuf g) \<noteq> length (f_ackBuf f) then upd_arg (\<lambda>b. b\<lparr>ec_recv := Some k\<rparr>) g else g)"
proof (cases "EcpFindType (opt_type opt)")
  case None
  with assms rej_nonempty show ?thesis by (auto simp: ecp_decode_opt_def)
next
  case (Some k)
  have ok: "Acceptable (ec_options (f_arg f)) k" "\<not> ECP_SELF_REJECTED (f_arg f) k"
    "ec_recv (f_arg f) = None \<or> ec_recv (f_arg f) = Some k"
    using assms Some rej_nonempty by (auto simp: ecp_decode_opt_def ecp_req_opt_def Let_def split: if_splits)
  have len: "opt_len opt = 10"
  proof (rule ccontr)
    assume "opt_len opt \<noteq> 10"
    from enc_decode(3) [OF Some this] assms Some rej_nonempty show False
      by (auto simp: ecp_decode_opt_def ecp_req_opt_def Let_def split: if_splits)
  qed
  then obtain g where "en_DecodeConfig (gEncTypes ! k) opt MODE_REQ f = FsmAck opt (upd_arg g f)"
    using enc_decode(4) [OF Some] by blast
  then have "f_rejBuf (en_DecodeConfig (gEncTypes ! k) opt MODE_REQ f) = f_rejBuf f"
    by (simp add: FsmAck_def)
  with Some ok len show ?thesis
    by (intro that [of k]) (auto simp: ecp_decode_opt_def ecp_req_opt_def Let_def)
qed

text \<open>Once a type has been accepted, the rest of the request is of that type.\<close>

lemma ecp_one_type:
  assumes "f_nakBuf (foldl (ecp_decode_opt MODE_REQ) f opts) = []"
    "f_rejBuf (foldl (ecp_decode_opt MODE_REQ) f opts) = []" "list_all opt_ok opts"
    "ec_recv (f_arg f) = None \<longrightarrow> f_ackBuf f = []"
  shows "(opts = [] \<longrightarrow> foldl (ecp_decode_opt MODE_REQ) f opts = f) \<and>
    (\<forall>opt \<in> set opts. opt_len opt = 10 \<and> (\<exists>k. EcpFindType (opt_type opt) = Some k \<and>
      ec_recv (f_arg (foldl (ecp_decode_opt MODE_REQ) f opts)) = Some k \<and>
      Acceptable (ec_options (f_arg f)) k)) \<and>
    (ec_recv (f_arg f) \<noteq> None \<longrightarrow>
      ec_recv (f_arg (foldl (ecp_decode_opt MODE_REQ) f opts)) = ec_recv (f_arg f))"
  using assms
proof (induction opts arbitrary: f)
  case (Cons o1 opts)
  let ?g = "ecp_decode_opt MODE_REQ f o1"
  have clean: "f_nakBuf ?g = [] \<and> f_rejBuf ?g = []"
    using Cons.prems by (intro ecp_dec.all_grows [of opts]) simp_all
  then obtain k where k: "EcpFindType (opt_type o1) = Some k" "opt_len o1 = 10"
      "Acceptable (ec_options (f_arg f)) k" "ec_recv (f_arg f) = None \<or> ec_recv (f_arg f) = Some k"
      "?g = (let g = en_DecodeConfig (gEncTypes ! k) o1 MODE_REQ f
       in if length (f_ackBuf g) \<noteq> length (f_ackBuf f) then upd_arg (\<lambda>b. b\<lparr>ec_recv := Some k\<rparr>) g else g)"
    using ecp_accepts_opt by blast
  have arg: "ec_recv (f_arg (en_DecodeConfig (gEncTypes ! k) o1 MODE_REQ f)) = ec_recv (f_arg f)"
    "ec_options (f_arg (en_DecodeConfig (gEncTypes ! k) o1 MODE_REQ f)) = ec_options (f_arg f)"
    by (rule disjE [OF enc_decoder [OF k(1)]];
        simp add: DesDecodeConfigReq_def DeseBisDecodeConfigReq_def k(2) upd_des_def upd_desebis_def)+
  obtain h where h: "en_DecodeConfig (gEncTypes ! k) o1 MODE_REQ f = FsmAck o1 (upd_arg h f)"
    using enc_decode(4) [OF k(1,2)] by blast
  have len: "length (opt_bytes o1) = 10"
    using Cons.prems(3) k(2) length_opt_bytes [of o1] by simp
  have grow: "ec_recv (f_arg f) = None \<Longrightarrow>
      length (f_ackBuf (en_DecodeConfig (gEncTypes ! k) o1 MODE_REQ f)) \<noteq> length (f_ackBuf f)"
    unfolding h using Cons.prems(4) k(2) len by (simp add: FsmAck_def FSM_BUFFER_SIZE_def)
  have g: "ec_recv (f_arg ?g) = Some k" "ec_options (f_arg ?g) = ec_options (f_arg f)"
    using k(4) grow arg unfolding k(5) Let_def by auto
  note IH = Cons.IH [of ?g, OF _ _ _ , unfolded g]
  have "foldl (ecp_decode_opt MODE_REQ) f (o1 # opts) = foldl (ecp_decode_opt MODE_REQ) ?g opts" by simp
  then show ?case
    using IH Cons.prems k(1-4) by auto
qed simp

definition ecp_opt :: "byte \<Rightarrow> byte list \<Rightarrow> fsmoption" where
  "ecp_opt t iv = \<lparr>opt_type = t, opt_len = 10, opt_data = iv\<rparr>"

lemma ecp_opt_bytes:
  assumes "length iv = 8"
  shows "FsmConfValue t iv = opts_bytes [ecp_opt t iv]" "opt_ok (ecp_opt t iv)"
  using assms conf_value_opt [of iv t] by (simp_all add: ecp_opt_def)

lemma draw_ivec_length: "length (fst (draw_ivec b)) = 8"
  by (simp add: draw_ivec_def host32_def)

definition ecp_asks :: "ecp_bund \<Rightarrow> nat \<Rightarrow> bool" where
  "ecp_asks b k \<longleftrightarrow> Enabled (ec_options b) k \<and> \<not> ECP_PEER_REJECTED b k"

lemma ecp_request:
  fixes f :: "ecp_bund fsm"
  defines "b \<equiv> f_arg f"
  defines "a \<equiv> f_arg (fst (EcpBuildConfigReq f))"
  shows "ec_xmit a = (if ecp_asks b 0 then Some 0 else if ecp_asks b 1 then Some 1 else None)"
    "snd (EcpBuildConfigReq f) = opts_bytes
       ((if ecp_asks b 0 then [ecp_opt ECP_TY_DESE_bis (xmit_ivec (ec_desebis a))] else []) @
        (if ecp_asks b 1 then [ecp_opt ECP_TY_DESE (xmit_ivec (ec_des a))] else []))"
    "ecp_asks b 0 \<Longrightarrow> length (xmit_ivec (ec_desebis a)) = 8"
    "ecp_asks b 1 \<Longrightarrow> length (xmit_ivec (ec_des a)) = 8"
    "ec_lib a = ec_lib b" "des_ks (ec_des a) = des_ks (ec_des b)"
    "des_ks (ec_desebis a) = des_ks (ec_desebis b)" "ec_recv a = ec_recv b"
proof -
  have upt: "[0..<2] = [0, Suc 0]" by (simp add: upt_rec)
  note defs = EcpBuildConfigReq_def upt ecp_request_type_def gDeseBisEncType_def gDeseEncType_def
    DesBuildConfigReq_def DeseBisBuildConfigReq_def draw_ivec_def upd_des_def upd_desebis_def
    ECP_PEER_REJECTED_def ecp_asks_def
  note asked = ecp_opt_bytes(1) [symmetric] host32_def
  show "ec_xmit a = (if ecp_asks b 0 then Some 0 else if ecp_asks b 1 then Some 1 else None)"
    by (simp add: a_def b_def defs)
  show "ecp_asks b 0 \<Longrightarrow> length (xmit_ivec (ec_desebis a)) = 8"
    "ecp_asks b 1 \<Longrightarrow> length (xmit_ivec (ec_des a)) = 8"
    "ec_lib a = ec_lib b" "des_ks (ec_des a) = des_ks (ec_des b)"
    "des_ks (ec_desebis a) = des_ks (ec_desebis b)" "ec_recv a = ec_recv b"
    by (simp_all add: a_def b_def defs host32_def)
  show "snd (EcpBuildConfigReq f) = opts_bytes
       ((if ecp_asks b 0 then [ecp_opt ECP_TY_DESE_bis (xmit_ivec (ec_desebis a))] else []) @
        (if ecp_asks b 1 then [ecp_opt ECP_TY_DESE (xmit_ivec (ec_des a))] else []))"
    by (simp add: a_def b_def defs ecp_opt_def FsmConfValue_def opt_bytes_def host32_def)
qed

lemma enc_call_record [simp]:
  "enc_call None member run b = b"
  "enc_call (Some 0) en_Init (\<lambda>c. c dir) b = upd_desebis (DeseBisInit dir) b"
  "enc_call (Some (Suc 0)) en_Init (\<lambda>c. c dir) b = upd_des (DesInit dir) b"
  "enc_call (Some 0) en_Encrypt (\<lambda>_. ecp_call c) b = ecp_call c b"
  "enc_call (Some (Suc 0)) en_Encrypt (\<lambda>_. ecp_call c) b = ecp_call c b"
  "enc_call (Some 0) en_Decrypt (\<lambda>_. ecp_call c) b = ecp_call c b"
  "enc_call (Some (Suc 0)) en_Decrypt (\<lambda>_. ecp_call c) b = ecp_call c b"
  by (simp_all add: enc_call_def) (simp_all add: gDeseBisEncType_def gDeseEncType_def)

text \<open>What the layer coming up leaves alone, and the numbers it sets.\<close>

definition same_des :: "desinfo \<Rightarrow> desinfo \<Rightarrow> bool" where
  "same_des d e \<longleftrightarrow> xmit_ivec e = xmit_ivec d \<and> recv_ivec e = recv_ivec d \<and> des_ks e = des_ks d"

definition up_keeps :: "ecp_bund \<Rightarrow> ecp_bund \<Rightarrow> bool" where
  "up_keeps b u \<longleftrightarrow> ec_xmit u = ec_xmit b \<and> ec_recv u = ec_recv b \<and> ec_lib u = ec_lib b \<and>
     ec_fill u = ec_fill b \<and>
     same_des (ec_des b) (ec_des u) \<and> same_des (ec_desebis b) (ec_desebis u) \<and>
     (ec_xmit b \<noteq> None \<longrightarrow> xmit_seq (ecp_cipher (ec_xmit b) u) = 0) \<and>
     (ec_recv b \<noteq> None \<longrightarrow> recv_seq (ecp_cipher (ec_recv b) u) = 0)"

lemma ecp_up_fields:
  assumes "ecp_typed b"
  shows "up_keeps b (ecp_layer_up b)"
  using typed_index [OF assms]
  by (elim conjE; elim insertE emptyE;
      simp add: up_keeps_def same_des_def ecp_layer_up_def Let_def ecp_call_def ecp_set_config_def
        upd_des_def upd_desebis_def DesInit_def DeseBisInit_def ecp_cipher_def)

lemma ecp_takes_opt:
  assumes "f_rejBuf (ecp_decode_opt MODE_REQ f (ecp_opt t iv)) = []" "f_ackBuf f = []" "length iv = 8"
  shows "t = ECP_TY_DESE_bis \<Longrightarrow> f_arg (ecp_decode_opt MODE_REQ f (ecp_opt t iv)) =
      (f_arg f)\<lparr>ec_recv := Some 0, ec_desebis := (ec_desebis (f_arg f))\<lparr>recv_ivec := iv\<rparr>\<rparr>"
    "t = ECP_TY_DESE \<Longrightarrow> f_arg (ecp_decode_opt MODE_REQ f (ecp_opt t iv)) =
      (f_arg f)\<lparr>ec_recv := Some 1, ec_des := (ec_des (f_arg f))\<lparr>recv_ivec := iv\<rparr>\<rparr>"
proof -
  let ?o = "ecp_opt t iv"
  obtain k where k: "EcpFindType (opt_type ?o) = Some k"
      "ecp_decode_opt MODE_REQ f ?o =
      (let g = en_DecodeConfig (gEncTypes ! k) ?o MODE_REQ f
       in if length (f_ackBuf g) \<noteq> length (f_ackBuf f) then upd_arg (\<lambda>b. b\<lparr>ec_recv := Some k\<rparr>) g else g)"
    using ecp_accepts_opt [OF assms(1)] by metis
  note defs = EcpFindType_def gEncTypes_def gDeseBisEncType_def gDeseEncType_def ecp_opt_def
    DesDecodeConfigReq_def DeseBisDecodeConfigReq_def upd_des_def upd_desebis_def FsmAck_def
    opt_bytes_def FSM_BUFFER_SIZE_def
  show "t = ECP_TY_DESE_bis \<Longrightarrow> f_arg (ecp_decode_opt MODE_REQ f ?o) =
      (f_arg f)\<lparr>ec_recv := Some 0, ec_desebis := (ec_desebis (f_arg f))\<lparr>recv_ivec := iv\<rparr>\<rparr>"
    unfolding k(2) using k(1) assms(2,3) by (simp add: defs)
  show "t = ECP_TY_DESE \<Longrightarrow> f_arg (ecp_decode_opt MODE_REQ f ?o) =
      (f_arg f)\<lparr>ec_recv := Some 1, ec_des := (ec_des (f_arg f))\<lparr>recv_ivec := iv\<rparr>\<rparr>"
    unfolding k(2) using k(1) assms(2,3) by (auto simp: defs)
qed

text \<open>Two ends are in step once they are up, if the vectors agree.\<close>

lemma ecp_sync_up:
  assumes "up_keeps a u" "up_keeps b v" "ec_recv b = ec_xmit a" "ec_xmit a \<in> {Some 0, Some 1}"
    "des_ok (ec_lib a)" "ec_lib b = ec_lib a"
    "des_ks (ecp_cipher (ec_xmit a) b) = des_ks (ecp_cipher (ec_xmit a) a)"
    "recv_ivec (ecp_cipher (ec_xmit a) b) = xmit_ivec (ecp_cipher (ec_xmit a) a)"
    "length (xmit_ivec (ecp_cipher (ec_xmit a) a)) = 8"
  shows "ecp_sync u v"
proof (cases "ec_xmit a = Some 0")
  case True
  with assms show ?thesis
    by (simp add: ecp_sync_def ecp_matched_def ecp_cipher_def in_sync_def up_keeps_def same_des_def)
next
  case False
  with assms(4) have "ec_xmit a = Some 1" by simp
  with assms show ?thesis
    by (simp add: ecp_sync_def ecp_matched_def ecp_cipher_def in_sync_def up_keeps_def same_des_def)
qed

lemma ecp_agree:
  fixes fa fb :: "ecp_bund fsm"
  defines "a \<equiv> f_arg (fst (EcpBuildConfigReq fa))"
  defines "g \<equiv> FsmDecodeBuffer gEcpFsmType (snd (EcpBuildConfigReq fa)) MODE_REQ fb"
  assumes lib: "des_ok (ec_lib (f_arg fa))" "ec_lib (f_arg fb) = ec_lib (f_arg fa)"
    and key: "des_ks (ec_des (f_arg fb)) = des_ks (ec_des (f_arg fa))"
      "des_ks (ec_desebis (f_arg fb)) = des_ks (ec_desebis (f_arg fa))"
    and clean: "f_nakBuf g = []" "f_rejBuf g = []" and some: "ec_xmit a \<noteq> None"
    and typed: "ecp_typed (f_arg fa)" "ecp_typed (f_arg fb)"
  shows "ecp_sync (ecp_layer_up a) (ecp_layer_up (f_arg g))"
proof -
  let ?b = "f_arg fa" and ?o0 = "ecp_opt ECP_TY_DESE_bis (xmit_ivec (ec_desebis a))"
    and ?o1 = "ecp_opt ECP_TY_DESE (xmit_ivec (ec_des a))"
  define h where "h = ecp_forget_recv MODE_REQ (fb\<lparr>f_ackBuf := [], f_nakBuf := [], f_rejBuf := []\<rparr>)"
  define opts where "opts = (if ecp_asks ?b 0 then [?o0] else []) @ (if ecp_asks ?b 1 then [?o1] else [])"
  note req = ecp_request [of fa, folded a_def]
  have ok: "list_all opt_ok opts" using req(3,4) ecp_opt_bytes(2) by (simp add: opts_def)
  moreover have "length opts \<le> FSM_MAX_OPTS" by (simp add: opts_def FSM_MAX_OPTS_def)
  ultimately have "FsmExtractOptions FSM_MAX_OPTS (opts_bytes opts) = opts"
    using extract_opts_bytes [of opts FSM_MAX_OPTS "[]"] by simp
  then have g: "g = foldl (ecp_decode_opt MODE_REQ) h opts"
    unfolding g_def req(2) opts_def [symmetric] by (simp add: ecp_dec.decode_buffer h_def)
  have h: "f_ackBuf h = []" "f_arg h = (f_arg fb)\<lparr>ec_recv := None\<rparr>"
    by (simp_all add: h_def ecp_forget_recv_def)
  have one: "\<forall>opt \<in> set opts. EcpFindType (opt_type opt) = ec_recv (f_arg g)"
    using ecp_one_type [of h opts] clean ok h(1) unfolding g by metis
  have not_both: "\<not> (ecp_asks ?b 0 \<and> ecp_asks ?b 1)"
  proof
    assume "ecp_asks ?b 0 \<and> ecp_asks ?b 1"
    then have "EcpFindType ECP_TY_DESE_bis = EcpFindType ECP_TY_DESE"
      using one by (simp add: opts_def ecp_opt_def)
    then show False by (simp add: EcpFindType_def gEncTypes_def gDeseBisEncType_def gDeseEncType_def)
  qed
  have "ecp_typed a" unfolding a_def using ecp_build_typed typed(1) .
  then have up: "up_keeps a (ecp_layer_up a)" by (rule ecp_up_fields)
  from some req(1) not_both consider
      "ecp_asks ?b 0" "ec_xmit a = Some 0" "opts = [?o0]"
    | "ecp_asks ?b 1" "ec_xmit a = Some 1" "opts = [?o1]"
    by (auto simp: opts_def split: if_splits)
  then show "ecp_sync (ecp_layer_up a) (ecp_layer_up (f_arg g))"
  proof cases
    case 1
    have arg: "f_arg g = (f_arg fb)\<lparr>ec_recv := Some 0,
        ec_desebis := (ec_desebis (f_arg fb))\<lparr>recv_ivec := xmit_ivec (ec_desebis a)\<rparr>\<rparr>"
      using ecp_takes_opt(1) [of h ECP_TY_DESE_bis "xmit_ivec (ec_desebis a)"] clean(2) h req(3) 1
      unfolding g by simp
    have "up_keeps (f_arg g) (ecp_layer_up (f_arg g))"
      using typed(2) by (intro ecp_up_fields) (simp add: arg ecp_typed_def)
    from ecp_sync_up [OF up this] show ?thesis
      using 1 req(3,5-7) lib key by (simp add: arg ecp_cipher_def)
  next
    case 2
    have arg: "f_arg g = (f_arg fb)\<lparr>ec_recv := Some 1,
        ec_des := (ec_des (f_arg fb))\<lparr>recv_ivec := xmit_ivec (ec_des a)\<rparr>\<rparr>"
      using ecp_takes_opt(2) [of h ECP_TY_DESE "xmit_ivec (ec_des a)"] clean(2) h req(4) 2
      unfolding g by simp
    have "up_keeps (f_arg g) (ecp_layer_up (f_arg g))"
      using typed(2) by (intro ecp_up_fields) (simp add: arg ecp_typed_def)
    from ecp_sync_up [OF up this] show ?thesis
      using 2 req(4,5-7) lib key by (simp add: arg ecp_cipher_def)
  qed
qed

section \<open>Packets that are lost\<close>

lemma seal_keeps:
  assumes "des_ok L" "8 dvd length body" "length (xmit_ivec d) = 8"
  shows "xmit_seq (snd (dese_seal L n body d)) = xmit_seq d + 1"
    "des_ks (snd (dese_seal L n body d)) = des_ks d"
    "length (xmit_ivec (snd (dese_seal L n body d))) = 8"
  using des_blocks_inverse [OF assms, of "des_ks d"]
  by (simp_all add: dese_seal_def Let_def case_prod_beta)

lemma pad_whole: "8 dvd length (des_pad fill p)"
  by (simp add: DesEncrypt_dese_seal(2) roundup2_def)

lemma ecp_output_keeps:
  assumes "ecp_matched a b" "p \<noteq> []"
  defines "u \<equiv> snd (EcpDataOutput p a)"
  shows "ecp_matched u b" "ec_xmit u = ec_xmit a" "ec_fill u = ec_fill a"
    "xmit_seq (ecp_cipher (ec_xmit a) u) = xmit_seq (ecp_cipher (ec_xmit a) a) + 1"
proof -
  from assms(1) consider "ec_xmit a = Some 0" | "ec_xmit a = Some (Suc 0)"
    by (auto simp: ecp_matched_def)
  then have "ecp_matched u b \<and> ec_xmit u = ec_xmit a \<and> ec_fill u = ec_fill a \<and>
    xmit_seq (ecp_cipher (ec_xmit a) u) = xmit_seq (ecp_cipher (ec_xmit a) a) + 1"
  proof cases
    case 1
    with assms(1) have m: "des_ok (ec_lib a)" "length (xmit_ivec (ec_desebis a)) = 8"
      by (auto simp: ecp_matched_def)
    from 1 assms(1) show ?thesis
      by (simp add: u_def EcpDataOutput_def DeseBisEncrypt_def case_prod_beta ecp_matched_def
          ecp_cipher_def seal_keeps [OF m(1) bis_pad_whole [OF assms(2)] m(2)])
  next
    case 2
    with assms(1) have m: "des_ok (ec_lib a)" "length (xmit_ivec (ec_des a)) = 8"
      by (auto simp: ecp_matched_def)
    from 2 assms(1) show ?thesis
      by (simp add: u_def EcpDataOutput_def DesEncrypt_dese_seal(1) case_prod_beta ecp_matched_def
          ecp_cipher_def seal_keeps [OF m(1) pad_whole m(2)])
  qed
  then show "ecp_matched u b" "ec_xmit u = ec_xmit a" "ec_fill u = ec_fill a"
    "xmit_seq (ecp_cipher (ec_xmit a) u) = xmit_seq (ecp_cipher (ec_xmit a) a) + 1" by blast+
qed

lemma ecp_send_keeps:
  assumes "ecp_matched a b" "[] \<notin> set ps"
  shows "ecp_matched (snd (ecp_send ps a)) b \<and> ec_xmit (snd (ecp_send ps a)) = ec_xmit a \<and>
    ec_fill (snd (ecp_send ps a)) = ec_fill a \<and>
    xmit_seq (ecp_cipher (ec_xmit a) (snd (ecp_send ps a))) =
      xmit_seq (ecp_cipher (ec_xmit a) a) + of_nat (length ps)"
  using assms
proof (induction ps arbitrary: a)
  case (Cons p ps)
  then have "p \<noteq> []" by auto
  note one = ecp_output_keeps [OF Cons.prems(1) this]
  show ?case
    using Cons.IH [OF one(1)] Cons.prems(2) one(2-4) by (simp add: case_prod_beta)
qed simp

section \<open>The properties\<close>

text \<open>A request of one end accepted by the other, and both up.\<close>

definition ecp_negotiate :: "ecp_bund fsm \<Rightarrow> ecp_bund fsm \<Rightarrow> (ecp_bund \<times> ecp_bund) option" where
  "ecp_negotiate fa fb =
     (let (fa, req) = EcpBuildConfigReq fa; g = FsmDecodeBuffer gEcpFsmType req MODE_REQ fb
      in if f_nakBuf g = [] \<and> f_rejBuf g = []
         then Some (ecp_layer_up (f_arg fa), ecp_layer_up (f_arg g)) else None)"

text \<open>Two bundles with a toy cipher, one that asks for DESE-bis and one that accepts it.\<close>

definition toy_des :: des_lib where
  "toy_des = \<lparr>DES_string_to_key = (\<lambda>s. map of_char s), DES_set_key = (\<lambda>k. k),
     DES_cbc_encrypt = (\<lambda>enc ks iv b. map2 (XOR) b iv)\<rparr>"

lemma toy_des_ok: "des_ok toy_des"
proof -
  have "map2 (XOR) (map2 (XOR) b iv) iv = b" if "length iv = length b" for iv b :: "byte list"
    using that by (induction iv b rule: list_induct2) (simp_all add: xor.assoc)
  then show ?thesis by (simp add: des_ok_def toy_des_def)
qed

definition ecp_example :: ecp_bund where
  "ecp_example = \<lparr>ec_key = '''', ec_xmit = None, ec_recv = None, ec_self_reject = 0,
     ec_peer_reject = 0, ec_options = \<lparr>oi_enable = 0, oi_accept = 0\<rparr>,
     ec_des = \<lparr>xmit_ivec = replicate 8 0, recv_ivec = replicate 8 0, xmit_seq = 0, recv_seq = 0,
       des_ks = [], des_recv_stats = dese_stats_zero, des_xmit_stats = dese_stats_zero\<rparr>,
     ec_desebis = \<lparr>xmit_ivec = replicate 8 0, recv_ivec = replicate 8 0, xmit_seq = 0, recv_seq = 0,
       des_ks = [], des_recv_stats = dese_stats_zero, des_xmit_stats = dese_stats_zero\<rparr>,
     ec_xmit_resets = 0, ec_recv_resets = 0, ec_crypt_reqd = True, ec_enableEncryption = False,
     ec_enableDecryption = False, ec_calls = [], ec_retry_timeout = 2, ec_recvFrames = None,
     ec_lib = toy_des, ec_fill = (\<lambda>_. 7), ec_random = (\<lambda>n. of_nat (5 * n + 9)), ec_drawn = 0\<rparr>"

definition ecp_asker :: "ecp_bund fsm" where
  "ecp_asker = FsmInit [] (ecp_example\<lparr>ec_options := \<lparr>oi_enable = 1, oi_accept = 0\<rparr>\<rparr>)"

definition ecp_answerer :: "ecp_bund fsm" where
  "ecp_answerer = FsmInit [] (ecp_example\<lparr>ec_options := \<lparr>oi_enable = 0, oi_accept = 1\<rparr>\<rparr>)"

text \<open>C20: Two ends of ECP that have negotiated understand each other. If one end's Configure-Request is
  accepted without a Nak or a Reject by a peer with the same key, and both ends come up, then every
  non-empty packet sent afterwards arrives, in order, whatever the packets and the vectors drawn:
  under DESE-bis exactly as it was sent, under DESE followed by the octets that fill up its last
  block, which are what the memory of the sender held. DES is any cipher whose decryption of a
  block undoes its encryption.\<close>

theorem ecp_negotiated_stream:
  assumes "des_ok (ec_lib (f_arg fa))" "ec_lib (f_arg fb) = ec_lib (f_arg fa)"
    "des_ks (ec_des (f_arg fb)) = des_ks (ec_des (f_arg fa))"
    "des_ks (ec_desebis (f_arg fb)) = des_ks (ec_desebis (f_arg fa))"
    "ecp_typed (f_arg fa)" "ecp_typed (f_arg fb)"
    "ecp_negotiate fa fb = Some (a, b)" "ec_xmit a \<noteq> None" "[] \<notin> set packets"
  shows "fst (ecp_receive (fst (ecp_send packets a)) b) = map (ecp_arrives a) packets"
proof -
  let ?a = "f_arg (fst (EcpBuildConfigReq fa))"
  let ?g = "FsmDecodeBuffer gEcpFsmType (snd (EcpBuildConfigReq fa)) MODE_REQ fb"
  have n: "f_nakBuf ?g = []" "f_rejBuf ?g = []" "a = ecp_layer_up ?a" "b = ecp_layer_up (f_arg ?g)"
    using assms(7) by (auto simp: ecp_negotiate_def Let_def case_prod_beta split: if_splits)
  have "ecp_typed ?a"
    using ecp_build_typed assms(5) .
  then have "ec_xmit ?a \<noteq> None" using assms(8) n(3) ecp_up_fields by (auto simp: up_keeps_def)
  then have "ecp_sync a b" unfolding n(3,4) using assms(1-6) n(1,2) by (intro ecp_agree)
  then show ?thesis using assms(9) by (rule ecp_stream)
qed

lemma ecp_example_negotiates:
  "case ecp_negotiate ecp_asker ecp_answerer of None \<Rightarrow> False | Some (a, b) \<Rightarrow> ec_xmit a = Some 0"
  by code_simp

theorem ecp_negotiated_stream_witness:
  "\<exists>a b. ecp_negotiate ecp_asker ecp_answerer = Some (a, b) \<and> ec_xmit a = Some 0 \<and>
     fst (ecp_receive (fst (ecp_send [[1, 2], [3]] a)) b) = [Some [1, 2], Some [3]]"
proof -
  obtain a b where n: "ecp_negotiate ecp_asker ecp_answerer = Some (a, b)" "ec_xmit a = Some 0"
    using ecp_example_negotiates by (auto split: option.splits)
  have "fst (ecp_receive (fst (ecp_send [[1, 2], [3]] a)) b) = map (ecp_arrives a) [[1, 2], [3]]"
    by (rule ecp_negotiated_stream [OF _ _ _ _ _ _ n(1)])
      (simp_all add: ecp_asker_def ecp_answerer_def ecp_example_def FsmInit_def toy_des_ok
        ecp_typed_def n(2))
  then show ?thesis using n by (auto simp: ecp_arrives_def)
qed

text \<open>C21: A loss costs one more packet. When packets are lost on the way to a receiver that was in step
  (at least one, and fewer than the 65536 after which the number comes round again), the next one
  is dropped as well, and all that follow arrive.\<close>

theorem ecp_loss_costs_one:
  assumes "ecp_sync a b" "[] \<notin> set (lost @ p # packets)" "lost \<noteq> []" "length lost < 65536"
  shows "fst (ecp_receive (fst (ecp_send (p # packets) (snd (ecp_send lost a)))) b) =
    None # map (ecp_arrives a) packets"
proof -
  define u where "u = snd (ecp_send lost a)"
  define s where "s = EcpDataOutput p u"
  define r where "r = EcpDataInput (pk_data (fst s)) b"
  have m: "ecp_matched a b" and in_step: "in_sync (ecp_cipher (ec_xmit a) a) (ecp_cipher (ec_xmit a) b)"
    using assms(1) by (simp_all add: ecp_sync_def)
  have u: "ecp_matched u b" "ec_xmit u = ec_xmit a" "ec_fill u = ec_fill a"
    "xmit_seq (ecp_cipher (ec_xmit a) u) = xmit_seq (ecp_cipher (ec_xmit a) a) + of_nat (length lost)"
    using ecp_send_keeps [OF m, of lost] assms(2) by (simp_all add: u_def)
  have "(of_nat (length lost) :: u16) \<noteq> 0"
    using assms(3,4) by (simp add: unat_of_nat_small word_unat_eq_iff [symmetric] flip: unat_0_iff)
  then have "recv_seq (ecp_cipher (ec_xmit u) b) \<noteq> xmit_seq (ecp_cipher (ec_xmit u) u)"
    using u(2,4) in_step by (simp add: in_sync_def)
  moreover from this have "\<not> ecp_sync u b" by (simp add: ecp_sync_def in_sync_def)
  ultimately have "fst r = None" "ecp_sync (snd s) (snd r)" "ec_xmit (snd s) = ec_xmit u"
      "ec_fill (snd s) = ec_fill u"
    using ecp_packet [OF u(1), of p] assms(2) by (auto simp: ecp_packet_ok_def s_def r_def Let_def)
  moreover have "ecp_arrives (snd s) = ecp_arrives a"
    by (rule ext) (simp add: ecp_arrives_def calculation u)
  ultimately show ?thesis
    using ecp_stream [of "snd s" "snd r" packets] assms(2)
    by (simp add: u_def [symmetric] s_def [symmetric] r_def [symmetric] case_prod_beta)
qed

theorem ecp_loss_costs_one_witness:
  "\<exists>a b. fst (ecp_receive (fst (ecp_send [[3], [4]] (snd (ecp_send [[1], [2]] a)))) b) =
     [None, Some [4]]"
proof -
  let ?d = "(ec_desebis ecp_example)\<lparr>des_ks := [1]\<rparr>"
  let ?a = "ecp_example\<lparr>ec_xmit := Some 0, ec_desebis := ?d\<rparr>"
  let ?b = "ecp_example\<lparr>ec_recv := Some 0, ec_desebis := ?d\<rparr>"
  have "ecp_sync ?a ?b"
    by (simp add: ecp_sync_def ecp_matched_def ecp_cipher_def in_sync_def ecp_example_def toy_des_ok)
  then have "fst (ecp_receive (fst (ecp_send ([3] # [[4]]) (snd (ecp_send [[1], [2]] ?a)))) ?b) =
      None # map (ecp_arrives ?a) [[4]]"
    by (rule ecp_loss_costs_one) simp_all
  then show ?thesis by (auto simp: ecp_arrives_def)
qed

text \<open>C23: An encrypted packet is not longer than promised. With the encryption of either type, a frame
  whose payload keeps to what \<open>EcpSubtractBloat\<close> leaves of a size, and begins with two
  octets of its protocol number, is encrypted to at most that size.\<close>

theorem ecp_frames_fit:
  assumes "des_ok (ec_lib (f_arg f))" "ec_xmit (f_arg f) \<in> {Some 0, Some 1}"
    "length (xmit_ivec (ecp_cipher (ec_xmit (f_arg f)) (f_arg f))) = 8" "OPEN_STATE (f_state f)"
    "int (length payload) \<le> EcpSubtractBloat f sz"
  shows "\<exists>c. fst (EcpDataOutput (be16 proto @ payload) (f_arg f)) = Some c \<and> int (length c) \<le> sz"
proof -
  let ?p = "be16 proto @ payload"
  have p: "?p \<noteq> []" by (simp add: be16_def)
  from assms(2) consider "ec_xmit (f_arg f) = Some 0" | "ec_xmit (f_arg f) = Some (Suc 0)" by auto
  then show ?thesis
  proof cases
    case 1
    with assms(4,5) have "int (length ?p) \<le> DeseBisSubtractBloat sz"
      by (simp add: EcpSubtractBloat_def gDeseBisEncType_def ECP_OVERHEAD_def)
    with 1 bis_fits [OF assms(1) _ this p] assms(3) show ?thesis
      by (simp add: EcpDataOutput_def ecp_cipher_def case_prod_beta)
  next
    case 2
    with assms(4,5) have "int (length ?p) \<le> DesSubtractBloat sz"
      by (simp add: EcpSubtractBloat_def gDeseEncType_def ECP_OVERHEAD_def)
    with 2 des_fits [OF assms(1) _ this] assms(3) show ?thesis
      by (simp add: EcpDataOutput_def ecp_cipher_def case_prod_beta)
  qed
qed

theorem ecp_frames_fit_witness:
  "\<exists>c. fst (EcpDataOutput (be16 0x21 @ replicate 1485 9)
     (f_arg (ecp_asker\<lparr>f_state := ST_OPENED, f_arg := ecp_example\<lparr>ec_xmit := Some 0\<rparr>\<rparr>))) = Some c \<and>
     int (length c) \<le> 1492"
  by (rule ecp_frames_fit)
    (simp_all add: ecp_example_def toy_des_ok ecp_cipher_def EcpSubtractBloat_def gDeseBisEncType_def
      DeseBisSubtractBloat_def and_not_7 DES_OVERHEAD_def ECP_OVERHEAD_def)

text \<open>C22: A request that is acknowledged names one encryption type only, in options of the right length,
  a type that is configured as acceptable, and that type is then the one for the incoming
  packets.\<close>

theorem ecp_accepts_one_type:
  assumes "f_nakBuf (FsmDecodeBuffer gEcpFsmType req MODE_REQ f) = []"
    "f_rejBuf (FsmDecodeBuffer gEcpFsmType req MODE_REQ f) = []"
    "opt \<in> set (FsmExtractOptions FSM_MAX_OPTS req)"
  shows "opt_len opt = 10 \<and> (\<exists>k. EcpFindType (opt_type opt) = Some k \<and>
      Acceptable (ec_options (f_arg f)) k \<and>
      ec_recv (f_arg (FsmDecodeBuffer gEcpFsmType req MODE_REQ f)) = Some k)"
proof -
  let ?h = "ecp_forget_recv MODE_REQ (f\<lparr>f_ackBuf := [], f_nakBuf := [], f_rejBuf := []\<rparr>)"
  have g: "FsmDecodeBuffer gEcpFsmType req MODE_REQ f =
      foldl (ecp_decode_opt MODE_REQ) ?h (FsmExtractOptions FSM_MAX_OPTS req)"
    by (rule ecp_dec.decode_buffer)
  have "f_ackBuf ?h = []" "ec_options (f_arg ?h) = ec_options (f_arg f)"
    by (simp_all add: ecp_forget_recv_def)
  with ecp_one_type [of ?h "FsmExtractOptions FSM_MAX_OPTS req"] assms extract_ok show ?thesis
    unfolding g by metis
qed

lemma ecp_example_accepts:
  "let g = FsmDecodeBuffer gEcpFsmType (FsmConfValue 3 (replicate 8 6)) MODE_REQ ecp_answerer
   in f_nakBuf g = [] \<and> f_rejBuf g = [] \<and>
     ecp_opt 3 (replicate 8 6) \<in> set (FsmExtractOptions FSM_MAX_OPTS (FsmConfValue 3 (replicate 8 6)))"
  by code_simp

theorem ecp_accepts_one_type_witness:
  "\<exists>k. EcpFindType 3 = Some k \<and>
     ec_recv (f_arg (FsmDecodeBuffer gEcpFsmType (FsmConfValue 3 (replicate 8 6)) MODE_REQ
       ecp_answerer)) = Some k"
  using ecp_example_accepts
    ecp_accepts_one_type [of "FsmConfValue 3 (replicate 8 6)" ecp_answerer "ecp_opt 3 (replicate 8 6)"]
  by (auto simp: Let_def ecp_opt_def)

definition ecp_run :: "byte list \<Rightarrow> ecp_bund \<Rightarrow> ecp_bund fsm" where
  "ecp_run junk b =
     EcpInput (Some (fsm_header CODE_CONFIGACK 1 0)) (EcpInput (Some (fsm_header CODE_CONFIGREQ 1 0))
       (EcpUp (EcpOpen (EcpInit junk b))))"

definition ecp_idle :: "fsm_state \<Rightarrow> ecp_bund fsm \<Rightarrow> bool" where
  "ecp_idle s f \<longleftrightarrow> f_state f = s \<and> f_reqid f = 2 \<and> t_func (f_timer f) \<and> \<not> f_aborted f \<and>
     echo_int (f_conf f) = 0 \<and> ec_options (f_arg f) = \<lparr>oi_enable = 0, oi_accept = 0\<rparr> \<and>
     ec_xmit (f_arg f) = None \<and> ec_crypt_reqd (f_arg f) \<and> ec_calls (f_arg f) = []"

lemma ecp_type_fields [simp]:
  "NewState gEcpFsmType = None" "LayerUp gEcpFsmType = Some EcpLayerUp" "LayerStart gEcpFsmType = None"
  "BuildConfigReq gEcpFsmType = EcpBuildConfigReq" "DecodeConfig gEcpFsmType = EcpDecodeConfig"
  "ty_known_codes gEcpFsmType = ECP_KNOWN_CODES"
  by (simp_all add: gEcpFsmType_def ecp_type_def)

lemma no_request:
  assumes "ec_options (f_arg f) = \<lparr>oi_enable = 0, oi_accept = 0\<rparr>"
  shows "EcpBuildConfigReq f = (upd_arg (\<lambda>b. b\<lparr>ec_xmit := None\<rparr>) f, [])"
proof -
  have "[0..<2] = [0, Suc 0]" by (simp add: upt_rec)
  with assms show ?thesis
    by (simp add: EcpBuildConfigReq_def ecp_request_type_def upd_arg_def Enabled_def)
qed

lemma ecp_started:
  assumes "ec_crypt_reqd b" "ec_calls b = []"
  shows "ecp_idle ST_REQSENT (EcpUp (EcpOpen (EcpInit junk b)))"
proof -
  define f where "f = EcpOpen (EcpInit junk b)"
  have f: "f_state f = ST_STARTING" "f_reqid f = 1" "\<not> f_aborted f" "echo_int (f_conf f) = 0"
    "ec_options (f_arg f) = \<lparr>oi_enable = 0, oi_accept = 0\<rparr>" "ec_crypt_reqd (f_arg f)" "ec_calls (f_arg f) = []"
    using assms by (simp_all add: f_def EcpOpen_def FsmOpen_def EcpInit_def FsmInit_def Let_def
        FsmNewState_def FsmLayerStart_def call0_def)
  define g where "g = fsm_Configure gEcpFsmType f"
  have "f_arg g = ecp_forget (foldl (\<lambda>b et. case en_Configure et of None \<Rightarrow> b | Some c \<Rightarrow> c b) (f_arg f) gEncTypes)"
    by (simp add: g_def fsm_Configure_def EcpConfigure_def)
  then have g: "ec_options (f_arg g) = \<lparr>oi_enable = 0, oi_accept = 0\<rparr>" "ec_crypt_reqd (f_arg g)"
    "ec_calls (f_arg g) = []"
    using f by (simp_all add: gEncTypes_def gDeseBisEncType_def gDeseEncType_def ecp_forget_def
        upd_des_def upd_desebis_def)
  have gs: "f_state g = ST_STARTING" "f_reqid g = 1" "\<not> f_aborted g" "echo_int (f_conf g) = 0"
    using f by (simp_all add: g_def)
  define h where "h = FsmInitMaxConfig (maxconfig (f_conf g)) (FsmInitMaxFailure (maxfailure (f_conf g))
      (FsmInitRestartCounter gEcpFsmType (maxconfig (f_conf g)) (FsmNewState gEcpFsmType ST_REQSENT g)))"
  have h: "f_state h = ST_REQSENT" "f_reqid h = 1" "\<not> f_aborted h" "echo_int (f_conf h) = 0"
    "t_func (f_timer h)" "f_arg h = f_arg g"
    using gs by (simp_all add: h_def FsmInitMaxConfig_def FsmInitMaxFailure_def FsmInitRestartCounter_def
        FsmNewState_def Let_def)
  have "EcpUp f = FsmSendConfigReq gEcpFsmType h"
    using f(1) by (simp add: EcpUp_def FsmUp_def Let_def g_def h_def)
  moreover have "ecp_idle ST_REQSENT (FsmSendConfigReq gEcpFsmType h)"
    using h g by (simp add: FsmSendConfigReq_def no_request FsmDecodeBuffer_def EcpDecodeConfig_def
        ecp_forget_recv_def ecp_idle_def fsm_TimerStart_def TimerStart2_def FsmOutput_def
        FsmOutputMbuf_def upd_arg_def emit_def Let_def)
  ultimately show ?thesis by (simp add: f_def)
qed

lemma ecp_no_options:
  "EcpDecodeConfig f [] md = ecp_forget_recv md f"
  by (simp add: EcpDecodeConfig_def)

lemma ecp_empty_packet:
  "FsmInput gEcpFsmType (Some (fsm_header CODE_CONFIGREQ 1 0)) f = FsmRecvConfigReq gEcpFsmType 1 None f"
  "FsmInput gEcpFsmType (Some (fsm_header CODE_CONFIGACK 1 0)) f = FsmRecvConfigAck gEcpFsmType 1 None f"
  using decap_header [of "[]" _ 1 "[]"]
  by (simp_all add: FsmInput_def known_code_def NUM_FSM_CODES_def ECP_KNOWN_CODES_def fsm_action_def)

lemma ecp_request_acked:
  assumes "ecp_idle ST_REQSENT f"
  defines "g \<equiv> FsmRecvConfigReq gEcpFsmType 1 None f"
  shows "ecp_idle ST_ACKSENT g \<and> ec_recv (f_arg g) = None"
proof -
  define h where "h = ecp_forget_recv MODE_REQ (f\<lparr>f_ackBuf := [], f_nakBuf := [], f_rejBuf := []\<rparr>)"
  have h: "f_state h = ST_REQSENT" "f_ackBuf h = []" "f_nakBuf h = []" "f_rejBuf h = []"
    "ecp_idle ST_REQSENT h" "ec_recv (f_arg h) = None"
    using assms(1) by (simp_all add: h_def ecp_forget_recv_def ecp_idle_def upd_arg_def)
  have "FsmDecodeBuffer gEcpFsmType [] MODE_REQ f = h"
    by (simp add: FsmDecodeBuffer_def ecp_no_options h_def)
  then have "rcr_process gEcpFsmType 1 None f =
      rcr_next gEcpFsmType True (FsmSendConfigAck gEcpFsmType 1 [] h)"
    using h by (simp add: rcr_process_def)
  then have "g = FsmNewState gEcpFsmType ST_ACKSENT (FsmSendConfigAck gEcpFsmType 1 [] h)"
    using assms(1) h(1)
    by (simp add: g_def FsmRecvConfigReq_def ecp_idle_def rcr_next_def FsmSendConfigAck_def
        FsmDecodeBuffer_def ecp_no_options ecp_forget_recv_def)
  then show ?thesis
    using h(5,6) by (simp add: ecp_idle_def FsmSendConfigAck_def FsmDecodeBuffer_def ecp_no_options
        ecp_forget_recv_def FsmNewState_def Let_def FsmOutput_def FsmOutputMbuf_def)
qed

lemma ecp_ack_opens:
  assumes "ecp_idle ST_ACKSENT f" "ec_recv (f_arg f) = None"
  defines "g \<equiv> FsmRecvConfigAck gEcpFsmType 1 None f"
  shows "f_state g = ST_OPENED \<and> \<not> f_aborted g \<and> f_arg g = ecp_layer_up (f_arg f)"
  using assms(1)
  by (simp add: g_def FsmRecvConfigAck_def FsmDecodeBuffer_def ecp_no_options ecp_forget_recv_def
      ecp_idle_def Let_def FsmLayerUp_def call0_def EcpLayerUp_def FsmInitMaxConfig_def
      FsmInitMaxFailure_def FsmInitRestartCounter_def FsmNewState_def)

text \<open>C24: Required encryption is not enforced. A bundle with \<open>crypt-reqd\<close> set whose ECP has no type
  enabled (as after \<open>EcpInit\<close>) negotiates an empty request with a peer that asks for none either,
  and ECP comes up: the node is told to encrypt in neither direction, and no network protocol
  is told to fail.\<close>

theorem ecp_required_not_enforced:
  assumes "ec_crypt_reqd b" "ec_calls b = []"
  shows "f_state (ecp_run junk b) = ST_OPENED \<and> \<not> f_aborted (ecp_run junk b) \<and>
    ec_crypt_reqd (f_arg (ecp_run junk b)) \<and>
    \<not> ec_enableEncryption (f_arg (ecp_run junk b)) \<and> \<not> ec_enableDecryption (f_arg (ecp_run junk b)) \<and>
    ec_calls (f_arg (ecp_run junk b)) = [EcSetConfig, EcUpdateParams]"
proof -
  define f where "f = EcpUp (EcpOpen (EcpInit junk b))"
  define g where "g = FsmRecvConfigReq gEcpFsmType 1 None f"
  have g: "ecp_idle ST_ACKSENT g" "ec_recv (f_arg g) = None"
    using ecp_request_acked [OF ecp_started [OF assms, of junk]] by (simp_all add: g_def f_def)
  have "ecp_run junk b = FsmRecvConfigAck gEcpFsmType 1 None g"
    by (simp add: ecp_run_def EcpInput_def ecp_empty_packet g_def f_def)
  with ecp_ack_opens [OF g] g show ?thesis
    by (simp add: ecp_idle_def ecp_layer_up_def ecp_set_config_def ecp_call_def)
qed

theorem ecp_required_not_enforced_witness:
  "f_state (ecp_run [] ecp_example) = ST_OPENED \<and>
   \<not> ec_enableEncryption (f_arg (ecp_run [] ecp_example))"
  using ecp_required_not_enforced [of ecp_example "[]"] by (simp add: ecp_example_def)

text \<open>ECP's state is well formed. After any sequence of administrative events, packets (whatever their
  octets), timeouts and failures, the two pointers to encryption types are NULL or point into the
  table, the vectors sent with are blocks of eight octets, and no assertion has failed.\<close>

theorem ecp_state_typed:
  assumes "fsm_reachable gEcpFsmType (EcpInit junk b) f"
  shows "ecp_typed (f_arg f) \<and> \<not> f_aborted f"
proof -
  have "ecp_ph.sound (EcpInit junk b)"
    by (simp add: ecp_ph.sound_def ecp_ph.calm_def EcpInit_def FsmInit_def Let_def ecp_typed_def)
  then have "ecp_ph.sound f" using ecp_ph.sound_reachable [OF assms] by blast
  then show ?thesis using ecp_ph.sound_good [of f] by simp
qed

theorem ecp_state_typed_witness:
  "ecp_typed (f_arg (FsmUp gEcpFsmType (FsmOpen gEcpFsmType (EcpInit [] ecp_example))))"
  using ecp_state_typed [OF reach_step [OF reach_step [OF reach_init step_open] step_up]] by blast

end
