(* ===== verification/Comp.thy ===== *)
theory Comp
  imports Ipv6cp Fsm_Settle Msoft Pred1
begin

unbundle bit_operations_syntax

text \<open>
  The compression types of CCP: MPPC with MPPE (\<open>src/src/ccp_mppc.c\<close>), Deflate
  (\<open>src/src/ccp_deflate.c\<close>) and Predictor-1 (\<open>src/src/ccp_pred1.c\<close>, its packets are in \<open>Pred1\<close>), each a
  record of callbacks as \<open>struct comptype\<close> (\<open>src/src/comp.h\<close>). MPPC and Deflate run in
  the kernel: what the program asks of netgraph is recorded in \<open>cc_calls\<close>, and whether
  the n-th of these calls succeeds is \<open>cc_ng n\<close>. The bits of MPPC, the length of its keys and its
  worst expansion come from a system header and are the record \<open>ng_mppc\<close>.
\<close>

section \<open>State\<close>

record ng_mppc =
  MPPC_BIT :: u32
  MPPE_40 :: u32
  MPPE_56 :: u32
  MPPE_128 :: u32
  MPPE_BITS :: u32
  MPPE_STATELESS :: u32
  MPPE_KEY_LEN :: nat
  MPPC_MAX_BLOWUP :: "int \<Rightarrow> int"

text \<open>The documentation of the option (RFC 3078): every bit is one of the 32.\<close>

definition ng_mppc_ok :: "ng_mppc \<Rightarrow> bool" where
  "ng_mppc_ok K \<longleftrightarrow> (\<exists>a b c d e. distinct [a, b, c, d, e] \<and> list_all (\<lambda>n. n < 32) [a, b, c, d, e] \<and>
     MPPC_BIT K = push_bit a 1 \<and> MPPE_40 K = push_bit b 1 \<and> MPPE_56 K = push_bit c 1 \<and>
     MPPE_128 K = push_bit d 1 \<and> MPPE_STATELESS K = push_bit e 1 \<and>
     MPPE_BITS K = MPPE_40 K OR MPPE_56 K OR MPPE_128 K)"

datatype ccp_effect =
  CcMkpeer comp_dir nat                    \<comment> \<open>a node of the type at this index, at this hook\<close>
| CcGetNodeID comp_dir
| CcConfigMppc comp_dir u32 u32 "byte list"    \<comment> \<open>node, bits, start key\<close>
| CcConfigDeflate comp_dir u32 int             \<comment> \<open>node, window\<close>
| CcShutdownHook comp_dir
| CcShutdown u32
| CcReset u32
| CcConnect comp_dir
| CcDisconnect comp_dir
| CcSetConfig byte byte
| CcUpdateParams

record ccp_bund =
  cc_options :: optinfo
  cc_xmit :: "nat option"
  cc_recv :: "nat option"
  cc_self_reject :: u32
  cc_peer_reject :: u32
  cc_crypt_check :: byte
  cc_pred1 :: pred1info
  cc_in_table :: bool               \<comment> \<open>\<open>InputGuessTable != NULL\<close>\<close>
  cc_out_table :: bool
  cc_xmit_windowBits :: int
  cc_recv_windowBits :: int
  mp_options :: optinfo
  mp_peer_reject :: u32
  mp_recv_bits :: u32
  mp_xmit_bits :: u32
  mp_xmit_key0 :: "byte list"
  mp_recv_key0 :: "byte list"
  cc_comp_node_id :: u32
  cc_decomp_node_id :: u32
  cc_recv_resets :: u32
  cc_xmit_resets :: u32
  cc_enableCompression :: byte
  cc_enableDecompression :: byte
  cc_params :: authparams           \<comment> \<open>\<open>b->params\<close>, of the first link\<close>
  cc_has_keys :: bool               \<comment> \<open>the members of \<open>b->params.msoft\<close> that only RADIUS sets\<close>
  cc_xmit_key :: "byte list"
  cc_recv_key :: "byte list"
  cc_types :: u32
  cc_originate :: origination
  cc_MPPCPresent :: bool
  cc_MPPEPresent :: bool
  cc_calls :: "ccp_effect list"
  cc_ng :: "nat \<Rightarrow> bool"
  cc_ng_id :: "nat \<Rightarrow> u32"
  cc_k :: ng_mppc
  cc_crypto :: crypto
  cc_fill :: "nat \<Rightarrow> byte"
  cc_uninit_ok :: bool
  cc_initfcs :: u16
  cc_goodfcs :: u16
  cc_retry_timeout :: short
  cc_recvFrames :: "u32 option"

definition ccp_call :: "ccp_effect \<Rightarrow> ccp_bund \<Rightarrow> ccp_bund" where
  "ccp_call c b = b\<lparr>cc_calls := cc_calls b @ [c]\<rparr>"

text \<open>A call and whether it succeeds.\<close>

definition ccp_ask :: "ccp_effect \<Rightarrow> ccp_bund \<Rightarrow> bool \<times> ccp_bund" where
  "ccp_ask c b = (cc_ng b (length (cc_calls b)), ccp_call c b)"

definition upd_pred1 :: "(pred1info \<Rightarrow> pred1info) \<Rightarrow> ccp_bund \<Rightarrow> ccp_bund" where
  "upd_pred1 g b = b\<lparr>cc_pred1 := g (cc_pred1 b)\<rparr>"

section \<open>A node of the kernel for one direction\<close>

definition set_node :: "comp_dir \<Rightarrow> u32 \<Rightarrow> ccp_bund \<Rightarrow> ccp_bund" where
  "set_node dir i b = (case dir of
     COMP_DIR_XMIT \<Rightarrow> b\<lparr>cc_comp_node_id := i\<rparr> | COMP_DIR_RECV \<Rightarrow> b\<lparr>cc_decomp_node_id := i\<rparr>)"

definition comp_node :: "comp_dir \<Rightarrow> ccp_bund \<Rightarrow> u32" where
  "comp_node dir b = (case dir of
     COMP_DIR_XMIT \<Rightarrow> cc_comp_node_id b | COMP_DIR_RECV \<Rightarrow> cc_decomp_node_id b)"

text \<open>What the functions \<open>MppcInit\<close> and \<open>DeflateInit\<close> have in common: attach a node, ask for its
  identifier (0 for none), configure it. On a failure the node is shut down, by the path that is
  known at the time.\<close>

definition make_node ::
  "nat \<Rightarrow> comp_dir \<Rightarrow> (u32 \<Rightarrow> ccp_effect) \<Rightarrow> ccp_bund \<Rightarrow> bool \<times> ccp_bund" where
  "make_node k dir config b =
     (let (ok, b) = ccp_ask (CcMkpeer dir k) b in
      if \<not> ok then (False, b)
      else
        (let i = cc_ng_id b (length (cc_calls b)); b = ccp_call (CcGetNodeID dir) b in
         if i = 0 then (False, ccp_call (CcShutdownHook dir) b)
         else
           (let (ok, b) = ccp_ask (config i) (set_node dir i b)
            in if \<not> ok then (False, ccp_call (CcShutdown i) b) else (True, b))))"

definition remove_node :: "comp_dir \<Rightarrow> ccp_bund \<Rightarrow> ccp_bund" where
  "remove_node dir b = ccp_call (CcShutdown (comp_node dir b)) (set_node dir 0 b)"

section \<open>MPPC and MPPE\<close>

definition MPPC_SUPPORTED :: "ng_mppc \<Rightarrow> u32" where
  "MPPC_SUPPORTED K = MPPC_BIT K OR MPPE_BITS K OR MPPE_STATELESS K"

abbreviation (input) "CCP_TY_MPPC \<equiv> (18 :: byte)"
abbreviation (input) "CCP_TY_DEFLATE \<equiv> (26 :: byte)"
abbreviation (input) "CCP_TY_PRED1 \<equiv> (1 :: byte)"

abbreviation (input) "MPPC_CONF_COMPRESS \<equiv> (0 :: nat)"
abbreviation (input) "MPPC_CONF_40 \<equiv> (1 :: nat)"
abbreviation (input) "MPPC_CONF_56 \<equiv> (2 :: nat)"
abbreviation (input) "MPPC_CONF_128 \<equiv> (3 :: nat)"
abbreviation (input) "MPPC_CONF_STATELESS \<equiv> (4 :: nat)"
abbreviation (input) "MPPC_CONF_POLICY \<equiv> (5 :: nat)"

definition mppc_gConfList :: "confinfo list" where
  "mppc_gConfList =
     [\<lparr>ci_peered = True, ci_option = MPPC_CONF_COMPRESS, ci_name = ''compress''\<rparr>,
      \<lparr>ci_peered = True, ci_option = MPPC_CONF_40, ci_name = ''e40''\<rparr>,
      \<lparr>ci_peered = True, ci_option = MPPC_CONF_56, ci_name = ''e56''\<rparr>,
      \<lparr>ci_peered = True, ci_option = MPPC_CONF_128, ci_name = ''e128''\<rparr>,
      \<lparr>ci_peered = True, ci_option = MPPC_CONF_STATELESS, ci_name = ''stateless''\<rparr>,
      \<lparr>ci_peered = False, ci_option = MPPC_CONF_POLICY, ci_name = ''policy''\<rparr>]"

definition MPPC_PEER_REJECTED :: "ccp_bund \<Rightarrow> nat \<Rightarrow> bool" where
  "MPPC_PEER_REJECTED b x = mask_test (mp_peer_reject b) x"

definition MPPC_PEER_REJ :: "nat \<Rightarrow> ccp_bund \<Rightarrow> ccp_bund" where
  "MPPC_PEER_REJ x b = b\<lparr>mp_peer_reject := mask_set (mp_peer_reject b) x\<rparr>"

text \<open>The three strengths, with the option and the bit of the policy of each.\<close>

datatype mppe_type = E40 | E56 | E128

fun mppe_conf :: "mppe_type \<Rightarrow> nat" where
  "mppe_conf E40 = MPPC_CONF_40"
| "mppe_conf E56 = MPPC_CONF_56"
| "mppe_conf E128 = MPPC_CONF_128"

fun MPPE_TYPE_BIT :: "mppe_type \<Rightarrow> u32" where
  "MPPE_TYPE_BIT E40 = 2"
| "MPPE_TYPE_BIT E128 = 4"
| "MPPE_TYPE_BIT E56 = 8"

definition MppcKeyAvailable :: "ccp_bund \<Rightarrow> mppe_type \<Rightarrow> bool" where
  "MppcKeyAvailable b t =
     (let p = cc_params b in
      if ms_chap_alg p = CHAP_ALG_MSOFT
      then \<not> (t = E128 \<and> \<not> ms_has_nt_hash p \<or> t \<noteq> E128 \<and> \<not> ms_has_lm_hash p)
      else cc_has_keys b \<or> ms_has_nt_hash p)"

definition MppcEnabledMppeType :: "ccp_bund \<Rightarrow> mppe_type \<Rightarrow> bool" where
  "MppcEnabledMppeType b t =
     (if \<not> cc_MPPEPresent b \<or> \<not> MppcKeyAvailable b t then False
      else if Enabled (mp_options b) MPPC_CONF_POLICY
      then cc_types b AND MPPE_TYPE_BIT t \<noteq> 0 \<and> \<not> MPPC_PEER_REJECTED b (mppe_conf t)
      else Enabled (mp_options b) (mppe_conf t) \<and> \<not> MPPC_PEER_REJECTED b (mppe_conf t))"

definition MppcAcceptableMppeType :: "ccp_bund \<Rightarrow> mppe_type \<Rightarrow> bool" where
  "MppcAcceptableMppeType b t =
     (if \<not> cc_MPPEPresent b \<or> \<not> MppcKeyAvailable b t then False
      else if Enabled (mp_options b) MPPC_CONF_POLICY then cc_types b AND MPPE_TYPE_BIT t \<noteq> 0
      else Acceptable (mp_options b) (mppe_conf t))"

text \<open>\<open>True\<close> for the 0 of the code; otherwise CCP disables the type.\<close>

definition MppcConfigure :: "ccp_bund \<Rightarrow> bool \<times> ccp_bund" where
  "MppcConfigure b =
     (let b = b\<lparr>mp_peer_reject := 0, mp_recv_bits := 0, mp_xmit_bits := 0\<rparr> in
      (Enabled (mp_options b) MPPC_CONF_COMPRESS \<and> cc_MPPCPresent b
       \<or> (\<exists>t\<in>set [E40, E56, E128]. MppcEnabledMppeType b t \<or> MppcAcceptableMppeType b t), b))"

text \<open>The loop looks for the largest packet that cannot expand past \<open>sz\<close>, from \<open>sz0\<close> on.\<close>

partial_function (option) mppc_shrink :: "(int \<Rightarrow> int) \<Rightarrow> int \<Rightarrow> int \<Rightarrow> int option" where
  "mppc_shrink blowup sz sz0 =
     (if blowup sz0 > sz then mppc_shrink blowup sz (sz0 - 20)
      else if blowup (sz0 + 1) > sz then Some sz0
      else mppc_shrink blowup sz (sz0 + 1))"

definition MppcSubtractBloat :: "ccp_bund \<Rightarrow> int \<Rightarrow> int option" where
  "MppcSubtractBloat b sz =
     (let sz = sz - 2 in
      if mp_xmit_bits b AND MPPC_BIT (cc_k b) \<noteq> 0
      then mppc_shrink (MPPC_MAX_BLOWUP (cc_k b)) sz sz else Some sz)"

definition MppcNegotiated :: "comp_dir \<Rightarrow> ccp_bund \<Rightarrow> bool" where
  "MppcNegotiated dir b = (case dir of
     COMP_DIR_XMIT \<Rightarrow> mp_xmit_bits b \<noteq> 0 | COMP_DIR_RECV \<Rightarrow> mp_recv_bits b \<noteq> 0)"

definition mppc_wanted :: "ccp_bund \<Rightarrow> u32" where
  "mppc_wanted b =
     (let K = cc_k b;
          bits = (if Enabled (mp_options b) MPPC_CONF_COMPRESS
                     \<and> \<not> MPPC_PEER_REJECTED b MPPC_CONF_COMPRESS \<and> cc_MPPCPresent b
                  then MPPC_BIT K else 0);
          bits = (if MppcEnabledMppeType b E40 \<and> \<not> MPPC_PEER_REJECTED b MPPC_CONF_40
                  then bits OR MPPE_40 K else bits);
          bits = (if MppcEnabledMppeType b E56 \<and> \<not> MPPC_PEER_REJECTED b MPPC_CONF_56
                  then bits OR MPPE_56 K else bits);
          bits = (if MppcEnabledMppeType b E128 \<and> \<not> MPPC_PEER_REJECTED b MPPC_CONF_128
                  then bits OR MPPE_128 K else bits)
      in if Enabled (mp_options b) MPPC_CONF_STATELESS
            \<and> \<not> MPPC_PEER_REJECTED b MPPC_CONF_STATELESS \<and> bits \<noteq> 0
         then bits OR MPPE_STATELESS K else bits)"

text \<open>A builder gets \<open>*ok\<close> as it is and may leave it so.\<close>

definition MppcBuildConfigReq :: "ccp_bund \<Rightarrow> bool \<Rightarrow> ccp_bund \<times> byte list \<times> bool" where
  "MppcBuildConfigReq b ok =
     (let bits = mppc_wanted b; b = b\<lparr>mp_xmit_bits := bits\<rparr>
      in if bits \<noteq> 0 then (b, FsmConfValue CCP_TY_MPPC (be32 bits), True) else (b, [], False))"

text \<open>What a request for \<open>bits\<close> is turned into.\<close>

definition mppc_choose :: "ccp_bund \<Rightarrow> u32 \<Rightarrow> u32" where
  "mppc_choose b bits =
     (let K = cc_k b; acc = MppcAcceptableMppeType b;
          bits = bits AND MPPC_SUPPORTED K;
          bits = (if \<not> Acceptable (mp_options b) MPPC_CONF_COMPRESS \<or> \<not> cc_MPPCPresent b
                  then bits AND NOT (MPPC_BIT K) else bits);
          bits = (if \<not> acc E40 then bits AND NOT (MPPE_40 K) else bits);
          bits = (if \<not> acc E56 then bits AND NOT (MPPE_56 K) else bits);
          bits = (if \<not> acc E128 then bits AND NOT (MPPE_128 K) else bits);
          bits = (if bits AND MPPE_128 K \<noteq> 0 then bits AND NOT (MPPE_40 K OR MPPE_56 K)
                  else if bits AND MPPE_56 K \<noteq> 0 then bits AND NOT (MPPE_40 K) else bits);
          bits = (if bits AND MPPE_BITS K = 0
                  then (let bits = (if acc E40 then bits OR MPPE_40 K else bits);
                            bits = (if acc E56 then bits OR MPPE_56 K else bits)
                        in if acc E128 then bits OR MPPE_128 K else bits)
                  else bits)
      in if bits AND MPPE_STATELESS K \<noteq> 0 \<and>
            (\<not> Acceptable (mp_options b) MPPC_CONF_STATELESS
             \<or> bits AND (MPPE_BITS K OR MPPC_BIT K) = 0)
         then bits AND NOT (MPPE_STATELESS K) else bits)"

text \<open>The four octets are copied before the length of the option is checked; with another length what
  was read is not used.\<close>

definition mppc_bits :: "fsmoption \<Rightarrow> u32" where
  "mppc_bits opt = (case get32 (opt_data opt) of Some v \<Rightarrow> v | None \<Rightarrow> 0)"

definition mppc_refused :: "u32 \<Rightarrow> ccp_bund \<Rightarrow> ccp_bund" where
  "mppc_refused bits b =
     (let K = cc_k b;
          b = (if bits AND MPPC_BIT K = 0 then MPPC_PEER_REJ MPPC_CONF_COMPRESS b else b);
          b = (if bits AND MPPE_40 K = 0 then MPPC_PEER_REJ MPPC_CONF_40 b else b);
          b = (if bits AND MPPE_56 K = 0 then MPPC_PEER_REJ MPPC_CONF_56 b else b);
          b = (if bits AND MPPE_128 K = 0 then MPPC_PEER_REJ MPPC_CONF_128 b else b)
      in if bits AND MPPE_STATELESS K = 0 then MPPC_PEER_REJ MPPC_CONF_STATELESS b else b)"

definition MppcDecodeConfigReq :: "fsmoption \<Rightarrow> mode \<Rightarrow> ccp_bund fsm \<Rightarrow> ccp_bund fsm" where
  "MppcDecodeConfigReq opt md f =
     (let orig = mppc_bits opt in
      if opt_len opt \<noteq> 6 then (if md = MODE_REQ then FsmRej opt f else f)
      else case md of
        MODE_REQ \<Rightarrow>
          (let bits = mppc_choose (f_arg f) orig; f = upd_arg (\<lambda>b. b\<lparr>mp_recv_bits := bits\<rparr>) f
           in if bits = 0 then FsmRej opt f
              else if bits \<noteq> orig then FsmNak (opt_set (be32 bits) opt) f
              else FsmAck opt f)
      | MODE_NAK \<Rightarrow> upd_arg (mppc_refused orig) f
      | _ \<Rightarrow> f)"

text \<open>MS-CHAP version 1: for 128 bits a hash of the challenge, else the LM hash, of which eight octets
  are copied into a buffer of the length of a key.\<close>

definition set_key0 :: "comp_dir \<Rightarrow> byte list \<Rightarrow> ccp_bund \<Rightarrow> ccp_bund" where
  "set_key0 dir k b = (case dir of
     COMP_DIR_XMIT \<Rightarrow> b\<lparr>mp_xmit_key0 := k\<rparr> | COMP_DIR_RECV \<Rightarrow> b\<lparr>mp_recv_key0 := k\<rparr>)"

definition mppc_dir_bits :: "comp_dir \<Rightarrow> ccp_bund \<Rightarrow> u32" where
  "mppc_dir_bits dir b = (case dir of
     COMP_DIR_XMIT \<Rightarrow> mp_xmit_bits b | COMP_DIR_RECV \<Rightarrow> mp_recv_bits b)"

definition MppeInitKey :: "comp_dir \<Rightarrow> ccp_bund \<Rightarrow> ccp_bund" where
  "MppeInitKey dir b =
     (let K = cc_k b; p = cc_params b; n = MPPE_KEY_LEN K;
          h = (if mppc_dir_bits dir b AND MPPE_128 K \<noteq> 0
               then MsoftGetStartKey (cc_crypto b) (ms_msChal p) (take n (ms_nt_hash_hash p))
               else take 8 (ms_lm_hash p) @ map (cc_fill b) [8..<n])
      in set_key0 dir (take n h) b)"

definition MppeInitKeyv2 :: "comp_dir \<Rightarrow> ccp_bund \<Rightarrow> ccp_bund" where
  "MppeInitKeyv2 dir b =
     (let n = MPPE_KEY_LEN (cc_k b); p = cc_params b in
      if cc_has_keys b
      then b\<lparr>mp_xmit_key0 := take n (cc_xmit_key b), mp_recv_key0 := take n (cc_recv_key b)\<rparr>
      else
        (let h = take n (ms_nt_hash_hash p);
             h = MsoftGetMasterKey (cc_crypto b) (ms_ntResp p) h;
             h = MsoftGetAsymetricStartKey (cc_crypto b) h
               ((dir = COMP_DIR_RECV) \<noteq> (cc_originate b = LINK_ORIGINATE_LOCAL))
         in set_key0 dir (take n h) b))"

definition MppcInit :: "comp_dir \<Rightarrow> ccp_bund \<Rightarrow> bool \<times> ccp_bund" where
  "MppcInit dir b =
     (let K = cc_k b; bits = mppc_dir_bits dir b; crypt = bits AND MPPE_BITS K \<noteq> 0;
          b = (if crypt
               then (if ms_chap_alg (cc_params b) = CHAP_ALG_MSOFT
                     then MppeInitKey dir b else MppeInitKeyv2 dir b)
               else b);
          key = (if crypt then (case dir of
                     COMP_DIR_XMIT \<Rightarrow> mp_xmit_key0 b | COMP_DIR_RECV \<Rightarrow> mp_recv_key0 b)
                 else replicate (MPPE_KEY_LEN K) 0)
      in make_node 0 dir (\<lambda>i. CcConfigMppc dir i bits key) b)"

section \<open>Deflate\<close>

definition DeflateInit :: "comp_dir \<Rightarrow> ccp_bund \<Rightarrow> bool \<times> ccp_bund" where
  "DeflateInit dir b =
     (let w = (case dir of COMP_DIR_XMIT \<Rightarrow> cc_xmit_windowBits b
                         | COMP_DIR_RECV \<Rightarrow> cc_recv_windowBits b)
      in make_node 1 dir (\<lambda>i. CcConfigDeflate dir i w) b)"

definition DeflateConfigure :: "ccp_bund \<Rightarrow> bool \<times> ccp_bund" where
  "DeflateConfigure b = (True, b\<lparr>cc_xmit_windowBits := 15, cc_recv_windowBits := 0\<rparr>)"

definition DeflateBuildConfigReq :: "ccp_bund \<Rightarrow> bool \<Rightarrow> ccp_bund \<times> byte list \<times> bool" where
  "DeflateBuildConfigReq b ok =
     (if cc_xmit_windowBits b > 0
      then (b, FsmConfValue CCP_TY_DEFLATE
              (be16 (word_of_int (push_bit 12 (cc_xmit_windowBits b - 8) + push_bit 8 8))), True)
      else (b, [], ok))"

definition deflate_fine :: "u16 \<Rightarrow> bool" where
  "deflate_fine o' =
     (let window = drop_bit 12 o' AND 0xf; meth = drop_bit 8 o' AND 0xf; chk = o' AND 3
      in window > 0 \<and> window \<le> 7 \<and> meth = 8 \<and> chk = 0)"

definition deflate_window :: "u16 \<Rightarrow> int" where
  "deflate_window o' = uint (drop_bit 12 o' AND 0xf) + 8"

definition DeflateDecodeConfigReq :: "fsmoption \<Rightarrow> mode \<Rightarrow> ccp_bund fsm \<Rightarrow> ccp_bund fsm" where
  "DeflateDecodeConfigReq opt md f =
     (if opt_len opt \<noteq> 4 then (if md = MODE_REQ then FsmRej opt f else f)
      else
        (let o' = (case get16 (opt_data opt) of Some v \<Rightarrow> v | None \<Rightarrow> 0) in
         case md of
           MODE_REQ \<Rightarrow>
             (if deflate_fine o'
              then FsmAck opt (upd_arg (\<lambda>b. b\<lparr>cc_recv_windowBits := deflate_window o'\<rparr>) f)
              else FsmNak (opt_set (be16 (push_bit 12 7 + push_bit 8 8)) opt) f)
         | MODE_NAK \<Rightarrow>
             upd_arg (\<lambda>b. b\<lparr>cc_xmit_windowBits := (if deflate_fine o' then deflate_window o' else 0)\<rparr>) f
         | _ \<Rightarrow> f))"

abbreviation (input) "CCP_OVERHEAD \<equiv> (2 :: int)"

definition DeflateSubtractBloat :: "int \<Rightarrow> int" where
  "DeflateSubtractBloat sz = sz + CCP_OVERHEAD"

section \<open>Predictor-1\<close>

definition pred1_init :: "comp_dir \<Rightarrow> ccp_bund \<Rightarrow> ccp_bund" where
  "pred1_init dir b = (case dir of
     COMP_DIR_XMIT \<Rightarrow> upd_pred1 (Pred1Init dir) b\<lparr>cc_out_table := True\<rparr>
   | COMP_DIR_RECV \<Rightarrow> upd_pred1 (Pred1Init dir) b\<lparr>cc_in_table := True\<rparr>)"

text \<open>\<open>None\<close> when the assertion that there is a table fails.\<close>

definition pred1_cleanup :: "comp_dir \<Rightarrow> ccp_bund \<Rightarrow> ccp_bund option" where
  "pred1_cleanup dir b = (case dir of
     COMP_DIR_XMIT \<Rightarrow> (if cc_out_table b
       then Some (upd_pred1 (Pred1Cleanup dir) b\<lparr>cc_out_table := False\<rparr>) else None)
   | COMP_DIR_RECV \<Rightarrow> (if cc_in_table b
       then Some (upd_pred1 (Pred1Cleanup dir) b\<lparr>cc_in_table := False\<rparr>) else None))"

definition Pred1BuildConfigReq :: "ccp_bund \<Rightarrow> bool \<Rightarrow> ccp_bund \<times> byte list \<times> bool" where
  "Pred1BuildConfigReq b ok = (b, FsmConfValue CCP_TY_PRED1 [], True)"

definition Pred1DecodeConfigReq :: "fsmoption \<Rightarrow> mode \<Rightarrow> ccp_bund fsm \<Rightarrow> ccp_bund fsm" where
  "Pred1DecodeConfigReq opt md f = (if md = MODE_REQ then FsmAck opt f else f)"

text \<open>The pointer to a table that was never allocated is followed: \<open>None\<close>. A frame with an error asks
  for a reset (the boolean), which \<open>CcpDataInput\<close> sends.\<close>

definition pred1_compress :: "byte list \<Rightarrow> ccp_bund \<Rightarrow> (pkt \<times> ccp_bund) option" where
  "pred1_compress plain b =
     (if \<not> cc_out_table b then None
      else case Pred1Compress (cc_initfcs b) plain (cc_pred1 b) of
        (c, p) \<Rightarrow> Some (Some c, b\<lparr>cc_pred1 := p\<rparr>))"

definition pred1_decompress :: "byte list \<Rightarrow> ccp_bund \<Rightarrow> (pkt \<times> bool \<times> ccp_bund) option" where
  "pred1_decompress c b =
     (if \<not> cc_in_table b then None
      else case Pred1Decompress (cc_initfcs b) (cc_goodfcs b) c (cc_pred1 b) of
        None \<Rightarrow> None
      | Some (plain, p) \<Rightarrow> Some (plain, plain = None, b\<lparr>cc_pred1 := p\<rparr>))"

section \<open>The descriptors\<close>

record comptype =
  ct_name :: string
  ct_type :: byte
  ct_mode :: byte
  ct_Init :: "comp_dir \<Rightarrow> ccp_bund \<Rightarrow> bool \<times> ccp_bund"
  ct_Configure :: "(ccp_bund \<Rightarrow> bool \<times> ccp_bund) option"
  ct_UnConfigure :: "(ccp_bund \<Rightarrow> ccp_bund) option"
  ct_SubtractBloat :: "ccp_bund \<Rightarrow> int \<Rightarrow> int option"
  ct_Cleanup :: "comp_dir \<Rightarrow> ccp_bund \<Rightarrow> ccp_bund option"
  ct_BuildConfigReq :: "ccp_bund \<Rightarrow> bool \<Rightarrow> ccp_bund \<times> byte list \<times> bool"
  ct_DecodeConfig :: "fsmoption \<Rightarrow> mode \<Rightarrow> ccp_bund fsm \<Rightarrow> ccp_bund fsm"
  ct_SendResetReq :: "(ccp_bund \<Rightarrow> pkt \<times> ccp_bund) option"
  ct_RecvResetReq :: "byte \<Rightarrow> pkt \<Rightarrow> ccp_bund \<Rightarrow> pkt \<times> bool \<times> ccp_bund"
  ct_RecvResetAck :: "(byte \<Rightarrow> pkt \<Rightarrow> ccp_bund \<Rightarrow> ccp_bund) option"
  ct_Negotiated :: "comp_dir \<Rightarrow> ccp_bund \<Rightarrow> bool"
  ct_Compress :: "(byte list \<Rightarrow> ccp_bund \<Rightarrow> (pkt \<times> ccp_bund) option) option"
  ct_Decompress :: "(byte list \<Rightarrow> ccp_bund \<Rightarrow> (pkt \<times> bool \<times> ccp_bund) option) option"

text \<open>The boolean of \<open>RecvResetReq\<close> is \<open>*noAck\<close>.\<close>

definition gCompMppcInfo :: comptype where
  "gCompMppcInfo =
     \<lparr>ct_name = ''mppc'', ct_type = CCP_TY_MPPC, ct_mode = 1, ct_Init = MppcInit,
      ct_Configure = Some MppcConfigure, ct_UnConfigure = None, ct_SubtractBloat = MppcSubtractBloat,
      ct_Cleanup = (\<lambda>dir b. Some (remove_node dir b)), ct_BuildConfigReq = MppcBuildConfigReq,
      ct_DecodeConfig = MppcDecodeConfigReq, ct_SendResetReq = None,
      ct_RecvResetReq = (\<lambda>i bp b. (None, True, ccp_call (CcReset (cc_comp_node_id b)) b)),
      ct_RecvResetAck = None, ct_Negotiated = MppcNegotiated, ct_Compress = None,
      ct_Decompress = None\<rparr>"

definition gCompDeflateInfo :: comptype where
  "gCompDeflateInfo =
     \<lparr>ct_name = ''deflate'', ct_type = CCP_TY_DEFLATE, ct_mode = 2, ct_Init = DeflateInit,
      ct_Configure = Some DeflateConfigure, ct_UnConfigure = None,
      ct_SubtractBloat = (\<lambda>b sz. Some (DeflateSubtractBloat sz)),
      ct_Cleanup = (\<lambda>dir b. Some (remove_node dir b)), ct_BuildConfigReq = DeflateBuildConfigReq,
      ct_DecodeConfig = DeflateDecodeConfigReq, ct_SendResetReq = Some (\<lambda>b. (None, b)),
      ct_RecvResetReq = (\<lambda>i bp b. (None, False, ccp_call (CcReset (cc_comp_node_id b)) b)),
      ct_RecvResetAck = Some (\<lambda>i bp b. ccp_call (CcReset (cc_decomp_node_id b)) b),
      ct_Negotiated = (\<lambda>_ _. True), ct_Compress = None, ct_Decompress = None\<rparr>"

definition gCompPred1Info :: comptype where
  "gCompPred1Info =
     \<lparr>ct_name = ''pred1'', ct_type = CCP_TY_PRED1, ct_mode = 1,
      ct_Init = (\<lambda>dir b. (True, pred1_init dir b)), ct_Configure = None, ct_UnConfigure = None,
      ct_SubtractBloat = (\<lambda>b sz. Some (Pred1SubtractBloat sz)), ct_Cleanup = pred1_cleanup,
      ct_BuildConfigReq = Pred1BuildConfigReq, ct_DecodeConfig = Pred1DecodeConfigReq,
      ct_SendResetReq = Some (\<lambda>b. (None, upd_pred1 Pred1SendResetReq b\<lparr>cc_in_table := True\<rparr>)),
      ct_RecvResetReq = (\<lambda>i bp b.
        (None, False, upd_pred1 Pred1RecvResetReq b\<lparr>cc_out_table := True\<rparr>)),
      ct_RecvResetAck = Some (\<lambda>i bp b. upd_pred1 Pred1RecvResetAck b\<lparr>cc_in_table := True\<rparr>),
      ct_Negotiated = (\<lambda>_ _. True), ct_Compress = Some pred1_compress,
      ct_Decompress = Some pred1_decompress\<rparr>"

text \<open>In order of preference.\<close>

definition gCompTypes :: "comptype list" where
  "gCompTypes = [gCompMppcInfo, gCompDeflateInfo, gCompPred1Info]"

end
