(* ===== verification/Ccp.thy ===== *)
theory Ccp
  imports Comp Ecp
begin

unbundle bit_operations_syntax

text \<open>
  CCP (\<open>src/src/ccp.c\<close>): the negotiation of a compression type for each direction, the
  resets, and the path of the packets through a type that runs in the program. A pointer into
  \<open>gCompTypes\<close> is an index, \<open>None\<close> for NULL. \<open>CcpLayerUp\<close> ends the negotiation itself when it
  cannot use what was negotiated, with the type of the automaton as it is from there on.
\<close>

section \<open>The types\<close>

definition PROTO_CCP :: u16 where "PROTO_CCP = 0x80fd"

definition CCP_MAXFAILURE :: short where "CCP_MAXFAILURE = 7"

definition CCP_KNOWN_CODES :: u16 where
  "CCP_KNOWN_CODES = push_bit 1 1 OR push_bit 2 1 OR push_bit 3 1 OR push_bit 4 1
     OR push_bit 5 1 OR push_bit 6 1 OR push_bit 7 1 OR push_bit 14 1 OR push_bit 15 1"

definition CCP_PEER_REJ :: "nat \<Rightarrow> ccp_bund \<Rightarrow> ccp_bund" where
  "CCP_PEER_REJ x b = b\<lparr>cc_peer_reject := mask_set (cc_peer_reject b) x\<rparr>"

definition CCP_SELF_REJ :: "nat \<Rightarrow> ccp_bund \<Rightarrow> ccp_bund" where
  "CCP_SELF_REJ x b = b\<lparr>cc_self_reject := mask_set (cc_self_reject b) x\<rparr>"

definition CCP_PEER_REJECTED :: "ccp_bund \<Rightarrow> nat \<Rightarrow> bool" where
  "CCP_PEER_REJECTED b x = mask_test (cc_peer_reject b) x"

definition CCP_SELF_REJECTED :: "ccp_bund \<Rightarrow> nat \<Rightarrow> bool" where
  "CCP_SELF_REJECTED b x = mask_test (cc_self_reject b) x"

definition ccp_gConfList :: "confinfo list" where
  "ccp_gConfList = map (\<lambda>k. \<lparr>ci_peered = True, ci_option = k, ci_name = ct_name (gCompTypes ! k)\<rparr>)
     [0..<length gCompTypes]"

fun find_comp :: "comptype list \<Rightarrow> byte \<Rightarrow> nat \<Rightarrow> nat option" where
  "find_comp [] t k = None"
| "find_comp (ct # cts) t k = (if ct_type ct = t then Some k else find_comp cts t (k + 1))"

definition CcpFindComp :: "byte \<Rightarrow> nat option" where
  "CcpFindComp t = find_comp gCompTypes t 0"

section \<open>Configuration\<close>

definition ccp_forget :: "ccp_bund \<Rightarrow> ccp_bund" where
  "ccp_forget b = b\<lparr>cc_self_reject := 0, cc_peer_reject := 0, cc_crypt_check := 0, cc_xmit := None,
     cc_recv := None\<rparr>"

text \<open>A type that is of no use in this setup is rejected from the start.\<close>

definition ccp_configure_type :: "ccp_bund \<Rightarrow> nat \<Rightarrow> ccp_bund" where
  "ccp_configure_type b k =
     (case ct_Configure (gCompTypes ! k) of
        None \<Rightarrow> b
      | Some c \<Rightarrow> (let (useful, b) = c b in if useful then b else CCP_SELF_REJ k b))"

definition CcpConfigure :: "ccp_bund fsm \<Rightarrow> ccp_bund fsm" where
  "CcpConfigure =
     upd_arg (\<lambda>b. foldl ccp_configure_type (ccp_forget b) [0..<length gCompTypes])"

definition CcpUnConfigure :: "ccp_bund fsm \<Rightarrow> ccp_bund fsm" where
  "CcpUnConfigure =
     upd_arg (\<lambda>b. foldl (\<lambda>b ct. case ct_UnConfigure ct of None \<Rightarrow> b | Some c \<Rightarrow> c b)
       (ccp_forget b) gCompTypes)"

text \<open>The variable \<open>ok\<close> of the loop is not initialised; it keeps the value of the type before when a
  builder does not set it.\<close>

definition ccp_request_type :: "ccp_bund \<times> byte list \<times> bool \<Rightarrow> nat \<Rightarrow> ccp_bund \<times> byte list \<times> bool" where
  "ccp_request_type bc k =
     (let (b, cp, ok) = bc in
      if Enabled (cc_options b) k \<and> \<not> CCP_PEER_REJECTED b k
      then (let (b, xs, ok) = ct_BuildConfigReq (gCompTypes ! k) b ok
            in (b\<lparr>cc_xmit := (if ok \<and> cc_xmit b = None then Some k else cc_xmit b)\<rparr>, cp @ xs, ok))
      else (b, cp, ok))"

definition CcpBuildConfigReq :: "ccp_bund fsm \<Rightarrow> ccp_bund fsm \<times> byte list" where
  "CcpBuildConfigReq f =
     (let (b, cp, ok) = foldl ccp_request_type
            ((f_arg f)\<lparr>cc_xmit := None\<rparr>, [], cc_uninit_ok (f_arg f)) [0..<length gCompTypes]
      in (f\<lparr>f_arg := b\<rparr>, cp))"

definition ccp_req_opt :: "nat \<Rightarrow> fsmoption \<Rightarrow> ccp_bund fsm \<Rightarrow> ccp_bund fsm" where
  "ccp_req_opt k opt f =
     (let b = f_arg f; dec = ct_DecodeConfig (gCompTypes ! k) opt in
      if \<not> Acceptable (cc_options b) k \<or> CCP_SELF_REJECTED b k
         \<or> (cc_recv b \<noteq> None \<and> cc_recv b \<noteq> Some k)
      then FsmRej opt (dec MODE_NOP f)
      else
        (let g = dec MODE_REQ f in
         if length (f_rejBuf g) \<noteq> length (f_rejBuf f) then upd_arg (CCP_SELF_REJ k) g
         else if length (f_ackBuf g) \<noteq> length (f_ackBuf f)
         then upd_arg (\<lambda>b. b\<lparr>cc_recv := Some k\<rparr>) g else g))"

definition ccp_decode_opt :: "mode \<Rightarrow> ccp_bund fsm \<Rightarrow> fsmoption \<Rightarrow> ccp_bund fsm" where
  "ccp_decode_opt md f opt =
     (case CcpFindComp (opt_type opt) of
        None \<Rightarrow> (if md = MODE_REQ then FsmRej opt f else f)
      | Some k \<Rightarrow>
          (case md of
             MODE_REQ \<Rightarrow> ccp_req_opt k opt f
           | MODE_REJ \<Rightarrow> upd_arg (CCP_PEER_REJ k) (ct_DecodeConfig (gCompTypes ! k) opt md f)
           | _ \<Rightarrow> ct_DecodeConfig (gCompTypes ! k) opt md f))"

definition ccp_forget_recv :: "mode \<Rightarrow> ccp_bund fsm \<Rightarrow> ccp_bund fsm" where
  "ccp_forget_recv md f = (if md = MODE_REQ then upd_arg (\<lambda>b. b\<lparr>cc_recv := None\<rparr>) f else f)"

definition CcpDecodeConfig :: "ccp_bund fsm \<Rightarrow> fsmoption list \<Rightarrow> mode \<Rightarrow> ccp_bund fsm" where
  "CcpDecodeConfig f opts md = foldl (ccp_decode_opt md) (ccp_forget_recv md f) opts"

section \<open>Up and down\<close>

definition ccp_set_config :: "byte \<Rightarrow> byte \<Rightarrow> ccp_bund \<Rightarrow> ccp_bund" where
  "ccp_set_config en de b =
     ccp_call CcUpdateParams (ccp_call (CcSetConfig en de)
       (b\<lparr>cc_enableCompression := en, cc_enableDecompression := de\<rparr>))"

definition ccp_negotiated :: "nat option \<Rightarrow> comp_dir \<Rightarrow> ccp_bund \<Rightarrow> bool" where
  "ccp_negotiated t dir b = (case t of None \<Rightarrow> False | Some k \<Rightarrow> ct_Negotiated (gCompTypes ! k) dir b)"

definition ccp_init_dir :: "nat option \<Rightarrow> comp_dir \<Rightarrow> ccp_bund \<Rightarrow> bool \<times> ccp_bund" where
  "ccp_init_dir t dir b = (case t of None \<Rightarrow> (True, b) | Some k \<Rightarrow> ct_Init (gCompTypes ! k) dir b)"

definition ccp_mode :: "nat option \<Rightarrow> byte" where
  "ccp_mode t = (case t of None \<Rightarrow> 0 | Some k \<Rightarrow> ct_mode (gCompTypes ! k))"

definition has_Compress :: "nat option \<Rightarrow> bool" where
  "has_Compress t = (case t of None \<Rightarrow> False | Some k \<Rightarrow> ct_Compress (gCompTypes ! k) \<noteq> None)"

definition has_Decompress :: "nat option \<Rightarrow> bool" where
  "has_Decompress t = (case t of None \<Rightarrow> False | Some k \<Rightarrow> ct_Decompress (gCompTypes ! k) \<noteq> None)"

definition ccp_connect :: "ccp_bund \<Rightarrow> ccp_bund" where
  "ccp_connect b =
     (let b = (if has_Compress (cc_xmit b) then ccp_call (CcConnect COMP_DIR_XMIT) b else b);
          b = (if has_Decompress (cc_recv b) then ccp_call (CcConnect COMP_DIR_RECV) b else b)
      in ccp_set_config (ccp_mode (cc_xmit b)) (ccp_mode (cc_recv b)) b)"

text \<open>\<open>CcpCheckEncryption\<close> is compiled to returning 0.\<close>

definition CcpLayerUp :: "ccp_bund fsmtype \<Rightarrow> ccp_bund fsm \<Rightarrow> ccp_bund fsm" where
  "CcpLayerUp ty f =
     (let b = f_arg f in
      if \<not> ccp_negotiated (cc_recv b) COMP_DIR_RECV b \<and> \<not> ccp_negotiated (cc_xmit b) COMP_DIR_XMIT b
      then FsmFailure ty FAIL_NEGOT_FAILURE f
      else
        (let (ok, b) = ccp_init_dir (cc_xmit b) COMP_DIR_XMIT b in
         if \<not> ok then FsmFailure ty FAIL_NEGOT_FAILURE (f\<lparr>f_arg := b\<rparr>)
         else
           (let (ok, b) = ccp_init_dir (cc_recv b) COMP_DIR_RECV b in
            if \<not> ok then FsmFailure ty FAIL_NEGOT_FAILURE (f\<lparr>f_arg := b\<rparr>)
            else f\<lparr>f_arg := ccp_connect b\<rparr>)))"

definition ccp_cleanup_dir :: "nat option \<Rightarrow> comp_dir \<Rightarrow> ccp_bund \<Rightarrow> ccp_bund option" where
  "ccp_cleanup_dir t dir b = (case t of None \<Rightarrow> Some b | Some k \<Rightarrow> ct_Cleanup (gCompTypes ! k) dir b)"

definition ccp_disconnect :: "ccp_bund \<Rightarrow> ccp_bund" where
  "ccp_disconnect b =
     (let b = ccp_set_config 0 0 b;
          b = (if has_Compress (cc_xmit b) then ccp_call (CcDisconnect COMP_DIR_XMIT) b else b)
      in if has_Decompress (cc_recv b) then ccp_call (CcDisconnect COMP_DIR_RECV) b else b)"

text \<open>A failed assertion of a type (\<open>None\<close>) ends the program; the state is that before.\<close>

definition CcpLayerDown :: "ccp_bund fsm \<Rightarrow> ccp_bund fsm" where
  "CcpLayerDown f =
     (let b = ccp_disconnect (f_arg f) in
      case ccp_cleanup_dir (cc_recv b) COMP_DIR_RECV b of
        None \<Rightarrow> fsm_abort (f\<lparr>f_arg := b\<rparr>)
      | Some b \<Rightarrow>
          (case ccp_cleanup_dir (cc_xmit b) COMP_DIR_XMIT b of
             None \<Rightarrow> fsm_abort (f\<lparr>f_arg := b\<rparr>)
           | Some b \<Rightarrow> f\<lparr>f_arg := b\<lparr>cc_xmit_resets := 0, cc_recv_resets := 0\<rparr>\<rparr>))"

definition CcpFailure :: "ccp_bund fsm \<Rightarrow> fsmfail \<Rightarrow> ccp_bund fsm" where
  "CcpFailure f reason = f"

section \<open>Resets\<close>

definition CcpRecvResetAck :: "ccp_bund fsm \<Rightarrow> byte \<Rightarrow> pkt \<Rightarrow> ccp_bund fsm" where
  "CcpRecvResetAck f i bp =
     upd_arg (\<lambda>b. case cc_recv b of None \<Rightarrow> b
       | Some k \<Rightarrow> (case ct_RecvResetAck (gCompTypes ! k) of None \<Rightarrow> b | Some c \<Rightarrow> c i bp b)) f"

definition CcpRecvResetReq :: "ccp_bund fsmtype \<Rightarrow> ccp_bund fsm \<Rightarrow> byte \<Rightarrow> pkt \<Rightarrow> ccp_bund fsm" where
  "CcpRecvResetReq ty f i bp =
     (let b = (f_arg f)\<lparr>cc_xmit_resets := cc_xmit_resets (f_arg f) + 1\<rparr>;
          (bp, noAck, b) = (case cc_xmit b of None \<Rightarrow> (None, False, b)
            | Some k \<Rightarrow> ct_RecvResetReq (gCompTypes ! k) i bp b);
          f = f\<lparr>f_arg := b\<rparr>
      in if noAck then f else FsmOutputMbuf ty CODE_RESETACK i bp f)"

definition ccp_send_reset :: "ccp_bund fsmtype \<Rightarrow> ccp_bund fsm \<Rightarrow> ccp_bund fsm" where
  "ccp_send_reset ty f =
     (case cc_recv (f_arg f) of
        None \<Rightarrow> f
      | Some k \<Rightarrow>
          (let b = (f_arg f)\<lparr>cc_recv_resets := cc_recv_resets (f_arg f) + 1\<rparr>;
               (bp, b) = (case ct_SendResetReq (gCompTypes ! k) of None \<Rightarrow> (None, b) | Some c \<Rightarrow> c b)
           in FsmOutputMbuf ty CODE_RESETREQ (f_reqid f) bp
                (f\<lparr>f_arg := b, f_reqid := f_reqid f + 1\<rparr>)))"

section \<open>The protocol type and the operations\<close>

definition ccp_type ::
  "(ccp_bund fsm \<Rightarrow> ccp_bund fsm) option \<Rightarrow>
   (ccp_bund fsm \<Rightarrow> byte \<Rightarrow> pkt \<Rightarrow> ccp_bund fsm) option \<Rightarrow> ccp_bund fsmtype" where
  "ccp_type up reset =
     \<lparr>ty_name = ''CCP'', ty_proto = PROTO_CCP, ty_known_codes = CCP_KNOWN_CODES,
      ty_link_layer = False, NewState = None, LayerUp = up,
      LayerDown = Some CcpLayerDown, LayerStart = None, LayerFinish = None,
      BuildConfigReq = CcpBuildConfigReq, DecodeConfig = CcpDecodeConfig,
      Configure = Some CcpConfigure, UnConfigure = Some CcpUnConfigure,
      SendTerminateReq = None, SendTerminateAck = None, RecvCodeRej = None, RecvProtoRej = None,
      Failure = Some CcpFailure, RecvResetReq = reset, RecvResetAck = Some CcpRecvResetAck,
      RecvIdent = None, RecvDiscReq = None, RecvTimeRemain = None, RecvVendor = None,
      arg_retry_timeout = cc_retry_timeout, arg_want_magic = (\<lambda>_. 0), arg_peer_magic = (\<lambda>_. 0),
      arg_has_bund = (\<lambda>_. True), arg_recvFrames = cc_recvFrames\<rparr>"

text \<open>From \<open>CcpLayerUp\<close> on, the automaton runs \<open>FsmFailure\<close> and sends; neither calls \<open>LayerUp\<close> or
  \<open>RecvResetReq\<close>.\<close>

definition ccp_inner :: "ccp_bund fsmtype" where
  "ccp_inner = ccp_type None None"

definition gCcpFsmType :: "ccp_bund fsmtype" where
  "gCcpFsmType = ccp_type (Some (CcpLayerUp ccp_inner)) (Some (CcpRecvResetReq ccp_inner))"

definition CcpInit :: "byte list \<Rightarrow> ccp_bund \<Rightarrow> ccp_bund fsm" where
  "CcpInit junk b =
     (let off = \<lparr>oi_enable = 0, oi_accept = 0\<rparr>;
          f = FsmInit junk
            (b\<lparr>cc_options := off, cc_xmit := None, cc_recv := None, cc_self_reject := 0,
               cc_peer_reject := 0, cc_crypt_check := 0,
               cc_pred1 := \<lparr>iHash = 0, oHash = 0, InputGuessTable = (\<lambda>_. 0),
                 OutputGuessTable = (\<lambda>_. 0), recv_stats = stats_zero, xmit_stats = stats_zero\<rparr>,
               cc_in_table := False, cc_out_table := False, cc_xmit_windowBits := 0,
               cc_recv_windowBits := 0, mp_options := off, mp_peer_reject := 0, mp_recv_bits := 0,
               mp_xmit_bits := 0, mp_xmit_key0 := replicate (MPPE_KEY_LEN (cc_k b)) 0,
               mp_recv_key0 := replicate (MPPE_KEY_LEN (cc_k b)) 0, cc_comp_node_id := 0,
               cc_decomp_node_id := 0, cc_recv_resets := 0, cc_xmit_resets := 0\<rparr>)
      in f\<lparr>f_conf := (f_conf f)\<lparr>maxfailure := CCP_MAXFAILURE\<rparr>\<rparr>)"

definition CcpUp :: "ccp_bund fsm \<Rightarrow> ccp_bund fsm" where
  "CcpUp = FsmUp gCcpFsmType"

definition CcpDown :: "ccp_bund fsm \<Rightarrow> ccp_bund fsm" where
  "CcpDown = FsmDown gCcpFsmType"

definition CcpOpen :: "ccp_bund fsm \<Rightarrow> ccp_bund fsm" where
  "CcpOpen = FsmOpen gCcpFsmType"

definition CcpClose :: "ccp_bund fsm \<Rightarrow> ccp_bund fsm" where
  "CcpClose = FsmClose gCcpFsmType"

definition CcpInput :: "pkt \<Rightarrow> ccp_bund fsm \<Rightarrow> ccp_bund fsm" where
  "CcpInput bp = FsmInput gCcpFsmType bp"

definition CcpOpenCmd :: "bool \<Rightarrow> ccp_bund fsm \<Rightarrow> unit + ccp_bund fsm" where
  "CcpOpenCmd tmpl f = (if tmpl then Inl () else Inr (FsmOpen gCcpFsmType f))"

definition CcpCloseCmd :: "bool \<Rightarrow> ccp_bund fsm \<Rightarrow> unit + ccp_bund fsm" where
  "CcpCloseCmd tmpl f = (if tmpl then Inl () else Inr (FsmClose gCcpFsmType f))"

definition CcpSendResetReq :: "ccp_bund fsm \<Rightarrow> ccp_bund fsm" where
  "CcpSendResetReq = ccp_send_reset ccp_inner"

datatype ccp_set = SET_ACCEPT | SET_DENY | SET_ENABLE | SET_DISABLE | SET_YES | SET_NO

fun option_command :: "ccp_set \<Rightarrow> string list \<Rightarrow> confinfo list \<Rightarrow> optinfo \<Rightarrow> optinfo" where
  "option_command SET_ACCEPT av cl opts = AcceptCommand av cl opts"
| "option_command SET_DENY av cl opts = DenyCommand av cl opts"
| "option_command SET_ENABLE av cl opts = EnableCommand av cl opts"
| "option_command SET_DISABLE av cl opts = DisableCommand av cl opts"
| "option_command SET_YES av cl opts = YesCommand av cl opts"
| "option_command SET_NO av cl opts = NoCommand av cl opts"

definition CcpSetCommand :: "ccp_set \<Rightarrow> string list \<Rightarrow> ccp_bund \<Rightarrow> ccp_bund option" where
  "CcpSetCommand cmd av b =
     (if av = [] then None
      else Some (b\<lparr>cc_options := option_command cmd av ccp_gConfList (cc_options b)\<rparr>))"

definition MppcSetCommand :: "ccp_set \<Rightarrow> string list \<Rightarrow> ccp_bund \<Rightarrow> ccp_bund option" where
  "MppcSetCommand cmd av b =
     (if av = [] then None
      else Some (b\<lparr>mp_options := option_command cmd av mppc_gConfList (mp_options b)\<rparr>))"

section \<open>The data path\<close>

definition CcpDataOutput :: "byte list \<Rightarrow> ccp_bund fsm \<Rightarrow> pkt \<times> ccp_bund fsm" where
  "CcpDataOutput plain f =
     (case cc_xmit (f_arg f) of None \<Rightarrow> (None, f)
      | Some k \<Rightarrow> (case ct_Compress (gCompTypes ! k) of None \<Rightarrow> (None, f)
          | Some c \<Rightarrow> (case c plain (f_arg f) of None \<Rightarrow> (None, fsm_abort f)
              | Some (bp, b) \<Rightarrow> (bp, f\<lparr>f_arg := b\<rparr>))))"

definition CcpDataInput :: "byte list \<Rightarrow> ccp_bund fsm \<Rightarrow> pkt \<times> ccp_bund fsm" where
  "CcpDataInput c f =
     (case cc_recv (f_arg f) of None \<Rightarrow> (None, f)
      | Some k \<Rightarrow> (case ct_Decompress (gCompTypes ! k) of None \<Rightarrow> (None, f)
          | Some d \<Rightarrow> (case d c (f_arg f) of None \<Rightarrow> (None, fsm_abort f)
              | Some (plain, reset, b) \<Rightarrow>
                  (plain, if reset then CcpSendResetReq (f\<lparr>f_arg := b\<rparr>) else f\<lparr>f_arg := b\<rparr>))))"

text \<open>\<open>None\<close> when the loop of a type does not end.\<close>

definition CcpSubtractBloat :: "ccp_bund fsm \<Rightarrow> int \<Rightarrow> int option" where
  "CcpSubtractBloat f sz =
     (let opened = OPEN_STATE (f_state f) in
      map_option (\<lambda>sz. if opened then sz - CCP_OVERHEAD else sz)
        (case cc_xmit (f_arg f) of None \<Rightarrow> Some sz
         | Some k \<Rightarrow> (if opened then ct_SubtractBloat (gCompTypes ! k) (f_arg f) sz else Some sz)))"

section \<open>Events of the netgraph socket\<close>

text \<open>The bundles are those of \<open>gBundles\<close>, \<open>None\<close> for one that is not there or dead. \<open>strtol\<close> in
  base ten, without its limits.\<close>

definition is_space :: "char \<Rightarrow> bool" where
  "is_space c = (let n = of_char c :: nat in n = 32 \<or> 9 \<le> n \<and> n \<le> 13)"

definition is_digit :: "char \<Rightarrow> bool" where
  "is_digit c = (let n = of_char c :: nat in 48 \<le> n \<and> n \<le> 57)"

definition strtol10 :: "string \<Rightarrow> int \<times> string" where
  "strtol10 s =
     (let s1 = dropWhile is_space s;
          neg = (s1 \<noteq> [] \<and> hd s1 = CHR ''-'');
          s2 = (if s1 \<noteq> [] \<and> (hd s1 = CHR ''-'' \<or> hd s1 = CHR ''+'') then tl s1 else s1);
          ds = takeWhile is_digit s2;
          v = foldl (\<lambda>v c. 10 * v + int (of_char c - 48)) 0 ds
      in if ds = [] then (0, s) else (if neg then - v else v, dropWhile is_digit s2))"

text \<open>\<open>gBundles[id]\<close>; \<open>None\<close> is an access outside the array, which the code does not guard against.\<close>

definition bundle_at :: "ccp_bund fsm option list \<Rightarrow> int \<Rightarrow> ccp_bund fsm option option" where
  "bundle_at bs i = (if 0 \<le> i \<and> nat i < length bs then Some (bs ! nat i) else None)"

text \<open>One frame, read with the name of the hook it came from. The pointer to the name is advanced
  past its first letter before the letter is looked at to tell the direction. \<open>None\<close> when the
  number in the name indexes \<open>gBundles\<close> outside its bounds.\<close>

definition ccp_frame ::
  "ccp_bund fsm option list \<times> (string \<times> byte list) list \<Rightarrow> string \<times> byte list \<Rightarrow>
   (ccp_bund fsm option list \<times> (string \<times> byte list) list) option" where
  "ccp_frame st hb =
     (let (bs, out) = st; (hook, bp) = hb in
      if hook = [] \<or> hd hook \<noteq> CHR ''c'' \<and> hd hook \<noteq> CHR ''d'' then Some st
      else
        (let bundname = tl hook; (i, rest) = strtol10 bundname in
         if rest \<noteq> [] then Some st
         else case bundle_at bs i of
           None \<Rightarrow> None
         | Some None \<Rightarrow> Some st
         | Some (Some f) \<Rightarrow>
             (let (bp, f) = (if bundname \<noteq> [] \<and> hd bundname = CHR ''c''
                             then CcpDataOutput bp f else CcpDataInput bp f)
              in Some (bs[nat i := Some f],
                       out @ (case bp of None \<Rightarrow> [] | Some xs \<Rightarrow> [(hook, xs)])))))"

text \<open>No more than 101 frames are read for one event.\<close>

definition CcpNgDataEvent ::
  "ccp_bund fsm option list \<Rightarrow> (string \<times> byte list) list \<Rightarrow>
   (ccp_bund fsm option list \<times> (string \<times> byte list) list) option" where
  "CcpNgDataEvent bs frames =
     fold (\<lambda>hb st. Option.bind st (\<lambda>st. ccp_frame st hb)) (take 101 frames) (Some (bs, []))"

datatype ng_cookie = NGM_MPPC_COOKIE | NGM_DEFLATE_COOKIE | NGM_PRED1_COOKIE | NGM_OTHER_COOKIE

text \<open>\<open>resetreq\<close>: the command of the message is the reset request of its cookie.\<close>

definition CcpRecvMsg :: "ng_cookie \<Rightarrow> bool \<Rightarrow> ccp_bund fsm \<Rightarrow> ccp_bund fsm" where
  "CcpRecvMsg cookie resetreq f =
     (if cookie \<noteq> NGM_OTHER_COOKIE \<and> resetreq then CcpSendResetReq f else f)"

fun decomp_bundle :: "u32 \<Rightarrow> ccp_bund fsm option list \<Rightarrow> nat \<Rightarrow> nat option" where
  "decomp_bundle i [] n = None"
| "decomp_bundle i (b # bs) n =
     (case b of Some f \<Rightarrow> (if cc_decomp_node_id (f_arg f) = i then Some n else decomp_bundle i bs (n + 1))
      | None \<Rightarrow> decomp_bundle i bs (n + 1))"

definition CcpNgCtrlEvent ::
  "u32 \<Rightarrow> ng_cookie \<Rightarrow> bool \<Rightarrow> ccp_bund fsm option list \<Rightarrow> ccp_bund fsm option list" where
  "CcpNgCtrlEvent i cookie resetreq bs =
     (case decomp_bundle i bs 0 of
        None \<Rightarrow> bs
      | Some n \<Rightarrow> (if cookie = NGM_OTHER_COOKIE then bs
          else bs[n := map_option (CcpRecvMsg cookie resetreq) (bs ! n)]))"

end
