(* ===== verification/Ccp_Facts.thy ===== *)
theory Ccp_Facts
  imports Ccp
begin

unbundle bit_operations_syntax

text \<open>
  CCP and the contracts of the automaton. Its decoder answers each option once; what the
  records of the types promise (\<open>ccp_typed\<close>) is kept by every step; and compression is switched on in
  the kernel only while the automaton is in Opened, although \<open>CcpLayerUp\<close> may leave that state itself.
\<close>

section \<open>The table of types\<close>

lemma gCompTypes_nth [simp]:
  "gCompTypes ! 0 = gCompMppcInfo" "gCompTypes ! Suc 0 = gCompDeflateInfo"
  "gCompTypes ! 2 = gCompPred1Info" "gCompTypes ! Suc (Suc 0) = gCompPred1Info"
  "length gCompTypes = 3"
  by (simp_all add: gCompTypes_def)

lemmas comp_infos = gCompMppcInfo_def gCompDeflateInfo_def gCompPred1Info_def

abbreviation "known_comp k \<equiv> k \<in> {0, Suc 0, 2}"

lemma CcpFindComp_cases:
  obtains "CcpFindComp t = None"
  | "CcpFindComp t = Some 0" "t = CCP_TY_MPPC"
  | "CcpFindComp t = Some (Suc 0)" "t = CCP_TY_DEFLATE"
  | "CcpFindComp t = Some 2" "t = CCP_TY_PRED1"
  by (cases "t = CCP_TY_MPPC"; cases "t = CCP_TY_DEFLATE"; cases "t = CCP_TY_PRED1")
    (auto simp: CcpFindComp_def gCompTypes_def comp_infos numeral_2_eq_2 intro: that)

lemma CcpFindComp_known: "CcpFindComp t = Some k \<Longrightarrow> known_comp k"
  by (cases t rule: CcpFindComp_cases) auto

section \<open>The decoders\<close>

lemma comp_decode_ctl [simp]:
  "ctl (MppcDecodeConfigReq opt md f) = ctl f" "ctl (DeflateDecodeConfigReq opt md f) = ctl f"
  "ctl (Pred1DecodeConfigReq opt md f) = ctl f"
  by (cases md; simp add: MppcDecodeConfigReq_def DeflateDecodeConfigReq_def Pred1DecodeConfigReq_def
      Let_def)+

lemma comp_decode_quiet:
  assumes "md \<noteq> MODE_REQ"
  shows "bufs (MppcDecodeConfigReq opt md f) = bufs f" "bufs (DeflateDecodeConfigReq opt md f) = bufs f"
    "bufs (Pred1DecodeConfigReq opt md f) = bufs f"
  using assms
  by (cases md; simp add: MppcDecodeConfigReq_def DeflateDecodeConfigReq_def Pred1DecodeConfigReq_def
      Let_def)+

lemma answered_upd_arg [simp]:
  "answered opt f (FsmAck opt (upd_arg g f))" "answered opt f (FsmRej opt (upd_arg g f))"
  "opt_ok opt \<Longrightarrow> length xs + 2 \<le> unat (opt_len opt) \<Longrightarrow>
     answered opt f (FsmNak (opt_set xs opt) (upd_arg g f))"
  by (simp_all add: upd_arg_def answered_set)

lemma comp_decode_answers:
  assumes "opt_ok opt"
  shows "answered opt f (MppcDecodeConfigReq opt MODE_REQ f)"
    "answered opt f (DeflateDecodeConfigReq opt MODE_REQ f)"
    "answered opt f (Pred1DecodeConfigReq opt MODE_REQ f)"
  using assms
  by (simp_all add: MppcDecodeConfigReq_def DeflateDecodeConfigReq_def Pred1DecodeConfigReq_def Let_def
      answered_set)

lemma comp_decode:
  assumes "known_comp k"
  shows "ctl (ct_DecodeConfig (gCompTypes ! k) opt md f) = ctl f"
    "md \<noteq> MODE_REQ \<Longrightarrow> bufs (ct_DecodeConfig (gCompTypes ! k) opt md f) = bufs f"
    "opt_ok opt \<Longrightarrow> answered opt f (ct_DecodeConfig (gCompTypes ! k) opt MODE_REQ f)"
  using assms by (auto simp: comp_infos comp_decode_quiet comp_decode_answers)

lemma bufs_upd_answer:
  "bufs (FsmRej opt g) = bufs (FsmRej opt f)" "bufs (FsmAck opt g) = bufs (FsmAck opt f)"
  "bufs (FsmNak opt g) = bufs (FsmNak opt f)" if "bufs g = bufs f"
  using bufs_fields [OF that] by (simp_all add: bufs_def FsmRej_def FsmAck_def FsmNak_def)

lemma answered_upd: "answered opt f (upd_arg g h) = answered opt f h"
  by (simp add: answered_def)

interpretation ccp_dec: option_decoder ccp_decode_opt
proof
  fix md opt and f :: "ccp_bund fsm"
  note dec = comp_decode [OF CcpFindComp_known]
  show "ctl (ccp_decode_opt md f opt) = ctl f"
    by (cases "CcpFindComp (opt_type opt)"; cases md)
      (simp_all add: ccp_decode_opt_def ccp_req_opt_def Let_def dec(1))
  show "md \<noteq> MODE_REQ \<Longrightarrow> bufs (ccp_decode_opt md f opt) = bufs f"
    by (cases "CcpFindComp (opt_type opt)"; cases md) (simp_all add: ccp_decode_opt_def dec(2))
  assume ok: "opt_ok opt"
  show "answered opt f (ccp_decode_opt MODE_REQ f opt)"
  proof (cases "CcpFindComp (opt_type opt)")
    case (Some k)
    let ?dec = "ct_DecodeConfig (gCompTypes ! k) opt"
    have "bufs (FsmRej opt (?dec MODE_NOP f)) = bufs (FsmRej opt f)"
      by (intro bufs_upd_answer dec(2) [OF Some]) simp
    then have "answered opt f (FsmRej opt (?dec MODE_NOP f))" by (simp add: answered_def)
    then show ?thesis
      using Some dec(3) [OF Some ok]
      by (simp add: ccp_decode_opt_def ccp_req_opt_def Let_def answered_upd)
  qed (simp add: ccp_decode_opt_def)
qed

interpretation ccp_dec: decoding_type ccp_decode_opt gCcpFsmType ccp_forget_recv
  by unfold_locales (simp_all add: gCcpFsmType_def ccp_type_def CcpDecodeConfig_def ccp_forget_recv_def)

section \<open>What the types promise\<close>

text \<open>The pointers are NULL or point into the table; a window is off or has 9 to 15 bits, and with Deflate
  chosen for receiving it is not off; with MPPC chosen for sending there is something to do.\<close>

definition ccp_typed :: "ccp_bund \<Rightarrow> bool" where
  "ccp_typed b \<longleftrightarrow> cc_xmit b \<in> {None, Some 0, Some 1, Some 2} \<and>
     cc_recv b \<in> {None, Some 0, Some 1, Some 2} \<and>
     cc_xmit_windowBits b \<in> {0} \<union> {9..15} \<and> cc_recv_windowBits b \<in> {0} \<union> {9..15} \<and>
     (cc_recv b = Some 1 \<longrightarrow> cc_recv_windowBits b \<noteq> 0) \<and>
     (cc_xmit b = Some 0 \<longrightarrow> mp_xmit_bits b \<noteq> 0)"

text \<open>Compression is off in both directions.\<close>

definition ccp_off :: "ccp_bund \<Rightarrow> bool" where
  "ccp_off b \<longleftrightarrow> cc_enableCompression b = 0 \<and> cc_enableDecompression b = 0"

text \<open>The part of the state both depend on.\<close>

definition ccp_core :: "ccp_bund \<Rightarrow> nat option \<times> nat option \<times> int \<times> int \<times> u32 \<times> byte \<times> byte" where
  "ccp_core b = (cc_xmit b, cc_recv b, cc_xmit_windowBits b, cc_recv_windowBits b, mp_xmit_bits b,
     cc_enableCompression b, cc_enableDecompression b)"

lemma ccp_core_eq:
  assumes "ccp_core b = ccp_core b'"
  shows "ccp_typed b = ccp_typed b'" "ccp_off b = ccp_off b'" "cc_xmit b = cc_xmit b'"
    "cc_recv b = cc_recv b'"
  using assms by (simp_all add: ccp_core_def ccp_typed_def ccp_off_def)

lemma core_simps [simp]:
  "ccp_core (ccp_call c b) = ccp_core b" "ccp_core (upd_pred1 g b) = ccp_core b"
  "ccp_core (set_node dir i b) = ccp_core b" "ccp_core (set_key0 dir k b) = ccp_core b"
  "ccp_core (MPPC_PEER_REJ x b) = ccp_core b" "ccp_core (CCP_SELF_REJ x b) = ccp_core b"
  "ccp_core (CCP_PEER_REJ x b) = ccp_core b" "ccp_core (b\<lparr>mp_recv_bits := v\<rparr>) = ccp_core b"
  "ccp_core (b\<lparr>cc_in_table := t\<rparr>) = ccp_core b" "ccp_core (b\<lparr>cc_out_table := t\<rparr>) = ccp_core b"
  "ccp_core (b\<lparr>cc_xmit_resets := n\<rparr>) = ccp_core b" "ccp_core (b\<lparr>cc_recv_resets := n\<rparr>) = ccp_core b"
  "ccp_core (b\<lparr>mp_xmit_key0 := k\<rparr>) = ccp_core b" "ccp_core (b\<lparr>mp_recv_key0 := k\<rparr>) = ccp_core b"
  by (simp_all add: ccp_core_def ccp_call_def upd_pred1_def set_node_def set_key0_def MPPC_PEER_REJ_def
      CCP_SELF_REJ_def CCP_PEER_REJ_def split: comp_dir.split)

lemma core_node [simp]:
  "ccp_core (snd (make_node k dir c b)) = ccp_core b" "ccp_core (remove_node dir b) = ccp_core b"
  by (simp_all add: make_node_def ccp_ask_def remove_node_def Let_def)

lemma core_init [simp]: "known_comp k \<Longrightarrow> ccp_core (snd (ct_Init (gCompTypes ! k) dir b)) = ccp_core b"
  by (cases dir) (auto simp: comp_infos MppcInit_def DeflateInit_def pred1_init_def MppeInitKey_def
      MppeInitKeyv2_def Let_def)

lemma core_cleanup:
  "known_comp k \<Longrightarrow> ct_Cleanup (gCompTypes ! k) dir b = Some b' \<Longrightarrow> ccp_core b' = ccp_core b"
  by (cases dir) (auto simp: comp_infos pred1_cleanup_def split: if_splits)

lemma core_resets [simp]:
  "known_comp k \<Longrightarrow> ccp_core (snd (snd (ct_RecvResetReq (gCompTypes ! k) i bp b))) = ccp_core b"
  "known_comp k \<Longrightarrow> ct_RecvResetAck (gCompTypes ! k) = Some c \<Longrightarrow> ccp_core (c i bp b) = ccp_core b"
  by (auto simp: comp_infos)

lemma mppc_refused_core [simp]: "ccp_core (mppc_refused bits b) = ccp_core b"
  by (simp add: mppc_refused_def Let_def)

lemma deflate_window_range: "deflate_fine o' \<Longrightarrow> deflate_window o' \<in> {9..15}"
  by (auto simp: deflate_fine_def deflate_window_def Let_def word_less_def word_le_def)

section \<open>The callbacks\<close>

lemma upt_types [simp]: "[0..<3] = [0, Suc 0, 2]"
  by (simp add: upt_rec)

lemma ccp_forget_fields [simp]:
  "cc_xmit (ccp_forget b) = None" "cc_recv (ccp_forget b) = None"
  "ccp_typed b \<Longrightarrow> ccp_typed (ccp_forget b)" "ccp_off (ccp_forget b) = ccp_off b"
  by (simp_all add: ccp_forget_def ccp_typed_def ccp_off_def)

lemma ccp_configure_good:
  "ccp_typed (f_arg (CcpConfigure f))" "ccp_off (f_arg (CcpConfigure f)) = ccp_off (f_arg f)"
  "ccp_typed (f_arg f) \<Longrightarrow> ccp_typed (f_arg (CcpUnConfigure f))"
  "ccp_off (f_arg (CcpUnConfigure f)) = ccp_off (f_arg f)"
  by (simp_all add: CcpConfigure_def CcpUnConfigure_def ccp_configure_type_def comp_infos gCompTypes_def
      MppcConfigure_def DeflateConfigure_def Let_def)
    (simp_all add: ccp_typed_def ccp_off_def CCP_SELF_REJ_def ccp_forget_def)

lemma comp_build:
  assumes "known_comp k" "ct_BuildConfigReq (gCompTypes ! k) b ok = (b', xs, ok')"
  shows "ccp_off b' = ccp_off b" "cc_xmit b' = cc_xmit b"
    "ccp_typed b \<Longrightarrow> k = 0 \<longrightarrow> cc_xmit b = None \<Longrightarrow> ccp_typed b'" "k = 0 \<Longrightarrow> ok' \<Longrightarrow> mp_xmit_bits b' \<noteq> 0"
proof -
  have upd: "ccp_off (b\<lparr>mp_xmit_bits := v\<rparr>) = ccp_off b"
    "ccp_typed b \<Longrightarrow> cc_xmit b = None \<Longrightarrow> ccp_typed (b\<lparr>mp_xmit_bits := v\<rparr>)" for v
    by (simp_all add: ccp_off_def ccp_typed_def)
  show "ccp_off b' = ccp_off b" "cc_xmit b' = cc_xmit b"
    "ccp_typed b \<Longrightarrow> k = 0 \<longrightarrow> cc_xmit b = None \<Longrightarrow> ccp_typed b'" "k = 0 \<Longrightarrow> ok' \<Longrightarrow> mp_xmit_bits b' \<noteq> 0"
    using assms
    by (auto simp: comp_infos MppcBuildConfigReq_def DeflateBuildConfigReq_def Pred1BuildConfigReq_def
        Let_def upd split: if_splits)
qed

lemma ccp_request_off: "known_comp k \<Longrightarrow> ccp_off (fst (ccp_request_type bc k)) = ccp_off (fst bc)"
  using comp_build(1) [of k "fst bc" "snd (snd bc)"]
  by (cases "ct_BuildConfigReq (gCompTypes ! k) (fst bc) (snd (snd bc))")
    (simp add: ccp_request_type_def case_prod_beta ccp_off_def)

lemma ccp_request_typed:
  assumes "ccp_typed (fst bc)" "known_comp k" "k = 0 \<longrightarrow> cc_xmit (fst bc) = None"
  shows "ccp_typed (fst (ccp_request_type bc k))"
proof -
  obtain b' xs ok' where b': "ct_BuildConfigReq (gCompTypes ! k) (fst bc) (snd (snd bc)) = (b', xs, ok')"
    by (cases "ct_BuildConfigReq (gCompTypes ! k) (fst bc) (snd (snd bc))")
  have t: "ccp_typed b'" "k = 0 \<Longrightarrow> ok' \<Longrightarrow> mp_xmit_bits b' \<noteq> 0"
    using comp_build(3,4) [OF assms(2) b'] assms(1,3) by auto
  then have "ccp_typed (b'\<lparr>cc_xmit := (if ok' \<and> cc_xmit b' = None then Some k else cc_xmit b')\<rparr>)"
    using assms(2) by (auto simp: ccp_typed_def)
  then show ?thesis using assms(1) b' t(1) by (auto simp: ccp_request_type_def case_prod_beta)
qed

lemma ccp_build_good:
  "ccp_typed (f_arg f) \<Longrightarrow> ccp_typed (f_arg (fst (CcpBuildConfigReq f)))"
  "ccp_off (f_arg (fst (CcpBuildConfigReq f))) = ccp_off (f_arg f)"
proof -
  let ?b = "((f_arg f)\<lparr>cc_xmit := None\<rparr>, [] :: byte list, cc_uninit_ok (f_arg f))"
  show "ccp_typed (f_arg (fst (CcpBuildConfigReq f)))" if "ccp_typed (f_arg f)"
  proof -
    have "ccp_typed (fst ?b)" "cc_xmit (fst ?b) = None" using that by (simp_all add: ccp_typed_def)
    then show ?thesis by (simp add: CcpBuildConfigReq_def case_prod_beta ccp_request_typed)
  qed
  show "ccp_off (f_arg (fst (CcpBuildConfigReq f))) = ccp_off (f_arg f)"
    by (simp add: CcpBuildConfigReq_def case_prod_beta ccp_request_off) (simp add: ccp_off_def)
qed

lemma comp_decode_off [simp]:
  assumes "known_comp k"
  shows "ccp_off (f_arg (ct_DecodeConfig (gCompTypes ! k) opt md f)) = ccp_off (f_arg f)"
proof -
  have upd: "ccp_off (b\<lparr>mp_recv_bits := v\<rparr>) = ccp_off b" "ccp_off (mppc_refused v b) = ccp_off b"
    for b v by (rule ccp_core_eq, simp)+
  have win: "ccp_off (b\<lparr>cc_recv_windowBits := w\<rparr>) = ccp_off b"
    "ccp_off (b\<lparr>cc_xmit_windowBits := w\<rparr>) = ccp_off b" for b w
    by (simp_all add: ccp_off_def)
  have "ccp_off (f_arg (MppcDecodeConfigReq opt md f)) = ccp_off (f_arg f)"
    "ccp_off (f_arg (DeflateDecodeConfigReq opt md f)) = ccp_off (f_arg f)"
    by (cases md; simp add: MppcDecodeConfigReq_def DeflateDecodeConfigReq_def Let_def upd win)+
  moreover have "f_arg (Pred1DecodeConfigReq opt md f) = f_arg f" by (simp add: Pred1DecodeConfigReq_def)
  ultimately show ?thesis using assms by (auto simp: comp_infos)
qed

lemma comp_decode_typed [simp]:
  assumes "known_comp k" "ccp_typed (f_arg f)"
  shows "ccp_typed (f_arg (ct_DecodeConfig (gCompTypes ! k) opt md f))"
proof -
  have "ccp_typed (b\<lparr>mp_recv_bits := v\<rparr>) = ccp_typed b" "ccp_typed (mppc_refused v b) = ccp_typed b"
    for b v by (rule ccp_core_eq, simp)+
  then have "ccp_typed (f_arg (MppcDecodeConfigReq opt md f))"
    using assms(2) by (cases md) (simp_all add: MppcDecodeConfigReq_def Let_def)
  moreover have "ccp_typed (b\<lparr>cc_recv_windowBits := deflate_window o'\<rparr>)"
    "ccp_typed (b\<lparr>cc_xmit_windowBits := deflate_window o'\<rparr>)" "ccp_typed (b\<lparr>cc_xmit_windowBits := 0\<rparr>)"
    if "ccp_typed b" "deflate_fine o'" for b o'
    using that deflate_window_range [OF that(2)] by (auto simp: ccp_typed_def)
  moreover have "ccp_typed (b\<lparr>cc_xmit_windowBits := 0\<rparr>)" if "ccp_typed b" for b
    using that by (auto simp: ccp_typed_def)
  ultimately have "ccp_typed (f_arg (DeflateDecodeConfigReq opt md f))"
    using assms(2) by (cases md) (auto simp: DeflateDecodeConfigReq_def Let_def)
  then show ?thesis
    using assms \<open>ccp_typed (f_arg (MppcDecodeConfigReq opt md f))\<close>
    by (auto simp: comp_infos Pred1DecodeConfigReq_def)
qed

text \<open>Deflate acknowledges only a request whose window it takes.\<close>

lemma deflate_acked:
  assumes "length (f_ackBuf (DeflateDecodeConfigReq opt MODE_REQ f)) \<noteq> length (f_ackBuf f)"
  shows "cc_recv_windowBits (f_arg (DeflateDecodeConfigReq opt MODE_REQ f)) \<in> {9..15}"
  using assms deflate_window_range
  by (auto simp: DeflateDecodeConfigReq_def Let_def FsmNak_def FsmRej_def split: if_splits)

lemma ccp_req_good:
  assumes "known_comp k"
  shows "ccp_typed (f_arg f) \<Longrightarrow> ccp_typed (f_arg (ccp_req_opt k opt f))"
    "ccp_off (f_arg (ccp_req_opt k opt f)) = ccp_off (f_arg f)"
proof -
  let ?g = "ct_DecodeConfig (gCompTypes ! k) opt MODE_REQ f"
  have rej: "ccp_typed (CCP_SELF_REJ k b) = ccp_typed b" "ccp_off (CCP_SELF_REJ k b) = ccp_off b" for b
    by (rule ccp_core_eq, simp)+
  have "ccp_typed ((f_arg ?g)\<lparr>cc_recv := Some k\<rparr>)"
    if "ccp_typed (f_arg f)" "length (f_ackBuf ?g) \<noteq> length (f_ackBuf f)"
    using comp_decode_typed [OF assms that(1), of opt MODE_REQ] deflate_acked [of opt f] assms that(2)
    by (auto simp: ccp_typed_def comp_infos)
  then show "ccp_typed (f_arg f) \<Longrightarrow> ccp_typed (f_arg (ccp_req_opt k opt f))"
    using assms by (simp add: ccp_req_opt_def Let_def rej)
  have "ccp_off (b\<lparr>cc_recv := t\<rparr>) = ccp_off b" for b t by (simp add: ccp_off_def)
  then show "ccp_off (f_arg (ccp_req_opt k opt f)) = ccp_off (f_arg f)"
    using assms by (simp add: ccp_req_opt_def Let_def rej)
qed

lemma ccp_decode_opt_good:
  shows "ccp_typed (f_arg f) \<Longrightarrow> ccp_typed (f_arg (ccp_decode_opt md f opt))"
    "ccp_off (f_arg (ccp_decode_opt md f opt)) = ccp_off (f_arg f)"
proof -
  have rej: "ccp_typed (CCP_PEER_REJ k b) = ccp_typed b" "ccp_off (CCP_PEER_REJ k b) = ccp_off b" for k b
    by (rule ccp_core_eq, simp)+
  show "ccp_typed (f_arg f) \<Longrightarrow> ccp_typed (f_arg (ccp_decode_opt md f opt))"
    "ccp_off (f_arg (ccp_decode_opt md f opt)) = ccp_off (f_arg f)"
    by (cases "CcpFindComp (opt_type opt)"; cases md;
        simp add: ccp_decode_opt_def ccp_req_good rej CcpFindComp_known [simplified])+
qed

lemma ccp_decode_good:
  shows "ccp_typed (f_arg f) \<Longrightarrow> ccp_typed (f_arg (CcpDecodeConfig f opts md))"
    "ccp_off (f_arg (CcpDecodeConfig f opts md)) = ccp_off (f_arg f)"
proof -
  have "ccp_typed (f_arg g) \<Longrightarrow> ccp_typed (f_arg (foldl (ccp_decode_opt md) g opts))"
    "ccp_off (f_arg (foldl (ccp_decode_opt md) g opts)) = ccp_off (f_arg g)" for g
    by (induction opts arbitrary: g) (simp_all add: ccp_decode_opt_good)
  then show "ccp_typed (f_arg f) \<Longrightarrow> ccp_typed (f_arg (CcpDecodeConfig f opts md))"
    "ccp_off (f_arg (CcpDecodeConfig f opts md)) = ccp_off (f_arg f)"
    by (simp_all add: CcpDecodeConfig_def ccp_forget_recv_def ccp_typed_def ccp_off_def)
qed

section \<open>The layers and the resets\<close>

lemma typed_known: "ccp_typed b \<Longrightarrow> cc_xmit b = Some k \<Longrightarrow> known_comp k"
  "ccp_typed b \<Longrightarrow> cc_recv b = Some k \<Longrightarrow> known_comp k"
  by (auto simp: ccp_typed_def)

lemma core_disconnect:
  "ccp_core (ccp_disconnect b) = ccp_core (b\<lparr>cc_enableCompression := 0, cc_enableDecompression := 0\<rparr>)"
  by (simp add: ccp_disconnect_def ccp_set_config_def Let_def)

lemma typed_set_modes [simp]:
  "ccp_typed (b\<lparr>cc_enableCompression := en, cc_enableDecompression := de\<rparr>) = ccp_typed b"
  by (simp add: ccp_typed_def)

lemma core_cleanup_dir:
  assumes "t \<in> {None, Some 0, Some 1, Some 2}" "ccp_cleanup_dir t dir c = Some c'"
  shows "ccp_core c' = ccp_core c"
proof (cases t)
  case None
  with assms(2) show ?thesis by (simp add: ccp_cleanup_dir_def)
next
  case (Some k)
  with assms(1) have "known_comp k" by auto
  moreover have "ct_Cleanup (gCompTypes ! k) dir c = Some c'"
    using assms(2) Some by (simp add: ccp_cleanup_dir_def)
  ultimately show ?thesis by (rule core_cleanup)
qed

lemma typed_in:
  assumes "ccp_typed b"
  shows "cc_xmit b \<in> {None, Some 0, Some 1, Some 2}" "cc_recv b \<in> {None, Some 0, Some 1, Some 2}"
  using assms by (simp_all only: ccp_typed_def)

text \<open>Whether its assertions hold or not, the end of the layer switches compression off.\<close>

lemma ccp_layer_down_core:
  assumes "ccp_typed (f_arg f)"
  shows "ccp_core (f_arg (CcpLayerDown f)) = ccp_core (ccp_disconnect (f_arg f))"
proof -
  define b where "b = ccp_disconnect (f_arg f)"
  have b: "ccp_core b = ccp_core ((f_arg f)\<lparr>cc_enableCompression := 0, cc_enableDecompression := 0\<rparr>)"
    by (simp add: b_def core_disconnect)
  have t: "ccp_typed b" using ccp_core_eq(1) [OF b] assms by simp
  show ?thesis
  proof (cases "ccp_cleanup_dir (cc_recv b) COMP_DIR_RECV b")
    case None
    then show ?thesis by (simp add: CcpLayerDown_def b_def fsm_abort_def)
  next
    case (Some c)
    have c: "ccp_core c = ccp_core b" by (rule core_cleanup_dir [OF typed_in(2) [OF t] Some])
    then have "ccp_typed c" using ccp_core_eq(1) t by blast
    note d = core_cleanup_dir [OF typed_in(1) [OF this]]
    show ?thesis
      using Some c d [of COMP_DIR_XMIT c]
      by (cases "ccp_cleanup_dir (cc_xmit c) COMP_DIR_XMIT c")
        (simp_all add: CcpLayerDown_def b_def fsm_abort_def)
  qed
qed

lemma ccp_layer_down_good:
  assumes "ccp_typed (f_arg f)"
  shows "ccp_typed (f_arg (CcpLayerDown f))" "ccp_off (f_arg (CcpLayerDown f))"
proof -
  have "ccp_core (f_arg (CcpLayerDown f)) =
      ccp_core ((f_arg f)\<lparr>cc_enableCompression := 0, cc_enableDecompression := 0\<rparr>)"
    by (simp add: ccp_layer_down_core [OF assms] core_disconnect)
  note ccp_core_eq(1,2) [OF this]
  then show "ccp_typed (f_arg (CcpLayerDown f))" "ccp_off (f_arg (CcpLayerDown f))"
    using assms by (simp_all add: ccp_off_def)
qed

lemma ccp_init_core:
  assumes "t \<in> {None, Some 0, Some 1, Some 2}"
  shows "ccp_core (snd (ccp_init_dir t dir c)) = ccp_core c"
proof (cases t)
  case (Some k)
  with assms have "known_comp k" by auto
  then show ?thesis using Some core_init by (simp add: ccp_init_dir_def)
qed (simp add: ccp_init_dir_def)

lemma ccp_connect_typed: "ccp_typed (ccp_connect b) = ccp_typed b"
proof -
  have "ccp_typed (ccp_call c b) = ccp_typed b" for c b by (rule ccp_core_eq) simp
  then show ?thesis by (simp add: ccp_connect_def Let_def ccp_set_config_def)
qed

lemma ccp_resets_core:
  assumes "ccp_typed (f_arg f)"
  shows "ccp_core (f_arg (CcpRecvResetReq ty f i bp)) = ccp_core (f_arg f)"
    "ccp_core (f_arg (CcpRecvResetAck f i bp)) = ccp_core (f_arg f)"
proof -
  let ?b = "(f_arg f)\<lparr>cc_xmit_resets := cc_xmit_resets (f_arg f) + 1\<rparr>"
  have "ccp_core (snd (snd (ct_RecvResetReq (gCompTypes ! k) i bp ?b))) = ccp_core (f_arg f)"
    if "cc_xmit (f_arg f) = Some k" for k
    using core_resets(1) [OF typed_known(1) [OF assms that]] by simp
  then show "ccp_core (f_arg (CcpRecvResetReq ty f i bp)) = ccp_core (f_arg f)"
    by (cases "cc_xmit (f_arg f)")
      (simp_all add: CcpRecvResetReq_def Let_def case_prod_beta FsmOutputMbuf_def)
  have "ccp_core (c i bp (f_arg f)) = ccp_core (f_arg f)"
    if "cc_recv (f_arg f) = Some k" "ct_RecvResetAck (gCompTypes ! k) = Some c" for k c
    using core_resets(2) [OF typed_known(2) [OF assms that(1)] that(2)] .
  then show "ccp_core (f_arg (CcpRecvResetAck f i bp)) = ccp_core (f_arg f)"
    by (simp add: CcpRecvResetAck_def split: option.split)
qed

section \<open>The contracts\<close>

lemma ccp_decode_ctl: "ctl (CcpDecodeConfig f opts md) = ctl f"
  by (simp add: CcpDecodeConfig_def ccp_dec.all_ctl ccp_forget_recv_def)

lemma ccp_states [simp]:
  "f_state (CcpLayerDown f) = f_state f" "f_state (CcpDecodeConfig f opts md) = f_state f"
  "f_state (fst (CcpBuildConfigReq f)) = f_state f" "f_state (CcpConfigure f) = f_state f"
  "f_state (CcpUnConfigure f) = f_state f" "f_state (CcpRecvResetReq ty f i bp) = f_state f"
  "f_state (CcpRecvResetAck f i bp) = f_state f"
  using ctl_fields(2) [OF ccp_decode_ctl [of f opts md]]
  by (simp_all add: CcpLayerDown_def fsm_abort_def Let_def CcpBuildConfigReq_def case_prod_beta
      CcpConfigure_def CcpUnConfigure_def CcpRecvResetReq_def CcpRecvResetAck_def FsmOutputMbuf_def
      split: option.split)

lemma ccp_stable:
  assumes "reset = None \<or> reset = Some (CcpRecvResetReq ty)"
  shows "fsm_stable (ccp_type up reset)"
  using assms by unfold_locales (auto simp: ccp_type_def call0_def CcpFailure_def)

lemma ccp_keeps:
  assumes "reset = None \<or> reset = Some (CcpRecvResetReq ty)"
  shows "fsm_keeps_all (ccp_type up reset) ccp_typed"
    "fsm_keeps_all (ccp_type up reset) (\<lambda>b. ccp_typed b \<and> ccp_off b)"
  using assms ccp_core_eq(1) [OF ccp_resets_core(1)] ccp_core_eq(1) [OF ccp_resets_core(2)]
    ccp_core_eq(2) [OF ccp_resets_core(1)] ccp_core_eq(2) [OF ccp_resets_core(2)]
  by (unfold_locales; auto simp: ccp_type_def call0_def keeps_def CcpFailure_def ccp_layer_down_good
      ccp_configure_good ccp_build_good ccp_decode_good)+

text \<open>The automaton as it runs inside \<open>CcpLayerUp\<close>.\<close>

interpretation ccp_in: fsm_settled ccp_inner "\<lambda>b. ccp_typed b \<and> ccp_off b" ccp_typed
proof (intro fsm_settled.intro fsm_carries.intro fsm_carries_axioms.intro fsm_settled_axioms.intro)
  show "fsm_stable ccp_inner" "fsm_keeps_all ccp_inner ccp_typed"
    "fsm_keeps_all ccp_inner (\<lambda>b. ccp_typed b \<and> ccp_off b)"
    unfolding ccp_inner_def by (intro ccp_stable ccp_keeps; simp)+
qed (auto simp: ccp_inner_def ccp_type_def call0_def ccp_layer_down_good)

lemma ccp_up_inits:
  assumes "ccp_typed b"
  obtains b1 b2 o1 o2 where "ccp_init_dir (cc_xmit b) COMP_DIR_XMIT b = (o1, b1)"
    "ccp_init_dir (cc_recv b1) COMP_DIR_RECV b1 = (o2, b2)" "ccp_typed b1" "ccp_typed b2"
proof -
  obtain o1 b1 where 1: "ccp_init_dir (cc_xmit b) COMP_DIR_XMIT b = (o1, b1)" by fastforce
  have "ccp_core b1 = ccp_core b"
    using ccp_init_core [OF typed_in(1) [OF assms], of COMP_DIR_XMIT b] by (simp only: 1 snd_conv)
  then have b1: "ccp_typed b1" using ccp_core_eq(1) assms by blast
  obtain o2 b2 where 2: "ccp_init_dir (cc_recv b1) COMP_DIR_RECV b1 = (o2, b2)" by fastforce
  have "ccp_core b2 = ccp_core b1"
    using ccp_init_core [OF typed_in(2) [OF b1], of COMP_DIR_RECV b1] by (simp only: 2 snd_conv)
  then have "ccp_typed b2" using ccp_core_eq(1) b1 by blast
  with 1 2 b1 show ?thesis by (intro that)
qed

lemma ccp_layer_up_good:
  assumes "ccp_typed (f_arg f)"
  shows "ccp_typed (f_arg (CcpLayerUp ccp_inner f))"
    "f_state f = ST_OPENED \<Longrightarrow> ccp_in.settled (CcpLayerUp ccp_inner f)"
proof -
  obtain b1 b2 o1 o2 where i: "ccp_init_dir (cc_xmit (f_arg f)) COMP_DIR_XMIT (f_arg f) = (o1, b1)"
    "ccp_init_dir (cc_recv b1) COMP_DIR_RECV b1 = (o2, b2)" "ccp_typed b1" "ccp_typed b2"
    using ccp_up_inits [OF assms] .
  have fail: "ccp_typed (f_arg (FsmFailure ccp_inner r (f\<lparr>f_arg := b\<rparr>)))"
    "f_state f = ST_OPENED \<Longrightarrow> ccp_in.settled (FsmFailure ccp_inner r (f\<lparr>f_arg := b\<rparr>))"
    if "ccp_typed b" for b r
    using that ccp_in.inv.idle_Failure ccp_in.settled_Failure by (simp_all add: ccp_in.settled_def)
  show "ccp_typed (f_arg (CcpLayerUp ccp_inner f))"
    using fail(1) [OF assms] fail(1) i by (simp add: CcpLayerUp_def Let_def ccp_connect_typed)
  show "f_state f = ST_OPENED \<Longrightarrow> ccp_in.settled (CcpLayerUp ccp_inner f)"
    using fail(2) [OF assms] fail(2) i
    by (simp add: CcpLayerUp_def Let_def) (simp add: ccp_in.settled_def ccp_connect_typed)
qed

interpretation ccp: fsm_settled gCcpFsmType "\<lambda>b. ccp_typed b \<and> ccp_off b" ccp_typed
proof (intro fsm_settled.intro fsm_carries.intro fsm_carries_axioms.intro fsm_settled_axioms.intro)
  show "fsm_stable gCcpFsmType" "fsm_keeps_all gCcpFsmType ccp_typed"
    "fsm_keeps_all gCcpFsmType (\<lambda>b. ccp_typed b \<and> ccp_off b)"
    unfolding gCcpFsmType_def by (intro ccp_stable ccp_keeps; simp)+
  show "keeps ccp_typed (call0 (LayerUp gCcpFsmType))"
    by (simp add: gCcpFsmType_def ccp_type_def call0_def keeps_def ccp_layer_up_good)
  fix f
  show "ccp_typed (f_arg f) \<Longrightarrow> ccp_typed (f_arg (call0 (LayerDown gCcpFsmType) f)) \<and>
      ccp_off (f_arg (call0 (LayerDown gCcpFsmType) f))"
    by (simp add: gCcpFsmType_def ccp_type_def call0_def ccp_layer_down_good)
  show "f_state f = ST_OPENED \<Longrightarrow> ccp_typed (f_arg f) \<Longrightarrow>
      (ccp_typed (f_arg (call0 (LayerUp gCcpFsmType) f)) \<and> ccp_off (f_arg (call0 (LayerUp gCcpFsmType) f))) \<or>
      f_state (call0 (LayerUp gCcpFsmType) f) = ST_OPENED"
    using ccp_layer_up_good(2) [of f]
    by (auto simp: gCcpFsmType_def ccp_type_def call0_def ccp_in.settled_def)
qed

end
