(* ===== verification/Ccp_Mppc.thy ===== *)
theory Ccp_Mppc
  imports Ccp_Facts
begin

unbundle bit_operations_syntax

text \<open>
  MPPC as CCP negotiates it: what a request is turned into, bit by bit (\<open>mppc_agreed\<close>), what is asked
  for and what the peer takes from it, and that the start keys of the two ends are the same.
\<close>

section \<open>What MPPC chooses\<close>

lemma and_power_zero: "x AND 2 ^ n = 0 \<longleftrightarrow> \<not> bit x n" for x :: u32
  using mask_test_bit [of x n] by (auto simp: mask_test_def push_bit_eq_mult)

text \<open>What is agreed: only supported bits; compression, stateless mode and a strength only if the
  configuration lets the peer have them; one strength at most; and encryption whenever any
  strength is to be had.\<close>

definition mppc_agreed :: "ccp_bund \<Rightarrow> u32 \<Rightarrow> bool" where
  "mppc_agreed b v \<longleftrightarrow>
     (let K = cc_k b; acc = MppcAcceptableMppeType b in
      v \<noteq> 0 \<and> v AND NOT (MPPC_SUPPORTED K) = 0 \<and>
      (v AND MPPC_BIT K \<noteq> 0 \<longrightarrow> Acceptable (mp_options b) MPPC_CONF_COMPRESS \<and> cc_MPPCPresent b) \<and>
      (v AND MPPE_STATELESS K \<noteq> 0 \<longrightarrow> Acceptable (mp_options b) MPPC_CONF_STATELESS) \<and>
      (v AND MPPE_BITS K = 0 \<and> \<not> acc E40 \<and> \<not> acc E56 \<and> \<not> acc E128 \<or>
       v AND MPPE_BITS K = MPPE_40 K \<and> acc E40 \<or>
       v AND MPPE_BITS K = MPPE_56 K \<and> acc E56 \<or>
       v AND MPPE_BITS K = MPPE_128 K \<and> acc E128))"

lemma or_zero: "x AND (y OR z) = 0 \<longleftrightarrow> x AND y = 0 \<and> x AND z = 0" for x y z :: u32
  by (simp add: bit_eq_iff bit_simps) blast

lemma mppc_choose_bits:
  fixes b :: ccp_bund and v :: u32
  assumes dist: "distinct [a, p, q, r, e]" and lt: "list_all (\<lambda>n. n < 32) [a, p, q, r, e]"
    and K: "MPPC_BIT (cc_k b) = push_bit a 1" "MPPE_40 (cc_k b) = push_bit p 1"
    "MPPE_56 (cc_k b) = push_bit q 1" "MPPE_128 (cc_k b) = push_bit r 1"
    "MPPE_STATELESS (cc_k b) = push_bit e 1"
    "MPPE_BITS (cc_k b) = MPPE_40 (cc_k b) OR MPPE_56 (cc_k b) OR MPPE_128 (cc_k b)"
    and A: "A40 = MppcAcceptableMppeType b E40" "A56 = MppcAcceptableMppeType b E56"
    "A128 = MppcAcceptableMppeType b E128"
    and none: "none = (\<not> (bit v p \<and> A40) \<and> \<not> (bit v q \<and> A56) \<and> \<not> (bit v r \<and> A128))"
  shows "bit (mppc_choose b v) n \<Longrightarrow> n \<in> {a, p, q, r, e}"
    "bit (mppc_choose b v) a \<longleftrightarrow>
      bit v a \<and> Acceptable (mp_options b) MPPC_CONF_COMPRESS \<and> cc_MPPCPresent b"
    "bit (mppc_choose b v) p \<longleftrightarrow>
      A40 \<and> (none \<or> bit v p \<and> \<not> (bit v q \<and> A56) \<and> \<not> (bit v r \<and> A128))"
    "bit (mppc_choose b v) q \<longleftrightarrow> A56 \<and> (none \<or> bit v q \<and> \<not> (bit v r \<and> A128))"
    "bit (mppc_choose b v) r \<longleftrightarrow> A128 \<and> (none \<or> bit v r)"
    "bit (mppc_choose b v) e \<Longrightarrow> Acceptable (mp_options b) MPPC_CONF_STATELESS"
proof -
  let ?K = "cc_k b" and ?A = "MppcAcceptableMppeType b" and ?acc = "Acceptable (mp_options b)"
  have below: "a < 32" "p < 32" "q < 32" "r < 32" "e < 32" using lt by simp_all
  note bits = bit_simps below K
  define v1 where "v1 = v AND MPPC_SUPPORTED ?K"
  have v1: "bit v1 n \<longleftrightarrow> bit v n \<and> n \<in> {a, p, q, r, e}" for n
    using below by (auto simp: v1_def MPPC_SUPPORTED_def bits)
  define v2 where "v2 = (if \<not> ?acc MPPC_CONF_COMPRESS \<or> \<not> cc_MPPCPresent b
    then v1 AND NOT (MPPC_BIT ?K) else v1)"
  have v2: "bit v2 n \<longleftrightarrow> bit v1 n \<and> (n = a \<longrightarrow> ?acc MPPC_CONF_COMPRESS \<and> cc_MPPCPresent b)" for n
    using bit_imp_le_length [of v1 n] by (auto simp: v2_def bits)
  define v3 where "v3 = (if \<not> ?A E40 then v2 AND NOT (MPPE_40 ?K) else v2)"
  have v3: "bit v3 n \<longleftrightarrow> bit v2 n \<and> (n = p \<longrightarrow> ?A E40)" for n
    using bit_imp_le_length [of v2 n] by (auto simp: v3_def bits)
  define v4 where "v4 = (if \<not> ?A E56 then v3 AND NOT (MPPE_56 ?K) else v3)"
  have v4: "bit v4 n \<longleftrightarrow> bit v3 n \<and> (n = q \<longrightarrow> ?A E56)" for n
    using bit_imp_le_length [of v3 n] by (auto simp: v4_def bits)
  define v5 where "v5 = (if \<not> ?A E128 then v4 AND NOT (MPPE_128 ?K) else v4)"
  have v5: "bit v5 n \<longleftrightarrow> bit v4 n \<and> (n = r \<longrightarrow> ?A E128)" for n
    using bit_imp_le_length [of v4 n] by (auto simp: v5_def bits)
  define v6 where "v6 = (if v5 AND MPPE_128 ?K \<noteq> 0 then v5 AND NOT (MPPE_40 ?K OR MPPE_56 ?K)
    else if v5 AND MPPE_56 ?K \<noteq> 0 then v5 AND NOT (MPPE_40 ?K) else v5)"
  have v6: "bit v6 n \<longleftrightarrow> bit v5 n \<and> (n = p \<longrightarrow> \<not> bit v5 q \<and> \<not> bit v5 r) \<and> (n = q \<longrightarrow> \<not> bit v5 r)" for n
    using bit_imp_le_length [of v5 n] dist by (auto simp: v6_def and_power_zero bits)
  define v7 where "v7 = (if v6 AND MPPE_BITS ?K = 0
    then (let bits = (if ?A E40 then v6 OR MPPE_40 ?K else v6);
              bits = (if ?A E56 then bits OR MPPE_56 ?K else bits)
          in if ?A E128 then bits OR MPPE_128 ?K else bits) else v6)"
  have v7: "bit v7 n \<longleftrightarrow> bit v6 n \<or> \<not> bit v6 p \<and> \<not> bit v6 q \<and> \<not> bit v6 r \<and>
      (n = p \<and> ?A E40 \<or> n = q \<and> ?A E56 \<or> n = r \<and> ?A E128)" for n
    using below by (auto simp: v7_def Let_def or_zero and_power_zero bits)
  define v8 where "v8 = (if v7 AND MPPE_STATELESS ?K \<noteq> 0 \<and>
      (\<not> ?acc MPPC_CONF_STATELESS \<or> v7 AND (MPPE_BITS ?K OR MPPC_BIT ?K) = 0)
    then v7 AND NOT (MPPE_STATELESS ?K) else v7)"
  have v8: "bit v8 n \<longleftrightarrow> bit v7 n \<and> (n = e \<longrightarrow> ?acc MPPC_CONF_STATELESS \<and>
      (bit v7 p \<or> bit v7 q \<or> bit v7 r \<or> bit v7 a))" for n
    using bit_imp_le_length [of v7 n] by (auto simp: v8_def or_zero and_power_zero bits)
  have choose: "mppc_choose b v = v8"
    unfolding mppc_choose_def Let_def v8_def v7_def v6_def v5_def v4_def v3_def v2_def v1_def ..
  have ne: "a \<noteq> p" "a \<noteq> q" "a \<noteq> r" "a \<noteq> e" "p \<noteq> q" "p \<noteq> r" "p \<noteq> e" "q \<noteq> r" "q \<noteq> e" "r \<noteq> e"
    using dist by simp_all
  have w5: "bit v5 a \<longleftrightarrow> bit v a \<and> ?acc MPPC_CONF_COMPRESS \<and> cc_MPPCPresent b"
    "bit v5 p \<longleftrightarrow> bit v p \<and> A40" "bit v5 q \<longleftrightarrow> bit v q \<and> A56" "bit v5 r \<longleftrightarrow> bit v r \<and> A128"
    unfolding v5 v4 v3 v2 v1 A using ne by simp_all
  have w6: "bit v6 a \<longleftrightarrow> bit v5 a" "bit v6 p \<longleftrightarrow> bit v5 p \<and> \<not> bit v5 q \<and> \<not> bit v5 r"
    "bit v6 q \<longleftrightarrow> bit v5 q \<and> \<not> bit v5 r" "bit v6 r \<longleftrightarrow> bit v5 r"
    using ne by (simp_all add: v6)
  have w7: "bit v7 a \<longleftrightarrow> bit v6 a" "bit v7 p \<longleftrightarrow> bit v6 p \<or> \<not> bit v6 q \<and> \<not> bit v6 r \<and> A40"
    "bit v7 q \<longleftrightarrow> bit v6 q \<or> \<not> bit v6 p \<and> \<not> bit v6 r \<and> A56"
    "bit v7 r \<longleftrightarrow> bit v6 r \<or> \<not> bit v6 p \<and> \<not> bit v6 q \<and> A128"
    using ne by (auto simp: v7 A)
  have w8: "bit v8 a \<longleftrightarrow> bit v7 a" "bit v8 p \<longleftrightarrow> bit v7 p" "bit v8 q \<longleftrightarrow> bit v7 q" "bit v8 r \<longleftrightarrow> bit v7 r"
    using ne by (simp_all add: v8)
  show "bit (mppc_choose b v) n \<Longrightarrow> n \<in> {a, p, q, r, e}"
  proof -
    have "bit v5 n \<Longrightarrow> n \<in> {a, p, q, r, e}" using v5 [of n] v4 [of n] v3 [of n] v2 [of n] v1 [of n] by blast
    then show "bit (mppc_choose b v) n \<Longrightarrow> n \<in> {a, p, q, r, e}"
      unfolding choose using v8 [of n] v7 [of n] v6 [of n] by blast
  qed
  show "bit (mppc_choose b v) a \<longleftrightarrow> bit v a \<and> ?acc MPPC_CONF_COMPRESS \<and> cc_MPPCPresent b"
    unfolding choose w8 w7 w6 w5 ..
  show "bit (mppc_choose b v) p \<longleftrightarrow>
      A40 \<and> (none \<or> bit v p \<and> \<not> (bit v q \<and> A56) \<and> \<not> (bit v r \<and> A128))"
    unfolding choose w8 w7 w6 w5 none by blast
  show "bit (mppc_choose b v) q \<longleftrightarrow> A56 \<and> (none \<or> bit v q \<and> \<not> (bit v r \<and> A128))"
    unfolding choose w8 w7 w6 w5 none by blast
  show "bit (mppc_choose b v) r \<longleftrightarrow> A128 \<and> (none \<or> bit v r)"
    unfolding choose w8 w7 w6 w5 none by blast
  show "bit (mppc_choose b v) e \<Longrightarrow> ?acc MPPC_CONF_STATELESS"
    unfolding choose by (simp add: v8)
qed

lemma mppc_choose_agreed:
  assumes ok: "ng_mppc_ok (cc_k b)" and fixed: "mppc_choose b v = v" and "v \<noteq> 0"
  shows "mppc_agreed b v"
proof -
  let ?K = "cc_k b" and ?A = "MppcAcceptableMppeType b"
  obtain a p q r e where dist: "distinct [a, p, q, r, e]" and lt: "list_all (\<lambda>n. n < 32) [a, p, q, r, e]"
    and K: "MPPC_BIT ?K = push_bit a 1" "MPPE_40 ?K = push_bit p 1" "MPPE_56 ?K = push_bit q 1"
    "MPPE_128 ?K = push_bit r 1" "MPPE_STATELESS ?K = push_bit e 1"
    "MPPE_BITS ?K = MPPE_40 ?K OR MPPE_56 ?K OR MPPE_128 ?K"
    using ok unfolding ng_mppc_ok_def by blast
  have below: "a < 32" "p < 32" "q < 32" "r < 32" "e < 32" using lt by simp_all
  note all = mppc_choose_bits [OF dist lt K refl refl refl refl, of v, unfolded fixed]
  have only: "bit v n \<Longrightarrow> n \<in> {a, p, q, r, e}" for n by (rule all(1))
  have comp: "bit v a \<Longrightarrow> Acceptable (mp_options b) MPPC_CONF_COMPRESS \<and> cc_MPPCPresent b"
    using all(2) by blast
  have stateless: "bit v e \<Longrightarrow> Acceptable (mp_options b) MPPC_CONF_STATELESS"
    by (rule all(6))
  have strength: "\<not> bit v p \<and> \<not> bit v q \<and> \<not> bit v r \<and> \<not> ?A E40 \<and> \<not> ?A E56 \<and> \<not> ?A E128 \<or>
      bit v p \<and> \<not> bit v q \<and> \<not> bit v r \<and> ?A E40 \<or> \<not> bit v p \<and> bit v q \<and> \<not> bit v r \<and> ?A E56 \<or>
      \<not> bit v p \<and> \<not> bit v q \<and> bit v r \<and> ?A E128"
    using all(3-5) by blast
  have bits: "v AND MPPE_BITS ?K =
      (if bit v p then MPPE_40 ?K else 0) OR (if bit v q then MPPE_56 ?K else 0) OR
      (if bit v r then MPPE_128 ?K else 0)"
  proof (rule bit_word_eqI)
    fix m :: nat
    show "bit (v AND MPPE_BITS ?K) m = bit ((if bit v p then MPPE_40 ?K else 0) OR
        (if bit v q then MPPE_56 ?K else 0) OR (if bit v r then MPPE_128 ?K else 0)) m"
      using below by (cases "m = p"; cases "m = q"; cases "m = r") (simp_all add: K bit_simps)
  qed
  have "v AND NOT (MPPC_SUPPORTED ?K) = 0"
  proof (rule bit_word_eqI)
    fix m :: nat
    show "bit (v AND NOT (MPPC_SUPPORTED ?K)) m = bit (0 :: u32) m"
      using only [of m] below by (cases "bit v m") (auto simp: MPPC_SUPPORTED_def K bit_simps)
  qed
  moreover have "v AND MPPC_BIT ?K \<noteq> 0 \<longleftrightarrow> bit v a" "v AND MPPE_STATELESS ?K \<noteq> 0 \<longleftrightarrow> bit v e"
    by (simp_all add: K and_power_zero)
  moreover have "v AND MPPE_BITS ?K = 0 \<and> \<not> ?A E40 \<and> \<not> ?A E56 \<and> \<not> ?A E128 \<or>
       v AND MPPE_BITS ?K = MPPE_40 ?K \<and> ?A E40 \<or> v AND MPPE_BITS ?K = MPPE_56 ?K \<and> ?A E56 \<or>
       v AND MPPE_BITS ?K = MPPE_128 ?K \<and> ?A E128"
    using strength unfolding bits by (elim disjE) simp_all
  ultimately show ?thesis
    using comp stateless \<open>v \<noteq> 0\<close> unfolding mppc_agreed_def Let_def by blast
qed

text \<open>An MPPC option that draws no complaint was agreed on as it is. What decides depends on a part of
  the state that decoding does not change.\<close>

definition mppc_side :: "ccp_bund \<Rightarrow> ccp_bund" where
  "mppc_side b = b\<lparr>cc_recv := None, cc_self_reject := 0, mp_recv_bits := 0, cc_recv_windowBits := 0\<rparr>"

lemma mppc_side_fields:
  "cc_k (mppc_side b) = cc_k b" "mp_options (mppc_side b) = mp_options b"
  "cc_MPPCPresent (mppc_side b) = cc_MPPCPresent b"
  "MppcAcceptableMppeType (mppc_side b) = MppcAcceptableMppeType b"
  by (simp_all add: mppc_side_def MppcAcceptableMppeType_def MppcKeyAvailable_def fun_eq_iff)

lemma mppc_side_choose: "mppc_choose (mppc_side b) v = mppc_choose b v"
  by (simp only: mppc_choose_def mppc_side_fields)

lemma mppc_side_agreed: "mppc_agreed (mppc_side b) v = mppc_agreed b v"
  by (simp only: mppc_agreed_def mppc_side_fields)

lemma mppc_side_updates:
  "mppc_side (b\<lparr>cc_recv := t\<rparr>) = mppc_side b" "mppc_side (b\<lparr>mp_recv_bits := v\<rparr>) = mppc_side b"
  "mppc_side (b\<lparr>cc_recv_windowBits := w\<rparr>) = mppc_side b" "mppc_side (CCP_SELF_REJ k b) = mppc_side b"
  by (simp_all add: CCP_SELF_REJ_def mppc_side_def)

lemma mppc_side_types:
  assumes "md = MODE_REQ \<or> md = MODE_NOP"
  shows "mppc_side (f_arg (MppcDecodeConfigReq opt md f)) = mppc_side (f_arg f)"
    "mppc_side (f_arg (DeflateDecodeConfigReq opt md f)) = mppc_side (f_arg f)"
    "mppc_side (f_arg (Pred1DecodeConfigReq opt md f)) = mppc_side (f_arg f)"
  using assms
  by (auto simp: MppcDecodeConfigReq_def DeflateDecodeConfigReq_def Pred1DecodeConfigReq_def Let_def
      mppc_side_updates)

lemma mppc_side_decode: "mppc_side (f_arg (ccp_decode_opt MODE_REQ f opt)) = mppc_side (f_arg f)"
proof (cases "CcpFindComp (opt_type opt)")
  case (Some k)
  have "known_comp k" by (rule CcpFindComp_known [OF Some])
  then have "mppc_side (f_arg (ct_DecodeConfig (gCompTypes ! k) opt md f)) = mppc_side (f_arg f)"
    if "md = MODE_REQ \<or> md = MODE_NOP" for md
    using mppc_side_types [OF that] by (auto simp: comp_infos)
  then show ?thesis
    using Some by (simp add: ccp_decode_opt_def ccp_req_opt_def Let_def mppc_side_updates)
qed (simp add: ccp_decode_opt_def)

lemma mppc_no_complaint:
  assumes "f_nakBuf (ccp_decode_opt MODE_REQ f opt) = []" "f_rejBuf (ccp_decode_opt MODE_REQ f opt) = []"
    "opt_type opt = CCP_TY_MPPC"
  shows "opt_len opt = 6 \<and> mppc_choose (f_arg f) (mppc_bits opt) = mppc_bits opt \<and> mppc_bits opt \<noteq> 0"
proof -
  have find: "CcpFindComp (opt_type opt) = Some 0"
    by (simp add: assms(3) CcpFindComp_def gCompTypes_def comp_infos)
  let ?g = "MppcDecodeConfigReq opt MODE_REQ f"
  have ct: "ct_DecodeConfig gCompMppcInfo = MppcDecodeConfigReq" by (simp add: comp_infos)
  let ?refused = "\<not> Acceptable (cc_options (f_arg f)) 0 \<or> CCP_SELF_REJECTED (f_arg f) 0 \<or>
      (cc_recv (f_arg f) \<noteq> None \<and> cc_recv (f_arg f) \<noteq> Some 0)"
  let ?rej = "FsmRej opt (MppcDecodeConfigReq opt MODE_NOP f)"
  have dec: "ccp_decode_opt MODE_REQ f opt = (if ?refused then ?rej
      else if length (f_rejBuf ?g) \<noteq> length (f_rejBuf f) then upd_arg (CCP_SELF_REJ 0) ?g
      else if length (f_ackBuf ?g) \<noteq> length (f_ackBuf f)
      then upd_arg (\<lambda>b. b\<lparr>cc_recv := Some 0\<rparr>) ?g else ?g)"
    unfolding ccp_decode_opt_def ccp_req_opt_def find Let_def
    by (simp only: option.case mode.case gCompTypes_nth ct)
  have "\<not> ?refused"
  proof
    assume ?refused
    with dec have "ccp_decode_opt MODE_REQ f opt = ?rej" by (simp only: if_True)
    with assms(2) rej_nonempty show False by metis
  qed
  then have "bufs (ccp_decode_opt MODE_REQ f opt) = bufs ?g"
    unfolding dec by (simp only: if_False) (simp split: if_split)
  then have g: "f_nakBuf ?g = []" "f_rejBuf ?g = []" using assms(1,2) by (simp_all add: bufs_def)
  then show ?thesis
    using nak_nonempty rej_nonempty
    by (auto simp: MppcDecodeConfigReq_def Let_def split: if_splits)
qed

section \<open>The keys of MPPE\<close>

lemma make_node_ok: "make_node k dir c b = (True, x) \<Longrightarrow> \<exists>i. last (cc_calls x) = c i"
  by (auto simp: make_node_def ccp_ask_def ccp_call_def Let_def split: if_splits)

text \<open>The key that a direction starts with when the secrets come from MS-CHAP.\<close>

definition mppe_key0 :: "comp_dir \<Rightarrow> ccp_bund \<Rightarrow> byte list" where
  "mppe_key0 dir b =
     (let n = MPPE_KEY_LEN (cc_k b); p = cc_params b; h = take n (ms_nt_hash_hash p) in
      take n (if ms_chap_alg p = CHAP_ALG_MSOFT then MsoftGetStartKey (cc_crypto b) (ms_msChal p) h
        else MsoftGetAsymetricStartKey (cc_crypto b) (MsoftGetMasterKey (cc_crypto b) (ms_ntResp p) h)
          ((dir = COMP_DIR_RECV) \<noteq> (cc_originate b = LINK_ORIGINATE_LOCAL))))"

lemma set_key0_read:
  "(case dir of COMP_DIR_XMIT \<Rightarrow> mp_xmit_key0 (set_key0 dir k b)
      | COMP_DIR_RECV \<Rightarrow> mp_recv_key0 (set_key0 dir k b)) = k"
  by (simp add: set_key0_def split: comp_dir.split)

definition mppe_key :: "comp_dir \<Rightarrow> ccp_bund \<Rightarrow> byte list" where
  "mppe_key dir b =
     (if mppc_dir_bits dir b AND MPPE_BITS (cc_k b) \<noteq> 0 then mppe_key0 dir b
      else replicate (MPPE_KEY_LEN (cc_k b)) 0)"

lemma MppcInit_config:
  assumes "MppcInit dir b = (True, x)" "\<not> cc_has_keys b"
    "ms_chap_alg (cc_params b) = CHAP_ALG_MSOFT \<Longrightarrow> mppc_dir_bits dir b AND MPPE_BITS (cc_k b) \<noteq> 0 \<Longrightarrow>
       mppc_dir_bits dir b AND MPPE_128 (cc_k b) \<noteq> 0"
  shows "\<exists>i. last (cc_calls x) = CcConfigMppc dir i (mppc_dir_bits dir b) (mppe_key dir b)"
proof (cases "mppc_dir_bits dir b AND MPPE_BITS (cc_k b) = 0")
  case True
  then have "MppcInit dir b = make_node 0 dir
      (\<lambda>i. CcConfigMppc dir i (mppc_dir_bits dir b) (mppe_key dir b)) b"
    by (simp add: MppcInit_def Let_def mppe_key_def)
  with assms(1) make_node_ok show ?thesis by metis
next
  case False
  let ?b = "if ms_chap_alg (cc_params b) = CHAP_ALG_MSOFT then MppeInitKey dir b else MppeInitKeyv2 dir b"
  have key: "(case dir of COMP_DIR_XMIT \<Rightarrow> mp_xmit_key0 ?b | COMP_DIR_RECV \<Rightarrow> mp_recv_key0 ?b) =
      mppe_key0 dir b"
  proof (cases "ms_chap_alg (cc_params b) = CHAP_ALG_MSOFT")
    case True
    then have "?b = MppeInitKey dir b" by simp
    moreover have "mppc_dir_bits dir b AND MPPE_128 (cc_k b) \<noteq> 0" using True False assms(3) by blast
    ultimately show ?thesis
      using True by (simp only: MppeInitKey_def mppe_key0_def Let_def set_key0_read if_True simp_thms)
  next
    case False
    then have "?b = MppeInitKeyv2 dir b" by simp
    then show ?thesis
      using False assms(2)
      by (simp only: MppeInitKeyv2_def mppe_key0_def Let_def set_key0_read if_False simp_thms)
  qed
  have "MppcInit dir b = make_node 0 dir
      (\<lambda>i. CcConfigMppc dir i (mppc_dir_bits dir b) (mppe_key dir b)) ?b"
    using False key
    by (cases "ms_chap_alg (cc_params b) = CHAP_ALG_MSOFT") (simp_all add: MppcInit_def Let_def mppe_key_def)
  with assms(1) make_node_ok show ?thesis by metis
qed

lemma mppc_wanted_xmit [simp]:
  "mppc_wanted (b\<lparr>cc_xmit := t\<rparr>) = mppc_wanted b"
proof -
  have "MppcEnabledMppeType (b\<lparr>cc_xmit := t\<rparr>) = MppcEnabledMppeType b"
    "MPPC_PEER_REJECTED (b\<lparr>cc_xmit := t\<rparr>) = MPPC_PEER_REJECTED b"
    by (simp_all add: MppcEnabledMppeType_def MppcKeyAvailable_def MPPC_PEER_REJECTED_def fun_eq_iff)
  then show ?thesis by (simp only: mppc_wanted_def) simp
qed

lemma ccp_request_disabled:
  "\<not> Enabled (cc_options b) k \<Longrightarrow> ccp_request_type (b, cp, ok) k = (b, cp, ok)"
  by (simp add: ccp_request_type_def)

lemma ccp_asks_mppc:
  assumes "\<not> Enabled (cc_options (f_arg f)) 1" "\<not> Enabled (cc_options (f_arg f)) 2"
    "cc_xmit (f_arg (fst (CcpBuildConfigReq f))) = Some 0"
  shows "f_arg (fst (CcpBuildConfigReq f)) =
      (f_arg f)\<lparr>cc_xmit := Some 0, mp_xmit_bits := mppc_wanted (f_arg f)\<rparr>"
    "snd (CcpBuildConfigReq f) = FsmConfValue CCP_TY_MPPC (be32 (mppc_wanted (f_arg f)))"
proof -
  let ?c = "(f_arg f)\<lparr>cc_xmit := None\<rparr>" and ?w = "mppc_wanted (f_arg f)"
  obtain b cp ok where b: "ccp_request_type (?c, [], cc_uninit_ok (f_arg f)) 0 = (b, cp, ok)"
    by (rule prod_cases3)
  have ct: "ct_BuildConfigReq gCompMppcInfo = MppcBuildConfigReq" by (simp add: comp_infos)
  have opts: "cc_options b = cc_options (f_arg f)"
    using b by (auto simp: ccp_request_type_def ct MppcBuildConfigReq_def Let_def split: if_splits)
  then have "\<not> Enabled (cc_options b) (Suc 0)" "\<not> Enabled (cc_options b) 2" using assms(1,2) by simp_all
  moreover have "[0..<length gCompTypes] = [0, Suc 0, 2]" by (simp add: upt_rec numeral_3_eq_3)
  ultimately have all: "CcpBuildConfigReq f = (f\<lparr>f_arg := b\<rparr>, cp)"
    by (simp add: CcpBuildConfigReq_def b ccp_request_disabled)
  then have x: "cc_xmit b = Some 0" using assms(3) by simp
  have "b = ?c\<lparr>mp_xmit_bits := ?w, cc_xmit := Some 0\<rparr> \<and> cp = FsmConfValue CCP_TY_MPPC (be32 ?w)"
  proof (cases "Enabled (cc_options ?c) 0 \<and> \<not> CCP_PEER_REJECTED ?c 0 \<and> ?w \<noteq> 0")
    case True
    with b show ?thesis by (auto simp: ccp_request_type_def ct MppcBuildConfigReq_def Let_def)
  next
    case False
    then have "cc_xmit b = None"
      using b by (auto simp: ccp_request_type_def ct MppcBuildConfigReq_def Let_def split: if_splits)
    with x show ?thesis by simp
  qed
  then show "f_arg (fst (CcpBuildConfigReq f)) =
      (f_arg f)\<lparr>cc_xmit := Some 0, mp_xmit_bits := mppc_wanted (f_arg f)\<rparr>"
    "snd (CcpBuildConfigReq f) = FsmConfValue CCP_TY_MPPC (be32 (mppc_wanted (f_arg f)))"
    by (simp_all add: all)
qed

definition mppc_opt :: "u32 \<Rightarrow> fsmoption" where
  "mppc_opt v = \<lparr>opt_type = CCP_TY_MPPC, opt_len = 6, opt_data = be32 v\<rparr>"

lemma mppc_opt_read [simp]: "mppc_bits (mppc_opt v) = v" "opt_type (mppc_opt v) = CCP_TY_MPPC"
  using get32_be32 [of v "[]"] by (simp_all add: mppc_opt_def mppc_bits_def)

lemma mppc_opt_bytes:
  "FsmConfValue CCP_TY_MPPC (be32 v) = opts_bytes [mppc_opt v]" "opt_ok (mppc_opt v)"
  using conf_value_opt [of "be32 v" CCP_TY_MPPC] by (simp_all add: mppc_opt_def)

lemma mppc_takes:
  assumes "f_nakBuf (FsmDecodeBuffer gCcpFsmType (FsmConfValue CCP_TY_MPPC (be32 v)) MODE_REQ f) = []"
    "f_rejBuf (FsmDecodeBuffer gCcpFsmType (FsmConfValue CCP_TY_MPPC (be32 v)) MODE_REQ f) = []"
  shows "f_arg (FsmDecodeBuffer gCcpFsmType (FsmConfValue CCP_TY_MPPC (be32 v)) MODE_REQ f) =
    (f_arg f)\<lparr>cc_recv := Some 0, mp_recv_bits := v\<rparr>"
proof -
  define h where "h = ccp_forget_recv MODE_REQ (f\<lparr>f_ackBuf := [], f_nakBuf := [], f_rejBuf := []\<rparr>)"
  have h: "f_arg h = (f_arg f)\<lparr>cc_recv := None\<rparr>" "f_ackBuf h = []" "f_rejBuf h = []"
    by (simp_all add: h_def ccp_forget_recv_def)
  have "FsmExtractOptions FSM_MAX_OPTS (opts_bytes [mppc_opt v]) = [mppc_opt v]"
    using extract_opts_bytes [of "[mppc_opt v]" FSM_MAX_OPTS "[]"] mppc_opt_bytes(2)
    by (simp add: FSM_MAX_OPTS_def)
  then have g: "FsmDecodeBuffer gCcpFsmType (FsmConfValue CCP_TY_MPPC (be32 v)) MODE_REQ f =
      ccp_decode_opt MODE_REQ h (mppc_opt v)"
    unfolding mppc_opt_bytes(1) ccp_dec.decode_buffer h_def [symmetric] by simp
  have c: "mppc_choose (f_arg h) v = v" "v \<noteq> 0"
    using mppc_no_complaint [of h "mppc_opt v"] assms unfolding g by simp_all
  have dec: "MppcDecodeConfigReq (mppc_opt v) MODE_REQ h =
      FsmAck (mppc_opt v) (upd_arg (\<lambda>b. b\<lparr>mp_recv_bits := v\<rparr>) h)"
    using c by (simp add: MppcDecodeConfigReq_def Let_def) (simp add: mppc_opt_def)
  have find: "CcpFindComp CCP_TY_MPPC = Some 0" by (simp add: CcpFindComp_def gCompTypes_def comp_infos)
  let ?rej = "FsmRej (mppc_opt v) (ct_DecodeConfig gCompMppcInfo (mppc_opt v) MODE_NOP h)"
  have "ccp_decode_opt MODE_REQ h (mppc_opt v) \<noteq> ?rej"
    using assms(2) rej_nonempty unfolding g by metis
  moreover have "length (f_ackBuf (FsmAck (mppc_opt v) (upd_arg (\<lambda>b. b\<lparr>mp_recv_bits := v\<rparr>) h))) \<noteq>
      length (f_ackBuf h)" "f_rejBuf (FsmAck (mppc_opt v) (upd_arg (\<lambda>b. b\<lparr>mp_recv_bits := v\<rparr>) h)) = []"
    using h by (simp_all add: FsmAck_def opt_bytes_def FSM_BUFFER_SIZE_def) (simp add: mppc_opt_def)
  moreover have "ct_DecodeConfig gCompMppcInfo (mppc_opt v) MODE_REQ h =
      FsmAck (mppc_opt v) (upd_arg (\<lambda>b. b\<lparr>mp_recv_bits := v\<rparr>) h)"
    using dec by (simp add: comp_infos)
  ultimately have "ccp_decode_opt MODE_REQ h (mppc_opt v) = upd_arg (\<lambda>b. b\<lparr>cc_recv := Some 0\<rparr>)
      (FsmAck (mppc_opt v) (upd_arg (\<lambda>b. b\<lparr>mp_recv_bits := v\<rparr>) h))"
    using h by (auto simp: ccp_decode_opt_def ccp_req_opt_def find Let_def split: if_splits)
  then show ?thesis unfolding g by (simp add: h)
qed

text \<open>What both ends have from the authentication.\<close>

definition mppe_secrets :: "ccp_bund \<Rightarrow> crypto \<times> ng_mppc \<times> byte \<times> byte list \<times> byte list \<times> byte list" where
  "mppe_secrets b = (cc_crypto b, cc_k b, ms_chap_alg (cc_params b), ms_nt_hash_hash (cc_params b),
     ms_ntResp (cc_params b), ms_msChal (cc_params b))"

lemma mppe_key0_agree:
  assumes "mppe_secrets a = mppe_secrets b" "d \<noteq> d'"
    "(cc_originate a = LINK_ORIGINATE_LOCAL) \<noteq> (cc_originate b = LINK_ORIGINATE_LOCAL)"
  shows "mppe_key0 d a = mppe_key0 d' b"
proof -
  have "((d = COMP_DIR_RECV) \<noteq> (cc_originate a = LINK_ORIGINATE_LOCAL)) =
      ((d' = COMP_DIR_RECV) \<noteq> (cc_originate b = LINK_ORIGINATE_LOCAL))"
    using assms(2,3) by (cases d; cases d') auto
  with assms(1) show ?thesis by (simp only: mppe_secrets_def mppe_key0_def Let_def prod.inject)
qed

text \<open>Neither what is asked for nor what is taken changes the secrets.\<close>

lemma mppe_key0_negotiated:
  "mppe_key0 d (b\<lparr>cc_xmit := t, mp_xmit_bits := v\<rparr>) = mppe_key0 d b"
  "mppe_key0 d (b\<lparr>cc_recv := t, mp_recv_bits := v\<rparr>) = mppe_key0 d b"
  by (simp_all add: mppe_key0_def Let_def)

section \<open>The size that cannot expand too far\<close>

lemma mppc_shrink_up:
  assumes "blowup x \<le> s" "blowup high > s" "mono blowup"
  shows "\<exists>r. mppc_shrink blowup s x = Some r \<and> blowup r \<le> s \<and> blowup (r + 1) > s"
  using assms(1)
proof (induction "nat (high - x)" arbitrary: x)
  case 0
  with monoD [OF assms(3), of high x] assms(2) show ?case by simp
next
  case (Suc n)
  have "n = nat (high - (x + 1))" using Suc.hyps(2) by simp
  note IH = Suc.hyps(1) [OF this]
  show ?case
    using Suc.prems IH by (subst mppc_shrink.simps) auto
qed

lemma mppc_shrink_ends:
  assumes "blowup low \<le> s" "blowup high > s" "mono blowup"
  shows "\<exists>r. mppc_shrink blowup s x = Some r \<and> blowup r \<le> s \<and> blowup (r + 1) > s"
proof (induction "nat (x - low)" arbitrary: x rule: less_induct)
  case less
  show ?case
  proof (cases "blowup x > s")
    case True
    then have "low < x" using monoD [OF assms(3), of x low] assms(1) by fastforce
    then have "nat (x - 20 - low) < nat (x - low)" by simp
    from less [OF this] True show ?thesis by (subst mppc_shrink.simps) simp
  next
    case False
    then show ?thesis using mppc_shrink_up [OF _ assms(2,3)] by simp
  qed
qed

end
