(* ===== verification/Ccp_Claims.thy ===== *)
theory Ccp_Claims
  imports Ccp_Mppc Auth_Start
begin

unbundle bit_operations_syntax

text \<open>
  The properties of CCP: what of MPPC is accepted, that the two ends of MPPE get the same keys, that
  Predictor-1 recovers after an error, the size of packets, that compression is on only in
  Opened, and that the program never compresses a packet itself.
\<close>

section \<open>An example\<close>

text \<open>The numbers are those of \<open>ng_mppc.h\<close> of FreeBSD.\<close>

definition mppc_numbers :: ng_mppc where
  "mppc_numbers = \<lparr>MPPC_BIT = 1, MPPE_40 = 0x20, MPPE_56 = 0x80, MPPE_128 = 0x40, MPPE_BITS = 0xe0,
     MPPE_STATELESS = 0x01000000, MPPE_KEY_LEN = 16, MPPC_MAX_BLOWUP = (\<lambda>n. n * 9 div 8 + 26)\<rparr>"

lemma mppc_numbers_ok: "ng_mppc_ok mppc_numbers"
  unfolding ng_mppc_ok_def
  by (rule exI [of _ 0], rule exI [of _ 5], rule exI [of _ 7], rule exI [of _ 6], rule exI [of _ 24])
    (simp add: mppc_numbers_def)

definition ccp_example :: ccp_bund where
  "ccp_example =
     (let off = \<lparr>oi_enable = 0, oi_accept = 0\<rparr> in
      \<lparr>cc_options = \<lparr>oi_enable = 1, oi_accept = 1\<rparr>, cc_xmit = None, cc_recv = None, cc_self_reject = 0,
       cc_peer_reject = 0, cc_crypt_check = 0, cc_pred1 = pred1_fresh, cc_in_table = False,
       cc_out_table = False, cc_xmit_windowBits = 0, cc_recv_windowBits = 0,
       mp_options = \<lparr>oi_enable = 8, oi_accept = 8\<rparr>, mp_peer_reject = 0, mp_recv_bits = 0,
       mp_xmit_bits = 0, mp_xmit_key0 = replicate 16 0, mp_recv_key0 = replicate 16 0,
       cc_comp_node_id = 0, cc_decomp_node_id = 0, cc_recv_resets = 0, cc_xmit_resets = 0,
       cc_enableCompression = 0, cc_enableDecompression = 0,
       cc_params = params_zero\<lparr>ms_chap_alg := CHAP_ALG_MSOFTv2, ms_has_nt_hash := True,
         ms_nt_hash_hash := [1, 2, 3]\<rparr>,
       cc_has_keys = False, cc_xmit_key = [], cc_recv_key = [], cc_types = 0,
       cc_originate = LINK_ORIGINATE_LOCAL, cc_MPPCPresent = True, cc_MPPEPresent = True,
       cc_calls = [], cc_ng = (\<lambda>_. True), cc_ng_id = (\<lambda>n. of_nat n), cc_k = mppc_numbers,
       cc_crypto = \<lparr>cy_md4 = take 16, cy_md5 = take 16, cy_sha1 = take 20, cy_des = (\<lambda>k b. b)\<rparr>,
       cc_fill = (\<lambda>_. 7), cc_uninit_ok = False, cc_initfcs = 0xffff, cc_goodfcs = 0xf0b8,
       cc_retry_timeout = 2, cc_recvFrames = None\<rparr>)"

section \<open>MPPC and MPPE\<close>

text \<open>C25: What of MPPC is accepted. When a Configure-Request is acknowledged, each of its MPPC options
  has the right length and names only supported bits; compression and stateless mode
  are among them only if the configuration and the kernel have them; there is one strength of
  encryption at most, one that is acceptable, and there is one whenever any is acceptable.\<close>

theorem ccp_mppc_accepts:
  assumes "ng_mppc_ok (cc_k (f_arg f))"
    "f_nakBuf (FsmDecodeBuffer gCcpFsmType buf MODE_REQ f) = []"
    "f_rejBuf (FsmDecodeBuffer gCcpFsmType buf MODE_REQ f) = []"
    "opt \<in> set (FsmExtractOptions FSM_MAX_OPTS buf)" "opt_type opt = CCP_TY_MPPC"
  shows "opt_len opt = 6 \<and> mppc_agreed (f_arg f) (mppc_bits opt)"
proof -
  define h where "h = ccp_forget_recv MODE_REQ (f\<lparr>f_ackBuf := [], f_nakBuf := [], f_rejBuf := []\<rparr>)"
  let ?P = "\<lambda>b. ng_mppc_ok (cc_k b) \<longrightarrow> opt_len opt = 6 \<and> mppc_agreed b (mppc_bits opt)"
  have none: "f_nakBuf (foldl (ccp_decode_opt MODE_REQ) h (FsmExtractOptions FSM_MAX_OPTS buf)) = []"
    "f_rejBuf (foldl (ccp_decode_opt MODE_REQ) h (FsmExtractOptions FSM_MAX_OPTS buf)) = []"
    using assms(2,3) unfolding ccp_dec.decode_buffer h_def by simp_all
  have "?P (mppc_side (f_arg h))"
  proof (rule ccp_dec.accepted [where side = mppc_side and P = ?P, OF mppc_side_decode _ _ assms(4) none])
    fix g :: "ccp_bund fsm"
    assume "f_nakBuf (ccp_decode_opt MODE_REQ g opt) = []" "f_rejBuf (ccp_decode_opt MODE_REQ g opt) = []"
    then have "opt_len opt = 6 \<and> mppc_choose (f_arg g) (mppc_bits opt) = mppc_bits opt \<and> mppc_bits opt \<noteq> 0"
      using assms(5) by (rule mppc_no_complaint)
    then show "?P (mppc_side (f_arg g))"
      using mppc_choose_agreed by (simp add: mppc_side_agreed mppc_side_fields(1))
  qed (rule extract_ok)
  moreover have "mppc_side (f_arg h) = mppc_side (f_arg f)"
    by (simp add: h_def ccp_forget_recv_def mppc_side_updates)
  ultimately show ?thesis using assms(1) by (simp add: mppc_side_agreed mppc_side_fields(1))
qed

definition mppc_asker :: "ccp_bund fsm" where
  "mppc_asker = FsmInit [] ccp_example"

definition mppc_answerer :: "ccp_bund fsm" where
  "mppc_answerer = FsmInit [] (ccp_example\<lparr>cc_originate := LINK_ORIGINATE_REMOTE\<rparr>)"

lemma mppc_example_request:
  "FsmExtractOptions FSM_MAX_OPTS [18, 6, 0, 0, 0, 0x40] = [mppc_opt 0x40]"
  by code_simp

lemma mppc_example_accepted:
  "f_nakBuf (FsmDecodeBuffer gCcpFsmType [18, 6, 0, 0, 0, 0x40] MODE_REQ mppc_answerer) = [] \<and>
   f_rejBuf (FsmDecodeBuffer gCcpFsmType [18, 6, 0, 0, 0, 0x40] MODE_REQ mppc_answerer) = []"
  by code_simp

theorem ccp_mppc_accepts_witness: "mppc_agreed (f_arg mppc_answerer) 0x40"
  using ccp_mppc_accepts [of mppc_answerer "[18, 6, 0, 0, 0, 0x40]" "mppc_opt 0x40"]
    mppc_example_accepted mppc_example_request mppc_numbers_ok
  by (simp add: mppc_answerer_def FsmInit_def ccp_example_def Let_def)

text \<open>C26: The two ends of MPPE start with the same key. One end asks for MPPC alone, the other takes the
  request without a complaint, and both set up their nodes, the one for sending, the other for
  receiving. When they have the same secrets from the authentication and just one of them
  originated the call, the nodes are told the same bits and the same start key. (The keys of MS-CHAP
  version 1 below 128 bits, which end in octets that were never written, and those that a RADIUS
  server sends are left out.)\<close>

theorem mppe_keys_agree:
  assumes asks: "\<not> Enabled (cc_options (f_arg fa)) 1" "\<not> Enabled (cc_options (f_arg fa)) 2"
    "CcpBuildConfigReq fa = (ga, req)" "cc_xmit (f_arg ga) = Some 0"
    and takes: "gb = FsmDecodeBuffer gCcpFsmType req MODE_REQ fb" "f_nakBuf gb = []" "f_rejBuf gb = []"
    and both: "mppe_secrets (f_arg fa) = mppe_secrets (f_arg fb)"
    "\<not> cc_has_keys (f_arg fa)" "\<not> cc_has_keys (f_arg fb)"
    "(cc_originate (f_arg fa) = LINK_ORIGINATE_LOCAL) \<noteq> (cc_originate (f_arg fb) = LINK_ORIGINATE_LOCAL)"
    "ms_chap_alg (cc_params (f_arg fa)) = CHAP_ALG_MSOFT \<Longrightarrow>
       mp_xmit_bits (f_arg ga) AND MPPE_128 (cc_k (f_arg fa)) \<noteq> 0"
    and up: "ccp_init_dir (cc_xmit (f_arg ga)) COMP_DIR_XMIT (f_arg ga) = (True, a)"
    "ccp_init_dir (cc_recv (f_arg gb)) COMP_DIR_RECV (f_arg gb) = (True, b)"
  shows "cc_recv (f_arg gb) = Some 0 \<and>
    (\<exists>i j bits key. last (cc_calls a) = CcConfigMppc COMP_DIR_XMIT i bits key \<and>
       last (cc_calls b) = CcConfigMppc COMP_DIR_RECV j bits key)"
proof -
  let ?w = "mppc_wanted (f_arg fa)"
  have "cc_xmit (f_arg (fst (CcpBuildConfigReq fa))) = Some 0" using asks(3,4) by simp
  note asked = ccp_asks_mppc [OF asks(1,2) this]
  have ga: "f_arg ga = (f_arg fa)\<lparr>cc_xmit := Some 0, mp_xmit_bits := ?w\<rparr>"
    and req: "req = FsmConfValue CCP_TY_MPPC (be32 ?w)"
    using asked asks(3) by simp_all
  have gb: "f_arg gb = (f_arg fb)\<lparr>cc_recv := Some 0, mp_recv_bits := ?w\<rparr>"
    using mppc_takes [of ?w fb] takes unfolding req by simp
  have k: "cc_k (f_arg fb) = cc_k (f_arg fa)"
    and alg: "ms_chap_alg (cc_params (f_arg fb)) = ms_chap_alg (cc_params (f_arg fa))"
    using both(1) by (simp_all add: mppe_secrets_def)
  have init: "ccp_init_dir (Some 0) d c = MppcInit d c" for d c
    by (simp add: ccp_init_dir_def comp_infos)
  have "MppcInit COMP_DIR_XMIT (f_arg ga) = (True, a)" using up(1) asks(4) init by simp
  then obtain i where i: "last (cc_calls a) = CcConfigMppc COMP_DIR_XMIT i
      (mppc_dir_bits COMP_DIR_XMIT (f_arg ga)) (mppe_key COMP_DIR_XMIT (f_arg ga))"
    using MppcInit_config [of COMP_DIR_XMIT "f_arg ga" a] both(2,5) by (auto simp: ga mppc_dir_bits_def)
  have "MppcInit COMP_DIR_RECV (f_arg gb) = (True, b)" using up(2) init by (simp add: gb)
  then obtain j where j: "last (cc_calls b) = CcConfigMppc COMP_DIR_RECV j
      (mppc_dir_bits COMP_DIR_RECV (f_arg gb)) (mppe_key COMP_DIR_RECV (f_arg gb))"
    using MppcInit_config [of COMP_DIR_RECV "f_arg gb" b] both(3,5) k alg
    by (auto simp: ga gb mppc_dir_bits_def)
  have "mppe_key0 COMP_DIR_XMIT (f_arg ga) = mppe_key0 COMP_DIR_RECV (f_arg gb)"
    unfolding ga gb mppe_key0_negotiated using both(1,4) by (intro mppe_key0_agree) simp_all
  then have "mppe_key COMP_DIR_XMIT (f_arg ga) = mppe_key COMP_DIR_RECV (f_arg gb)"
    using k by (simp add: mppe_key_def mppc_dir_bits_def ga gb)
  moreover have "mppc_dir_bits COMP_DIR_XMIT (f_arg ga) = mppc_dir_bits COMP_DIR_RECV (f_arg gb)"
    by (simp add: mppc_dir_bits_def ga gb)
  ultimately show ?thesis using i j by (simp add: gb)
qed

lemma mppe_example_up:
  "let (ga, req) = CcpBuildConfigReq mppc_asker; gb = FsmDecodeBuffer gCcpFsmType req MODE_REQ mppc_answerer
   in cc_xmit (f_arg ga) = Some 0 \<and> f_nakBuf gb = [] \<and> f_rejBuf gb = [] \<and>
     fst (ccp_init_dir (cc_xmit (f_arg ga)) COMP_DIR_XMIT (f_arg ga)) \<and>
     fst (ccp_init_dir (cc_recv (f_arg gb)) COMP_DIR_RECV (f_arg gb))"
  by code_simp

theorem mppe_keys_agree_witness:
  "\<exists>i j bits key.
     last (cc_calls (snd (ccp_init_dir (Some 0) COMP_DIR_XMIT (f_arg (fst (CcpBuildConfigReq mppc_asker)))))) =
       CcConfigMppc COMP_DIR_XMIT i bits key \<and>
     last (cc_calls (snd (ccp_init_dir (Some 0) COMP_DIR_RECV
         (f_arg (FsmDecodeBuffer gCcpFsmType (snd (CcpBuildConfigReq mppc_asker)) MODE_REQ mppc_answerer))))) =
       CcConfigMppc COMP_DIR_RECV j bits key"
proof -
  obtain ga req where r: "CcpBuildConfigReq mppc_asker = (ga, req)" by fastforce
  define gb where "gb = FsmDecodeBuffer gCcpFsmType req MODE_REQ mppc_answerer"
  have x: "cc_xmit (f_arg ga) = Some 0" "f_nakBuf gb = []" "f_rejBuf gb = []"
    and up: "fst (ccp_init_dir (cc_xmit (f_arg ga)) COMP_DIR_XMIT (f_arg ga))"
    "fst (ccp_init_dir (cc_recv (f_arg gb)) COMP_DIR_RECV (f_arg gb))"
    using mppe_example_up unfolding r Let_def gb_def prod.case by blast+
  define a where "a = snd (ccp_init_dir (cc_xmit (f_arg ga)) COMP_DIR_XMIT (f_arg ga))"
  have a: "ccp_init_dir (cc_xmit (f_arg ga)) COMP_DIR_XMIT (f_arg ga) = (True, a)"
    using up(1) by (simp add: a_def prod_eq_iff)
  define b where "b = snd (ccp_init_dir (cc_recv (f_arg gb)) COMP_DIR_RECV (f_arg gb))"
  have b: "ccp_init_dir (cc_recv (f_arg gb)) COMP_DIR_RECV (f_arg gb) = (True, b)"
    using up(2) by (simp add: b_def prod_eq_iff)
  have e: "f_arg mppc_asker = ccp_example" "f_arg mppc_answerer = ccp_example\<lparr>cc_originate := LINK_ORIGINATE_REMOTE\<rparr>"
    by (simp_all add: mppc_asker_def mppc_answerer_def FsmInit_def)
  have "cc_recv (f_arg gb) = Some 0 \<and>
    (\<exists>i j bits key. last (cc_calls a) = CcConfigMppc COMP_DIR_XMIT i bits key \<and>
       last (cc_calls b) = CcConfigMppc COMP_DIR_RECV j bits key)"
    by (rule mppe_keys_agree [OF _ _ r x(1) gb_def x(2,3) _ _ _ _ _ a b])
      (simp_all add: e mppe_secrets_def ccp_example_def Enabled_def mask_test_def Let_def)
  then show ?thesis using a b x(1) r by (auto simp: gb_def [symmetric])
qed

section \<open>Recovery of Predictor-1\<close>

text \<open>The frames a step of an automaton sends, and what one end reads of them.\<close>

definition event_frame :: "fsm_event \<Rightarrow> byte list list" where
  "event_frame e = (case e of EvFrame l p xs \<Rightarrow> [xs] | _ \<Rightarrow> [])"

definition ccp_sent :: "ccp_bund fsm \<Rightarrow> ccp_bund fsm \<Rightarrow> byte list list" where
  "ccp_sent f g = concat (map event_frame (drop (length (f_trace f)) (f_trace g)))"

definition ccp_read :: "byte list list \<Rightarrow> ccp_bund fsm \<Rightarrow> ccp_bund fsm" where
  "ccp_read frames f = foldl (\<lambda>f xs. CcpInput (Some xs) f) f frames"

text \<open>The packets that the two ends pass through their types.\<close>

fun ccp_compress_all :: "byte list list \<Rightarrow> ccp_bund fsm \<Rightarrow> pkt list \<times> ccp_bund fsm" where
  "ccp_compress_all [] f = ([], f)"
| "ccp_compress_all (p # ps) f =
     (let (c, f) = CcpDataOutput p f; (cs, f) = ccp_compress_all ps f in (c # cs, f))"

fun ccp_decompress_all :: "pkt list \<Rightarrow> ccp_bund fsm \<Rightarrow> pkt list \<times> ccp_bund fsm" where
  "ccp_decompress_all [] f = ([], f)"
| "ccp_decompress_all (c # cs) f =
     (let (p, f) = CcpDataInput (pk_data c) f; (ps, f) = ccp_decompress_all cs f in (p # ps, f))"

definition reset_request :: "byte \<Rightarrow> fsm_event" where
  "reset_request i = EvFrame False PROTO_CCP (fsm_header CODE_RESETREQ i 0)"

definition reset_ack :: "byte \<Rightarrow> fsm_event" where
  "reset_ack i = EvFrame False PROTO_CCP (fsm_header CODE_RESETACK i 0)"

text \<open>A receiver under Predictor-1 and what a frame leaves of it.\<close>

definition pred1_receiver :: "ccp_bund fsm \<Rightarrow> bool" where
  "pred1_receiver f \<longleftrightarrow> cc_recv (f_arg f) = Some 2 \<and> cc_in_table (f_arg f)"

definition pred1_sender :: "ccp_bund fsm \<Rightarrow> bool" where
  "pred1_sender f \<longleftrightarrow> cc_xmit (f_arg f) = Some 2 \<and> cc_out_table (f_arg f)"

lemma pred1_input:
  assumes "pred1_receiver f"
  shows "CcpDataInput c f =
     (case Pred1Decompress (cc_initfcs (f_arg f)) (cc_goodfcs (f_arg f)) c (cc_pred1 (f_arg f)) of
        None \<Rightarrow> (None, fsm_abort f)
      | Some (plain, p) \<Rightarrow> (let g = f\<lparr>f_arg := (f_arg f)\<lparr>cc_pred1 := p\<rparr>\<rparr> in
          (plain, if plain = None then CcpSendResetReq g else g)))"
  using assms
  by (simp add: pred1_receiver_def CcpDataInput_def comp_infos pred1_decompress_def Let_def
      split: option.split prod.split)

lemma pred1_send_reset:
  assumes "cc_recv (f_arg f) = Some 2"
  shows "f_trace (CcpSendResetReq f) = f_trace f @ [reset_request (f_reqid f)]"
    "f_aborted (CcpSendResetReq f) = f_aborted f" "pred1_receiver (CcpSendResetReq f)"
    "cc_initfcs (f_arg (CcpSendResetReq f)) = cc_initfcs (f_arg f)"
    "cc_goodfcs (f_arg (CcpSendResetReq f)) = cc_goodfcs (f_arg f)"
  using assms
  by (simp_all add: CcpSendResetReq_def ccp_send_reset_def comp_infos Let_def FsmOutputMbuf_def
      reset_request_def ccp_inner_def ccp_type_def pred1_receiver_def upd_pred1_def emit_def)

lemma pred1_input_step:
  assumes "pred1_receiver f" "\<not> f_aborted (snd (CcpDataInput c f))"
  shows "pred1_receiver (snd (CcpDataInput c f))"
    "cc_initfcs (f_arg (snd (CcpDataInput c f))) = cc_initfcs (f_arg f)"
    "cc_goodfcs (f_arg (snd (CcpDataInput c f))) = cc_goodfcs (f_arg f)"
    "\<exists>ids. f_trace (snd (CcpDataInput c f)) = f_trace f @ map reset_request ids \<and>
       (fst (CcpDataInput c f) = None \<longrightarrow> ids \<noteq> [])"
proof -
  obtain plain p where d: "Pred1Decompress (cc_initfcs (f_arg f)) (cc_goodfcs (f_arg f)) c (cc_pred1 (f_arg f)) =
      Some (plain, p)"
    using assms by (cases "Pred1Decompress (cc_initfcs (f_arg f)) (cc_goodfcs (f_arg f)) c (cc_pred1 (f_arg f))")
      (auto simp: pred1_input fsm_abort_def)
  define g where "g = f\<lparr>f_arg := (f_arg f)\<lparr>cc_pred1 := p\<rparr>\<rparr>"
  have g: "cc_recv (f_arg g) = Some 2" "pred1_receiver g" "cc_initfcs (f_arg g) = cc_initfcs (f_arg f)"
    "cc_goodfcs (f_arg g) = cc_goodfcs (f_arg f)" "f_trace g = f_trace f"
    using assms(1) by (simp_all add: g_def pred1_receiver_def)
  have i: "CcpDataInput c f = (plain, if plain = None then CcpSendResetReq g else g)"
    by (simp add: pred1_input [OF assms(1)] d g_def Let_def)
  show "pred1_receiver (snd (CcpDataInput c f))"
    "cc_initfcs (f_arg (snd (CcpDataInput c f))) = cc_initfcs (f_arg f)"
    "cc_goodfcs (f_arg (snd (CcpDataInput c f))) = cc_goodfcs (f_arg f)"
    using g pred1_send_reset [OF g(1)] by (simp_all add: i)
  show "\<exists>ids. f_trace (snd (CcpDataInput c f)) = f_trace f @ map reset_request ids \<and>
       (fst (CcpDataInput c f) = None \<longrightarrow> ids \<noteq> [])"
  proof (cases plain)
    case None
    then show ?thesis
      using g pred1_send_reset(1) [OF g(1)] by (intro exI [of _ "[f_reqid g]"]) (simp add: i)
  next
    case (Some y)
    then show ?thesis using g by (intro exI [of _ "[]"]) (simp add: i)
  qed
qed

lemma data_input_aborted: "f_aborted f \<Longrightarrow> f_aborted (snd (CcpDataInput c f))"
  by (auto simp: CcpDataInput_def CcpSendResetReq_def ccp_send_reset_def FsmOutputMbuf_def fsm_abort_def
      Let_def emit_def split: option.split prod.split)

lemma decompress_all_aborted: "f_aborted f \<Longrightarrow> f_aborted (snd (ccp_decompress_all cs f))"
  by (induction cs arbitrary: f) (auto simp: Let_def case_prod_beta data_input_aborted)

text \<open>Every frame that fails asks for a reset.\<close>

lemma decompress_all_asks:
  assumes "pred1_receiver f" "\<not> f_aborted (snd (ccp_decompress_all cs f))"
  shows "pred1_receiver (snd (ccp_decompress_all cs f)) \<and>
    cc_initfcs (f_arg (snd (ccp_decompress_all cs f))) = cc_initfcs (f_arg f) \<and>
    cc_goodfcs (f_arg (snd (ccp_decompress_all cs f))) = cc_goodfcs (f_arg f) \<and>
    (\<exists>ids. f_trace (snd (ccp_decompress_all cs f)) = f_trace f @ map reset_request ids \<and>
       (None \<in> set (fst (ccp_decompress_all cs f)) \<longrightarrow> ids \<noteq> []))"
  using assms
proof (induction cs arbitrary: f)
  case (Cons c cs)
  define g where "g = snd (CcpDataInput (pk_data c) f)"
  have split: "ccp_decompress_all (c # cs) f =
      (fst (CcpDataInput (pk_data c) f) # fst (ccp_decompress_all cs g), snd (ccp_decompress_all cs g))"
    by (simp add: g_def Let_def case_prod_beta)
  have "\<not> f_aborted g" using Cons.prems(2) decompress_all_aborted [of g cs] unfolding split by auto
  note step = pred1_input_step [OF Cons.prems(1) this [unfolded g_def], folded g_def]
  obtain ids where ids: "f_trace g = f_trace f @ map reset_request ids"
    "fst (CcpDataInput (pk_data c) f) = None \<longrightarrow> ids \<noteq> []"
    using step(4) by (elim exE conjE) (rule that)
  have "pred1_receiver (snd (ccp_decompress_all cs g)) \<and>
    cc_initfcs (f_arg (snd (ccp_decompress_all cs g))) = cc_initfcs (f_arg g) \<and>
    cc_goodfcs (f_arg (snd (ccp_decompress_all cs g))) = cc_goodfcs (f_arg g) \<and>
    (\<exists>ids. f_trace (snd (ccp_decompress_all cs g)) = f_trace g @ map reset_request ids \<and>
       (None \<in> set (fst (ccp_decompress_all cs g)) \<longrightarrow> ids \<noteq> []))"
    using Cons.prems(2) unfolding split snd_conv by (rule Cons.IH [OF step(1)])
  then obtain ids' where ids': "f_trace (snd (ccp_decompress_all cs g)) = f_trace g @ map reset_request ids'"
    "None \<in> set (fst (ccp_decompress_all cs g)) \<longrightarrow> ids' \<noteq> []"
    and more: "pred1_receiver (snd (ccp_decompress_all cs g))"
    "cc_initfcs (f_arg (snd (ccp_decompress_all cs g))) = cc_initfcs (f_arg g)"
    "cc_goodfcs (f_arg (snd (ccp_decompress_all cs g))) = cc_goodfcs (f_arg g)"
    by blast
  have "f_trace (snd (ccp_decompress_all cs g)) = f_trace f @ map reset_request (ids @ ids')"
    using ids(1) ids'(1) by simp
  moreover have "None \<in> set (fst (ccp_decompress_all (c # cs) f)) \<longrightarrow> ids @ ids' \<noteq> []"
    using ids(2) ids'(2) unfolding split by auto
  ultimately show ?case
    unfolding split snd_conv more(2,3) step(2,3) using more(1)
    by (intro conjI exI [of _ "ids @ ids'"]) simp_all
qed simp

text \<open>The other end starts over for each request and acknowledges it.\<close>

lemma ccp_reset_input:
  "CcpInput (Some (fsm_header CODE_RESETREQ i 0)) f = CcpRecvResetReq ccp_inner f i None"
  "CcpInput (Some (fsm_header CODE_RESETACK i 0)) f = CcpRecvResetAck f i None"
  using decap_header [of "[]" _ i "[]"]
  by (simp_all add: CcpInput_def FsmInput_def known_code_def NUM_FSM_CODES_def gCcpFsmType_def
      ccp_type_def CCP_KNOWN_CODES_def fsm_action_def FsmRecvResetReq_def FsmRecvResetAck_def)

definition pred1_fresh_out :: "ccp_bund fsm \<Rightarrow> bool" where
  "pred1_fresh_out f \<longleftrightarrow> pred1_sender f \<and> oHash (cc_pred1 (f_arg f)) = 0 \<and>
     OutputGuessTable (cc_pred1 (f_arg f)) = (\<lambda>_. 0)"

definition pred1_fresh_in :: "ccp_bund fsm \<Rightarrow> bool" where
  "pred1_fresh_in f \<longleftrightarrow> pred1_receiver f \<and> iHash (cc_pred1 (f_arg f)) = 0 \<and>
     InputGuessTable (cc_pred1 (f_arg f)) = (\<lambda>_. 0)"

lemma pred1_reset_requested:
  fixes i :: byte
  assumes "cc_xmit (f_arg f) = Some 2"
  defines "g \<equiv> CcpInput (Some (fsm_header CODE_RESETREQ i 0)) f"
  shows "pred1_fresh_out g" "f_trace g = f_trace f @ [reset_ack i]"
    "cc_initfcs (f_arg g) = cc_initfcs (f_arg f)"
  using assms(1)
  by (simp_all add: g_def ccp_reset_input CcpRecvResetReq_def comp_infos Let_def FsmOutputMbuf_def emit_def
      reset_ack_def ccp_inner_def ccp_type_def pred1_fresh_out_def pred1_sender_def upd_pred1_def
      Pred1RecvResetReq_def Pred1Init_def)

lemma pred1_reset_acked:
  fixes i :: byte
  assumes "cc_recv (f_arg f) = Some 2"
  defines "g \<equiv> CcpInput (Some (fsm_header CODE_RESETACK i 0)) f"
  shows "pred1_fresh_in g" "cc_initfcs (f_arg g) = cc_initfcs (f_arg f)"
    "cc_goodfcs (f_arg g) = cc_goodfcs (f_arg f)"
  using assms(1)
  by (simp_all add: g_def ccp_reset_input CcpRecvResetAck_def comp_infos pred1_fresh_in_def
      pred1_receiver_def upd_pred1_def upd_arg_def Pred1RecvResetAck_def Pred1Init_def)

lemma pred1_resets_requested:
  assumes "cc_xmit (f_arg f) = Some 2" "ids \<noteq> []"
  defines "g \<equiv> ccp_read (map (\<lambda>i. fsm_header CODE_RESETREQ i 0) ids) f"
  shows "pred1_fresh_out g \<and> f_trace g = f_trace f @ map reset_ack ids \<and>
    cc_initfcs (f_arg g) = cc_initfcs (f_arg f)"
  using assms(2,1) unfolding g_def
proof (induction ids arbitrary: f rule: list_nonempty_induct)
  case (single i)
  then show ?case using pred1_reset_requested [of f i] by (simp add: ccp_read_def)
next
  case (cons i ids)
  let ?h = "CcpInput (Some (fsm_header CODE_RESETREQ i 0)) f"
  note h = pred1_reset_requested [OF cons.prems, of i]
  have "cc_xmit (f_arg ?h) = Some 2" using h(1) by (simp add: pred1_fresh_out_def pred1_sender_def)
  from cons.IH [OF this] h show ?case by (simp add: ccp_read_def)
qed

lemma pred1_resets_acked:
  assumes "cc_recv (f_arg f) = Some 2" "ids \<noteq> []"
  defines "g \<equiv> ccp_read (map (\<lambda>i. fsm_header CODE_RESETACK i 0) ids) f"
  shows "pred1_fresh_in g \<and> cc_initfcs (f_arg g) = cc_initfcs (f_arg f) \<and>
    cc_goodfcs (f_arg g) = cc_goodfcs (f_arg f)"
  using assms(2,1) unfolding g_def
proof (induction ids arbitrary: f rule: list_nonempty_induct)
  case (single i)
  then show ?case using pred1_reset_acked [of f i] by (simp add: ccp_read_def)
next
  case (cons i ids)
  let ?h = "CcpInput (Some (fsm_header CODE_RESETACK i 0)) f"
  note h = pred1_reset_acked [OF cons.prems, of i]
  have "cc_recv (f_arg ?h) = Some 2" using h(1) by (simp add: pred1_fresh_in_def pred1_receiver_def)
  from cons.IH [OF this] h show ?case by (simp add: ccp_read_def)
qed

lemma event_frames:
  "concat (map event_frame (map reset_request ids)) = map (\<lambda>i. fsm_header CODE_RESETREQ i 0) ids"
  "concat (map event_frame (map reset_ack ids)) = map (\<lambda>i. fsm_header CODE_RESETACK i 0) ids"
  by (induction ids) (simp_all add: event_frame_def reset_request_def reset_ack_def)

lemma ccp_sent_events:
  "f_trace g = f_trace f @ map reset_request ids \<Longrightarrow>
     ccp_sent f g = map (\<lambda>i. fsm_header CODE_RESETREQ i 0) ids"
  "f_trace g = f_trace f @ map reset_ack ids \<Longrightarrow>
     ccp_sent f g = map (\<lambda>i. fsm_header CODE_RESETACK i 0) ids"
  using event_frames [of ids] by (simp_all add: ccp_sent_def)

text \<open>Two ends in step stay in step.\<close>

lemma pred1_packets_arrive:
  assumes "pred1_sender f" "pred1_receiver g" "pred1_synced (cc_pred1 (f_arg f)) (cc_pred1 (f_arg g))"
    "cc_initfcs (f_arg f) = cc_initfcs (f_arg g)" "cc_goodfcs (f_arg g) = 0xf0b8"
    "\<forall>p \<in> set packets. length p \<le> 4096"
  shows "fst (ccp_decompress_all (fst (ccp_compress_all packets f)) g) = map Some packets"
  using assms
proof (induction packets arbitrary: f g)
  case (Cons p ps)
  let ?b = "f_arg f" and ?c = "f_arg g"
  let ?z = "Pred1Compress (cc_initfcs ?b) p (cc_pred1 ?b)"
  define f' where "f' = f\<lparr>f_arg := ?b\<lparr>cc_pred1 := snd ?z\<rparr>\<rparr>"
  have out: "CcpDataOutput p f = (Some (fst ?z), f')"
    using Cons.prems(1)
    by (simp add: CcpDataOutput_def comp_infos pred1_sender_def pred1_compress_def f'_def case_prod_beta)
  obtain q where q: "Pred1Decompress (cc_initfcs ?b) 0xf0b8 (fst ?z) (cc_pred1 ?c) = Some (Some p, q)"
    "pred1_synced (snd ?z) q"
    using pred1_one_packet [of p "cc_pred1 ?b" "cc_pred1 ?c" "cc_initfcs ?b"] Cons.prems(3,6) by auto
  define g' where "g' = g\<lparr>f_arg := ?c\<lparr>cc_pred1 := q\<rparr>\<rparr>"
  have inp: "CcpDataInput (fst ?z) g = (Some p, g')"
    using q(1) Cons.prems(4,5) by (simp add: pred1_input [OF Cons.prems(2)] g'_def Let_def)
  have "fst (ccp_decompress_all (fst (ccp_compress_all ps f')) g') = map Some ps"
    using Cons.prems q(2)
    by (intro Cons.IH) (simp_all add: f'_def g'_def pred1_sender_def pred1_receiver_def)
  then show ?case by (simp add: out inp Let_def case_prod_beta)
qed simp

text \<open>C27: Predictor-1 recovers. Frames arrive at a receiver, damaged or not, in any number and at least one
  of them cannot be decompressed; the receiver asks for a reset each time. When the
  sender has handled those requests and the receiver the answers, the two ends are in step again,
  whatever state each of them was in, and every packet of at most 4096 octets sent afterwards
  arrives as it was.\<close>

theorem ccp_reset_resyncs:
  assumes "cc_xmit (f_arg tx) = Some 2" "pred1_receiver rx" "cc_initfcs (f_arg tx) = cc_initfcs (f_arg rx)"
    "cc_goodfcs (f_arg rx) = 0xf0b8"
    and bad: "ccp_decompress_all frames rx = (plains, rx1)" "None \<in> set plains" "\<not> f_aborted rx1"
    and reset: "tx1 = ccp_read (ccp_sent rx rx1) tx" "rx2 = ccp_read (ccp_sent tx tx1) rx1"
    and packets: "\<forall>p \<in> set packets. length p \<le> 4096"
  shows "fst (ccp_decompress_all (fst (ccp_compress_all packets tx1)) rx2) = map Some packets"
proof -
  obtain ids where ids: "f_trace rx1 = f_trace rx @ map reset_request ids" "ids \<noteq> []"
    and rx1: "pred1_receiver rx1" "cc_initfcs (f_arg rx1) = cc_initfcs (f_arg rx)"
    "cc_goodfcs (f_arg rx1) = cc_goodfcs (f_arg rx)"
    using decompress_all_asks [OF assms(2), of frames] bad by auto
  have tx1: "pred1_fresh_out tx1" "f_trace tx1 = f_trace tx @ map reset_ack ids"
    "cc_initfcs (f_arg tx1) = cc_initfcs (f_arg tx)"
    using pred1_resets_requested [OF assms(1) ids(2)] reset(1) ccp_sent_events(1) [OF ids(1)] by simp_all
  have rx2: "pred1_fresh_in rx2" "cc_initfcs (f_arg rx2) = cc_initfcs (f_arg rx1)"
    "cc_goodfcs (f_arg rx2) = cc_goodfcs (f_arg rx1)"
    using pred1_resets_acked [OF _ ids(2), of rx1] reset(2) ccp_sent_events(2) [OF tx1(2)] rx1(1)
    by (simp_all add: pred1_receiver_def)
  show ?thesis
    using tx1 rx2 rx1 assms(3,4) packets
    by (intro pred1_packets_arrive) (simp_all add: pred1_fresh_out_def pred1_fresh_in_def pred1_synced_def)
qed

definition pred1_peer :: "ccp_bund fsm" where
  "pred1_peer = FsmInit [] (ccp_example\<lparr>cc_xmit := Some 2, cc_recv := Some 2, cc_in_table := True,
     cc_out_table := True\<rparr>)"

lemma pred1_example_damaged:
  "let (plains, rx) = ccp_decompress_all [Some ([0, 33, 69] @ replicate 37 0)] pred1_peer
   in plains = [None] \<and> \<not> f_aborted rx"
  by code_simp

theorem ccp_reset_resyncs_witness:
  "\<exists>rx1. ccp_decompress_all [Some ([0, 33, 69] @ replicate 37 0)] pred1_peer = ([None], rx1) \<and>
     (let tx1 = ccp_read (ccp_sent pred1_peer rx1) pred1_peer; rx2 = ccp_read (ccp_sent pred1_peer tx1) rx1
      in fst (ccp_decompress_all (fst (ccp_compress_all [[1, 2], [3]] tx1)) rx2) = [Some [1, 2], Some [3]])"
proof -
  obtain rx1 where d: "ccp_decompress_all [Some ([0, 33, 69] @ replicate 37 0)] pred1_peer = ([None], rx1)"
    "\<not> f_aborted rx1"
    using pred1_example_damaged by (auto simp: Let_def case_prod_beta prod_eq_iff simp del: ccp_decompress_all.simps)
  have p: "cc_xmit (f_arg pred1_peer) = Some 2" "pred1_receiver pred1_peer" "cc_goodfcs (f_arg pred1_peer) = 0xf0b8"
    by (simp_all add: pred1_peer_def pred1_receiver_def FsmInit_def ccp_example_def Let_def)
  show ?thesis
    using d ccp_reset_resyncs [OF p(1,2) refl p(3) d(1) _ d(2) refl refl, of "[[1, 2], [3]]"]
    by (simp add: Let_def del: ccp_decompress_all.simps ccp_compress_all.simps)
qed

section \<open>Sizes\<close>

text \<open>C31: The size left by MPPC. The loop that looks for it ends, and it finds the largest size whose
  worst expansion fits into what the two headers of two octets each leave, whenever the expansion grows
  with the size and some size fits and some does not.\<close>

theorem mppc_bloat_largest:
  assumes "cc_xmit (f_arg f) = Some 0" "OPEN_STATE (f_state f)"
    "mp_xmit_bits (f_arg f) AND MPPC_BIT (cc_k (f_arg f)) \<noteq> 0"
    "blowup = MPPC_MAX_BLOWUP (cc_k (f_arg f))" "mono blowup" "blowup low \<le> sz - 2" "sz - 2 < blowup high"
  shows "\<exists>r. CcpSubtractBloat f sz = Some (r - 2) \<and> blowup r \<le> sz - 2 \<and> (\<forall>n>r. sz - 2 < blowup n)"
proof -
  obtain r where r: "mppc_shrink blowup (sz - 2) (sz - 2) = Some r" "blowup r \<le> sz - 2" "sz - 2 < blowup (r + 1)"
    using mppc_shrink_ends [OF assms(6,7,5)] by blast
  have "sz - 2 < blowup n" if "r < n" for n
    using r(3) monoD [OF assms(5), of "r + 1" n] that by simp
  with r show ?thesis
    using assms(1-4) by (simp add: CcpSubtractBloat_def comp_infos MppcSubtractBloat_def Let_def)
qed

definition mppc_opened :: "ccp_bund fsm" where
  "mppc_opened = mppc_asker\<lparr>f_state := ST_OPENED, f_arg := ccp_example\<lparr>cc_xmit := Some 0, mp_xmit_bits := 1\<rparr>\<rparr>"

theorem mppc_bloat_largest_witness:
  "\<exists>r. CcpSubtractBloat mppc_opened 1500 = Some (r - 2) \<and> r * 9 div 8 + 26 \<le> 1498"
proof -
  have f: "cc_xmit (f_arg mppc_opened) = Some 0" "OPEN_STATE (f_state mppc_opened)"
    "mp_xmit_bits (f_arg mppc_opened) AND MPPC_BIT (cc_k (f_arg mppc_opened)) \<noteq> 0"
    "(\<lambda>n. n * 9 div 8 + 26) = MPPC_MAX_BLOWUP (cc_k (f_arg mppc_opened))"
    by (simp_all add: mppc_opened_def ccp_example_def mppc_numbers_def Let_def)
  have "mono (\<lambda>n::int. n * 9 div 8 + 26)"
    by (intro monoI) (simp add: zdiv_mono1)
  from mppc_bloat_largest [OF f this, of 0 1500 1500] show ?thesis by auto
qed

section \<open>The frames of the netgraph socket\<close>

lemma no_number: "strtol10 (CHR ''c'' # name) = (0, CHR ''c'' # name)"
  by (simp add: strtol10_def is_space_def is_digit_def Let_def)

text \<open>C32: The program never compresses. Whatever the hook a frame is read from, it is dropped or it is
  taken for one that came from the peer and goes through the decompressor, also the frames that
  the kernel hands out through the hook of the compressor: the first letter of the name of
  the hook is skipped before it is looked at to tell the two directions. (For a name no bundle has
  given its hook, one whose number is no index of \<open>gBundles\<close>, the array is read outside.)\<close>

theorem ccp_output_never_compressed:
  "ccp_frame (bs, out) (hook, bp) = Some (bs, out) \<or>
   (\<exists>i f. bundle_at bs i = Some (Some f) \<and>
      ccp_frame (bs, out) (hook, bp) = Some
        (bs[nat i := Some (snd (CcpDataInput bp f))],
         out @ (case fst (CcpDataInput bp f) of None \<Rightarrow> [] | Some xs \<Rightarrow> [(hook, xs)]))) \<or>
   (\<exists>i. strtol10 (tl hook) = (i, []) \<and> (i < 0 \<or> length bs \<le> nat i) \<and>
      ccp_frame (bs, out) (hook, bp) = None)"
proof (cases "hook = [] \<or> hd hook \<noteq> CHR ''c'' \<and> hd hook \<noteq> CHR ''d''")
  case False
  obtain i rest where n: "strtol10 (tl hook) = (i, rest)" by fastforce
  show ?thesis
  proof (cases "rest = []")
    case True
    have "\<not> (tl hook \<noteq> [] \<and> hd (tl hook) = CHR ''c'')"
    proof
      assume "tl hook \<noteq> [] \<and> hd (tl hook) = CHR ''c''"
      then have "tl hook = CHR ''c'' # tl (tl hook)" by (metis list.collapse)
      with n no_number True show False by (metis list.distinct(1) prod.inject)
    qed
    then have frame: "ccp_frame (bs, out) (hook, bp) = (case bundle_at bs i of
        None \<Rightarrow> None
      | Some None \<Rightarrow> Some (bs, out)
      | Some (Some f) \<Rightarrow> Some (bs[nat i := Some (snd (CcpDataInput bp f))],
          out @ (case fst (CcpDataInput bp f) of None \<Rightarrow> [] | Some xs \<Rightarrow> [(hook, xs)])))"
      using False True n by (auto simp: ccp_frame_def Let_def case_prod_beta split: option.split)
    show ?thesis
    proof (cases "bundle_at bs i")
      case None
      then have "i < 0 \<or> length bs \<le> nat i" by (auto simp: bundle_at_def split: if_splits)
      with None frame n True show ?thesis by auto
    next
      case (Some b)
      with frame show ?thesis by (cases b) auto
    qed
  next
    case False2: False
    then have "ccp_frame (bs, out) (hook, bp) = Some (bs, out)"
      using False n by (auto simp: ccp_frame_def Let_def)
    then show ?thesis ..
  qed
qed (simp add: ccp_frame_def Let_def)

text \<open>A packet to be sent under Predictor-1, and what becomes of it.\<close>

lemma ccp_output_example:
  "let b = ccp_example\<lparr>cc_xmit := Some 2, cc_recv := Some 2, cc_in_table := True, cc_out_table := True\<rparr>
   in case ccp_frame ([Some (FsmInit [] b)], []) (''c0'', [0, 33, 69] @ replicate 37 0) of
        Some ([Some f], []) \<Rightarrow> cc_recv_resets (f_arg f) = 1
      | _ \<Rightarrow> False"
  by code_simp

section \<open>Opened and compressing\<close>

text \<open>C28: Compression is on only in Opened. After any sequence of administrative events, packets
  (whatever their octets), timeouts and failures, the choices of CCP are well formed, and outside
  Opened the kernel was told to compress and to decompress nothing, also when \<open>CcpLayerUp\<close> gives
  up half way and leaves Opened again itself.\<close>

theorem ccp_compression_only_opened:
  assumes "fsm_reachable gCcpFsmType (CcpInit junk b) f"
    "cc_enableCompression b = 0" "cc_enableDecompression b = 0"
  shows "ccp_typed (f_arg f) \<and>
    (f_state f \<noteq> ST_OPENED \<longrightarrow> cc_enableCompression (f_arg f) = 0 \<and> cc_enableDecompression (f_arg f) = 0)"
proof -
  have "ccp.settled (CcpInit junk b)"
    using assms(2,3) unfolding ccp.settled_def
    by (simp add: CcpInit_def FsmInit_def Let_def ccp_typed_def ccp_off_def)
  with assms(1) have "ccp.settled f"
    by (induction rule: fsm_reachable.induct) (auto dest: ccp.settled_step)
  then show ?thesis unfolding ccp.settled_def by (auto simp: ccp_off_def)
qed

theorem ccp_compression_only_opened_witness:
  "ccp_typed (f_arg (FsmUp gCcpFsmType (FsmOpen gCcpFsmType (CcpInit [] ccp_example))))"
  using ccp_compression_only_opened [OF reach_step [OF reach_step [OF reach_init step_open] step_up]]
  by (simp add: ccp_example_def Let_def)

end
