(* ===== verification/Decoder_Claims.thy ===== *)
theory Decoder_Claims
  imports Lcp_Claims Ccp_Facts
begin

text \<open>
  What the five protocols that negotiate options (LCP, IPCP, IPV6CP, ECP, CCP) share when they
  decode a request, from their interpretations of \<open>decoding_type\<close>.
\<close>

text \<open>C13: In each of the five protocols that negotiate options (LCP, IPCP, IPV6CP, ECP and CCP), a
  request that draws neither a Nak nor a Reject and fits the buffer of 256 octets is acknowledged
  with exactly the octets of its options, as RFC 1661 wants it.\<close>

theorem decoders_echo_request:
  assumes "length buf \<le> FSM_BUFFER_SIZE"
  shows
    "(let f' = FsmDecodeBuffer lcp_fsm buf MODE_REQ f in
        f_nakBuf f' = [] \<and> f_rejBuf f' = [] \<longrightarrow>
        f_ackBuf f' = opts_bytes (FsmExtractOptions FSM_MAX_OPTS buf)) \<and>
     (let g' = FsmDecodeBuffer gIpcpFsmType buf MODE_REQ g in
        f_nakBuf g' = [] \<and> f_rejBuf g' = [] \<longrightarrow>
        f_ackBuf g' = opts_bytes (FsmExtractOptions FSM_MAX_OPTS buf)) \<and>
     (let h' = FsmDecodeBuffer gIpv6cpFsmType buf MODE_REQ h in
        f_nakBuf h' = [] \<and> f_rejBuf h' = [] \<longrightarrow>
        f_ackBuf h' = opts_bytes (FsmExtractOptions FSM_MAX_OPTS buf)) \<and>
     (let e' = FsmDecodeBuffer gEcpFsmType buf MODE_REQ e in
        f_nakBuf e' = [] \<and> f_rejBuf e' = [] \<longrightarrow>
        f_ackBuf e' = opts_bytes (FsmExtractOptions FSM_MAX_OPTS buf)) \<and>
     (let c' = FsmDecodeBuffer gCcpFsmType buf MODE_REQ c in
        f_nakBuf c' = [] \<and> f_rejBuf c' = [] \<longrightarrow>
        f_ackBuf c' = opts_bytes (FsmExtractOptions FSM_MAX_OPTS buf))"
  using lcp_dec.ack_echoes [OF assms] ipcp_dec.ack_echoes [OF assms]
    ipv6cp_dec.ack_echoes [OF assms] ecp_dec.ack_echoes [OF assms] ccp_dec.ack_echoes [OF assms]
  by (simp add: Let_def)

theorem decoders_echo_request_witness:
  "f_ackBuf (FsmDecodeBuffer lcp_fsm [1, 4, 5, 220] MODE_REQ (LcpInit [] link_example)) = [1, 4, 5, 220]"
  using decoders_echo_request [of "[1, 4, 5, 220]" "LcpInit [] link_example" undefined undefined
      undefined undefined]
    example_mru_decoded
  by (simp add: example_mru_request FSM_BUFFER_SIZE_def Let_def opt_bytes_def)

text \<open>C39: Whatever octets arrive in a request, LCP, IPCP, IPV6CP, ECP and CCP write at most 256 octets
  to each of the Ack, Nak and Reject buffers.\<close>

theorem decoders_buffers_bounded:
  "bufs_ok (FsmDecodeBuffer lcp_fsm buf MODE_REQ f) \<and>
   bufs_ok (FsmDecodeBuffer gIpcpFsmType buf MODE_REQ g) \<and>
   bufs_ok (FsmDecodeBuffer gIpv6cpFsmType buf MODE_REQ h) \<and>
   bufs_ok (FsmDecodeBuffer gEcpFsmType buf MODE_REQ e) \<and>
   bufs_ok (FsmDecodeBuffer gCcpFsmType buf MODE_REQ c)"
  by (simp add: lcp_dec.buffers_bounded ipcp_dec.buffers_bounded ipv6cp_dec.buffers_bounded
      ecp_dec.buffers_bounded ccp_dec.buffers_bounded)

end
