(* ===== verification/Spec2Isabelle.thy ===== *)
theory Spec2Isabelle
  imports Mpd_Prelude Mbuf Timer Fsm Fsm_Codec Fsm_Control Fsm_Table Fsm_Timers Fsm_Layers Fsm_Echo
    Fsm_Decode Fsm_Phase Ip IpPool Vars Bund_Ncps Ipcp Ipcp_Facts Ipv6cp Ipv6cp_Facts
    Link Auth_Start Lcp Lcp_Facts Lcp_Phases
    Fsm_Settle Lcp_Thread Lcp_Echo Msoft Auth Auth_Input Auth_Facts
    Fsm_Claims Base_Claims Ipcp_Claims Ipv6cp_Claims Lcp_Claims
    Auth_Claims Auth_Logins Pred1 Dese Ecp Ecp_Claims Comp Ccp Ccp_Facts Ccp_Mppc
    Ccp_Claims Decoder_Claims
begin

text \<open>
  Mpd, a PPP daemon for FreeBSD (\<open>src/src\<close>): the parts that decide what a link may do. A packet
  from the peer is a list of octets, an event (a packet, a timer, an administrative call) is a
  function on the state of a component, and what a component asks of the kernel or of another
  component is recorded in its state in the order of the calls. Definitions have the names of the
  code wherever HOL allows it; a record field has the name of the C member with a prefix, and a
  loop, a switch or the tail after a callback has a definition of its own when a proof needs it.

  \<^bold>\<open>Parts and how they interact.\<close>

  \<^item> \<open>Mpd_Prelude\<close>: octets, host and network order, bit masks. \<open>Mbuf\<close> (\<open>mbuf.c\<close>): packet buffers as
    allocations with a window. The interface \<open>octet_buffer\<close> says that they behave as octet lists,
    which is what every other theory uses; its interpretation on the functions of \<open>mbuf.c\<close>
    discharges the laws. \<open>Timer\<close> (\<open>timer.c\<close>).
  \<^item> \<open>Fsm\<close> (\<open>fsm.c\<close>): the option-negotiation automaton. A protocol is an \<open>fsmtype\<close>, the record of
    callbacks \<open>struct fsmtype\<close>; LCP, IPCP, IPV6CP, ECP and CCP are five values of it. \<open>Fsm_Codec\<close>: packets and
    options are read back as written. \<open>Fsm_Control\<close> has the state table of RFC 1661 as
    \<open>rfc_table\<close>, where the code departs from it as \<open>deviation\<close>, and the contract \<open>fsm_quiet\<close> of a protocol
    whose callbacks leave the automaton alone: IPCP, IPV6CP and ECP keep it, LCP and CCP do not, for
    their automaton is run from one of their callbacks. Under it \<open>Fsm_Table\<close> shows that each operation
    makes the step of the table, \<open>Fsm_Timers\<close> that timers run exactly where a state waits and that a
    silent peer ends the negotiation, \<open>Fsm_Layers\<close> that the layer and configuration calls alternate.
    \<open>Fsm_Echo\<close>: when the keep-alive gives up, under the contract \<open>fsm_stopping\<close>; \<open>Lcp_Echo\<close> interprets
    it for LCP, the one protocol with keep-alives. \<open>Fsm_Decode\<close>: the contracts \<open>option_decoder\<close> and
    \<open>decoding_type\<close> of a loop over options that answers each once, kept by all five protocols, and
    what follows for the Configure-Ack (\<open>Decoder_Claims\<close>). \<open>Fsm_Phase\<close> and \<open>Fsm_Settle\<close>: contracts for a protocol that runs its own
    automaton from a callback, as LCP and CCP do; \<open>fsm_settled\<close> is the one of something that is
    on only in Opened (the thread of an authentication request, compression).
  \<^item> \<open>Ip\<close> (\<open>ip.c\<close>), \<open>IpPool\<close> (\<open>ippool.c\<close>), \<open>Vars\<close> (\<open>vars.c\<close>), \<open>Bund_Ncps\<close> (\<open>bund.c\<close>, the four
    functions the network protocols report to).
  \<^item> \<open>Ipcp\<close>, \<open>Ipv6cp\<close> (\<open>ipcp.c\<close>, \<open>ipv6cp.c\<close>) with their facts: the network protocols, which take
    addresses from the pools and report to the bundle.
  \<^item> \<open>Link\<close> (\<open>link.h\<close>, \<open>lcp.h\<close>, \<open>auth.h\<close>), \<open>Auth_Start\<close>, \<open>Lcp\<close> (\<open>lcp.c\<close>), \<open>Msoft\<close> (\<open>msoft.c\<close>), \<open>Auth\<close>
    and \<open>Auth_Input\<close> (\<open>auth.c\<close>, \<open>pap.c\<close>, \<open>chap.c\<close>, \<open>eap.c\<close>, \<open>LinkMatchAction\<close>): LCP starts the
    authentication when it reaches Opened, the authentication gives its result back to LCP, and a
    failure closes the link from inside. \<open>Lcp_Phases\<close> shows that the phase always fits the automaton's
    state, \<open>Lcp_Thread\<close> that the thread of a request belongs to an open link, \<open>Auth_Facts\<close> that packets,
    timers and finished requests keep both.
  \<^item> \<open>Dese\<close> (\<open>ecp_dese.c\<close>, \<open>ecp_dese_bis.c\<close>), \<open>Ecp\<close> (\<open>ecp.c\<close>): the encryption types as records of
    callbacks (\<open>struct enctype\<close>), their negotiation, and the path of a network packet through the type
    chosen, with resets. ECP keeps the contracts of \<open>Fsm_Decode\<close> and \<open>Fsm_Phase\<close>; that its records stay
    those of the types is \<open>ecp_typed\<close>.
  \<^item> \<open>Comp\<close> (\<open>comp.h\<close>, \<open>ccp_mppc.c\<close>, \<open>ccp_deflate.c\<close>, the CCP side of \<open>ccp_pred1.c\<close>), \<open>Ccp\<close> (\<open>ccp.c\<close>):
    the compression types as records of callbacks (\<open>struct comptype\<close>), their negotiation, the keys
    of MPPE, the resets, the events of the netgraph socket. MPPC and Deflate run in the kernel:
    \<open>cc_calls\<close> has the calls and \<open>cc_ng\<close> says which succeed. \<open>CcpLayerUp\<close> runs CCP's automaton
    when it cannot use what was negotiated, with \<open>ccp_inner\<close>, the same type without the callbacks
    that cannot be reached from there. \<open>Ccp_Facts\<close>: the contracts of \<open>Fsm_Decode\<close> and \<open>Fsm_Settle\<close>.
    \<open>Ccp_Mppc\<close>: MPPC bit by bit.
  \<^item> \<open>Pred1\<close> (\<open>ccp_pred1.c\<close>, \<open>Crc16\<close> of \<open>util.c\<close>): the compressor of CCP that the program runs
    itself.

  The properties are in the theories \<open>*_Claims\<close>, \<open>Auth_Logins\<close> and \<open>Pred1\<close>, each after the
  sentence it proves and, where it has a hypothesis, before an instance of it.

  \<^bold>\<open>Conventions.\<close> A failed assertion sets \<open>f_aborted\<close> (or makes the result \<open>None\<close>); so does an access
  outside a packet or an allocation, which HOL's total functions would hide. Integers have the width
  of the code. What is read from outside the repository is an argument: hash functions and ciphers,
  the answers of RADIUS, PAM and external programs (\<open>auth_env\<close>), random numbers, the contents of fresh
  memory (\<open>fill\<close>, \<open>f_uninit\<close>), the counters of the kernel, the constants of the frame check sequence.
  Hypotheses about them say what their documentation says (a decryption inverts the encryption, a
  digest has its length) and are met by concrete functions in the instances.

  \<^bold>\<open>Bounds.\<close> \<open>FSM_BUFFER_SIZE\<close> is 256, the size of the three answer buffers; nothing the decoders add
  exceeds it. A request is cut into at most \<open>FSM_MAX_OPTS\<close> options, as in the code. LCP's callbacks run LCP's automaton;
  \<open>gLcpFsmType n\<close> is its type with \<open>n\<close> such levels left, and two are enough for every run
  (\<open>lcp_nesting_bounded\<close>). \<open>pred1_room\<close> is what lies between the start of
  the decompressor's buffer of 4096 octets and the end of its allocation, 4346 octets.
  The search of \<open>MppcSubtractBloat\<close> ends only for some expansions (\<open>mppc_bloat_largest\<close>) and is a
  partial function. No other definition has fuel; loops are structural or have a measure.

  \<^bold>\<open>Not modelled.\<close> Log messages, status output and console commands that only print. The interface
  (\<open>iface.c\<close>), the device drivers (\<open>pptp.c\<close>, \<open>l2tp.c\<close>, \<open>pppoe.c\<close>, \<open>modem.c\<close>, \<open>tcp.c\<close>, \<open>udp.c\<close>, \<open>ng.c\<close>),
  \<open>nat.c\<close> and \<open>ngfunc.c\<close>: sequences of calls of the operating system and of netgraph, of which the model
  records those the protocols make. \<open>radius.c\<close>: packs attributes with libradius. The control connections of PPTP and L2TP (\<open>pptp_ctrl.c\<close>, \<open>l2tp_ctrl.c\<close>) and \<open>chat.c\<close>: not reached. \<open>bund.c\<close> and \<open>link.c\<close> beyond the functions named, \<open>console.c\<close>, \<open>web.c\<close>,
  \<open>command.c\<close>, \<open>main.c\<close>: life cycle and user interface. \<open>contrib/libpdel\<close> is a third-party library.
\<close>

end
